(* ===== verification/Prelude.thy ===== *)
theory Prelude
  imports Main "HOL-Library.Word"
begin

text \<open>
  Shared vocabulary of the e-pollbook development: the machine integer types the C++ code
  declares, C++ exceptions and undefined behaviour as values of a sum type, the sequencing
  operator for fallible code, the map operations of \<^verbatim>\<open>std::map\<close> that are not a plain
  update, and the generic list and map lemmas the component theories use.
\<close>

section \<open>Machine integers\<close>

type_synonym byte = "8 word"
type_synonym u32 = "32 word"
type_synonym u64 = "64 word"
type_synonym i64 = "64 word" \<comment> \<open>read with \<^const>\<open>sint\<close>\<close>
type_synonym i32 = "32 word" \<comment> \<open>read with \<^const>\<open>sint\<close>\<close>

text \<open>
  The collections of the development: \<open>result_simps\<close> rewrites the sequencing of fallible
  code, \<open>service_frame\<close> says which fields an operation of a service leaves alone, and
  \<open>stream_simps\<close> evaluates the reads of a character stream.
\<close>

named_theorems result_simps
named_theorems service_frame
named_theorems stream_simps

section \<open>Exceptions and undefined behaviour\<close>

text \<open>
  An exception carries its dynamic type and its \<^verbatim>\<open>what()\<close> string, because some handlers
  record the string. \<open>UB\<close> is an execution the C++ standard does not define (an
  out-of-bounds read, a signed overflow, a failed precondition of a library call); \<open>Abort\<close>
  is a failed \<^verbatim>\<open>assert\<close>, which ends the process (the build defines no \<^verbatim>\<open>NDEBUG\<close>).
\<close>

datatype exn =
    Invalid_argument
  | Out_of_range
  | Length_error
  | Runtime_error
  | Logic_error
  | Json_parse_error
  | Json_exception
  | Openssl_error
  | File_error
  | File_not_found
  | Permission_denied
  | System_error
  | Future_error

datatype cpp_error = Exn exn string | UB | Abort

type_synonym 'a result = "cpp_error + 'a"

fun bindR :: "'a result \<Rightarrow> ('a \<Rightarrow> 'b result) \<Rightarrow> 'b result" where
  "bindR (Inl e) f = Inl e"
| "bindR (Inr x) f = f x"

lemma bindR_Inr_iff [result_simps]:
  "bindR m f = Inr y \<longleftrightarrow> (\<exists>x. m = Inr x \<and> f x = Inr y)"
  by (cases m) auto

lemma bindR_Inl_iff [result_simps]:
  "bindR m f = Inl e \<longleftrightarrow> m = Inl e \<or> (\<exists>x. m = Inr x \<and> f x = Inl e)"
  by (cases m) auto

lemma bindR_assoc: "bindR (bindR m f) g = bindR m (\<lambda>x. bindR (f x) g)"
  by (cases m) auto

lemma bindR_Inr_right [simp]: "bindR m Inr = m"
  by (cases m) auto

definition is_ok :: "'a result \<Rightarrow> bool" where
  "is_ok r = (case r of Inl _ \<Rightarrow> False | Inr _ \<Rightarrow> True)"

lemma is_ok_simps [simp]: "is_ok (Inr x)" "\<not> is_ok (Inl e)"
  by (simp_all add: is_ok_def)

lemma is_ok_iff: "is_ok r \<longleftrightarrow> (\<exists>x. r = Inr x)"
  by (cases r) simp_all

fun mapR :: "('a \<Rightarrow> 'b result) \<Rightarrow> 'a list \<Rightarrow> 'b list result" where
  "mapR f [] = Inr []"
| "mapR f (x # xs) = bindR (f x) (\<lambda>y. bindR (mapR f xs) (\<lambda>ys. Inr (y # ys)))"

fun foldR :: "('a \<Rightarrow> 's \<Rightarrow> 's result) \<Rightarrow> 'a list \<Rightarrow> 's \<Rightarrow> 's result" where
  "foldR f [] s = Inr s"
| "foldR f (x # xs) s = bindR (f x s) (foldR f xs)"

lemma foldR_append: "foldR f (xs @ ys) s = bindR (foldR f xs s) (foldR f ys)"
proof (induction xs arbitrary: s)
  case (Cons x xs)
  then show ?case by (cases "f x s") simp_all
qed simp

section \<open>Maps as the code uses them\<close>

text \<open>\<^verbatim>\<open>emplace\<close> and \<^verbatim>\<open>try_emplace\<close> insert only when the key is absent.\<close>

definition emplace :: "'a \<Rightarrow> 'b \<Rightarrow> ('a \<rightharpoonup> 'b) \<Rightarrow> ('a \<rightharpoonup> 'b)" where
  "emplace k v m = (case m k of None \<Rightarrow> m(k \<mapsto> v) | Some _ \<Rightarrow> m)"

lemma emplace_same [simp]: "emplace k v m k = (case m k of None \<Rightarrow> Some v | Some w \<Rightarrow> Some w)"
  by (simp add: emplace_def split: option.splits)

lemma emplace_other [simp]: "j \<noteq> k \<Longrightarrow> emplace k v m j = m j"
  by (simp add: emplace_def split: option.splits)

lemma dom_emplace [simp]: "dom (emplace k v m) = insert k (dom m)"
  by (auto simp: emplace_def split: option.splits)

lemma emplace_absent: "m k = None \<Longrightarrow> emplace k v m = m(k \<mapsto> v)"
  by (simp add: emplace_def)

lemma emplace_present: "m k = Some w \<Longrightarrow> emplace k v m = m"
  by (simp add: emplace_def)

text \<open>
  \<^verbatim>\<open>operator[]\<close> of a map inserts the value type's default for a missing key: the new map
  and the value read.
\<close>

definition subscript :: "'b \<Rightarrow> 'a \<Rightarrow> ('a \<rightharpoonup> 'b) \<Rightarrow> ('a \<rightharpoonup> 'b) \<times> 'b" where
  "subscript d k m = (case m k of None \<Rightarrow> (m(k \<mapsto> d), d) | Some v \<Rightarrow> (m, v))"

lemma subscript_present [simp]: "m k = Some v \<Longrightarrow> subscript d k m = (m, v)"
  by (simp add: subscript_def)

lemma subscript_absent [simp]: "m k = None \<Longrightarrow> subscript d k m = (m(k \<mapsto> d), d)"
  by (simp add: subscript_def)

lemma snd_subscript: "snd (subscript d k m) = (case m k of None \<Rightarrow> d | Some v \<Rightarrow> v)"
  by (simp add: subscript_def split: option.splits)

section \<open>Lists\<close>

lemma takeWhile_neq_append [simp]:
  "d \<notin> set xs \<Longrightarrow> takeWhile (\<lambda>x. x \<noteq> d) (xs @ d # ys) = xs"
  by (induction xs) auto

lemma dropWhile_neq_append [simp]:
  "d \<notin> set xs \<Longrightarrow> dropWhile (\<lambda>x. x \<noteq> d) (xs @ d # ys) = d # ys"
  by (induction xs) auto

lemma takeWhile_neq_id [simp]: "d \<notin> set xs \<Longrightarrow> takeWhile (\<lambda>x. x \<noteq> d) xs = xs"
  by (induction xs) auto

lemma dropWhile_neq_Nil [simp]: "d \<notin> set xs \<Longrightarrow> dropWhile (\<lambda>x. x \<noteq> d) xs = []"
  by (induction xs) auto

lemma dropWhile_neq_length:
  "xs \<noteq> [] \<Longrightarrow> length (tl (dropWhile P xs)) < length xs"
proof -
  assume "xs \<noteq> []"
  then have "length (tl (dropWhile P xs)) \<le> length xs - 1"
    using length_dropWhile_le [of P xs] by (simp add: diff_le_mono)
  with \<open>xs \<noteq> []\<close> show ?thesis by (cases xs) auto
qed

lemma map_inj_eq_iff: "inj f \<Longrightarrow> map f xs = map f ys \<longleftrightarrow> xs = ys"
  by (simp add: inj_map_eq_map)

lemma concat_map_fixed_inj:
  assumes "\<And>x. length (f x) = n" and "0 < n" and "inj f"
    and "concat (map f xs) = concat (map f ys)"
  shows "xs = ys"
  using assms(4)
proof (induction xs arbitrary: ys)
  case Nil
  then show ?case using assms(1,2) by (cases ys) (auto simp flip: length_0_conv)
next
  case (Cons x xs)
  from Cons.prems assms(1,2) obtain y ys' where ys: "ys = y # ys'"
    by (cases ys) (auto simp flip: length_0_conv)
  with Cons.prems have "f x = f y" "concat (map f xs) = concat (map f ys')"
    using assms(1) by (auto simp: append_eq_append_conv)
  with Cons.IH ys \<open>inj f\<close> show ?case by (auto dest: injD)
qed

lemma length_concat_map_fixed: "(\<And>x. length (f x) = n) \<Longrightarrow> length (concat (map f xs)) = n * length xs"
  by (induction xs) auto

end
