(* ===== verification/Cpp_Std.thy ===== *)
theory Cpp_Std
  imports Prelude
begin

unbundle bit_operations_syntax

text \<open>
  The parts of the C++ standard library the e-pollbook sources rely on: line and field
  extraction from a character stream (\<^verbatim>\<open>std::getline\<close>), decimal printing and parsing of
  unsigned integers (\<^verbatim>\<open>std::to_string\<close>, \<^verbatim>\<open>std::stoul\<close>, \<^verbatim>\<open>operator>>\<close>), two-digit
  hexadecimal output, \<^verbatim>\<open>std::abs\<close> on a signed 64-bit value, the byte image of a 32-bit
  word, and C-locale case folding.
\<close>

section \<open>Characters\<close>

abbreviation newline :: char where "newline \<equiv> CHR 0x0A"
abbreviation comma :: char where "comma \<equiv> CHR '',''"
abbreviation space :: char where "space \<equiv> CHR '' ''"

definition is_space :: "char \<Rightarrow> bool" where
  "is_space c \<longleftrightarrow> c \<in> {CHR '' '', CHR 0x09, CHR 0x0A, CHR 0x0B, CHR 0x0C, CHR 0x0D}"

definition is_digit :: "char \<Rightarrow> bool" where
  "is_digit c \<longleftrightarrow> 48 \<le> (of_char c :: nat) \<and> (of_char c :: nat) \<le> 57"

definition digit_val :: "char \<Rightarrow> nat" where
  "digit_val c = of_char c - 48"

definition digit_char :: "nat \<Rightarrow> char" where
  "digit_char d = char_of (48 + d)"

lemma is_digit_digit_char [simp]: "d < 10 \<Longrightarrow> is_digit (digit_char d)"
  by (simp add: is_digit_def digit_char_def)

lemma digit_val_digit_char [simp]: "d < 10 \<Longrightarrow> digit_val (digit_char d) = d"
  by (simp add: digit_val_def digit_char_def)

lemma not_digit_separators [simp]:
  "\<not> is_digit newline" "\<not> is_digit comma" "\<not> is_digit space" "\<not> is_digit CHR ''.''"
  "\<not> is_digit CHR ''+''" "\<not> is_digit CHR ''-''"
  by (simp_all add: is_digit_def)

lemma digit_not_space: "is_digit c \<Longrightarrow> \<not> is_space c"
  by (auto simp: is_digit_def is_space_def)

lemma digit_char_inj: "a < 10 \<Longrightarrow> b < 10 \<Longrightarrow> digit_char a = digit_char b \<longleftrightarrow> a = b"
  by (metis digit_val_digit_char)

text \<open>\<^verbatim>\<open>std::tolower\<close> in the C locale, on the value of an \<^verbatim>\<open>unsigned char\<close>.\<close>

definition tolower :: "char \<Rightarrow> char" where
  "tolower c = (if 65 \<le> (of_char c :: nat) \<and> (of_char c :: nat) \<le> 90
                then char_of ((of_char c :: nat) + 32) else c)"

section \<open>Character streams\<close>

text \<open>
  An input stream is the characters not yet extracted and whether the stream is still good.
  \<open>getline_into d st old\<close> is \<^verbatim>\<open>std::getline(st, str, d)\<close> with \<^verbatim>\<open>str == old\<close>: the new
  value of \<^verbatim>\<open>str\<close>, the stream, and whether the call succeeded. A stream that already hit
  its end leaves \<^verbatim>\<open>str\<close> alone; a good stream clears it first, and fails when it extracts
  nothing at all.
\<close>

record istream =
  rest :: string
  good :: bool

definition open_string :: "string \<Rightarrow> istream" where
  "open_string s = \<lparr>rest = s, good = True\<rparr>"

definition getline_into :: "char \<Rightarrow> istream \<Rightarrow> string \<Rightarrow> string \<times> istream \<times> bool" where
  "getline_into d st old =
     (if \<not> good st then (old, st, False)
      else let l = takeWhile (\<lambda>c. c \<noteq> d) (rest st); r = dropWhile (\<lambda>c. c \<noteq> d) (rest st)
           in if r = [] then (l, \<lparr>rest = [], good = False\<rparr>, l \<noteq> [])
              else (l, \<lparr>rest = tl r, good = True\<rparr>, True))"

text \<open>
  Where only success matters (a loop condition, a chain of \<^verbatim>\<open>&&\<close>), the stream is the
  remaining characters: a read succeeds exactly when something remains.
\<close>

definition getline :: "char \<Rightarrow> string \<Rightarrow> (string \<times> string) option" where
  "getline d s = (if s = [] then None
                  else Some (takeWhile (\<lambda>c. c \<noteq> d) s, tl (dropWhile (\<lambda>c. c \<noteq> d) s)))"

lemma getline_into_eq_getline:
  "getline_into d (open_string s) old =
     (case getline d s of
        None \<Rightarrow> ([], \<lparr>rest = [], good = False\<rparr>, False)
      | Some (l, r) \<Rightarrow> (l, \<lparr>rest = r, good = d \<in> set s\<rparr>, True))"
  by (auto simp: getline_into_def getline_def open_string_def Let_def dropWhile_eq_Nil_conv)

lemma getline_Nil [stream_simps, simp]: "getline d [] = None"
  by (simp add: getline_def)

lemma getline_append [stream_simps, simp]:
  "d \<notin> set l \<Longrightarrow> getline d (l @ d # r) = Some (l, r)"
  by (simp add: getline_def)

lemma getline_last [stream_simps, simp]:
  "d \<notin> set l \<Longrightarrow> l \<noteq> [] \<Longrightarrow> getline d l = Some (l, [])"
  by (simp add: getline_def)

lemma getline_shrinks: "getline d s = Some (l, r) \<Longrightarrow> length r < length s"
  using dropWhile_neq_length [of s "\<lambda>c. c \<noteq> d"]
  by (auto simp: getline_def simp del: length_tl split: if_splits)

lemma getline_delim_free: "getline d s = Some (l, r) \<Longrightarrow> d \<notin> set l"
  by (auto simp: getline_def dest: set_takeWhileD split: if_splits)

text \<open>\<^verbatim>\<open>while (std::getline(is, x, d))\<close>: the pieces the loop sees, in order.\<close>

function getlines :: "char \<Rightarrow> string \<Rightarrow> string list" where
  "getlines d s = (case getline d s of None \<Rightarrow> [] | Some (l, r) \<Rightarrow> l # getlines d r)"
  by pat_completeness auto
termination
  by (relation "measure (\<lambda>(d, s). length s)") (auto dest: getline_shrinks)

declare getlines.simps [simp del]

lemma getlines_Nil [stream_simps, simp]: "getlines d [] = []"
  by (simp add: getlines.simps)

lemma getlines_append [stream_simps]:
  "d \<notin> set l \<Longrightarrow> getlines d (l @ d # r) = l # getlines d r"
  by (simp add: getlines.simps [of d "l @ d # r"])

lemma getlines_last [stream_simps]: "d \<notin> set l \<Longrightarrow> l \<noteq> [] \<Longrightarrow> getlines d l = [l]"
  by (simp add: getlines.simps [of d l])

lemma getlines_delim_free: "l \<in> set (getlines d s) \<Longrightarrow> d \<notin> set l"
proof (induction d s rule: getlines.induct)
  case (1 d s)
  from "1.prems" obtain x r where g: "getline d s = Some (x, r)" and l: "l = x \<or> l \<in> set (getlines d r)"
    by (cases "getline d s") (auto simp: getlines.simps [of d s])
  then show ?case using "1.IH" [OF g refl] getline_delim_free [OF g] by auto
qed

text \<open>
  A text file is newline-terminated when it is empty or ends in a newline; appending a whole
  line to such a file appends one line to what the loop reads.
\<close>

definition line_terminated :: "string \<Rightarrow> bool" where
  "line_terminated s \<longleftrightarrow> s = [] \<or> last s = newline"

lemma getlines_append_line:
  assumes "line_terminated s" and "newline \<notin> set l"
  shows "getlines newline (s @ l @ [newline]) = getlines newline s @ [l]"
  using assms
proof (induction s rule: length_induct)
  case (1 s)
  show ?case
  proof (cases "s = []")
    case True
    with 1 show ?thesis by (simp add: getlines_append [of newline l "[]", simplified])
  next
    case False
    with "1.prems" have "newline \<in> set s" by (metis last_in_set line_terminated_def)
    then obtain a b where s: "s = a @ newline # b" and a: "newline \<notin> set a"
      by (meson split_list_first)
    then have "line_terminated b" using "1.prems" by (auto simp: line_terminated_def split: if_splits)
    with "1.IH" s a "1.prems" show ?thesis
      by (simp add: getlines_append)
  qed
qed

section \<open>Searching and splitting strings\<close>

text \<open>
  \<^verbatim>\<open>std::string::find\<close> of a string, from the start and from a position (\<^verbatim>\<open>npos\<close> is
  \<^const>\<open>None\<close>), and the characters a C function sees through \<^verbatim>\<open>c_str()\<close>.
\<close>

fun find_sub :: "string \<Rightarrow> string \<Rightarrow> nat option" where
  "find_sub p [] = (if p = [] then Some 0 else None)"
| "find_sub p (c # s) =
     (if take (length p) (c # s) = p then Some 0 else map_option Suc (find_sub p s))"

definition find_from :: "string \<Rightarrow> string \<Rightarrow> nat \<Rightarrow> nat option" where
  "find_from p s n =
     (if n \<le> length s then map_option (\<lambda>i. n + i) (find_sub p (drop n s)) else None)"

definition c_str :: "string \<Rightarrow> string" where
  "c_str s = takeWhile (\<lambda>c. c \<noteq> CHR 0x00) s"

lemma find_sub_bound: "find_sub p s = Some i \<Longrightarrow> i + length p \<le> length s"
proof (induction p s arbitrary: i rule: find_sub.induct)
  case (2 p c s)
  show ?case
  proof (cases "take (length p) (c # s) = p")
    case True
    then have "length p \<le> length (c # s)" by (metis length_take min.cobounded1)
    with True "2.prems" show ?thesis by simp
  next
    case False
    with "2.prems" obtain j where "find_sub p s = Some j" "i = Suc j" by auto
    with "2.IH" False show ?thesis by fastforce
  qed
qed (auto split: if_splits)

lemma find_from_bound: "find_from p s n = Some i \<Longrightarrow> n \<le> i \<and> i + length p \<le> length s"
  by (auto simp: find_from_def dest!: find_sub_bound split: if_splits)

lemma find_sub_char_None [simp]: "c \<notin> set s \<Longrightarrow> find_sub [c] s = None"
  by (induction s) auto

lemma find_sub_char [simp]: "c \<notin> set a \<Longrightarrow> find_sub [c] (a @ c # b) = Some (length a)"
  by (induction a) auto

lemma find_sub_char_None_iff: "find_sub [c] s = None \<longleftrightarrow> c \<notin> set s"
  by (induction s) auto

text \<open>
  A loop \<^verbatim>\<open>while (!is.eof() && !is.fail())\<close> around \<^verbatim>\<open>getline\<close> sees the pieces between the
  delimiters, the last one, after the last delimiter, included.
\<close>

fun pieces :: "char \<Rightarrow> string \<Rightarrow> string list" where
  "pieces d [] = [[]]"
| "pieces d (c # s) =
     (if c = d then [] # pieces d s
      else case pieces d s of [] \<Rightarrow> [[c]] | l # ls \<Rightarrow> (c # l) # ls)"

lemma pieces_nonempty [simp]: "pieces d s \<noteq> []"
  by (induction s) (auto split: list.splits)

lemma pieces_free [simp]: "d \<notin> set l \<Longrightarrow> pieces d l = [l]"
  by (induction l) auto

lemma pieces_append [simp]: "d \<notin> set l \<Longrightarrow> pieces d (l @ d # r) = l # pieces d r"
  by (induction l) auto

lemma pieces_delim_free: "l \<in> set (pieces d s) \<Longrightarrow> d \<notin> set l"
  by (induction s arbitrary: l) (auto split: if_splits list.splits)

lemma pieces_lines:
  "(\<And>l. l \<in> set ls \<Longrightarrow> d \<notin> set l) \<Longrightarrow> pieces d (concat (map (\<lambda>l. l @ [d]) ls)) = ls @ [[]]"
  by (induction ls) auto

lemma pieces_Cons_cases:
  obtains l ls where "pieces d s = l # ls"
  by (cases "pieces d s") auto

lemma pieces_last_free [simp]: "d \<notin> set (last (pieces d s))"
  using pieces_delim_free [of "last (pieces d s)" d s] by simp

lemma pieces_append_any: "pieces d (s @ t) = butlast (pieces d s) @ pieces d (last (pieces d s) @ t)"
proof (induction s rule: length_induct)
  case (1 s)
  show ?case
  proof (cases "d \<in> set s")
    case True
    then obtain a b where s: "s = a @ d # b" and a: "d \<notin> set a" by (meson split_list_first)
    with "1.IH" show ?thesis by simp
  qed simp
qed

text \<open>The pieces joined again with the delimiter.\<close>

fun joined :: "char \<Rightarrow> string list \<Rightarrow> string" where
  "joined d [] = []"
| "joined d [l] = l"
| "joined d (l # ls) = l @ d # joined d ls"

lemma joined_Cons: "ls \<noteq> [] \<Longrightarrow> joined d (l # ls) = l @ d # joined d ls"
  by (cases ls) auto

lemma joined_snoc: "ls \<noteq> [] \<Longrightarrow> joined d (ls @ [l]) = joined d ls @ d # l"
  by (induction d ls rule: joined.induct) auto

lemma joined_pieces [simp]: "joined d (pieces d s) = s"
proof (induction s)
  case (Cons c s)
  show ?case
  proof (cases "c = d")
    case True
    with Cons show ?thesis by (simp add: joined_Cons)
  next
    case False
    obtain l ls where p: "pieces d s = l # ls" by (rule pieces_Cons_cases)
    with Cons False show ?thesis by (cases ls) auto
  qed
qed simp

section \<open>Unsigned decimal numbers\<close>

text \<open>\<^verbatim>\<open>std::to_string\<close> of an unsigned value.\<close>

fun to_string :: "nat \<Rightarrow> string" where
  "to_string n = (if n < 10 then [digit_char n] else to_string (n div 10) @ [digit_char (n mod 10)])"

declare to_string.simps [simp del]

text \<open>The value of a digit sequence, and the longest digit prefix.\<close>

definition digits_value :: "string \<Rightarrow> nat" where
  "digits_value ds = foldl (\<lambda>n c. 10 * n + digit_val c) 0 ds"

lemma to_string_digits: "list_all is_digit (to_string n)"
proof (induction n rule: to_string.induct)
  case (1 n)
  then show ?case
    by (cases "n < 10") (simp_all add: to_string.simps [of n])
qed

lemma to_string_nonempty [simp]: "to_string n \<noteq> []"
  by (simp add: to_string.simps [of n])

lemma digits_value_to_string [simp]: "digits_value (to_string n) = n"
proof (induction n rule: to_string.induct)
  case (1 n)
  then show ?case
    by (cases "n < 10") (simp_all add: to_string.simps [of n] digits_value_def)
qed

lemma to_string_inj: "to_string m = to_string n \<longleftrightarrow> m = n"
  by (metis digits_value_to_string)

lemma to_string_no_separator [simp]:
  "newline \<notin> set (to_string n)" "comma \<notin> set (to_string n)" "space \<notin> set (to_string n)"
  using to_string_digits [of n] by (auto simp: list_all_iff)

lemma to_string_no_leading_zero: "hd (to_string n) = CHR ''0'' \<Longrightarrow> n = 0"
proof (induction n rule: to_string.induct)
  case (1 n)
  show ?case
  proof (cases "n < 10")
    case True
    have zero: "CHR ''0'' = digit_char 0"
      by (rule of_char_eqI [where 'a = nat]) (simp add: digit_char_def)
    from True "1.prems" have "digit_char n = digit_char 0"
      unfolding zero by (simp add: to_string.simps [of n])
    with True show ?thesis by (simp add: digit_char_inj)
  next
    case False
    with "1.prems" have "hd (to_string (n div 10)) = CHR ''0''"
      by (simp add: to_string.simps [of n])
    with "1.IH" False have "n div 10 = 0" by simp
    with False show ?thesis by (simp add: div_eq_0_iff)
  qed
qed

text \<open>
  \<^verbatim>\<open>std::stoul(s)\<close>, base 10 with a 64-bit \<^verbatim>\<open>unsigned long\<close>: leading white space, an
  optional sign, digits; the rest of the string is ignored. No digit is
  \<^verbatim>\<open>invalid_argument\<close>, a value past \<^verbatim>\<open>ULONG_MAX\<close> is \<^verbatim>\<open>out_of_range\<close>, and a minus sign
  negates modulo \<open>2 ^ 64\<close>.
\<close>

definition split_sign :: "string \<Rightarrow> bool \<times> string" where
  "split_sign s = (case s of
       c # cs \<Rightarrow> if c = CHR ''-'' then (True, cs) else if c = CHR ''+'' then (False, cs) else (False, s)
     | [] \<Rightarrow> (False, []))"

definition stoul :: "string \<Rightarrow> nat result" where
  "stoul s =
     (let (neg, t) = split_sign (dropWhile is_space s);
          ds = takeWhile is_digit t; n = digits_value ds
      in if ds = [] then Inl (Exn Invalid_argument ''stoul'')
         else if 2 ^ 64 \<le> n then Inl (Exn Out_of_range ''stoul'')
         else Inr (if neg then (2 ^ 64 - n) mod 2 ^ 64 else n))"

lemma stoul_bound: "stoul s = Inr n \<Longrightarrow> n < 2 ^ 64"
  by (auto simp: stoul_def Let_def split: prod.splits if_splits)

lemma takeWhile_digits_append:
  "list_all is_digit ds \<Longrightarrow> (\<forall>c cs. r = c # cs \<longrightarrow> \<not> is_digit c) \<Longrightarrow> takeWhile is_digit (ds @ r) = ds"
  by (induction ds) (cases r, auto)

lemma stoul_digits:
  assumes "list_all is_digit ds" "ds \<noteq> []" "\<forall>c cs. r = c # cs \<longrightarrow> \<not> is_digit c"
    and "digits_value ds < 2 ^ 64"
  shows "stoul (ds @ r) = Inr (digits_value ds)"
proof -
  from assms obtain c cs where ds: "ds = c # cs" and c: "is_digit c" by (cases ds) auto
  have "split_sign (dropWhile is_space (ds @ r)) = (False, ds @ r)"
    using c by (auto simp: ds split_sign_def digit_not_space is_digit_def)
  with assms show ?thesis
    by (simp add: stoul_def takeWhile_digits_append)
qed

lemma stoul_to_string [simp]: "n < 2 ^ 64 \<Longrightarrow> stoul (to_string n) = Inr n"
  using stoul_digits [of "to_string n" "[]"] by (simp add: to_string_digits)

lemma stoul_to_string_line [simp]: "n < 2 ^ 64 \<Longrightarrow> stoul (to_string n @ [newline]) = Inr n"
  using stoul_digits [of "to_string n" "[newline]"] by (simp add: to_string_digits)

lemma stoul_no_digit:
  "s = c # cs \<Longrightarrow> \<not> is_space c \<Longrightarrow> \<not> is_digit c \<Longrightarrow> c \<notin> {CHR ''+'', CHR ''-''} \<Longrightarrow>
     stoul s = Inl (Exn Invalid_argument ''stoul'')"
  by (simp add: stoul_def split_sign_def)

text \<open>
  \<^verbatim>\<open>iss >> id\<close> for a 32-bit unsigned \<^verbatim>\<open>id\<close>: fails on a missing number and on a magnitude
  past the type's maximum; a minus sign negates modulo \<open>2 ^ 32\<close>.
\<close>

definition extract_u32 :: "string \<Rightarrow> u32 option" where
  "extract_u32 s =
     (let (neg, t) = split_sign (dropWhile is_space s);
          ds = takeWhile is_digit t; n = digits_value ds
      in if ds = [] \<or> 2 ^ 32 \<le> n then None
         else Some (if neg then - of_nat n else of_nat n))"

lemma extract_u32_to_string: "extract_u32 (to_string (unat x)) = Some x"
proof -
  obtain c cs where ds: "to_string (unat x) = c # cs" and c: "is_digit c"
    using to_string_digits [of "unat x"] by (cases "to_string (unat x)") auto
  have "split_sign (dropWhile is_space (to_string (unat x))) = (False, to_string (unat x))"
    using c by (auto simp: ds split_sign_def digit_not_space is_digit_def)
  moreover have "takeWhile is_digit (to_string (unat x)) = to_string (unat x)"
    using takeWhile_digits_append [of "to_string (unat x)" "[]"] by (simp add: to_string_digits)
  ultimately show ?thesis
    using unsigned_less [of x, where 'a = nat]
    by (simp add: extract_u32_def Let_def del: takeWhile_eq_all_conv)
qed

section \<open>Hexadecimal bytes\<close>

definition hex_digit :: "nat \<Rightarrow> char" where
  "hex_digit d = (if d < 10 then char_of (48 + d) else char_of (87 + d))"

text \<open>\<^verbatim>\<open>std::hex << std::setw(2) << std::setfill('0')\<close> of one byte.\<close>

definition hex_byte :: "byte \<Rightarrow> string" where
  "hex_byte b = [hex_digit (unat b div 16), hex_digit (unat b mod 16)]"

lemma hex_digit_inj: "a < 16 \<Longrightarrow> b < 16 \<Longrightarrow> hex_digit a = hex_digit b \<longleftrightarrow> a = b"
proof
  assume "a < 16" "b < 16" and eq: "hex_digit a = hex_digit b"
  then have "(of_char (hex_digit a) :: nat) = of_char (hex_digit b)" by simp
  with \<open>a < 16\<close> \<open>b < 16\<close> show "a = b" by (simp add: hex_digit_def split: if_splits)
qed simp

lemma unat_byte_less: "unat (b :: byte) < 256"
  using unsigned_less [of b, where 'a = nat] by simp

lemma byte_div_16: "unat (b :: byte) div 16 < 16"
  using unat_byte_less [of b] by linarith

lemma hex_byte_inj: "inj hex_byte"
proof (rule injI)
  fix a b :: byte
  assume "hex_byte a = hex_byte b"
  moreover have "unat a div 16 < 16" "unat b div 16 < 16" by (rule byte_div_16)+
  ultimately have "unat a div 16 = unat b div 16" "unat a mod 16 = unat b mod 16"
    by (simp_all add: hex_byte_def hex_digit_inj)
  then have "unat a = unat b" by (metis div_mult_mod_eq)
  then show "a = b" by (rule unsigned_word_eqI)
qed

lemma length_hex_byte [simp]: "length (hex_byte b) = 2"
  by (simp add: hex_byte_def)

lemma hex_digit_plain: "d < 16 \<Longrightarrow> hex_digit d \<notin> {comma, newline}"
proof -
  assume "d < 16"
  then have "(of_char (hex_digit d) :: nat) \<notin> {44, 10}"
    by (simp add: hex_digit_def)
  then show ?thesis by auto
qed

lemma hex_byte_plain: "comma \<notin> set (hex_byte b)" "newline \<notin> set (hex_byte b)"
  using byte_div_16 [of b] hex_digit_plain [of "unat b div 16"] hex_digit_plain [of "unat b mod 16"] unat_byte_less [of b]
  by (auto simp: hex_byte_def)

section \<open>The byte image of a 32-bit word\<close>

text \<open>
  \<^verbatim>\<open>std::memcpy\<close> between a \<^verbatim>\<open>uint32_t\<close> and a byte buffer on a little-endian host. Reading
  from a buffer shorter than four bytes is undefined.
\<close>

definition u32_bytes :: "u32 \<Rightarrow> byte list" where
  "u32_bytes x = [ucast x, ucast (drop_bit 8 x), ucast (drop_bit 16 x), ucast (drop_bit 24 x)]"

definition memcpy_u32 :: "byte list \<Rightarrow> u32 result" where
  "memcpy_u32 bs =
     (if length bs < 4 then Inl UB
      else Inr (ucast (bs ! 0) OR push_bit 8 (ucast (bs ! 1)) OR push_bit 16 (ucast (bs ! 2))
                OR push_bit 24 (ucast (bs ! 3))))"

lemma length_u32_bytes [simp]: "length (u32_bytes x) = 4"
  by (simp add: u32_bytes_def)

lemma u32_bytes_word:
  fixes x :: u32
  shows "ucast (ucast x :: byte) OR push_bit 8 (ucast (ucast (drop_bit 8 x) :: byte))
     OR push_bit 16 (ucast (ucast (drop_bit 16 x) :: byte))
     OR push_bit 24 (ucast (ucast (drop_bit 24 x) :: byte)) = x" (is "?y = x")
proof (rule bit_word_eqI)
  fix n
  assume "n < LENGTH(32)"
  then consider "n < 8" | "8 \<le> n" "n < 16" | "16 \<le> n" "n < 24" | "24 \<le> n" "n < 32"
    by fastforce
  then show "bit ?y n = bit x n"
    by cases (auto simp: bit_simps)
qed

lemma memcpy_u32_bytes [simp]: "memcpy_u32 (u32_bytes x @ r) = Inr x"
  by (simp add: memcpy_u32_def u32_bytes_def u32_bytes_word numeral_3_eq_3 numeral_2_eq_2)

lemma memcpy_u32_short: "length bs < 4 \<Longrightarrow> memcpy_u32 bs = Inl UB"
  by (simp add: memcpy_u32_def)

section \<open>Absolute difference of timestamps\<close>

text \<open>
  \<^verbatim>\<open>std::abs\<close> on \<^verbatim>\<open>int64_t\<close>: the negation of the least value is not representable and
  undefined.
\<close>

definition std_abs64 :: "i64 \<Rightarrow> i64 result" where
  "std_abs64 x = (if x = 2 ^ 63 then Inl UB else Inr (if sint x < 0 then - x else x))"

end
