(* ===== verification/External_Libs.thy ===== *)
theory External_Libs
  imports Cpp_Std
begin

text \<open>
  The third-party code the program links against, as parameters: the operations of
  nlohmann::json and OpenSSL the sources call are the fields of a record \<open>libs\<close>, an argument
  of every definition that uses them. Nothing is defined about them here but their types. What
  the program relies on is stated as named predicates (\<open>json_laws\<close>, \<open>base64_law\<close>,
  \<open>pem_law\<close>, \<open>key_pair\<close> in the wrapper theory), which theorems that need them take as
  hypotheses.
\<close>

text \<open>\<^verbatim>\<open>enum class DigestAlgorithm\<close> and the library's message-digest handles.\<close>

datatype digest_algorithm =
  MD5 | SHA1 | SHA256 | SHA384 | SHA512 | SHA3_224 | SHA3_256 | SHA3_384 | SHA3_512

datatype evp_md =
    EVP_md5 | EVP_sha1 | EVP_sha256 | EVP_sha384 | EVP_sha512
  | EVP_sha3_224 | EVP_sha3_256 | EVP_sha3_384 | EVP_sha3_512

text \<open>
  \<open>'j\<close> is the type of JSON values, \<open>'k\<close> of \<^verbatim>\<open>EVP_PKEY\<close> objects and \<open>'c\<close> of
  \<^verbatim>\<open>EVP_MD_CTX\<close> objects. An OpenSSL call returns its integer status.
  \<^item> \<open>j_object fs\<close> is a fresh value after the assignments \<^verbatim>\<open>json[k] = v\<close> for the pairs of
    \<open>fs\<close>; \<open>j_at\<close> is the \<^verbatim>\<open>operator[]\<close> of a constant value, and its failure is an
    exception or a violated precondition; \<open>j_subscript\<close> is the value \<^verbatim>\<open>operator[]\<close> of a
    mutable value refers to; \<open>j_get_uint32\<close> and its kin are the implicit
    conversions of a value;
  \<^item> \<open>b64_read\<close> is the byte string a base64 \<^verbatim>\<open>BIO_read\<close> delivers, \<open>None\<close> when it
    returns a negative status;
  \<^item> \<open>pem_write\<close> and \<open>pem_read\<close> are \<^verbatim>\<open>PEM_write_PUBKEY\<close> and \<^verbatim>\<open>PEM_read_PUBKEY\<close> on
    the text of a file.
\<close>

record ('j, 'k, 'c) libs =
  j_null :: 'j
  j_object :: "(string \<times> 'j) list \<Rightarrow> 'j"
  j_string :: "string \<Rightarrow> 'j"
  j_uint :: "u64 \<Rightarrow> 'j"
  j_int :: "int \<Rightarrow> 'j"
  j_bool :: "bool \<Rightarrow> 'j"
  j_strings :: "string list \<Rightarrow> 'j"
  j_parse :: "string \<Rightarrow> 'j result"
  j_dump :: "'j \<Rightarrow> string result"
  j_at :: "'j \<Rightarrow> string \<Rightarrow> 'j result"
  j_subscript :: "'j \<Rightarrow> string \<Rightarrow> 'j result"
  j_contains :: "'j \<Rightarrow> string \<Rightarrow> bool"
  j_is_object :: "'j \<Rightarrow> bool"
  j_get_uint32 :: "'j \<Rightarrow> u32 result"
  j_get_uint64 :: "'j \<Rightarrow> u64 result"
  j_get_int :: "'j \<Rightarrow> int result"
  j_get_string :: "'j \<Rightarrow> string result"
  j_get_bool :: "'j \<Rightarrow> bool result"
  j_get_strings :: "'j \<Rightarrow> string list result"
  b64_write :: "byte list \<Rightarrow> string"
  b64_read :: "string \<Rightarrow> byte list option"
  pkey_eq :: "'k \<Rightarrow> 'k \<Rightarrow> int"
  pkey_size :: "'k \<Rightarrow> int"
  pem_write :: "'k \<Rightarrow> string option"
  pem_read :: "string \<Rightarrow> 'k option"
  md_ctx_new :: 'c
  md_ctx_reset :: "'c \<Rightarrow> int \<times> 'c"
  md_ctx_size :: "'c \<Rightarrow> nat"
  digest_init :: "evp_md \<Rightarrow> 'c \<Rightarrow> int \<times> 'c"
  digest_update :: "byte list \<Rightarrow> 'c \<Rightarrow> int \<times> 'c"
  digest_final :: "'c \<Rightarrow> int \<times> byte list"
  sign_init :: "evp_md \<Rightarrow> 'k \<Rightarrow> 'c \<Rightarrow> int \<times> 'c"
  sign_update :: "byte list \<Rightarrow> 'c \<Rightarrow> int \<times> 'c"
  sign_final_len :: "'c \<Rightarrow> int \<times> nat"
  sign_final :: "'c \<Rightarrow> int \<times> byte list"
  verify_init :: "evp_md \<Rightarrow> 'k \<Rightarrow> 'c \<Rightarrow> int \<times> 'c"
  verify_update :: "byte list \<Rightarrow> 'c \<Rightarrow> int \<times> 'c"
  verify_final :: "byte list \<Rightarrow> 'c \<Rightarrow> int"
  err_string :: string

section \<open>What the program relies on\<close>

text \<open>
  JSON values built by assignments of distinct keys give the values back; a converted scalar
  converts back; compact serialisation contains no line break and parses back to the value,
  also with a line break after it.
\<close>

definition json_object_laws :: "('j, 'k, 'c) libs \<Rightarrow> bool" where
  "json_object_laws L \<longleftrightarrow>
     (\<forall>fs k v. distinct (map fst fs) \<longrightarrow> map_of fs k = Some v \<longrightarrow> j_at L (j_object L fs) k = Inr v)
   \<and> (\<forall>fs k v. distinct (map fst fs) \<longrightarrow> map_of fs k = Some v \<longrightarrow> j_subscript L (j_object L fs) k = Inr v)
   \<and> (\<forall>fs k. j_contains L (j_object L fs) k \<longleftrightarrow> k \<in> fst ` set fs)
   \<and> (\<forall>fs. j_is_object L (j_object L fs))"

definition json_scalar_laws :: "('j, 'k, 'c) libs \<Rightarrow> bool" where
  "json_scalar_laws L \<longleftrightarrow>
     (\<forall>x. j_get_uint32 L (j_uint L (ucast x)) = Inr x)
   \<and> (\<forall>x. j_get_uint64 L (j_uint L x) = Inr x)
   \<and> (\<forall>x. j_get_int L (j_int L x) = Inr x)
   \<and> (\<forall>x. j_get_string L (j_string L x) = Inr x)
   \<and> (\<forall>x. j_get_bool L (j_bool L x) = Inr x)
   \<and> (\<forall>x. j_get_strings L (j_strings L x) = Inr x)"

definition json_text_laws :: "('j, 'k, 'c) libs \<Rightarrow> bool" where
  "json_text_laws L \<longleftrightarrow>
     (\<forall>j s. j_dump L j = Inr s \<longrightarrow>
        newline \<notin> set s \<and> j_parse L s = Inr j \<and> j_parse L (s @ [newline]) = Inr j)"

definition json_laws :: "('j, 'k, 'c) libs \<Rightarrow> bool" where
  "json_laws L \<longleftrightarrow> json_object_laws L \<and> json_scalar_laws L \<and> json_text_laws L"

text \<open>Base64 decoding inverts encoding (for data that is not empty).\<close>

definition base64_law :: "('j, 'k, 'c) libs \<Rightarrow> bool" where
  "base64_law L \<longleftrightarrow> (\<forall>bs. bs \<noteq> [] \<longrightarrow> b64_read L (b64_write L bs) = Some bs)"

text \<open>A PEM file holds the key that was written to it.\<close>

definition pem_law :: "('j, 'k, 'c) libs \<Rightarrow> bool" where
  "pem_law L \<longleftrightarrow> (\<forall>k s. pem_write L k = Some s \<longrightarrow> pem_read L s = Some k)"

lemma json_at_object:
  "json_laws L \<Longrightarrow> distinct (map fst fs) \<Longrightarrow> map_of fs k = Some v \<Longrightarrow> j_at L (j_object L fs) k = Inr v"
  by (simp add: json_laws_def json_object_laws_def)

lemma json_subscript_object:
  "json_laws L \<Longrightarrow> distinct (map fst fs) \<Longrightarrow> map_of fs k = Some v \<Longrightarrow>
     j_subscript L (j_object L fs) k = Inr v"
  by (simp add: json_laws_def json_object_laws_def)

lemma json_contains_object:
  "json_laws L \<Longrightarrow> j_contains L (j_object L fs) k \<longleftrightarrow> k \<in> fst ` set fs"
  "json_laws L \<Longrightarrow> j_is_object L (j_object L fs)"
  by (simp_all add: json_laws_def json_object_laws_def)

lemma json_scalars:
  assumes "json_laws L"
  shows "j_get_uint32 L (j_uint L (ucast x)) = Inr x" "j_get_uint64 L (j_uint L y) = Inr y"
    "j_get_int L (j_int L i) = Inr i" "j_get_string L (j_string L s) = Inr s"
    "j_get_bool L (j_bool L b) = Inr b" "j_get_strings L (j_strings L ss) = Inr ss"
  using assms by (simp_all add: json_laws_def json_scalar_laws_def)

lemma json_text:
  assumes "json_laws L" "j_dump L j = Inr s"
  shows "newline \<notin> set s" "j_parse L s = Inr j" "j_parse L (s @ [newline]) = Inr j"
  using assms by (simp_all add: json_laws_def json_text_laws_def)

lemma json_dump_inj:
  "json_laws L \<Longrightarrow> j_dump L i = Inr s \<Longrightarrow> j_dump L j = Inr s \<Longrightarrow> i = j"
  using json_text(2) [of L i s] json_text(2) [of L j s] by simp

declare json_at_object [simp] json_subscript_object [simp] json_contains_object [simp]
  json_scalars [simp]

end
