(* ===== verification/Openssl_Wrapper.thy ===== *)
theory Openssl_Wrapper
  imports External_Libs
begin

text \<open>
  The OpenSSL wrapper library (\<^verbatim>\<open>src/openssl\<close>, \<^verbatim>\<open>include/epollbook/openssl\<close>):
  \<^verbatim>\<open>Base64\<close>, \<^verbatim>\<open>EnvelopeKey\<close>, \<^verbatim>\<open>Hasher\<close>, \<^verbatim>\<open>Signer\<close> and \<^verbatim>\<open>Verifier\<close>. Each object
  is a record holding its digest context; a method returns the updated object or the exception
  it throws when the underlying call's status is not the expected one. The streaming protocol
  the three digest classes share is the interface \<open>digest_stream\<close>.
\<close>

section \<open>Errors\<close>

text \<open>\<^verbatim>\<open>get_error_string\<close>: the operation, a blank and the library's message.\<close>

definition get_error_string :: "('j, 'k, 'c) libs \<Rightarrow> string \<Rightarrow> string" where
  "get_error_string L extra_message = extra_message @ '' '' @ err_string L"

definition openssl_error :: "('j, 'k, 'c) libs \<Rightarrow> string \<Rightarrow> cpp_error" where
  "openssl_error L operation = Exn Openssl_error (get_error_string L operation)"

text \<open>
  The whole queue of errors as one string: \<^verbatim>\<open>ERR_print_errors_cb\<close> calls the callback with the
  text of each error in turn, and removes it from the queue. A text is a C string.
\<close>

definition openssl_error_callback :: "string \<Rightarrow> string \<Rightarrow> string" where
  "openssl_error_callback str the_stringstream = the_stringstream @ c_str str @ [newline]"

definition openssl_errors_to_string :: "string list \<Rightarrow> string list \<times> string" where
  "openssl_errors_to_string queue = ([], fold openssl_error_callback queue [])"

lemma openssl_errors_lines:
  "list_all (\<lambda>e. newline \<notin> set e \<and> CHR 0x00 \<notin> set e) queue \<Longrightarrow>
     getlines newline (snd (openssl_errors_to_string queue)) = queue"
proof -
  have "fold openssl_error_callback queue acc = acc @ concat (map (\<lambda>e. c_str e @ [newline]) queue)" for acc
    by (induction queue arbitrary: acc) (simp_all add: openssl_error_callback_def)
  moreover assume "list_all (\<lambda>e. newline \<notin> set e \<and> CHR 0x00 \<notin> set e) queue"
  then have "getlines newline (concat (map (\<lambda>e. c_str e @ [newline]) queue)) = queue"
    by (induction queue) (simp_all add: c_str_def getlines_append)
  ultimately show ?thesis by (simp add: openssl_errors_to_string_def)
qed

text \<open>A call that must return 1, and the exception otherwise.\<close>

definition expect_1 :: "('j, 'k, 'c) libs \<Rightarrow> string \<Rightarrow> int \<times> 'a \<Rightarrow> 'a result" where
  "expect_1 L operation r = (if fst r \<noteq> 1 then Inl (openssl_error L operation) else Inr (snd r))"

fun get_digest_type_ptr :: "digest_algorithm \<Rightarrow> evp_md" where
  "get_digest_type_ptr MD5 = EVP_md5"
| "get_digest_type_ptr SHA1 = EVP_sha1"
| "get_digest_type_ptr SHA256 = EVP_sha256"
| "get_digest_type_ptr SHA384 = EVP_sha384"
| "get_digest_type_ptr SHA512 = EVP_sha512"
| "get_digest_type_ptr SHA3_224 = EVP_sha3_224"
| "get_digest_type_ptr SHA3_256 = EVP_sha3_256"
| "get_digest_type_ptr SHA3_384 = EVP_sha3_384"
| "get_digest_type_ptr SHA3_512 = EVP_sha3_512"

section \<open>Base64\<close>

definition Base64_encode :: "('j, 'k, 'c) libs \<Rightarrow> byte list \<Rightarrow> string" where
  "Base64_encode L input = b64_write L input"

text \<open>
  \<^verbatim>\<open>decoded_length\<close> is unsigned, so a negative status of \<^verbatim>\<open>BIO_read\<close> becomes a huge size and
  \<^verbatim>\<open>output.resize\<close> throws.
\<close>

definition Base64_decode :: "('j, 'k, 'c) libs \<Rightarrow> string \<Rightarrow> byte list result" where
  "Base64_decode L input = (case b64_read L input of
       None \<Rightarrow> Inl (Exn Length_error ''vector::_M_default_append'')
     | Some output \<Rightarrow> Inr output)"

lemma Base64_decode_encode [simp]:
  "base64_law L \<Longrightarrow> bs \<noteq> [] \<Longrightarrow> Base64_decode L (Base64_encode L bs) = Inr bs"
  by (simp add: Base64_decode_def Base64_encode_def base64_law_def)

section \<open>Keys and PEM files\<close>

datatype errno = EACCES | EPERM | ENOENT | Other_errno

text \<open>
  A file system maps a resolved path to the text of the file or to the \<^verbatim>\<open>errno\<close> of opening
  it. Resolving a POSIX path collapses repeated slashes.
\<close>

type_synonym file_system = "string \<Rightarrow> errno + string"

fun resolve_path :: "string \<Rightarrow> string" where
  "resolve_path (a # b # s) =
     (if a = CHR ''/'' \<and> b = CHR ''/'' then resolve_path (b # s) else a # resolve_path (b # s))"
| "resolve_path s = s"

definition permission_denied :: "string \<Rightarrow> cpp_error" where
  "permission_denied filename = Exn Permission_denied (''Error opening file '' @ filename @ '': permission denied.'')"

definition file_not_found :: "string \<Rightarrow> cpp_error" where
  "file_not_found filename = Exn File_not_found (''File not found: '' @ filename)"

definition file_error :: "string \<Rightarrow> cpp_error" where
  "file_error message = Exn File_error message"

definition file_open_error :: "errno \<Rightarrow> string \<Rightarrow> cpp_error" where
  "file_open_error e name = (case e of
       EACCES \<Rightarrow> permission_denied name
     | EPERM \<Rightarrow> permission_denied name
     | ENOENT \<Rightarrow> file_not_found name
     | Other_errno \<Rightarrow> file_error name)"

definition from_pem_public :: "('j, 'k, 'c) libs \<Rightarrow> file_system \<Rightarrow> string \<Rightarrow> 'k result" where
  "from_pem_public L fs pem_file_name = (case fs (resolve_path pem_file_name) of
       Inl e \<Rightarrow> Inl (file_open_error e pem_file_name)
     | Inr text \<Rightarrow> (case pem_read L text of
           None \<Rightarrow> Inl (openssl_error L ''Load public key'')
         | Some public_key \<Rightarrow> Inr public_key))"

text \<open>
  \<open>fopen_w\<close> is the error of opening a path for writing, if any; opening truncates the file.
\<close>

definition to_pem_public ::
  "('j, 'k, 'c) libs \<Rightarrow> (string \<Rightarrow> errno option) \<Rightarrow> 'k \<Rightarrow> string \<Rightarrow> file_system \<Rightarrow> file_system \<times> unit result"
where
  "to_pem_public L fopen_w key pem_file_name fs = (case fopen_w pem_file_name of
       Some e \<Rightarrow> (fs, Inl (file_open_error e pem_file_name))
     | None \<Rightarrow> (case pem_write L key of
           None \<Rightarrow> (fs(resolve_path pem_file_name := Inr []), Inl (openssl_error L ''Write public key to file''))
         | Some text \<Rightarrow> (fs(resolve_path pem_file_name := Inr text), Inr ())))"

definition to_pem_public_string :: "('j, 'k, 'c) libs \<Rightarrow> 'k \<Rightarrow> string result" where
  "to_pem_public_string L key = (case pem_write L key of
       None \<Rightarrow> Inl (openssl_error L ''Write public key to memory'')
     | Some pem_string \<Rightarrow> Inr pem_string)"

definition EnvelopeKey_eq :: "('j, 'k, 'c) libs \<Rightarrow> 'k \<Rightarrow> 'k \<Rightarrow> bool" where
  "EnvelopeKey_eq L lhs rhs \<longleftrightarrow> pkey_eq L lhs rhs = 1"

lemma from_pem_public_to_pem_public:
  assumes "pem_law L" "to_pem_public L fopen_w k p fs = (fs', Inr u)"
    and "resolve_path p = resolve_path q"
  shows "from_pem_public L fs' q = Inr k"
  using assms by (auto simp: to_pem_public_def from_pem_public_def pem_law_def split: option.splits)

section \<open>Hasher, Signer, Verifier\<close>

record 'c hasher =
  h_digest_type :: digest_algorithm
  h_digest_context :: 'c

record ('k, 'c) signer =
  s_private_key :: 'k
  s_digest_type :: digest_algorithm
  s_digest_context :: 'c

record ('k, 'c) verifier =
  v_public_key :: 'k
  v_digest_type :: digest_algorithm
  v_digest_context :: 'c

definition Hasher :: "('j, 'k, 'c) libs \<Rightarrow> digest_algorithm \<Rightarrow> 'c hasher" where
  "Hasher L digest_type = \<lparr>h_digest_type = digest_type, h_digest_context = md_ctx_new L\<rparr>"

definition Hasher_init :: "('j, 'k, 'c) libs \<Rightarrow> 'c hasher \<Rightarrow> 'c hasher result" where
  "Hasher_init L h =
     bindR (expect_1 L ''EVP_MD_CTX_reset'' (md_ctx_reset L (h_digest_context h))) (\<lambda>c.
     bindR (expect_1 L ''EVP_DigestInit_ex'' (digest_init L (get_digest_type_ptr (h_digest_type h)) c)) (\<lambda>c'.
     Inr (h\<lparr>h_digest_context := c'\<rparr>)))"

definition Hasher_add_bytes :: "('j, 'k, 'c) libs \<Rightarrow> byte list \<Rightarrow> 'c hasher \<Rightarrow> 'c hasher result" where
  "Hasher_add_bytes L buffer h =
     bindR (expect_1 L ''EVP_DigestUpdate'' (digest_update L buffer (h_digest_context h))) (\<lambda>c.
     Inr (h\<lparr>h_digest_context := c\<rparr>))"

text \<open>\<^verbatim>\<open>finalize()\<close>: the digest lands in a zero-filled vector of \<^verbatim>\<open>get_hash_size()\<close> bytes.\<close>

definition into_buffer :: "nat \<Rightarrow> byte list \<Rightarrow> byte list result" where
  "into_buffer n bs = (if n < length bs then Inl UB else Inr (bs @ replicate (n - length bs) 0))"

definition Hasher_finalize :: "('j, 'k, 'c) libs \<Rightarrow> 'c hasher \<Rightarrow> byte list result" where
  "Hasher_finalize L h =
     bindR (expect_1 L ''EVP_DigestFinal_ex'' (digest_final L (h_digest_context h)))
       (into_buffer (md_ctx_size L (h_digest_context h)))"

text \<open>\<^verbatim>\<open>finalize(uint8_t*)\<close>: the caller's buffer is assumed to have the right size.\<close>

definition Hasher_finalize_into :: "('j, 'k, 'c) libs \<Rightarrow> 'c hasher \<Rightarrow> byte list result" where
  "Hasher_finalize_into L h = expect_1 L ''EVP_DigestFinal_ex'' (digest_final L (h_digest_context h))"

definition Hasher_hash_bytes :: "('j, 'k, 'c) libs \<Rightarrow> byte list \<Rightarrow> 'c hasher \<Rightarrow> byte list result" where
  "Hasher_hash_bytes L buffer h =
     bindR (expect_1 L ''EVP_MD_CTX_reset'' (md_ctx_reset L (h_digest_context h))) (\<lambda>c.
     bindR (expect_1 L ''EVP_DigestInit_ex'' (digest_init L (get_digest_type_ptr (h_digest_type h)) c)) (\<lambda>c.
     bindR (expect_1 L ''EVP_DigestUpdate'' (digest_update L buffer c)) (\<lambda>c.
     expect_1 L ''EVP_DigestFinal_ex'' (digest_final L c))))"

definition Signer :: "('j, 'k, 'c) libs \<Rightarrow> 'k \<Rightarrow> digest_algorithm \<Rightarrow> ('k, 'c) signer" where
  "Signer L private_key digest_type =
     \<lparr>s_private_key = private_key, s_digest_type = digest_type, s_digest_context = md_ctx_new L\<rparr>"

definition Signer_init :: "('j, 'k, 'c) libs \<Rightarrow> ('k, 'c) signer \<Rightarrow> ('k, 'c) signer result" where
  "Signer_init L s =
     bindR (expect_1 L ''EVP_MD_CTX_reset'' (md_ctx_reset L (s_digest_context s))) (\<lambda>c.
     bindR (expect_1 L ''EVP_DigestSignInit''
              (sign_init L (get_digest_type_ptr (s_digest_type s)) (s_private_key s) c)) (\<lambda>c'.
     Inr (s\<lparr>s_digest_context := c'\<rparr>)))"

definition Signer_add_bytes ::
  "('j, 'k, 'c) libs \<Rightarrow> byte list \<Rightarrow> ('k, 'c) signer \<Rightarrow> ('k, 'c) signer result" where
  "Signer_add_bytes L buffer s =
     bindR (expect_1 L ''EVP_DigestSignUpdate'' (sign_update L buffer (s_digest_context s))) (\<lambda>c.
     Inr (s\<lparr>s_digest_context := c\<rparr>))"

text \<open>
  \<^verbatim>\<open>std::vector<uint8_t> Signer::finalize()\<close>: one call for the length, one for the bytes.
\<close>

definition Signer_finalize :: "('j, 'k, 'c) libs \<Rightarrow> ('k, 'c) signer \<Rightarrow> byte list result" where
  "Signer_finalize L s =
     bindR (expect_1 L ''EVP_DigestSignFinal'' (sign_final_len L (s_digest_context s))) (\<lambda>signature_len.
     bindR (expect_1 L ''EVP_DigestSignFinal'' (sign_final L (s_digest_context s)))
       (into_buffer signature_len))"

text \<open>
  \<^verbatim>\<open>finalize(uint8_t*)\<close> and \<^verbatim>\<open>sign_bytes\<close>: the caller's buffer is assumed to have the right
  size, the length query is made anyway.
\<close>

definition Signer_finalize_into :: "('j, 'k, 'c) libs \<Rightarrow> ('k, 'c) signer \<Rightarrow> byte list result" where
  "Signer_finalize_into L s =
     bindR (expect_1 L ''EVP_DigestSignFinal'' (sign_final_len L (s_digest_context s))) (\<lambda>siglen.
     expect_1 L ''EVP_DigestSignFinal'' (sign_final L (s_digest_context s)))"

definition Signer_sign_bytes ::
  "('j, 'k, 'c) libs \<Rightarrow> byte list \<Rightarrow> ('k, 'c) signer \<Rightarrow> byte list result" where
  "Signer_sign_bytes L buffer s =
     bindR (expect_1 L ''EVP_MD_CTX_reset'' (md_ctx_reset L (s_digest_context s))) (\<lambda>c.
     bindR (expect_1 L ''EVP_DigestSignInit''
              (sign_init L (get_digest_type_ptr (s_digest_type s)) (s_private_key s) c)) (\<lambda>c.
     bindR (expect_1 L ''EVP_DigestSignUpdate'' (sign_update L buffer c)) (\<lambda>c.
     bindR (expect_1 L ''EVP_DigestSignFinal'' (sign_final_len L c)) (\<lambda>siglen.
     expect_1 L ''EVP_DigestSignFinal'' (sign_final L c)))))"

definition Verifier :: "('j, 'k, 'c) libs \<Rightarrow> 'k \<Rightarrow> digest_algorithm \<Rightarrow> ('k, 'c) verifier" where
  "Verifier L public_key digest_type =
     \<lparr>v_public_key = public_key, v_digest_type = digest_type, v_digest_context = md_ctx_new L\<rparr>"

definition Verifier_init :: "('j, 'k, 'c) libs \<Rightarrow> ('k, 'c) verifier \<Rightarrow> ('k, 'c) verifier result" where
  "Verifier_init L v =
     bindR (expect_1 L ''EVP_MD_CTX_reset'' (md_ctx_reset L (v_digest_context v))) (\<lambda>c.
     bindR (expect_1 L ''EVP_DigestVerifyInit''
              (verify_init L (get_digest_type_ptr (v_digest_type v)) (v_public_key v) c)) (\<lambda>c'.
     Inr (v\<lparr>v_digest_context := c'\<rparr>)))"

definition Verifier_add_bytes ::
  "('j, 'k, 'c) libs \<Rightarrow> byte list \<Rightarrow> ('k, 'c) verifier \<Rightarrow> ('k, 'c) verifier result" where
  "Verifier_add_bytes L buffer v =
     bindR (expect_1 L ''EVP_DigestVerifyUpdate'' (verify_update L buffer (v_digest_context v))) (\<lambda>c.
     Inr (v\<lparr>v_digest_context := c\<rparr>))"

text \<open>Status 1 is a match, 0 a mismatch, anything else an exception.\<close>

definition Verifier_finalize :: "('j, 'k, 'c) libs \<Rightarrow> byte list \<Rightarrow> ('k, 'c) verifier \<Rightarrow> bool result" where
  "Verifier_finalize L signature v =
     (let status = verify_final L signature (v_digest_context v)
      in if status = 1 then Inr True
         else if status = 0 then Inr False
         else Inl (openssl_error L ''EVP_DigestVerifyFinal''))"

definition Verifier_verify_bytes ::
  "('j, 'k, 'c) libs \<Rightarrow> byte list \<Rightarrow> byte list \<Rightarrow> ('k, 'c) verifier \<Rightarrow> bool result" where
  "Verifier_verify_bytes L buffer signature v =
     bindR (expect_1 L ''EVP_MD_CTX_reset'' (md_ctx_reset L (v_digest_context v))) (\<lambda>c.
     bindR (expect_1 L ''EVP_DigestVerifyInit''
              (verify_init L (get_digest_type_ptr (v_digest_type v)) (v_public_key v) c)) (\<lambda>c.
     bindR (expect_1 L ''EVP_DigestVerifyUpdate'' (verify_update L buffer c)) (\<lambda>c.
     let status = verify_final L signature c
     in if status = 1 then Inr True
        else if status = 0 then Inr False
        else Inl (openssl_error L ''EVP_DigestVerifyFinal''))))"

section \<open>The three-call protocol of the services\<close>

text \<open>
  Every use in the services is \<^verbatim>\<open>init(); add_bytes(s.data(), s.size()); finalize(...)\<close> on a
  string. The object's context is reset by \<^verbatim>\<open>init\<close>, so the services' maps keep the key of a
  verifier only, and a use starts from a fresh context.
\<close>

definition string_bytes :: "string \<Rightarrow> byte list" where
  "string_bytes s = map of_char s"

definition sign_string :: "('j, 'k, 'c) libs \<Rightarrow> 'k \<Rightarrow> string \<Rightarrow> byte list result" where
  "sign_string L k s =
     bindR (Signer_init L (Signer L k SHA256)) (\<lambda>g.
     bindR (Signer_add_bytes L (string_bytes s) g) (Signer_finalize L))"

definition verify_string :: "('j, 'k, 'c) libs \<Rightarrow> 'k \<Rightarrow> string \<Rightarrow> byte list \<Rightarrow> bool result" where
  "verify_string L k s signature =
     bindR (Verifier_init L (Verifier L k SHA256)) (\<lambda>v.
     bindR (Verifier_add_bytes L (string_bytes s) v) (Verifier_finalize L signature))"

text \<open>
  A key pair: a signature made with the private key is not empty, and verifies under the
  public key.
\<close>

definition key_pair :: "('j, 'k, 'c) libs \<Rightarrow> 'k \<Rightarrow> 'k \<Rightarrow> bool" where
  "key_pair L private_key public_key \<longleftrightarrow>
     (\<forall>s signature. sign_string L private_key s = Inr signature \<longrightarrow>
        signature \<noteq> [] \<and> verify_string L public_key s signature = Inr True)"

section \<open>The streaming interface\<close>

text \<open>Feeding a sequence of buffers with an \<^verbatim>\<open>add_bytes\<close> method.\<close>

primrec feed :: "(byte list \<Rightarrow> 'o \<Rightarrow> 'o result) \<Rightarrow> byte list list \<Rightarrow> 'o \<Rightarrow> 'o result" where
  "feed add [] x = Inr x"
| "feed add (b # bs) x = bindR (add b x) (feed add bs)"

text \<open>
  A digest object: \<open>start\<close> begins a message, \<open>add\<close> feeds bytes, \<open>finish\<close> ends it, and
  \<open>one_shot\<close> is the convenience method over a single buffer. \<open>streaming\<close> stands for the
  documented property of the underlying update call: feeding two buffers in turn is feeding
  their concatenation.
\<close>

locale digest_stream =
  fixes start :: "'o \<Rightarrow> 'o result"
    and add :: "byte list \<Rightarrow> 'o \<Rightarrow> 'o result"
    and finish :: "'o \<Rightarrow> 'r result"
    and one_shot :: "byte list \<Rightarrow> 'o \<Rightarrow> 'r result"
    and streaming :: bool
  assumes one_shot_steps: "one_shot b x = bindR (start x) (\<lambda>y. bindR (add b y) finish)"
    and add_add: "streaming \<Longrightarrow> bindR (add b x) (add c) = add (b @ c) x"
begin

lemma feed_chunks: "streaming \<Longrightarrow> feed add (b # bs) x = add (concat (b # bs)) x"
proof (induction bs arbitrary: b x)
  case Nil
  then show ?case by (cases "add b x") simp_all
next
  case (Cons c bs)
  have "feed add (b # c # bs) x = bindR (bindR (add b x) (add c)) (feed add bs)"
    by (cases "add b x") simp_all
  also have "\<dots> = feed add ((b @ c) # bs) x" using Cons.prems by (simp add: add_add)
  also have "\<dots> = add (concat (b # c # bs)) x" using Cons by simp
  finally show ?case .
qed

lemma one_shot_chunks:
  assumes "streaming" and "bs \<noteq> []"
  shows "one_shot (concat bs) x = bindR (start x) (\<lambda>y. bindR (feed add bs y) finish)"
proof -
  from assms(2) obtain b bs' where bs: "bs = b # bs'" by (cases bs) auto
  have "feed add bs y = add (concat bs) y" for y
    unfolding bs using feed_chunks [OF assms(1)] by simp
  then show ?thesis by (simp add: one_shot_steps)
qed

end

text \<open>
  \<open>update_streaming\<close> is the documented behaviour of an EVP update call; each of the three
  digest classes then has the interface.
\<close>

definition update_streaming ::
  "('j, 'k, 'c) libs \<Rightarrow> string \<Rightarrow> (byte list \<Rightarrow> 'c \<Rightarrow> int \<times> 'c) \<Rightarrow> bool" where
  "update_streaming L operation upd \<longleftrightarrow> (\<forall>b c x.
     bindR (expect_1 L operation (upd b x)) (\<lambda>y. expect_1 L operation (upd c y))
     = expect_1 L operation (upd (b @ c) x))"

lemma update_streaming_bind:
  "update_streaming L operation upd \<Longrightarrow>
     bindR (expect_1 L operation (upd b x)) (\<lambda>y. bindR (expect_1 L operation (upd c y)) f)
     = bindR (expect_1 L operation (upd (b @ c) x)) f"
  unfolding update_streaming_def bindR_assoc [symmetric] by simp

interpretation verifier: digest_stream "Verifier_init L" "Verifier_add_bytes L"
  "Verifier_finalize L signature" "\<lambda>b. Verifier_verify_bytes L b signature"
  "update_streaming L ''EVP_DigestVerifyUpdate'' (verify_update L)"
  for L :: "('j, 'k, 'c) libs" and signature
proof (unfold_locales, goal_cases)
  case (1 b x)
  show ?case
    by (simp add: Verifier_verify_bytes_def Verifier_init_def Verifier_add_bytes_def Verifier_finalize_def bindR_assoc)
next
  case (2 b x c)
  then show ?case
    by (simp add: Verifier_add_bytes_def bindR_assoc) (rule update_streaming_bind)
qed

interpretation signer: digest_stream "Signer_init L" "Signer_add_bytes L"
  "Signer_finalize_into L" "Signer_sign_bytes L"
  "update_streaming L ''EVP_DigestSignUpdate'' (sign_update L)"
  for L :: "('j, 'k, 'c) libs"
proof (unfold_locales, goal_cases)
  case (1 b x)
  show ?case
    by (simp add: Signer_sign_bytes_def Signer_init_def Signer_add_bytes_def Signer_finalize_into_def bindR_assoc)
next
  case (2 b x c)
  then show ?case
    by (simp add: Signer_add_bytes_def bindR_assoc) (rule update_streaming_bind)
qed

interpretation hasher: digest_stream "Hasher_init L" "Hasher_add_bytes L"
  "Hasher_finalize_into L" "Hasher_hash_bytes L"
  "update_streaming L ''EVP_DigestUpdate'' (digest_update L)"
  for L :: "('j, 'k, 'c) libs"
proof (unfold_locales, goal_cases)
  case (1 b x)
  show ?case
    by (simp add: Hasher_hash_bytes_def Hasher_init_def Hasher_add_bytes_def Hasher_finalize_into_def bindR_assoc)
next
  case (2 b x c)
  then show ?case
    by (simp add: Hasher_add_bytes_def bindR_assoc) (rule update_streaming_bind)
qed

end
