(* ===== verification/Messages.thy ===== *)
theory Messages
  imports Openssl_Wrapper
begin

text \<open>
  The protocol messages of \<^verbatim>\<open>voter_id_request.hpp\<close>, \<^verbatim>\<open>checkin_request.hpp\<close> and
  \<^verbatim>\<open>trusted_client_request.hpp\<close>: one record per message body and per signed message, with the
  \<^verbatim>\<open>ToJson\<close> and \<^verbatim>\<open>FromJson\<close> functions. All six signed messages have the interface
  \<open>message_codec\<close>: what \<^verbatim>\<open>ToJson\<close> writes, \<^verbatim>\<open>FromJson\<close> reads back, also across the wire.
\<close>

section \<open>Accessors\<close>

text \<open>\<^verbatim>\<open>json["a"]["b"]\<close>, and the conversion of a 32-bit value to a JSON number.\<close>

definition j_at2 :: "('j, 'k, 'c) libs \<Rightarrow> 'j \<Rightarrow> string \<Rightarrow> string \<Rightarrow> 'j result" where
  "j_at2 L json a b = bindR (j_at L json a) (\<lambda>x. j_at L x b)"

definition j_u32 :: "('j, 'k, 'c) libs \<Rightarrow> u32 \<Rightarrow> 'j" where
  "j_u32 L x = j_uint L (ucast x)"

text \<open>\<^verbatim>\<open>Base64::decode(json[...])\<close>: convert to a string, then decode.\<close>

definition j_get_bytes :: "('j, 'k, 'c) libs \<Rightarrow> 'j \<Rightarrow> byte list result" where
  "j_get_bytes L json = bindR (j_get_string L json) (Base64_decode L)"

definition j_bytes :: "('j, 'k, 'c) libs \<Rightarrow> byte list \<Rightarrow> 'j" where
  "j_bytes L bs = j_string L (Base64_encode L bs)"

lemma j_get_u32 [simp]: "json_laws L \<Longrightarrow> j_get_uint32 L (j_u32 L x) = Inr x"
  by (simp add: j_u32_def)

lemma j_get_bytes_j_bytes [simp]:
  "json_laws L \<Longrightarrow> base64_law L \<Longrightarrow> bs \<noteq> [] \<Longrightarrow> j_get_bytes L (j_bytes L bs) = Inr bs"
  by (simp add: j_get_bytes_def j_bytes_def)

definition codec_laws :: "('j, 'k, 'c) libs \<Rightarrow> bool" where
  "codec_laws L \<longleftrightarrow> json_laws L \<and> base64_law L"

section \<open>Voter ID requests\<close>

record voter_id_request_body =
  vb_client_id_num :: u32
  vb_timestamp :: u64
  vb_last_name :: string
  vb_middle_name :: string
  vb_first_name :: string
  vb_voter_id_data :: "byte list"

definition VoterIDRequest_Body_ToJson :: "('j, 'k, 'c) libs \<Rightarrow> voter_id_request_body \<Rightarrow> 'j" where
  "VoterIDRequest_Body_ToJson L body = j_object L
     [(''client_id_num'', j_u32 L (vb_client_id_num body)),
      (''timestamp'', j_uint L (vb_timestamp body)),
      (''last_name'', j_string L (vb_last_name body)),
      (''middle_name'', j_string L (vb_middle_name body)),
      (''first_name'', j_string L (vb_first_name body)),
      (''voter_id_data'', j_bytes L (vb_voter_id_data body))]"

record voter_id_request =
  vr_body :: voter_id_request_body
  vr_client_signature :: "byte list"

definition VoterIDRequest_ToJson :: "('j, 'k, 'c) libs \<Rightarrow> voter_id_request \<Rightarrow> 'j" where
  "VoterIDRequest_ToJson L request = j_object L
     [(''body'', VoterIDRequest_Body_ToJson L (vr_body request)),
      (''client_signature'', j_bytes L (vr_client_signature request))]"

definition VoterIDRequest_FromJson :: "('j, 'k, 'c) libs \<Rightarrow> 'j \<Rightarrow> voter_id_request result" where
  "VoterIDRequest_FromJson L json =
     bindR (bindR (j_at2 L json ''body'' ''voter_id_data'') (j_get_bytes L)) (\<lambda>voter_id.
     bindR (bindR (j_at2 L json ''body'' ''client_id_num'') (j_get_uint32 L)) (\<lambda>client_id_num.
     bindR (bindR (j_at2 L json ''body'' ''timestamp'') (j_get_uint64 L)) (\<lambda>timestamp.
     bindR (bindR (j_at2 L json ''body'' ''last_name'') (j_get_string L)) (\<lambda>last_name.
     bindR (bindR (j_at2 L json ''body'' ''middle_name'') (j_get_string L)) (\<lambda>middle_name.
     bindR (bindR (j_at2 L json ''body'' ''first_name'') (j_get_string L)) (\<lambda>first_name.
     bindR (bindR (j_at L json ''client_signature'') (j_get_bytes L)) (\<lambda>client_signature.
     Inr \<lparr>vr_body = \<lparr>vb_client_id_num = client_id_num, vb_timestamp = timestamp,
            vb_last_name = last_name, vb_middle_name = middle_name, vb_first_name = first_name,
            vb_voter_id_data = voter_id\<rparr>,
          vr_client_signature = client_signature\<rparr>)))))))"

record verified_voter_id =
  vv_presented_id :: voter_id_request
  vv_voter_unique_id :: u32
  vv_id_service_signature :: "byte list"

definition VerifiedVoterID_ToJson :: "('j, 'k, 'c) libs \<Rightarrow> verified_voter_id \<Rightarrow> 'j" where
  "VerifiedVoterID_ToJson L ID = j_object L
     [(''presented_id'', VoterIDRequest_ToJson L (vv_presented_id ID)),
      (''voter_unique_id'', j_u32 L (vv_voter_unique_id ID)),
      (''id_service_signature'', j_bytes L (vv_id_service_signature ID))]"

definition VerifiedVoterID_FromJson :: "('j, 'k, 'c) libs \<Rightarrow> 'j \<Rightarrow> verified_voter_id result" where
  "VerifiedVoterID_FromJson L json =
     bindR (bindR (j_at L json ''presented_id'') (VoterIDRequest_FromJson L)) (\<lambda>presented_id.
     bindR (bindR (j_at L json ''voter_unique_id'') (j_get_uint32 L)) (\<lambda>voter_unique_id.
     bindR (bindR (j_at L json ''id_service_signature'') (j_get_bytes L)) (\<lambda>id_service_signature.
     Inr \<lparr>vv_presented_id = presented_id, vv_voter_unique_id = voter_unique_id,
          vv_id_service_signature = id_service_signature\<rparr>)))"

text \<open>
  The part of a \<^verbatim>\<open>VerifiedVoterID\<close> the ID service signs: both services and the client build
  this JSON value themselves.
\<close>

definition id_statement_json :: "('j, 'k, 'c) libs \<Rightarrow> voter_id_request \<Rightarrow> u32 \<Rightarrow> 'j" where
  "id_statement_json L presented_id voter_unique_id = j_object L
     [(''presented_id'', VoterIDRequest_ToJson L presented_id),
      (''voter_unique_id'', j_u32 L voter_unique_id)]"

section \<open>Check-in requests\<close>

record checkin_request_body =
  cb_client_id_num :: u32
  cb_timestamp :: u64
  cb_last_name :: string
  cb_first_name :: string
  cb_middle_name :: string
  cb_voter_unique_id :: u32
  cb_verified_id_message :: verified_voter_id

definition CheckinRequest_Body_ToJson :: "('j, 'k, 'c) libs \<Rightarrow> checkin_request_body \<Rightarrow> 'j" where
  "CheckinRequest_Body_ToJson L body = j_object L
     [(''client_id_num'', j_u32 L (cb_client_id_num body)),
      (''timestamp'', j_uint L (cb_timestamp body)),
      (''last_name'', j_string L (cb_last_name body)),
      (''first_name'', j_string L (cb_first_name body)),
      (''middle_name'', j_string L (cb_middle_name body)),
      (''voter_unique_id'', j_u32 L (cb_voter_unique_id body)),
      (''verified_id_message'', VerifiedVoterID_ToJson L (cb_verified_id_message body))]"

record checkin_request =
  cr_body :: checkin_request_body
  cr_client_signature :: "byte list"

definition CheckinRequest_ToJson :: "('j, 'k, 'c) libs \<Rightarrow> checkin_request \<Rightarrow> 'j" where
  "CheckinRequest_ToJson L request = j_object L
     [(''body'', CheckinRequest_Body_ToJson L (cr_body request)),
      (''client_signature'', j_bytes L (cr_client_signature request))]"

definition CheckinRequest_FromJson :: "('j, 'k, 'c) libs \<Rightarrow> 'j \<Rightarrow> checkin_request result" where
  "CheckinRequest_FromJson L json =
     bindR (bindR (j_at2 L json ''body'' ''client_id_num'') (j_get_uint32 L)) (\<lambda>client_id_num.
     bindR (bindR (j_at2 L json ''body'' ''timestamp'') (j_get_uint64 L)) (\<lambda>timestamp.
     bindR (bindR (j_at2 L json ''body'' ''last_name'') (j_get_string L)) (\<lambda>last_name.
     bindR (bindR (j_at2 L json ''body'' ''first_name'') (j_get_string L)) (\<lambda>first_name.
     bindR (bindR (j_at2 L json ''body'' ''middle_name'') (j_get_string L)) (\<lambda>middle_name.
     bindR (bindR (j_at2 L json ''body'' ''voter_unique_id'') (j_get_uint32 L)) (\<lambda>voter_unique_id.
     bindR (bindR (j_at2 L json ''body'' ''verified_id_message'') (VerifiedVoterID_FromJson L))
       (\<lambda>verified_id_message.
     bindR (bindR (j_at L json ''client_signature'') (j_get_bytes L)) (\<lambda>client_signature.
     Inr \<lparr>cr_body = \<lparr>cb_client_id_num = client_id_num, cb_timestamp = timestamp,
            cb_last_name = last_name, cb_first_name = first_name, cb_middle_name = middle_name,
            cb_voter_unique_id = voter_unique_id, cb_verified_id_message = verified_id_message\<rparr>,
          cr_client_signature = client_signature\<rparr>))))))))"

record checkin_response_body =
  pb_approved :: bool
  pb_requesting_client_id :: u32
  pb_timestamp :: u64
  pb_last_name :: string
  pb_first_name :: string
  pb_middle_name :: string
  pb_voter_unique_id :: u32
  pb_ticket :: string

definition CheckinResponse_Body_ToJson :: "('j, 'k, 'c) libs \<Rightarrow> checkin_response_body \<Rightarrow> 'j" where
  "CheckinResponse_Body_ToJson L body = j_object L
     [(''approved'', j_bool L (pb_approved body)),
      (''requesting_client_id'', j_u32 L (pb_requesting_client_id body)),
      (''timestamp'', j_uint L (pb_timestamp body)),
      (''last_name'', j_string L (pb_last_name body)),
      (''first_name'', j_string L (pb_first_name body)),
      (''middle_name'', j_string L (pb_middle_name body)),
      (''voter_unique_id'', j_u32 L (pb_voter_unique_id body)),
      (''ticket'', j_string L (pb_ticket body))]"

record checkin_response =
  pr_body :: checkin_response_body
  pr_checkin_service_signature :: "byte list"

definition CheckinResponse_ToJson :: "('j, 'k, 'c) libs \<Rightarrow> checkin_response \<Rightarrow> 'j" where
  "CheckinResponse_ToJson L response = j_object L
     [(''body'', CheckinResponse_Body_ToJson L (pr_body response)),
      (''checkin_service_signature'', j_bytes L (pr_checkin_service_signature response))]"

definition CheckinResponse_FromJson :: "('j, 'k, 'c) libs \<Rightarrow> 'j \<Rightarrow> checkin_response result" where
  "CheckinResponse_FromJson L json =
     bindR (bindR (j_at2 L json ''body'' ''approved'') (j_get_bool L)) (\<lambda>approved.
     bindR (bindR (j_at2 L json ''body'' ''requesting_client_id'') (j_get_uint32 L))
       (\<lambda>requesting_client_id.
     bindR (bindR (j_at2 L json ''body'' ''timestamp'') (j_get_uint64 L)) (\<lambda>timestamp.
     bindR (bindR (j_at2 L json ''body'' ''last_name'') (j_get_string L)) (\<lambda>last_name.
     bindR (bindR (j_at2 L json ''body'' ''first_name'') (j_get_string L)) (\<lambda>first_name.
     bindR (bindR (j_at2 L json ''body'' ''middle_name'') (j_get_string L)) (\<lambda>middle_name.
     bindR (bindR (j_at2 L json ''body'' ''voter_unique_id'') (j_get_uint32 L)) (\<lambda>voter_unique_id.
     bindR (bindR (j_at2 L json ''body'' ''ticket'') (j_get_string L)) (\<lambda>ticket.
     bindR (bindR (j_at L json ''checkin_service_signature'') (j_get_bytes L)) (\<lambda>service_signature.
     Inr \<lparr>pr_body = \<lparr>pb_approved = approved, pb_requesting_client_id = requesting_client_id,
            pb_timestamp = timestamp, pb_last_name = last_name, pb_first_name = first_name,
            pb_middle_name = middle_name, pb_voter_unique_id = voter_unique_id, pb_ticket = ticket\<rparr>,
          pr_checkin_service_signature = service_signature\<rparr>)))))))))"

section \<open>Ticket requests of the trusted devices\<close>

record ticket_request_body =
  tb_client_id :: u32
  tb_timestamp :: u64
  tb_ticket :: string
  tb_pin :: u32

definition TicketRequest_Body_ToJson :: "('j, 'k, 'c) libs \<Rightarrow> ticket_request_body \<Rightarrow> 'j" where
  "TicketRequest_Body_ToJson L body = j_object L
     [(''client_id'', j_u32 L (tb_client_id body)),
      (''timestamp'', j_uint L (tb_timestamp body)),
      (''ticket'', j_string L (tb_ticket body)),
      (''pin'', j_u32 L (tb_pin body))]"

record ticket_request =
  tr_body :: ticket_request_body
  tr_signature :: "byte list"

definition TicketRequest_ToJson :: "('j, 'k, 'c) libs \<Rightarrow> ticket_request \<Rightarrow> 'j" where
  "TicketRequest_ToJson L request = j_object L
     [(''body'', TicketRequest_Body_ToJson L (tr_body request)),
      (''signature'', j_bytes L (tr_signature request))]"

definition TicketRequest_FromJson :: "('j, 'k, 'c) libs \<Rightarrow> 'j \<Rightarrow> ticket_request result" where
  "TicketRequest_FromJson L json =
     (if \<not> j_contains L json ''body'' \<or> \<not> j_contains L json ''signature''
      then Inl (Exn Runtime_error ''Missing 'body' or 'signature' in JSON'')
      else bindR (j_at L json ''body'') (\<lambda>body.
        if \<not> j_is_object L body \<or> \<not> j_contains L body ''client_id'' \<or> \<not> j_contains L body ''timestamp''
           \<or> \<not> j_contains L body ''ticket'' \<or> \<not> j_contains L body ''pin''
        then Inl (Exn Runtime_error ''Invalid or incomplete 'body' structure in JSON'')
        else
          bindR (bindR (j_at2 L json ''body'' ''client_id'') (j_get_uint32 L)) (\<lambda>client_id.
          bindR (bindR (j_at2 L json ''body'' ''timestamp'') (j_get_uint64 L)) (\<lambda>timestamp.
          bindR (bindR (j_at2 L json ''body'' ''ticket'') (j_get_string L)) (\<lambda>ticket.
          bindR (bindR (j_at2 L json ''body'' ''pin'') (j_get_uint32 L)) (\<lambda>pin.
          bindR (bindR (j_at L json ''signature'') (j_get_bytes L)) (\<lambda>signature.
          Inr \<lparr>tr_body = \<lparr>tb_client_id = client_id, tb_timestamp = timestamp, tb_ticket = ticket,
                 tb_pin = pin\<rparr>,
               tr_signature = signature\<rparr>)))))))"

record ticket_response_body =
  rb_approved :: bool
  rb_last_name :: string
  rb_first_name :: string
  rb_middle_name :: string
  rb_voter_unique_id :: u32
  rb_pin :: u32
  rb_secret :: string

definition TicketResponse_Body_ToJson :: "('j, 'k, 'c) libs \<Rightarrow> ticket_response_body \<Rightarrow> 'j" where
  "TicketResponse_Body_ToJson L response = j_object L
     [(''approved'', j_bool L (rb_approved response)),
      (''last_name'', j_string L (rb_last_name response)),
      (''first_name'', j_string L (rb_first_name response)),
      (''middle_name'', j_string L (rb_middle_name response)),
      (''voter_unique_id'', j_u32 L (rb_voter_unique_id response)),
      (''pin'', j_u32 L (rb_pin response)),
      (''secret'', j_string L (rb_secret response))]"

record ticket_response =
  rr_body :: ticket_response_body
  rr_signature :: "byte list"

definition TicketResponse_ToJson :: "('j, 'k, 'c) libs \<Rightarrow> ticket_response \<Rightarrow> 'j" where
  "TicketResponse_ToJson L response = j_object L
     [(''body'', TicketResponse_Body_ToJson L (rr_body response)),
      (''signature'', j_bytes L (rr_signature response))]"

definition TicketResponse_FromJson :: "('j, 'k, 'c) libs \<Rightarrow> 'j \<Rightarrow> ticket_response result" where
  "TicketResponse_FromJson L json =
     bindR (bindR (j_at2 L json ''body'' ''approved'') (j_get_bool L)) (\<lambda>approved.
     bindR (bindR (j_at2 L json ''body'' ''last_name'') (j_get_string L)) (\<lambda>last_name.
     bindR (bindR (j_at2 L json ''body'' ''first_name'') (j_get_string L)) (\<lambda>first_name.
     bindR (bindR (j_at2 L json ''body'' ''middle_name'') (j_get_string L)) (\<lambda>middle_name.
     bindR (bindR (j_at2 L json ''body'' ''voter_unique_id'') (j_get_uint32 L)) (\<lambda>voter_unique_id.
     bindR (bindR (j_at2 L json ''body'' ''secret'') (j_get_string L)) (\<lambda>secret.
     bindR (bindR (j_at2 L json ''body'' ''pin'') (j_get_uint32 L)) (\<lambda>pin.
     bindR (bindR (j_at L json ''signature'') (j_get_bytes L)) (\<lambda>signature.
     Inr \<lparr>rr_body = \<lparr>rb_approved = approved, rb_last_name = last_name, rb_first_name = first_name,
            rb_middle_name = middle_name, rb_voter_unique_id = voter_unique_id, rb_pin = pin,
            rb_secret = secret\<rparr>,
          rr_signature = signature\<rparr>))))))))"

section \<open>The codec interface\<close>

text \<open>
  \<open>valid\<close> excludes the empty byte strings, on which base64 decoding is not specified: a
  signature is never empty, and the mock ID data starts with the four bytes of the voter's
  number.
\<close>

locale message_codec =
  fixes laws :: bool
    and dump :: "'j \<Rightarrow> string result"
    and parse :: "string \<Rightarrow> 'j result"
    and valid :: "'m \<Rightarrow> bool"
    and to_json :: "'m \<Rightarrow> 'j"
    and from_json :: "'j \<Rightarrow> 'm result"
  assumes dump_parse: "laws \<Longrightarrow> dump j = Inr s \<Longrightarrow> newline \<notin> set s \<and> parse (s @ [newline]) = Inr j"
    and from_to: "laws \<Longrightarrow> valid m \<Longrightarrow> from_json (to_json m) = Inr m"
begin

lemma wire_round_trip:
  "laws \<Longrightarrow> valid m \<Longrightarrow> dump (to_json m) = Inr s \<Longrightarrow> bindR (parse (s @ [newline])) from_json = Inr m"
  using dump_parse [of "to_json m" s] by (simp add: from_to)

lemma wire_injective:
  assumes "laws" "valid m" "valid n" "dump (to_json m) = Inr s" "dump (to_json n) = Inr s"
  shows "m = n"
  using wire_round_trip [OF assms(1,2,4)] wire_round_trip [OF assms(1,3,5)] by simp

end

definition valid_voter_id_request :: "voter_id_request \<Rightarrow> bool" where
  "valid_voter_id_request m \<longleftrightarrow> vb_voter_id_data (vr_body m) \<noteq> [] \<and> vr_client_signature m \<noteq> []"

definition valid_verified_voter_id :: "verified_voter_id \<Rightarrow> bool" where
  "valid_verified_voter_id m \<longleftrightarrow>
     valid_voter_id_request (vv_presented_id m) \<and> vv_id_service_signature m \<noteq> []"

definition valid_checkin_request :: "checkin_request \<Rightarrow> bool" where
  "valid_checkin_request m \<longleftrightarrow>
     valid_verified_voter_id (cb_verified_id_message (cr_body m)) \<and> cr_client_signature m \<noteq> []"

lemmas codec_defs = j_at2_def codec_laws_def
  VoterIDRequest_Body_ToJson_def VoterIDRequest_ToJson_def VoterIDRequest_FromJson_def
  VerifiedVoterID_ToJson_def VerifiedVoterID_FromJson_def
  CheckinRequest_Body_ToJson_def CheckinRequest_ToJson_def CheckinRequest_FromJson_def
  CheckinResponse_Body_ToJson_def CheckinResponse_ToJson_def CheckinResponse_FromJson_def
  TicketRequest_Body_ToJson_def TicketRequest_ToJson_def TicketRequest_FromJson_def
  TicketResponse_Body_ToJson_def TicketResponse_ToJson_def TicketResponse_FromJson_def

lemma codec_text:
  "codec_laws L \<Longrightarrow> j_dump L j = Inr s \<Longrightarrow> newline \<notin> set s \<and> j_parse L (s @ [newline]) = Inr j"
  using json_text [of L j s] unfolding codec_laws_def by blast

lemma VoterIDRequest_from_to:
  "codec_laws L \<Longrightarrow> valid_voter_id_request m \<Longrightarrow>
     VoterIDRequest_FromJson L (VoterIDRequest_ToJson L m) = Inr m"
  by (simp add: codec_defs valid_voter_id_request_def)

lemma VerifiedVoterID_from_to:
  "codec_laws L \<Longrightarrow> valid_verified_voter_id m \<Longrightarrow>
     VerifiedVoterID_FromJson L (VerifiedVoterID_ToJson L m) = Inr m"
  using VoterIDRequest_from_to [of L "vv_presented_id m"]
  by (simp add: VerifiedVoterID_ToJson_def VerifiedVoterID_FromJson_def codec_laws_def
      valid_verified_voter_id_def)

lemma CheckinRequest_from_to:
  "codec_laws L \<Longrightarrow> valid_checkin_request m \<Longrightarrow>
     CheckinRequest_FromJson L (CheckinRequest_ToJson L m) = Inr m"
  using VerifiedVoterID_from_to [of L "cb_verified_id_message (cr_body m)"]
  by (simp add: CheckinRequest_ToJson_def CheckinRequest_Body_ToJson_def CheckinRequest_FromJson_def
      j_at2_def codec_laws_def valid_checkin_request_def)

interpretation voter_id_request: message_codec "codec_laws L" "j_dump L" "j_parse L"
  valid_voter_id_request "VoterIDRequest_ToJson L" "VoterIDRequest_FromJson L"
  for L :: "('j, 'k, 'c) libs"
  by unfold_locales (simp_all add: codec_text VoterIDRequest_from_to)

interpretation verified_voter_id: message_codec "codec_laws L" "j_dump L" "j_parse L"
  valid_verified_voter_id "VerifiedVoterID_ToJson L" "VerifiedVoterID_FromJson L"
  for L :: "('j, 'k, 'c) libs"
  by unfold_locales (simp_all add: codec_text VerifiedVoterID_from_to)

interpretation checkin_request: message_codec "codec_laws L" "j_dump L" "j_parse L"
  valid_checkin_request "CheckinRequest_ToJson L" "CheckinRequest_FromJson L"
  for L :: "('j, 'k, 'c) libs"
  by unfold_locales (simp_all add: codec_text CheckinRequest_from_to)

interpretation checkin_response: message_codec "codec_laws L" "j_dump L" "j_parse L"
  "\<lambda>m. pr_checkin_service_signature m \<noteq> []" "CheckinResponse_ToJson L" "CheckinResponse_FromJson L"
  for L :: "('j, 'k, 'c) libs"
  by unfold_locales (simp_all add: codec_text, simp_all add: codec_defs)

interpretation ticket_request: message_codec "codec_laws L" "j_dump L" "j_parse L"
  "\<lambda>m. tr_signature m \<noteq> []" "TicketRequest_ToJson L" "TicketRequest_FromJson L"
  for L :: "('j, 'k, 'c) libs"
  by unfold_locales (simp_all add: codec_text, simp_all add: codec_defs)

interpretation ticket_response: message_codec "codec_laws L" "j_dump L" "j_parse L"
  "\<lambda>m. rr_signature m \<noteq> []" "TicketResponse_ToJson L" "TicketResponse_FromJson L"
  for L :: "('j, 'k, 'c) libs"
  by unfold_locales (simp_all add: codec_text, simp_all add: codec_defs)

end
