(* ===== verification/Fault_Tracker.thy ===== *)
theory Fault_Tracker
  imports Messages "HOL-Library.AList"
begin

text \<open>
  The fault tracker of \<^verbatim>\<open>faulty_clients.hpp\<close>: per-client fault records, reports, expiry of old
  records and the JSON command interface. The hash map is an association list; time points are
  nanoseconds since the epoch. The mutex only serialises the operations, each of which is one
  step here.
\<close>

section \<open>Records\<close>

record faulty_client_record =
  lastReportTime :: int
  faultDescriptions :: "string list"

type_synonym client_map = "(u32 \<times> faulty_client_record) list"

definition ns_per_s :: int where "ns_per_s = 1000000000"
definition ns_per_hour :: int where "ns_per_hour = 3600 * ns_per_s"

text \<open>\<^verbatim>\<open>to_time_t\<close> truncates to whole seconds (towards zero).\<close>

definition to_time_t :: "int \<Rightarrow> int" where
  "to_time_t t = (if 0 \<le> t then t div ns_per_s else - ((- t) div ns_per_s))"

definition from_time_t :: "int \<Rightarrow> int" where
  "from_time_t s = s * ns_per_s"

definition FaultyClientRecord_to_json :: "('j, 'k, 'c) libs \<Rightarrow> faulty_client_record \<Rightarrow> 'j" where
  "FaultyClientRecord_to_json L r = j_object L
     [(''lastReportTime'', j_int L (to_time_t (lastReportTime r))),
      (''faultDescriptions'', j_strings L (faultDescriptions r))]"

definition FaultyClientRecord_from_json :: "('j, 'k, 'c) libs \<Rightarrow> 'j \<Rightarrow> faulty_client_record result" where
  "FaultyClientRecord_from_json L j =
     bindR (bindR (j_at L j ''lastReportTime'') (j_get_int L)) (\<lambda>t.
     bindR (bindR (j_at L j ''faultDescriptions'') (j_get_strings L)) (\<lambda>ds.
     Inr \<lparr>lastReportTime = from_time_t t, faultDescriptions = ds\<rparr>))"

section \<open>Operations\<close>

text \<open>\<^verbatim>\<open>clientMap[client_id]\<close> default-constructs a missing record.\<close>

definition find_record :: "client_map \<Rightarrow> u32 \<Rightarrow> faulty_client_record" where
  "find_record m client_id = (case map_of m client_id of
       None \<Rightarrow> \<lparr>lastReportTime = 0, faultDescriptions = []\<rparr>
     | Some r \<Rightarrow> r)"

definition reportFault :: "int \<Rightarrow> u32 \<Rightarrow> string \<Rightarrow> client_map \<Rightarrow> client_map" where
  "reportFault now client_id faultDesc m =
     AList.update client_id
       \<lparr>lastReportTime = now,
        faultDescriptions = faultDescriptions (find_record m client_id) @ [faultDesc]\<rparr> m"

definition getSnapshot :: "client_map \<Rightarrow> client_map" where
  "getSnapshot m = m"

definition clearClient :: "u32 \<Rightarrow> client_map \<Rightarrow> client_map" where
  "clearClient client_id m = AList.delete client_id m"

text \<open>
  The iterator loop of \<^verbatim>\<open>clearOldRecords\<close>, with the threshold in hours. Each comparison converts the
  threshold to the 64-bit nanoseconds of the clock, which is undefined when it does not fit; with no
  record there is no comparison.
\<close>

definition hours_in_ns :: "int \<Rightarrow> int result" where
  "hours_in_ns h = (if - (2 ^ 63) \<le> h * ns_per_hour \<and> h * ns_per_hour < 2 ^ 63 then Inr (h * ns_per_hour) else Inl UB)"

fun clearOldRecords :: "int \<Rightarrow> int \<Rightarrow> client_map \<Rightarrow> client_map result" where
  "clearOldRecords now threshold [] = Inr []"
| "clearOldRecords now threshold ((client_id, r) # m) =
     bindR (hours_in_ns threshold) (\<lambda>limit.
     bindR (clearOldRecords now threshold m) (\<lambda>m'.
     Inr (if now - lastReportTime r > limit then m' else (client_id, r) # m')))"

definition getAllClientsJson :: "('j, 'k, 'c) libs \<Rightarrow> client_map \<Rightarrow> 'j" where
  "getAllClientsJson L m =
     (if m = [] then j_null L
      else j_object L (map (\<lambda>(client_id, r). (to_string (unat client_id), FaultyClientRecord_to_json L r)) m))"

definition getClientJson :: "('j, 'k, 'c) libs \<Rightarrow> u32 \<Rightarrow> client_map \<Rightarrow> 'j" where
  "getClientJson L client_id m = (case map_of m client_id of
       Some r \<Rightarrow> FaultyClientRecord_to_json L r
     | None \<Rightarrow> j_object L [])"

text \<open>
  The command dispatch inside the \<^verbatim>\<open>try\<close> block: the new map and the response value, or an
  exception. The \<^verbatim>\<open>catch\<close> turns any \<^verbatim>\<open>std::exception\<close> into an error response.
\<close>

definition dispatch_command ::
  "('j, 'k, 'c) libs \<Rightarrow> 'j \<Rightarrow> string \<Rightarrow> client_map \<Rightarrow> client_map \<times> 'j result" where
  "dispatch_command L j command m =
     (if command = ''list'' then (m, Inr (j_object L [(''data'', getAllClientsJson L m)]))
      else if command = ''show'' \<and> j_contains L j ''client_id'' then
        (case bindR (j_subscript L j ''client_id'') (j_get_uint32 L) of
           Inl e \<Rightarrow> (m, Inl e)
         | Inr c \<Rightarrow> (m, Inr (j_object L [(''data'', getClientJson L c m)])))
      else if command = ''clear'' \<and> j_contains L j ''client_id'' then
        (case bindR (j_subscript L j ''client_id'') (j_get_uint32 L) of
           Inl e \<Rightarrow> (m, Inl e)
         | Inr c \<Rightarrow> (clearClient c m,
              Inr (j_object L [(''data'', j_string L (''Cleared client '' @ to_string (unat c)))])))
      else (m, Inr (j_object L [(''error'', j_string L ''Invalid command'')])))"

definition handleCommand :: "('j, 'k, 'c) libs \<Rightarrow> string \<Rightarrow> client_map \<Rightarrow> client_map \<times> string result" where
  "handleCommand L data m =
     (let (m', response) =
        (case bindR (j_parse L data) (\<lambda>j. bindR (bindR (j_subscript L j ''command'') (j_get_string L)) (\<lambda>c. Inr (j, c))) of
           Inl e \<Rightarrow> (m, Inl e)
         | Inr (j, command) \<Rightarrow> dispatch_command L j command m)
      in (m', case bindR response (j_dump L) of
                Inr s \<Rightarrow> Inr s
              | Inl (Exn _ what) \<Rightarrow> j_dump L (j_object L [(''error'', j_string L what)])
              | Inl e \<Rightarrow> Inl e))"

section \<open>The log interface\<close>

text \<open>
  What the services rely on: a report extends the reporting client's descriptions and nothing
  else, and clearing a client forgets that client only. \<open>faults_of\<close> reads the descriptions of a
  client.
\<close>

locale fault_log =
  fixes report :: "int \<Rightarrow> u32 \<Rightarrow> string \<Rightarrow> 's \<Rightarrow> 's"
    and clear :: "u32 \<Rightarrow> 's \<Rightarrow> 's"
    and faults_of :: "'s \<Rightarrow> u32 \<Rightarrow> string list"
  assumes faults_of_report:
      "faults_of (report now c d s) c' = (if c' = c then faults_of s c @ [d] else faults_of s c')"
    and faults_of_clear: "faults_of (clear c s) c' = (if c' = c then [] else faults_of s c')"
begin

primrec report_all :: "(int \<times> u32 \<times> string) list \<Rightarrow> 's \<Rightarrow> 's" where
  "report_all [] s = s"
| "report_all (r # rs) s = report_all rs (report (fst r) (fst (snd r)) (snd (snd r)) s)"

lemma faults_of_report_all:
  "faults_of (report_all rs s) c = faults_of s c @ map (snd \<circ> snd) (filter (\<lambda>r. fst (snd r) = c) rs)"
  by (induction rs arbitrary: s) (auto simp: faults_of_report)

lemma clear_then_report: "faults_of (report now c d (clear c s)) c = [d]"
  by (simp add: faults_of_report faults_of_clear)

end

definition client_faults :: "client_map \<Rightarrow> u32 \<Rightarrow> string list" where
  "client_faults m client_id = faultDescriptions (find_record m client_id)"

lemma map_of_reportFault [simp]:
  "map_of (reportFault now c d m) c' =
     (if c' = c then Some \<lparr>lastReportTime = now, faultDescriptions = client_faults m c @ [d]\<rparr>
      else map_of m c')"
  by (simp add: reportFault_def client_faults_def update_conv)

interpretation tracker: fault_log reportFault clearClient client_faults
  by unfold_locales
    (auto simp: client_faults_def find_record_def clearClient_def delete_conv
      simp del: map_of_reportFault simp add: reportFault_def update_conv)

section \<open>Properties\<close>

text \<open>The limits that fit: up to 2562047 hours, some 292 years, in either direction.\<close>

lemma hours_in_ns_eq: "hours_in_ns h = (if \<bar>h\<bar> \<le> 2562047 then Inr (h * ns_per_hour) else Inl UB)"
  by (auto simp: hours_in_ns_def ns_per_hour_def ns_per_s_def)

lemma clearOldRecords_eq_filter:
  "clearOldRecords now threshold m =
     (if m = [] \<or> \<bar>threshold\<bar> \<le> 2562047
      then Inr (filter (\<lambda>(c, r). now - lastReportTime r \<le> threshold * ns_per_hour) m) else Inl UB)"
  by (induction now threshold m rule: clearOldRecords.induct) (auto simp: hours_in_ns_eq)

lemma distinct_keys_reportFault:
  "distinct (map fst m) \<Longrightarrow> distinct (map fst (reportFault now c d m))"
  by (simp add: reportFault_def distinct_update)

end
