(* ===== verification/Voter_Files.thy ===== *)
theory Voter_Files
  imports Cpp_Std
begin

text \<open>
  The text files of the check-in service: the voter roll (status table, PIN and name lookup), the
  list of trusted clients, and the ticket file the service appends to and re-reads. A file is its
  text, or \<open>None\<close> when it cannot be opened (an unopened stream reads like an empty one). The
  ticket file provides the interface \<open>ticket_store\<close>.
\<close>

section \<open>The voter roll\<close>

datatype voter_status = ELIGIBLE | PENDING | CHECKED_IN

type_synonym status_table = "u32 \<rightharpoonup> voter_status"

definition file_text :: "string option \<Rightarrow> string" where
  "file_text f = (case f of None \<Rightarrow> [] | Some s \<Rightarrow> s)"

text \<open>\<^verbatim>\<open>line.substr(0, line.find(","))\<close>: the first column.\<close>

definition first_column :: "string \<Rightarrow> string" where
  "first_column line = takeWhile (\<lambda>c. c \<noteq> comma) line"

fun load_voter_rows :: "string list \<Rightarrow> status_table \<Rightarrow> status_table result" where
  "load_voter_rows [] tbl = Inr tbl"
| "load_voter_rows (line # ls) tbl =
     bindR (stoul (first_column line)) (\<lambda>uid.
       load_voter_rows ls (emplace (of_nat uid) ELIGIBLE tbl))"

definition load_voter_list :: "string \<Rightarrow> string option \<Rightarrow> status_table \<Rightarrow> status_table result" where
  "load_voter_list csv_file_path csv_file tbl =
     (let (header_line, body) = (case getline newline (file_text csv_file) of
            None \<Rightarrow> ([], []) | Some p \<Rightarrow> p)
      in if first_column header_line \<noteq> ''UID''
         then Inl (Exn Runtime_error
                (''Voter CSV file '' @ csv_file_path @ '' did not have the expected column headers''))
         else load_voter_rows (getlines newline body) tbl)"

text \<open>
  The condition of \<^verbatim>\<open>find_voter\<close> and \<^verbatim>\<open>load_pin_mappings\<close>: \<open>n\<close> comma-terminated reads in a
  row, each of which must succeed.
\<close>

fun read_fields :: "nat \<Rightarrow> string \<Rightarrow> (string list \<times> string) option" where
  "read_fields 0 s = Some ([], s)"
| "read_fields (Suc n) s = (case getline comma s of
       None \<Rightarrow> None
     | Some (f, r) \<Rightarrow> (case read_fields n r of
           None \<Rightarrow> None
         | Some (fs, r') \<Rightarrow> Some (f # fs, r')))"

text \<open>Eight comma-separated columns and the rest of the line, which must not be empty.\<close>

definition roll_columns :: "string \<Rightarrow> string list option" where
  "roll_columns line = (case read_fields 8 line of
       None \<Rightarrow> None
     | Some (fs, r) \<Rightarrow> (case getline newline r of
           None \<Rightarrow> None
         | Some (zip_code, _) \<Rightarrow> Some (fs @ [zip_code])))"

text \<open>
  \<^verbatim>\<open>voter_info["voter_id"] = id\<close> assigns an integer to a string, which stores one character with
  the value of the integer modulo 256.
\<close>

definition voter_info_of :: "u32 \<Rightarrow> string list \<Rightarrow> (string \<rightharpoonup> string)" where
  "voter_info_of uid cols =
     [''voter_id'' \<mapsto> [char_of (unat uid)], ''last_name'' \<mapsto> cols ! 2, ''first_name'' \<mapsto> cols ! 3,
      ''middle_name'' \<mapsto> cols ! 4, ''pin'' \<mapsto> cols ! 1]"

fun find_voter_line :: "string list \<Rightarrow> u32 \<Rightarrow> (string \<rightharpoonup> string)" where
  "find_voter_line [] uid = Map.empty"
| "find_voter_line (line # ls) uid = (case roll_columns line of
       None \<Rightarrow> find_voter_line ls uid
     | Some cols \<Rightarrow> if cols ! 0 = to_string (unat uid) then voter_info_of uid cols
                    else find_voter_line ls uid)"

definition find_voter :: "string option \<Rightarrow> u32 \<Rightarrow> (string \<rightharpoonup> string)" where
  "find_voter csv_file uid = find_voter_line (getlines newline (file_text csv_file)) uid"

text \<open>Reading \<^verbatim>\<open>voter_info["..."]\<close>: a missing key reads as the empty string.\<close>

definition info :: "(string \<rightharpoonup> string) \<Rightarrow> string \<Rightarrow> string" where
  "info m k = (case m k of None \<Rightarrow> [] | Some v \<Rightarrow> v)"

fun load_pin_rows :: "string list \<Rightarrow> (string \<rightharpoonup> string) \<Rightarrow> (string \<rightharpoonup> string)" where
  "load_pin_rows [] m = m"
| "load_pin_rows (line # ls) m = (case roll_columns line of
       None \<Rightarrow> load_pin_rows ls m
     | Some cols \<Rightarrow> load_pin_rows ls (m(cols ! 1 \<mapsto> cols ! 0)))"

definition load_pin_mappings :: "string option \<Rightarrow> (string \<rightharpoonup> string) \<Rightarrow> (string \<rightharpoonup> string)" where
  "load_pin_mappings csv_file m =
     (case getline newline (file_text csv_file) of
        None \<Rightarrow> m
      | Some (_, body) \<Rightarrow> load_pin_rows (getlines newline body) m)"

definition load_trusted_clients :: "string \<Rightarrow> string option \<Rightarrow> u32 set result" where
  "load_trusted_clients filename file = (case file of
       None \<Rightarrow> Inl (Exn Runtime_error (''Unable to open file: '' @ filename))
     | Some text \<Rightarrow> Inr (set (List.map_filter extract_u32 (getlines newline text))))"

section \<open>Tickets\<close>

type_synonym ticket_map = "string \<rightharpoonup> u32 \<times> string"

text \<open>
  \<^verbatim>\<open>generate_secret(length)\<close>: the hexadecimal text of \<open>length\<close> random bytes; \<open>None\<close> stands for
  a failing \<^verbatim>\<open>RAND_bytes\<close>.
\<close>

definition generate_secret :: "byte list option \<Rightarrow> string result" where
  "generate_secret buffer = (case buffer of
       None \<Rightarrow> Inl (Exn Runtime_error ''Failed to generate secret'')
     | Some bs \<Rightarrow> Inr (concat (map hex_byte bs)))"

definition read_ticket_line :: "string \<Rightarrow> ticket_map \<Rightarrow> ticket_map" where
  "read_ticket_line line m = (case read_fields 2 line of
       None \<Rightarrow> m
     | Some (fs, r) \<Rightarrow> (case getline newline r of
           None \<Rightarrow> m
         | Some (secret, _) \<Rightarrow> (case stoul (fs ! 1) of
               Inl _ \<Rightarrow> m
             | Inr uid \<Rightarrow> m(fs ! 0 \<mapsto> (of_nat uid, secret)))))"

definition read_from_csv :: "string option \<Rightarrow> ticket_map \<Rightarrow> ticket_map" where
  "read_from_csv file m = fold read_ticket_line (getlines newline (file_text file)) m"

text \<open>\<open>write_to_csv\<close> opens for appending, which creates a missing file.\<close>

definition ticket_line :: "string \<Rightarrow> string \<Rightarrow> u32 \<Rightarrow> string" where
  "ticket_line ticket secret uid = ticket @ [comma] @ to_string (unat uid) @ [comma] @ secret @ [newline]"

definition write_to_csv :: "bool \<Rightarrow> string \<Rightarrow> string \<Rightarrow> u32 \<Rightarrow> string option \<Rightarrow> string option" where
  "write_to_csv can_open ticket secret uid file =
     (if can_open then Some (file_text file @ ticket_line ticket secret uid) else file)"

section \<open>The ticket store interface\<close>

text \<open>
  What the service relies on when it re-reads its tickets: storing an entry makes the loaded map
  send the ticket to its voter and secret and leaves the other tickets alone, and entries already
  in memory survive a load unless the file has the same ticket.
\<close>

locale ticket_store =
  fixes invar :: "'f \<Rightarrow> bool"
    and entry_ok :: "string \<Rightarrow> string \<Rightarrow> bool"
    and store :: "string \<Rightarrow> string \<Rightarrow> u32 \<Rightarrow> 'f \<Rightarrow> 'f"
    and load :: "'f \<Rightarrow> ticket_map \<Rightarrow> ticket_map"
  assumes invar_store: "invar f \<Longrightarrow> entry_ok t s \<Longrightarrow> invar (store t s v f)"
    and load_store: "invar f \<Longrightarrow> entry_ok t s \<Longrightarrow> load (store t s v f) m = (load f m)(t \<mapsto> (v, s))"
    and load_override: "load f m = m ++ load f Map.empty"
begin

primrec store_all :: "(string \<times> string \<times> u32) list \<Rightarrow> 'f \<Rightarrow> 'f" where
  "store_all [] f = f"
| "store_all (e # es) f = store_all es (store (fst e) (fst (snd e)) (snd (snd e)) f)"

lemma store_all_invar:
  "invar f \<Longrightarrow> \<forall>e \<in> set es. entry_ok (fst e) (fst (snd e)) \<Longrightarrow> invar (store_all es f)"
  by (induction es arbitrary: f) (auto intro: invar_store)

lemma load_store_all:
  "invar f \<Longrightarrow> \<forall>e \<in> set es. entry_ok (fst e) (fst (snd e)) \<Longrightarrow>
     load (store_all es f) m = load f m ++ map_of (rev (map (\<lambda>e. (fst e, (snd (snd e), fst (snd e)))) es))"
proof (induction es arbitrary: f)
  case Nil
  then show ?case by simp
next
  case (Cons e es)
  then have "invar (store (fst e) (fst (snd e)) (snd (snd e)) f)" by (simp add: invar_store)
  with Cons show ?case by (simp add: load_store map_add_def fun_eq_iff split: option.splits)
qed

text \<open>A loaded ticket is never lost by storing others.\<close>

lemma load_store_keeps:
  assumes "invar f" "entry_ok t s" "t \<noteq> t'" "load f m t' = Some e"
  shows "load (store t s v f) m t' = Some e"
  using assms by (simp add: load_store)

end

definition ticket_entry_ok :: "string \<Rightarrow> string \<Rightarrow> bool" where
  "ticket_entry_ok ticket secret \<longleftrightarrow>
     comma \<notin> set ticket \<and> newline \<notin> set ticket \<and> secret \<noteq> [] \<and> newline \<notin> set secret"

definition ticket_file_ok :: "string option \<Rightarrow> bool" where
  "ticket_file_ok f \<longleftrightarrow> line_terminated (file_text f)"

lemma read_ticket_line_ticket_line:
  assumes "ticket_entry_ok t s"
  shows "read_ticket_line (t @ [comma] @ to_string (unat v) @ [comma] @ s) m = m(t \<mapsto> (v, s))"
proof -
  have "read_fields 2 (t @ comma # to_string (unat v) @ comma # s) = Some ([t, to_string (unat v)], s)"
    using assms by (simp add: numeral_2_eq_2 ticket_entry_ok_def)
  moreover have "unat v < 2 ^ 64"
    using unsigned_less [of v, where 'a = nat] by simp
  ultimately show ?thesis
    using assms by (simp add: read_ticket_line_def ticket_entry_ok_def)
qed

lemma read_from_csv_write_to_csv:
  assumes "ticket_file_ok f" "ticket_entry_ok t s"
  shows "read_from_csv (write_to_csv True t s v f) m = (read_from_csv f m)(t \<mapsto> (v, s))"
proof -
  let ?l = "t @ [comma] @ to_string (unat v) @ [comma] @ s"
  have "newline \<notin> set ?l" using assms(2) by (auto simp: ticket_entry_ok_def)
  with assms(1) have "getlines newline (file_text f @ ?l @ [newline]) = getlines newline (file_text f) @ [?l]"
    unfolding ticket_file_ok_def by (rule getlines_append_line)
  then have "getlines newline (file_text (write_to_csv True t s v f)) = getlines newline (file_text f) @ [?l]"
    by (simp add: write_to_csv_def ticket_line_def file_text_def)
  then show ?thesis
    using read_ticket_line_ticket_line [OF assms(2)] by (simp add: read_from_csv_def)
qed

lemma read_ticket_line_override: "read_ticket_line l m = m ++ read_ticket_line l Map.empty"
  by (auto simp: read_ticket_line_def split: option.splits sum.splits)

lemma fold_read_override: "fold read_ticket_line ls m = m ++ fold read_ticket_line ls Map.empty"
proof (induction ls arbitrary: m)
  case Nil
  show ?case by simp
next
  case (Cons l ls)
  have "fold read_ticket_line (l # ls) m = read_ticket_line l m ++ fold read_ticket_line ls Map.empty"
    using Cons [of "read_ticket_line l m"] by simp
  also have "\<dots> = m ++ (read_ticket_line l Map.empty ++ fold read_ticket_line ls Map.empty)"
    by (subst read_ticket_line_override) simp
  also have "\<dots> = m ++ fold read_ticket_line (l # ls) Map.empty"
    using Cons [of "read_ticket_line l Map.empty"] by simp
  finally show ?case .
qed

interpretation ticket_csv: ticket_store ticket_file_ok ticket_entry_ok "write_to_csv True" read_from_csv
proof (unfold_locales, goal_cases)
  case (1 f t s v)
  then show ?case
    by (simp add: ticket_file_ok_def line_terminated_def write_to_csv_def ticket_line_def file_text_def)
next
  case (2 f t s v m)
  then show ?case by (rule read_from_csv_write_to_csv)
next
  case (3 f m)
  show ?case unfolding read_from_csv_def by (rule fold_read_override)
qed

section \<open>Facts about secrets, rolls and PINs\<close>

lemma generate_secret_length:
  "generate_secret (Some bs) = Inr s \<Longrightarrow> length s = 2 * length bs"
  by (auto simp: generate_secret_def length_concat_map_fixed)

lemma generate_secret_inj:
  "generate_secret (Some as) = Inr s \<Longrightarrow> generate_secret (Some bs) = Inr s \<Longrightarrow> as = bs"
  using concat_map_fixed_inj [of hex_byte 2 as bs] by (simp add: generate_secret_def hex_byte_inj)

lemma generate_secret_plain:
  "generate_secret (Some bs) = Inr s \<Longrightarrow> comma \<notin> set s \<and> newline \<notin> set s"
  by (auto simp: generate_secret_def hex_byte_plain)

lemma generate_secret_entry_ok:
  assumes "generate_secret a = Inr t" "generate_secret (Some bs) = Inr s" "bs \<noteq> []"
  shows "ticket_entry_ok t s"
proof -
  from assms(1) obtain as where "a = Some as" by (auto simp: generate_secret_def split: option.splits)
  moreover have "s \<noteq> []" using generate_secret_length [OF assms(2)] assms(3) by auto
  ultimately show ?thesis
    using assms(1,2) generate_secret_plain by (auto simp: ticket_entry_ok_def)
qed

text \<open>Every voter of a freshly loaded roll is eligible, and a row is a voter.\<close>

lemma load_voter_rows_ELIGIBLE:
  "load_voter_rows ls tbl = Inr tbl' \<Longrightarrow> tbl' v = Some st \<Longrightarrow> tbl v = Some st \<or> st = ELIGIBLE"
proof (induction ls arbitrary: tbl)
  case Nil
  then show ?case by simp
next
  case (Cons l ls)
  then obtain uid where uid: "stoul (first_column l) = Inr uid"
    and rest: "load_voter_rows ls (emplace (of_nat uid) ELIGIBLE tbl) = Inr tbl'"
    by (auto simp: result_simps)
  from Cons.IH [OF rest Cons.prems(2)] show ?case
    by (cases "v = of_nat uid") (auto split: option.splits)
qed

lemma load_voter_rows_numbers:
  "load_voter_rows ls tbl = Inr tbl' \<Longrightarrow> \<exists>us. map (stoul \<circ> first_column) ls = map Inr us"
proof (induction ls arbitrary: tbl)
  case (Cons l ls)
  then obtain uid where uid: "stoul (first_column l) = Inr uid"
    "load_voter_rows ls (emplace (of_nat uid) ELIGIBLE tbl) = Inr tbl'"
    by (auto simp: result_simps)
  with Cons.IH obtain us where "map (stoul \<circ> first_column) ls = map Inr us" by blast
  then show ?case by (intro exI [of _ "uid # us"]) (simp add: uid o_def)
qed simp

lemma load_voter_rows_dom:
  "load_voter_rows ls tbl = Inr tbl' \<Longrightarrow> map stoul (map first_column ls) = map Inr us \<Longrightarrow>
     dom tbl' = dom tbl \<union> of_nat ` set us"
proof (induction ls arbitrary: tbl us)
  case Nil
  then show ?case by simp
next
  case (Cons l ls)
  then obtain u us' where us: "us = u # us'" and u: "stoul (first_column l) = Inr u"
    and us': "map stoul (map first_column ls) = map Inr us'" by (cases us) auto
  with Cons show ?case by (auto simp: us)
qed

text \<open>A PIN column with a leading zero matches no number.\<close>

lemma pin_leading_zero: "to_string n \<noteq> CHR ''0'' # c # cs"
proof
  assume eq: "to_string n = CHR ''0'' # c # cs"
  then have "n = 0" using to_string_no_leading_zero [of n] by simp
  with eq show False by (simp add: to_string.simps [of 0])
qed

end
