(* ===== verification/Checkin_Service.thy ===== *)
theory Checkin_Service
  imports Fault_Tracker Voter_Files
begin

text \<open>
  The check-in service (\<^verbatim>\<open>checkin_service.hpp\<close>, \<^verbatim>\<open>checkin_service.cpp\<close>): its members as one
  record, its handlers as functions from the state and the inputs of one invocation (clock
  readings, random bytes, outcomes of I/O calls) to the new state and the exception that leaves the
  handler, if any. An exception that leaves a handler leaves \<^verbatim>\<open>io_context::run\<close> and ends the
  process. The members of \<^verbatim>\<open>asio\<close> objects that handlers change are part of the record: the set of
  open TLS streams, the unread bytes per stream, the read each stream waits for, the pending
  accept, the handshakes and the timer waits in flight. Log messages are not modelled.
\<close>

section \<open>State\<close>

datatype client_type = UntrustedClient | TrustedClient

record client_info =
  ci_id :: u32
  ci_type :: client_type

record timer =
  timer_voter_id :: u32
  timer_expiry :: int \<comment> \<open>steady clock, nanoseconds\<close>

type_synonym endpoint = "32 word \<times> 16 word"

datatype pending_read = Size_read | Payload_read nat

datatype io_error = Eof | Connection_aborted | Other_io_error

text \<open>The configuration values and files the service reads while it runs.\<close>

record checkin_config =
  request_freshness_interval :: u32
  timeout_interval :: i32
  client_keys_folder :: string
  client_key_file_prefix :: string
  voter_list_path :: string
  voter_list_file :: "string option"
  trusted_clients_path :: string
  trusted_clients_file :: "string option"

record 'k checkin_service =
  clients :: "u32 \<rightharpoonup> client_info"
  client_sockets :: "endpoint set"
  client_ssl_streams :: "endpoint set"
  trusted_clients :: "u32 set"
  client_buffers :: "endpoint \<rightharpoonup> string"
  client_verifiers :: "u32 \<rightharpoonup> 'k"
  id_service_verifier :: 'k
  client_tickets_map :: ticket_map
  client_public_keys :: "u32 \<rightharpoonup> 'k"
  signer_key :: 'k
  voter_status_table :: status_table
  cur_client_id :: u32 \<comment> \<open>the member \<^verbatim>\<open>client_id\<close>\<close>
  client_id_map :: "endpoint \<rightharpoonup> u32"
  request_timers :: "u32 \<rightharpoonup> timer"
  pin_to_voter_id :: "string \<rightharpoonup> string"
  timer_waits :: "timer list"
  pending_reads :: "endpoint \<rightharpoonup> pending_read"
  accept_pending :: bool
  handshakes :: "endpoint set"
  faults :: client_map
  ticket_file :: "string option"
  key_files :: file_system
  sent :: "(endpoint \<times> string) list"

type_synonym 'k outcome = "'k checkin_service \<times> cpp_error option"

text \<open>
  One invocation's inputs: the system clock and the steady clock in nanoseconds, the two random
  draws, whether \<^verbatim>\<open>asio::write\<close> fails, whether the ticket file opens for appending, the error
  of opening a path for writing, and for an expired timer whether the handler of its wait is already
  queued.
\<close>

record io_input =
  sys_now :: int
  steady_now :: int
  rand_ticket :: "byte list option"
  rand_secret :: "byte list option"
  write_fails :: bool
  csv_opens :: bool
  fopen_w :: "string \<Rightarrow> errno option"
  wait_queued :: "timer \<Rightarrow> bool"

definition now_ms :: "io_input \<Rightarrow> u64" where
  "now_ms io = word_of_int (sys_now io div 1000000)"

definition minutes :: "int \<Rightarrow> int" where
  "minutes m = m * 60 * ns_per_s"

definition report :: "io_input \<Rightarrow> u32 \<Rightarrow> string \<Rightarrow> 'k checkin_service \<Rightarrow> 'k checkin_service" where
  "report io c d s = s\<lparr>faults := reportFault (sys_now io) c d (faults s)\<rparr>"

section \<open>Freshness of timestamps\<close>

text \<open>
  The unsigned difference of the larger and the smaller timestamp, stored in a signed 64-bit
  variable, and the comparison of its absolute value with the interval.
\<close>

definition time_difference :: "u64 \<Rightarrow> u64 \<Rightarrow> i64" where
  "time_difference current_timestamp timestamp =
     (if current_timestamp > timestamp then current_timestamp - timestamp
      else timestamp - current_timestamp)"

definition is_stale :: "u32 \<Rightarrow> u64 \<Rightarrow> u64 \<Rightarrow> bool result" where
  "is_stale interval current_timestamp timestamp =
     bindR (std_abs64 (time_difference current_timestamp timestamp)) (\<lambda>d. Inr (sint d > uint interval))"

section \<open>Client keys\<close>

definition key_file_path :: "checkin_config \<Rightarrow> u32 \<Rightarrow> string" where
  "key_file_path cfg client_id =
     client_keys_folder cfg @ ''/'' @ client_key_file_prefix cfg @ to_string (unat client_id) @ ''.pem''"

definition load_client_public_key ::
  "('j, 'k, 'c) libs \<Rightarrow> checkin_config \<Rightarrow> u32 \<Rightarrow> 'k checkin_service \<Rightarrow> 'k checkin_service \<times> bool" where
  "load_client_public_key L cfg client_id s =
     (case from_pem_public L (key_files s) (key_file_path cfg client_id) of
        Inl _ \<Rightarrow> (s, False)
      | Inr envelope_key \<Rightarrow>
          (s\<lparr>client_public_keys := emplace client_id envelope_key (client_public_keys s),
             client_verifiers := emplace client_id envelope_key (client_verifiers s)\<rparr>, True))"

text \<open>\<^verbatim>\<open>save_pub_key\<close> builds the path without the slash, and only logs a failure.\<close>

definition saved_key_path :: "checkin_config \<Rightarrow> u32 \<Rightarrow> string" where
  "saved_key_path cfg client_id =
     client_keys_folder cfg @ client_key_file_prefix cfg @ to_string (unat client_id) @ ''.pem''"

definition save_pub_key ::
  "('j, 'k, 'c) libs \<Rightarrow> checkin_config \<Rightarrow> io_input \<Rightarrow> 'k \<Rightarrow> u32 \<Rightarrow> 'k checkin_service \<Rightarrow> 'k checkin_service"
where
  "save_pub_key L cfg io envelope_key client_id s =
     s\<lparr>key_files := fst (to_pem_public L (fopen_w io) envelope_key (saved_key_path cfg client_id) (key_files s))\<rparr>"

text \<open>
  \<^verbatim>\<open>get_client_id_from_cert\<close>: two reads up to a blank into the same string, then \<^verbatim>\<open>stoul\<close>. A
  certificate without a common name leaves the buffer uninitialised.
\<close>

definition get_client_id_from_cert :: "string option \<Rightarrow> u32 result" where
  "get_client_id_from_cert cn = (case cn of
       None \<Rightarrow> Inl UB
     | Some s \<Rightarrow>
         (let (id_str, st, _) = getline_into space (open_string s) [];
              (id_str, _, _) = getline_into space st id_str
          in bindR (stoul id_str) (\<lambda>n. Inr (of_nat n))))"

definition add_client :: "u32 \<Rightarrow> client_type \<Rightarrow> 'k checkin_service \<Rightarrow> 'k checkin_service" where
  "add_client client_id type s =
     s\<lparr>clients := (clients s)(client_id \<mapsto> \<lparr>ci_id = client_id, ci_type = type\<rparr>)\<rparr>"

section \<open>Reading from a client\<close>

text \<open>
  Starting a read creates the stream buffer if there is none and then looks the stream up with
  \<^verbatim>\<open>at\<close>, which throws for a stream that is gone.
\<close>

definition start_read :: "pending_read \<Rightarrow> endpoint \<Rightarrow> 'k checkin_service \<Rightarrow> 'k outcome" where
  "start_read r client_ip s =
     (let s' = (if client_buffers s client_ip = None
                then s\<lparr>client_buffers := (client_buffers s)(client_ip \<mapsto> [])\<rparr> else s)
      in if client_ip \<in> client_ssl_streams s
         then (s'\<lparr>pending_reads := (pending_reads s)(client_ip \<mapsto> r)\<rparr>, None)
         else (s', Some (Exn Out_of_range ''map::at'')))"

definition start_size_read :: "endpoint \<Rightarrow> 'k checkin_service \<Rightarrow> 'k outcome" where
  "start_size_read client_ip s = start_read Size_read client_ip s"

definition start_payload_read :: "endpoint \<Rightarrow> nat \<Rightarrow> 'k checkin_service \<Rightarrow> 'k outcome" where
  "start_payload_read client_ip size_of_message s = start_read (Payload_read size_of_message) client_ip s"

section \<open>Timers\<close>

text \<open>
  Cancelling or destroying a timer aborts its wait, unless the timer expired and the handler is
  already queued, which can no longer be withdrawn.
\<close>

definition cancel_wait :: "io_input \<Rightarrow> timer option \<Rightarrow> timer list \<Rightarrow> timer list" where
  "cancel_wait io t ws = (case t of
       None \<Rightarrow> ws
     | Some t \<Rightarrow> filter (\<lambda>w. w \<noteq> t \<or> timer_expiry w \<le> steady_now io \<and> wait_queued io w) ws)"

text \<open>
  The interval is a 32-bit number of minutes. Its nanoseconds fit the 64 bits of the clock up to
  153722867 minutes (292 years) in either direction; beyond that the conversion in the code is
  undefined, and what is stated here of timers is for intervals within this bound.
\<close>

definition start_timer ::
  "checkin_config \<Rightarrow> io_input \<Rightarrow> u32 \<Rightarrow> 'k checkin_service \<Rightarrow> 'k checkin_service" where
  "start_timer cfg io voter_id s =
     (let t = \<lparr>timer_voter_id = voter_id,
               timer_expiry = steady_now io + minutes (sint (timeout_interval cfg))\<rparr>
      in s\<lparr>timer_waits := cancel_wait io (request_timers s voter_id) (timer_waits s) @ [t],
           request_timers := (request_timers s)(voter_id \<mapsto> t)\<rparr>)"

definition handle_verification_timeout ::
  "io_input \<Rightarrow> u32 \<Rightarrow> 'k checkin_service \<Rightarrow> 'k checkin_service" where
  "handle_verification_timeout io voter_id s =
     (let s' = s\<lparr>timer_waits := cancel_wait io (request_timers s voter_id) (timer_waits s),
                 request_timers := (request_timers s)(voter_id := None)\<rparr>
      in if voter_status_table s voter_id = Some PENDING
         then s'\<lparr>voter_status_table := (voter_status_table s)(voter_id \<mapsto> ELIGIBLE)\<rparr>
         else s')"

section \<open>Check-in requests of the untrusted clients\<close>

definition validate_client_request ::
  "('j, 'k, 'c) libs \<Rightarrow> checkin_config \<Rightarrow> io_input \<Rightarrow> checkin_request \<Rightarrow> u64 \<Rightarrow> 'k checkin_service
     \<Rightarrow> 'k checkin_service \<times> bool result" where
  "validate_client_request L cfg io request current_timestamp s =
     (let body = cr_body request; idm = cb_verified_id_message body in
      case j_dump L (CheckinRequest_Body_ToJson L body) of
        Inl e \<Rightarrow> (s, Inl e)
      | Inr request_body_str \<Rightarrow>
     (case client_verifiers s (cb_client_id_num body) of
        None \<Rightarrow> (s, Inl (Exn Out_of_range ''map::at''))
      | Some verifier \<Rightarrow>
     (case verify_string L verifier request_body_str (cr_client_signature request) of
        Inl e \<Rightarrow> (s, Inl e)
      | Inr valid \<Rightarrow>
          if \<not> valid then
            (report io (cur_client_id s) ''Invalid client signature on check-in request (tampered body)'' s,
             Inr False)
          else
     (case j_dump L (id_statement_json L (vv_presented_id idm) (vv_voter_unique_id idm)) of
        Inl e \<Rightarrow> (s, Inl e)
      | Inr id_msg \<Rightarrow>
     (case verify_string L (id_service_verifier s) id_msg (vv_id_service_signature idm) of
        Inl e \<Rightarrow> (s, Inl e)
      | Inr valid \<Rightarrow>
          if \<not> valid then (s, Inr False)
          else if cb_voter_unique_id body \<noteq> vv_voter_unique_id idm then
            (report io (cur_client_id s) ''Claimed voter UID does not match ID-service-verified UID'' s,
             Inr False)
          else (case is_stale (request_freshness_interval cfg) current_timestamp (cb_timestamp body) of
              Inl e \<Rightarrow> (s, Inl e)
            | Inr stale \<Rightarrow> (s, Inr (\<not> stale))))))))"

text \<open>The status test and update of an admissible request.\<close>

definition admit_voter ::
  "checkin_config \<Rightarrow> io_input \<Rightarrow> u32 \<Rightarrow> 'k checkin_service \<Rightarrow> 'k checkin_service \<times> bool" where
  "admit_voter cfg io voter_unique_id s =
     (if voter_status_table s voter_unique_id = Some ELIGIBLE
      then (start_timer cfg io voter_unique_id
              (s\<lparr>voter_status_table := (voter_status_table s)(voter_unique_id \<mapsto> PENDING)\<rparr>), True)
      else (s, False))"

text \<open>
  The \<^verbatim>\<open>if (identity_ok)\<close> block: \<open>Inr None\<close> is the early return when the client's key cannot be
  loaded, \<open>Inr (Some accept)\<close> the decision.
\<close>

definition decide_checkin ::
  "('j, 'k, 'c) libs \<Rightarrow> checkin_config \<Rightarrow> io_input \<Rightarrow> bool \<Rightarrow> checkin_request \<Rightarrow> u64 \<Rightarrow> 'k checkin_service
     \<Rightarrow> 'k checkin_service \<times> bool option result" where
  "decide_checkin L cfg io identity_ok request current_timestamp s =
     (if \<not> identity_ok then (s, Inr (Some False))
      else
        let c = cb_client_id_num (cr_body request);
            (s1, loaded) = (if client_verifiers s c = None then load_client_public_key L cfg c s else (s, True))
        in if \<not> loaded then (s1, Inr None)
           else (case validate_client_request L cfg io request current_timestamp s1 of
               (s2, Inl e) \<Rightarrow> (s2, Inl e)
             | (s2, Inr valid) \<Rightarrow>
                 if valid then
                   (let (s3, accept) = admit_voter cfg io (cb_voter_unique_id (cr_body request)) s2
                    in (s3, Inr (Some accept)))
                 else (s2, Inr (Some False))))"

definition issue_ticket ::
  "io_input \<Rightarrow> bool \<Rightarrow> u32 \<Rightarrow> 'k checkin_service \<Rightarrow> 'k checkin_service \<times> string result" where
  "issue_ticket io accept voter_unique_id s =
     (if accept then
        (case bindR (generate_secret (rand_ticket io)) (\<lambda>t. bindR (generate_secret (rand_secret io)) (\<lambda>x. Inr (t, x))) of
           Inl e \<Rightarrow> (s, Inl e)
         | Inr (ticket, secret) \<Rightarrow>
             (s\<lparr>client_tickets_map := (client_tickets_map s)(ticket \<mapsto> (voter_unique_id, secret)),
                ticket_file := write_to_csv (csv_opens io) ticket secret voter_unique_id (ticket_file s)\<rparr>,
              Inr ticket))
      else (s, Inr []))"

text \<open>A size line, the message and a line break: the frame of every message with a size header.\<close>

definition frame_message :: "string \<Rightarrow> string" where
  "frame_message m = to_string (length m) @ [newline] @ m @ [newline]"

text \<open>
  Sign, serialise and write the response, then wait for the next message. This \<^verbatim>\<open>asio::write\<close> is
  the overload that throws.
\<close>

definition send_checkin_response ::
  "('j, 'k, 'c) libs \<Rightarrow> io_input \<Rightarrow> endpoint \<Rightarrow> checkin_response_body \<Rightarrow> 'k checkin_service \<Rightarrow> 'k outcome" where
  "send_checkin_response L io client_ip response_body s =
     (case bindR (j_dump L (CheckinResponse_Body_ToJson L response_body)) (\<lambda>str.
           bindR (sign_string L (signer_key s) str) (\<lambda>signature.
           j_dump L (CheckinResponse_ToJson L
             \<lparr>pr_body = response_body, pr_checkin_service_signature = signature\<rparr>))) of
        Inl e \<Rightarrow> (s, Some e)
      | Inr response_message_string \<Rightarrow>
          if client_ip \<notin> client_ssl_streams s then (s, Some (Exn Out_of_range ''map::at''))
          else if write_fails io then (s, Some (Exn System_error ''write''))
          else start_size_read client_ip
                 (s\<lparr>sent := sent s @ [(client_ip, frame_message response_message_string)]\<rparr>))"

definition handle_checkin_request ::
  "('j, 'k, 'c) libs \<Rightarrow> checkin_config \<Rightarrow> io_input \<Rightarrow> endpoint \<Rightarrow> checkin_request \<Rightarrow> 'k checkin_service
     \<Rightarrow> 'k outcome" where
  "handle_checkin_request L cfg io client_ip request s =
     (let body = cr_body request;
          (id_map, client_id) = subscript 0 client_ip (client_id_map s);
          s1 = s\<lparr>client_id_map := id_map\<rparr>;
          identity_ok = (cb_client_id_num body = client_id);
          s2 = (if identity_ok then s1
                else report io client_id ''Claimed client_id_num does not match TLS-authenticated client identity'' s1);
          current_timestamp = now_ms io
      in case bindR (j_dump L (CheckinRequest_Body_ToJson L body)) (\<lambda>_. j_dump L (CheckinRequest_ToJson L request)) of
           Inl e \<Rightarrow> (s2, Some e)
         | Inr _ \<Rightarrow>
        (case decide_checkin L cfg io identity_ok request current_timestamp s2 of
           (s3, Inl e) \<Rightarrow> (s3, Some e)
         | (s3, Inr None) \<Rightarrow> (s3, None)
         | (s3, Inr (Some accept)) \<Rightarrow>
        (case issue_ticket io accept (cb_voter_unique_id body) s3 of
           (s4, Inl e) \<Rightarrow> (s4, Some e)
         | (s4, Inr ticket) \<Rightarrow>
             send_checkin_response L io client_ip
               \<lparr>pb_approved = accept, pb_requesting_client_id = cb_client_id_num body,
                pb_timestamp = current_timestamp, pb_last_name = cb_last_name body,
                pb_first_name = cb_first_name body, pb_middle_name = cb_middle_name body,
                pb_voter_unique_id = cb_voter_unique_id body, pb_ticket = ticket\<rparr> s4)))"

section \<open>Ticket requests of the trusted devices\<close>

text \<open>
  The checks before the PIN: identity, ticket, key, signature, freshness. \<open>Inr None\<close> is an early
  return; success gives the client's and the voter's number.
\<close>

definition authenticate_ticket_request ::
  "('j, 'k, 'c) libs \<Rightarrow> checkin_config \<Rightarrow> io_input \<Rightarrow> endpoint \<Rightarrow> ticket_request \<Rightarrow> 'k checkin_service
     \<Rightarrow> 'k checkin_service \<times> (u32 \<times> u32) option result" where
  "authenticate_ticket_request L cfg io client_ip request s =
     (let body = tr_body request;
          (id_map, client_id) = subscript 0 client_ip (client_id_map s);
          s1 = s\<lparr>client_id_map := id_map\<rparr>
      in if tb_client_id body \<noteq> client_id then
           (report io client_id ''Client ID in the message does not match the client ID from the client's certificate!'' s1,
            Inr None)
         else (case client_tickets_map s1 (tb_ticket body) of
             None \<Rightarrow> (report io client_id ''Ticket in the message was not found on the server'' s1, Inr None)
           | Some (voter_id, _) \<Rightarrow>
        (let (s2, loaded) = (if client_verifiers s1 (tb_client_id body) = None
                             then load_client_public_key L cfg (tb_client_id body) s1 else (s1, True))
         in if \<not> loaded then
              (report io client_id ''Could not load the public key for client. Ignoring a voter ID validation request.'' s2,
               Inr None)
            else
        (case j_dump L (TicketRequest_Body_ToJson L body) of
           Inl e \<Rightarrow> (s2, Inl e)
         | Inr request_body_str \<Rightarrow>
        (case client_verifiers s2 (tb_client_id body) of
           None \<Rightarrow> (s2, Inl (Exn Out_of_range ''map::at''))
         | Some verifier \<Rightarrow>
        (case verify_string L verifier request_body_str (tr_signature request) of
           Inl e \<Rightarrow> (s2, Inl e)
         | Inr valid \<Rightarrow>
             if \<not> valid then (report io client_id ''Invalid client signature on ticket request'' s2, Inr None)
             else (case is_stale (request_freshness_interval cfg) (now_ms io) (tb_timestamp body) of
                 Inl e \<Rightarrow> (s2, Inl e)
               | Inr stale \<Rightarrow>
                   if stale then (report io client_id ''Ticket request timestamp outside freshness interval'' s2, Inr None)
                   else (s2, Inr (Some (client_id, voter_id))))))))))"

text \<open>
  The locked block: the timer of the voter, and whether the request is inside its window, in which
  case the entry is removed.
\<close>

definition claim_timer ::
  "checkin_config \<Rightarrow> io_input \<Rightarrow> u32 \<Rightarrow> u32 \<Rightarrow> 'k checkin_service \<Rightarrow> 'k checkin_service \<times> timer option \<times> bool"
where
  "claim_timer cfg io client_id voter_id s = (case request_timers s voter_id of
       Some t \<Rightarrow>
         (let start_time = timer_expiry t - minutes (sint (timeout_interval cfg))
          in if start_time \<le> steady_now io \<and> steady_now io \<le> timer_expiry t
             then (s\<lparr>request_timers := (request_timers s)(voter_id := None)\<rparr>, Some t, True)
             else (report io client_id ''Request outside valid time window'' s, Some t, False))
     | None \<Rightarrow> (report io client_id ''No timer found for voter ID'' s, None, False))"

text \<open>Sign and write a ticket response; a failing write is only logged here.\<close>

definition send_ticket_response ::
  "('j, 'k, 'c) libs \<Rightarrow> io_input \<Rightarrow> endpoint \<Rightarrow> ticket_response_body \<Rightarrow> 'k checkin_service \<Rightarrow> 'k outcome" where
  "send_ticket_response L io client_ip response_body s =
     (case bindR (j_dump L (TicketResponse_Body_ToJson L response_body)) (\<lambda>str.
           bindR (sign_string L (signer_key s) str) (\<lambda>signature.
           j_dump L (TicketResponse_ToJson L \<lparr>rr_body = response_body, rr_signature = signature\<rparr>))) of
        Inl e \<Rightarrow> (s, Some e)
      | Inr str \<Rightarrow>
          if client_ip \<notin> client_ssl_streams s then (s, Some (Exn Out_of_range ''map::at''))
          else if write_fails io then (s, None)
          else (s\<lparr>sent := sent s @ [(client_ip, str @ [newline])]\<rparr>, None))"

definition ticket_response_body_of ::
  "bool \<Rightarrow> (string \<rightharpoonup> string) \<Rightarrow> u32 \<Rightarrow> string \<Rightarrow> u32 \<Rightarrow> ticket_response_body" where
  "ticket_response_body_of approved voter_info voter_id secret pin =
     \<lparr>rb_approved = approved, rb_last_name = info voter_info ''last_name'',
      rb_first_name = info voter_info ''first_name'', rb_middle_name = info voter_info ''middle_name'',
      rb_voter_unique_id = voter_id, rb_pin = pin, rb_secret = secret\<rparr>"

text \<open>The accepted request: status, secret, timer, response.\<close>

definition confirm_checkin ::
  "('j, 'k, 'c) libs \<Rightarrow> io_input \<Rightarrow> endpoint \<Rightarrow> (string \<rightharpoonup> string) \<Rightarrow> u32 \<Rightarrow> ticket_request \<Rightarrow> string
     \<Rightarrow> timer option \<Rightarrow> 'k checkin_service \<Rightarrow> 'k outcome" where
  "confirm_checkin L io client_ip voter_info voter_id request secret t s =
     (let s1 = (if voter_status_table s voter_id = Some PENDING
                then s\<lparr>voter_status_table := (voter_status_table s)(voter_id \<mapsto> CHECKED_IN)\<rparr> else s);
          s2 = s1\<lparr>timer_waits := cancel_wait io t (timer_waits s1)\<rparr>
      in send_ticket_response L io client_ip
           (ticket_response_body_of True voter_info voter_id secret (tb_pin (tr_body request))) s2)"

text \<open>The refusal after the timer check: respond, then record the faults.\<close>

definition refuse_ticket ::
  "('j, 'k, 'c) libs \<Rightarrow> io_input \<Rightarrow> endpoint \<Rightarrow> (string \<rightharpoonup> string) \<Rightarrow> u32 \<Rightarrow> u32 \<Rightarrow> ticket_request
     \<Rightarrow> timer option \<Rightarrow> 'k checkin_service \<Rightarrow> 'k outcome" where
  "refuse_ticket L io client_ip voter_info client_id voter_id request t s =
     (case send_ticket_response L io client_ip
             (ticket_response_body_of False voter_info voter_id [] (tb_pin (tr_body request))) s of
        (s1, Some e) \<Rightarrow> (s1, Some e)
      | (s1, None) \<Rightarrow>
          (let s2 = (if t = None
                     then report io client_id ''No pending ticket for voter (already used, expired, or never issued)'' s1
                     else s1)
           in (report io client_id ''Invalid ticket'' s2, None)))"

definition settle_ticket_request ::
  "('j, 'k, 'c) libs \<Rightarrow> checkin_config \<Rightarrow> io_input \<Rightarrow> endpoint \<Rightarrow> ticket_request \<Rightarrow> u32 \<Rightarrow> u32
     \<Rightarrow> 'k checkin_service \<Rightarrow> 'k outcome" where
  "settle_ticket_request L cfg io client_ip request client_id voter_id s =
     (let voter_info = find_voter (voter_list_file cfg) voter_id; body = tr_body request
      in if to_string (unat (tb_pin body)) \<noteq> info voter_info ''pin'' then
           send_ticket_response L io client_ip
             (ticket_response_body_of False voter_info voter_id [] (tb_pin body)) s
         else
           (let (s1, t, timer_valid) = claim_timer cfg io client_id voter_id s
            in case client_tickets_map s1 (tb_ticket body) of
                 Some (_, secret) \<Rightarrow>
                   if timer_valid then confirm_checkin L io client_ip voter_info voter_id request secret t s1
                   else refuse_ticket L io client_ip voter_info client_id voter_id request t s1
               | None \<Rightarrow> refuse_ticket L io client_ip voter_info client_id voter_id request t s1))"

text \<open>
  \<^verbatim>\<open>handle_trusted_client\<close>: re-read the ticket file, parse, decode, check, settle. No branch
  starts another read on the connection.
\<close>

definition handle_trusted_client ::
  "('j, 'k, 'c) libs \<Rightarrow> checkin_config \<Rightarrow> io_input \<Rightarrow> string \<Rightarrow> endpoint \<Rightarrow> 'k checkin_service \<Rightarrow> 'k outcome"
where
  "handle_trusted_client L cfg io msg_string client_ip s =
     (let s1 = s\<lparr>client_tickets_map := read_from_csv (ticket_file s) (client_tickets_map s)\<rparr>
      in case j_parse L msg_string of
           Inl (Exn x what) \<Rightarrow> if x = Json_parse_error then (s1, None) else (s1, Some (Exn x what))
         | Inl e \<Rightarrow> (s1, Some e)
         | Inr json \<Rightarrow>
        (case TicketRequest_FromJson L json of
           Inl (Exn x what) \<Rightarrow> (report io (cur_client_id s1) what s1, None)
         | Inl e \<Rightarrow> (s1, Some e)
         | Inr request \<Rightarrow>
        (case authenticate_ticket_request L cfg io client_ip request s1 of
           (s2, Inl e) \<Rightarrow> (s2, Some e)
         | (s2, Inr None) \<Rightarrow> (s2, None)
         | (s2, Inr (Some (client_id, voter_id))) \<Rightarrow>
             settle_ticket_request L cfg io client_ip request client_id voter_id s2)))"

section \<open>Dispatch of a message\<close>

text \<open>
  An untrusted client's text that does not parse leaves the JSON value null, and decoding goes on
  with it; an exception of the decoder is not caught.
\<close>

definition decode_checkin_request :: "('j, 'k, 'c) libs \<Rightarrow> string \<Rightarrow> checkin_request result" where
  "decode_checkin_request L msg_string = (case j_parse L msg_string of
       Inl (Exn x what) \<Rightarrow>
         if x = Json_parse_error then CheckinRequest_FromJson L (j_null L) else Inl (Exn x what)
     | Inl e \<Rightarrow> Inl e
     | Inr json \<Rightarrow> CheckinRequest_FromJson L json)"

definition dispatch_message ::
  "('j, 'k, 'c) libs \<Rightarrow> checkin_config \<Rightarrow> io_input \<Rightarrow> string \<Rightarrow> endpoint \<Rightarrow> 'k checkin_service \<Rightarrow> 'k outcome"
where
  "dispatch_message L cfg io msg_string client_ip s = (case client_id_map s client_ip of
       None \<Rightarrow> (report io (cur_client_id s) ''Unknown client IP'' s, None)
     | Some client_id \<Rightarrow>
         (let s1 = s\<lparr>cur_client_id := client_id\<rparr>
          in case clients s1 client_id of
               None \<Rightarrow> (report io client_id ''Unknown client ID'' s1, None)
             | Some client \<Rightarrow>
                 (case ci_type client of
                    TrustedClient \<Rightarrow> handle_trusted_client L cfg io msg_string client_ip s1
                  | UntrustedClient \<Rightarrow>
                      (case decode_checkin_request L msg_string of
                         Inl e \<Rightarrow> (s1, Some e)
                       | Inr request \<Rightarrow> handle_checkin_request L cfg io client_ip request s1))))"

text \<open>
  The completion of the payload read. \<^verbatim>\<open>bytes_read\<close> counts the text up to and including the first
  line break. A size mismatch neither consumes the bytes nor starts another read.
\<close>

definition first_line :: "string \<Rightarrow> string" where
  "first_line buffer = takeWhile (\<lambda>c. c \<noteq> newline) buffer @ [newline]"

definition consume :: "nat \<Rightarrow> endpoint \<Rightarrow> 'k checkin_service \<Rightarrow> 'k checkin_service" where
  "consume n client_ip s = s\<lparr>client_buffers := (client_buffers s)
     (client_ip \<mapsto> drop n (case client_buffers s client_ip of None \<Rightarrow> [] | Some b \<Rightarrow> b))\<rparr>"

definition on_payload_read ::
  "('j, 'k, 'c) libs \<Rightarrow> checkin_config \<Rightarrow> io_input \<Rightarrow> endpoint \<Rightarrow> nat \<Rightarrow> string \<Rightarrow> 'k checkin_service \<Rightarrow> 'k outcome"
where
  "on_payload_read L cfg io client_ip size_of_message line s =
     (if size_of_message = length line - 1 then
        dispatch_message L cfg io line client_ip (consume (length line) client_ip s)
      else
        (report io (cur_client_id s)
           ''Size of the message does not match the size that is received from the server for the client ''
           (s\<lparr>client_sockets := client_sockets s - {client_ip}\<rparr>), None))"

definition on_size_read :: "endpoint \<Rightarrow> string \<Rightarrow> 'k checkin_service \<Rightarrow> 'k outcome" where
  "on_size_read client_ip line s = (case stoul line of
       Inl e \<Rightarrow> (s, Some e)
     | Inr message_size \<Rightarrow> start_payload_read client_ip message_size (consume (length line) client_ip s))"

text \<open>A read that completes with a line, and a read that completes with an error.\<close>

definition on_read ::
  "('j, 'k, 'c) libs \<Rightarrow> checkin_config \<Rightarrow> io_input \<Rightarrow> endpoint \<Rightarrow> pending_read \<Rightarrow> string \<Rightarrow> 'k checkin_service \<Rightarrow> 'k outcome"
where
  "on_read L cfg io client_ip r line s =
     (let s1 = s\<lparr>pending_reads := (pending_reads s)(client_ip := None)\<rparr>
      in case r of
           Size_read \<Rightarrow> on_size_read client_ip line s1
         | Payload_read n \<Rightarrow> on_payload_read L cfg io client_ip n line s1)"

definition on_read_error ::
  "io_input \<Rightarrow> endpoint \<Rightarrow> pending_read \<Rightarrow> io_error \<Rightarrow> 'k checkin_service \<Rightarrow> 'k checkin_service" where
  "on_read_error io client_ip r err s =
     (let s1 = s\<lparr>pending_reads := (pending_reads s)(client_ip := None)\<rparr>
      in if err = Eof \<or> err = Connection_aborted
         then s1\<lparr>client_sockets := client_sockets s1 - {client_ip}\<rparr>
         else (case r of
             Size_read \<Rightarrow> s1
           | Payload_read _ \<Rightarrow> report io (cur_client_id s1)
               ''Size of the message does not match the size that is received from the server for the client '' s1))"

section \<open>Accepting connections\<close>

definition do_accept :: "'k checkin_service \<Rightarrow> 'k checkin_service" where
  "do_accept s = s\<lparr>accept_pending := True\<rparr>"

text \<open>
  The accept completes: with an error (\<open>None\<close>) nothing more happens, otherwise the handshake
  starts. No accept is pending until the handshake completes.
\<close>

definition handle_accept :: "endpoint option \<Rightarrow> 'k checkin_service \<Rightarrow> 'k checkin_service" where
  "handle_accept peer s = (case peer of
       None \<Rightarrow> s\<lparr>accept_pending := False\<rparr>
     | Some client_ip \<Rightarrow>
         s\<lparr>accept_pending := False, handshakes := insert client_ip (handshakes s)\<rparr>)"

record 'k certificate =
  cert_common_name :: "string option"
  cert_public_key :: "'k option"

text \<open>
  The log entry about a changed key renders both keys as PEM text first, which may throw.
\<close>

definition register_key ::
  "('j, 'k, 'c) libs \<Rightarrow> checkin_config \<Rightarrow> io_input \<Rightarrow> u32 \<Rightarrow> 'k \<Rightarrow> 'k checkin_service \<Rightarrow> 'k checkin_service result" where
  "register_key L cfg io client_id envelope_key s = (case client_public_keys s client_id of
       Some old_key \<Rightarrow>
         if \<not> EnvelopeKey_eq L old_key envelope_key
         then bindR (to_pem_public_string L old_key) (\<lambda>_. bindR (to_pem_public_string L envelope_key) (\<lambda>_.
                Inr (report io client_id ''Public key mismatch for client ID'' s)))
         else Inr (s\<lparr>client_verifiers := emplace client_id envelope_key (client_verifiers s)\<rparr>)
     | None \<Rightarrow>
         (let s1 = save_pub_key L cfg io envelope_key client_id
                     (s\<lparr>client_public_keys := (client_public_keys s)(client_id \<mapsto> envelope_key)\<rparr>)
          in Inr (s1\<lparr>client_verifiers := emplace client_id envelope_key (client_verifiers s1)\<rparr>)))"

definition register_client :: "u32 \<Rightarrow> 'k checkin_service \<Rightarrow> 'k checkin_service" where
  "register_client client_id s =
     (if clients s client_id = None
      then add_client client_id (if client_id \<in> trusted_clients s then TrustedClient else UntrustedClient) s
      else s)"

definition register_peer ::
  "('j, 'k, 'c) libs \<Rightarrow> checkin_config \<Rightarrow> io_input \<Rightarrow> endpoint \<Rightarrow> 'k certificate option \<Rightarrow> 'k checkin_service
     \<Rightarrow> 'k checkin_service result" where
  "register_peer L cfg io client_ip cert s = (case cert of
       None \<Rightarrow> Inr s
     | Some crt \<Rightarrow> bindR (get_client_id_from_cert (cert_common_name crt)) (\<lambda>client_id.
         let s1 = s\<lparr>client_id_map := (client_id_map s)(client_ip \<mapsto> client_id)\<rparr>
         in case cert_public_key crt of
              None \<Rightarrow> Inr s1
            | Some k \<Rightarrow> bindR (register_key L cfg io client_id k s1) (\<lambda>s2. Inr (register_client client_id s2))))"

definition on_handshake ::
  "('j, 'k, 'c) libs \<Rightarrow> checkin_config \<Rightarrow> io_input \<Rightarrow> endpoint \<Rightarrow> 'k certificate option \<Rightarrow> 'k checkin_service
     \<Rightarrow> 'k outcome" where
  "on_handshake L cfg io client_ip cert s =
     (case register_peer L cfg io client_ip cert s of
        Inl e \<Rightarrow> (s, Some e)
      | Inr s2 \<Rightarrow>
          (case start_size_read client_ip
                  (s2\<lparr>client_ssl_streams := insert client_ip (client_ssl_streams s2)\<rparr>) of
             (s3, Some e) \<Rightarrow> (s3, Some e)
           | (s3, None) \<Rightarrow> (do_accept s3, None)))"

definition on_handshake_error :: "io_input \<Rightarrow> string \<Rightarrow> 'k checkin_service \<Rightarrow> 'k checkin_service" where
  "on_handshake_error io message s = do_accept (report io (cur_client_id s) message s)"

section \<open>Start-up\<close>

text \<open>
  \<^verbatim>\<open>load_client_public_keys\<close>: each file of the key folder is read, its name gives the client
  number. An OpenSSL error ends the loading and is caught; any other exception leaves the
  constructor; erasing at the \<^verbatim>\<open>npos\<close> of \<^verbatim>\<open>std::string::find\<close> throws.
\<close>

definition drop_extension :: "string \<Rightarrow> string" where
  "drop_extension name =
     (if CHR ''.'' \<in> set name then butlast (rev (dropWhile (\<lambda>c. c \<noteq> CHR ''.'') (rev name))) else name)"

definition client_id_of_file :: "checkin_config \<Rightarrow> string \<Rightarrow> u32 result" where
  "client_id_of_file cfg key_file_name =
     (let key_file_no_ext = drop_extension key_file_name; prefix = client_key_file_prefix cfg
      in case find_sub prefix key_file_no_ext of
           None \<Rightarrow> Inl (Exn Out_of_range ''basic_string::erase'')
         | Some i \<Rightarrow>
             bindR (stoul (take i key_file_no_ext @ drop (i + length prefix) key_file_no_ext)) (\<lambda>n. Inr (of_nat n)))"

fun load_key_entries ::
  "checkin_config \<Rightarrow> (string \<times> 'k result) list \<Rightarrow> 'k checkin_service \<Rightarrow> ('k checkin_service \<times> bool) result" where
  "load_key_entries cfg [] s = Inr (s, True)"
| "load_key_entries cfg ((name, read) # entries) s = (case read of
       Inl (Exn x what) \<Rightarrow> if x = Openssl_error then Inr (s, False) else Inl (Exn x what)
     | Inl e \<Rightarrow> Inl e
     | Inr key \<Rightarrow> bindR (client_id_of_file cfg name) (\<lambda>client_id.
         load_key_entries cfg entries
           (s\<lparr>client_verifiers := emplace client_id key (client_verifiers s),
              client_public_keys := emplace client_id key (client_public_keys s)\<rparr>)))"

definition load_client_public_keys ::
  "('j, 'k, 'c) libs \<Rightarrow> checkin_config \<Rightarrow> string list \<Rightarrow> 'k checkin_service \<Rightarrow> ('k checkin_service \<times> bool) result"
where
  "load_client_public_keys L cfg names s =
     load_key_entries cfg
       (map (\<lambda>name. (name, from_pem_public L (key_files s) (client_keys_folder cfg @ ''/'' @ name))) names) s"

text \<open>
  The constructor and the first accept of \<^verbatim>\<open>run\<close>: the two keys, the names in the key folder, the
  files found on disk and the uninitialised member \<^verbatim>\<open>client_id\<close> are given.
\<close>

definition blank_service :: "'k \<Rightarrow> 'k \<Rightarrow> u32 \<Rightarrow> string option \<Rightarrow> file_system \<Rightarrow> 'k checkin_service" where
  "blank_service id_key own_key garbage tickets fs =
     \<lparr>clients = Map.empty, client_sockets = {}, client_ssl_streams = {}, trusted_clients = {},
      client_buffers = Map.empty, client_verifiers = Map.empty, id_service_verifier = id_key,
      client_tickets_map = Map.empty, client_public_keys = Map.empty, signer_key = own_key,
      voter_status_table = Map.empty, cur_client_id = garbage, client_id_map = Map.empty,
      request_timers = Map.empty, pin_to_voter_id = Map.empty, timer_waits = [],
      pending_reads = Map.empty, accept_pending = False, handshakes = {}, faults = [], ticket_file = tickets,
      key_files = fs, sent = []\<rparr>"

definition CheckinService ::
  "('j, 'k, 'c) libs \<Rightarrow> checkin_config \<Rightarrow> string list \<Rightarrow> 'k checkin_service \<Rightarrow> 'k checkin_service result" where
  "CheckinService L cfg names s =
     bindR (load_voter_list (voter_list_path cfg) (voter_list_file cfg) (voter_status_table s)) (\<lambda>tbl.
     bindR (load_trusted_clients (trusted_clients_path cfg) (trusted_clients_file cfg)) (\<lambda>trusted.
     bindR (load_client_public_keys L cfg names
              (s\<lparr>voter_status_table := tbl, trusted_clients := trusted,
                 pin_to_voter_id := load_pin_mappings (voter_list_file cfg) (pin_to_voter_id s)\<rparr>))
       (\<lambda>(s', _). Inr s')))"

definition run :: "'k checkin_service \<Rightarrow> 'k checkin_service" where
  "run s = do_accept s"


section \<open>What the operations leave alone\<close>

text \<open>
  The part of the state the check-in protocol is about: the status table, the timers and the
  waits in flight; and the tickets in memory and on disk.
\<close>

definition voting :: "'k checkin_service \<Rightarrow> status_table \<times> (u32 \<rightharpoonup> timer) \<times> timer list" where
  "voting s = (voter_status_table s, request_timers s, timer_waits s)"

definition ticketing :: "'k checkin_service \<Rightarrow> ticket_map \<times> string option" where
  "ticketing s = (client_tickets_map s, ticket_file s)"

lemmas service_state_defs = voting_def ticketing_def

lemma voting_updates [service_frame]:
  "voting (s\<lparr>clients := a1\<rparr>) = voting s" "voting (s\<lparr>client_sockets := a2\<rparr>) = voting s"
  "voting (s\<lparr>client_ssl_streams := a2\<rparr>) = voting s" "voting (s\<lparr>client_buffers := a3\<rparr>) = voting s"
  "voting (s\<lparr>client_verifiers := a4\<rparr>) = voting s" "voting (s\<lparr>client_public_keys := a4\<rparr>) = voting s"
  "voting (s\<lparr>client_tickets_map := a5\<rparr>) = voting s" "voting (s\<lparr>ticket_file := a6\<rparr>) = voting s"
  "voting (s\<lparr>cur_client_id := a7\<rparr>) = voting s" "voting (s\<lparr>client_id_map := a8\<rparr>) = voting s"
  "voting (s\<lparr>pending_reads := a9\<rparr>) = voting s" "voting (s\<lparr>accept_pending := b1\<rparr>) = voting s"
  "voting (s\<lparr>handshakes := b2\<rparr>) = voting s" "voting (s\<lparr>faults := b3\<rparr>) = voting s"
  "voting (s\<lparr>key_files := b4\<rparr>) = voting s" "voting (s\<lparr>sent := b5\<rparr>) = voting s"
  by (simp_all add: voting_def)

lemma ticketing_updates [service_frame]:
  "ticketing (s\<lparr>client_verifiers := a4\<rparr>) = ticketing s" "ticketing (s\<lparr>client_public_keys := a4\<rparr>) = ticketing s"
  "ticketing (s\<lparr>client_buffers := a3\<rparr>) = ticketing s"
  "ticketing (s\<lparr>cur_client_id := a7\<rparr>) = ticketing s" "ticketing (s\<lparr>client_id_map := a8\<rparr>) = ticketing s"
  "ticketing (s\<lparr>pending_reads := a9\<rparr>) = ticketing s" "ticketing (s\<lparr>faults := b3\<rparr>) = ticketing s"
  "ticketing (s\<lparr>voter_status_table := b6\<rparr>) = ticketing s" "ticketing (s\<lparr>request_timers := b7\<rparr>) = ticketing s"
  "ticketing (s\<lparr>timer_waits := b8\<rparr>) = ticketing s" "ticketing (s\<lparr>sent := b5\<rparr>) = ticketing s"
  by (simp_all add: ticketing_def)

lemma voting_eqD:
  assumes "voting s' = voting s"
  shows "voter_status_table s' = voter_status_table s" "request_timers s' = request_timers s"
    "timer_waits s' = timer_waits s"
  using assms by (simp_all add: voting_def)

lemma report_frame [service_frame]:
  "voting (report io c d s) = voting s" "ticketing (report io c d s) = ticketing s"
  "client_verifiers (report io c d s) = client_verifiers s"
  "client_ssl_streams (report io c d s) = client_ssl_streams s"
  "id_service_verifier (report io c d s) = id_service_verifier s"
  "signer_key (report io c d s) = signer_key s"
  "sent (report io c d s) = sent s"
  "client_id_map (report io c d s) = client_id_map s"
  by (simp_all add: report_def service_frame)

lemma load_client_public_key_frame [service_frame]:
  "voting (fst (load_client_public_key L cfg c s)) = voting s"
  "ticketing (fst (load_client_public_key L cfg c s)) = ticketing s"
  "sent (fst (load_client_public_key L cfg c s)) = sent s"
  "client_ssl_streams (fst (load_client_public_key L cfg c s)) = client_ssl_streams s"
  by (simp_all add: load_client_public_key_def service_frame split: sum.splits)

lemma start_read_frame [service_frame]:
  "voting (fst (start_read r ip s)) = voting s"
  "ticketing (fst (start_read r ip s)) = ticketing s"
  "sent (fst (start_read r ip s)) = sent s"
  by (simp_all add: start_read_def Let_def service_frame)

lemma validate_client_request_frame [service_frame]:
  "voting (fst (validate_client_request L cfg io r now s)) = voting s"
  "ticketing (fst (validate_client_request L cfg io r now s)) = ticketing s"
  "sent (fst (validate_client_request L cfg io r now s)) = sent s"
  by (simp_all add: validate_client_request_def Let_def service_frame split: sum.splits option.splits)

lemma send_checkin_response_frame [service_frame]:
  "voting (fst (send_checkin_response L io ip body s)) = voting s"
  "ticketing (fst (send_checkin_response L io ip body s)) = ticketing s"
  by (simp_all add: send_checkin_response_def start_size_read_def service_frame split: sum.splits)

lemma send_ticket_response_frame [service_frame]:
  "voting (fst (send_ticket_response L io ip body s)) = voting s"
  "ticketing (fst (send_ticket_response L io ip body s)) = ticketing s"
  by (simp_all add: send_ticket_response_def service_frame split: sum.splits)

lemma key_in_memory_frame:
  assumes "(if client_verifiers s c = None then load_client_public_key L cfg c s else (s, True)) = (s', b)"
  shows "voting s' = voting s" "ticketing s' = ticketing s" "sent s' = sent s"
    "client_ssl_streams s' = client_ssl_streams s"
  using assms load_client_public_key_frame [of L cfg c s] by (auto split: if_splits)

end
