(* ===== verification/Checkin_Behaviour.thy ===== *)
theory Checkin_Behaviour
  imports Checkin_Service
begin

text \<open>
  The behaviour of the check-in service's message handlers, branch by branch: for each handler a
  case rule whose cases say under which conditions the status table, the timers, the tickets and
  the sent messages change, and how. The conditions are stated as predicates of their own
  (\<open>request_valid\<close>, \<open>ticket_authentic\<close>, \<open>pin_matches\<close>, \<open>in_window\<close>, \<open>confirms\<close>).
\<close>

section \<open>Changes that neither touch votes nor tickets\<close>

definition quiet :: "'k checkin_service \<Rightarrow> 'k checkin_service \<Rightarrow> bool" where
  "quiet s s' \<longleftrightarrow> voting s' = voting s \<and> ticketing s' = ticketing s"

lemma quiet_refl [simp, intro]: "quiet s s"
  by (simp add: quiet_def)

lemma quiet_trans [trans]: "quiet s s' \<Longrightarrow> quiet s' s'' \<Longrightarrow> quiet s s''"
  by (simp add: quiet_def)

lemma quiet_report [simp]: "quiet s (report io c d s') = quiet s s'"
  by (simp add: quiet_def service_frame)

lemma quiet_send_ticket_response [simp]:
  "quiet s (fst (send_ticket_response L io ip body s')) = quiet s s'"
  by (simp add: quiet_def service_frame)

lemma quiet_send_checkin_response [simp]:
  "quiet s (fst (send_checkin_response L io ip body s')) = quiet s s'"
  by (simp add: quiet_def service_frame)

lemma quiet_client_id_map [simp]: "quiet s (s'\<lparr>client_id_map := m\<rparr>) = quiet s s'"
  by (simp add: quiet_def service_frame)

lemma quiet_refuse_ticket [simp]:
  "quiet s (fst (refuse_ticket L io ip vi c v r t s')) = quiet s s'"
proof -
  obtain s1 e where st: "send_ticket_response L io ip
      (ticket_response_body_of False vi v [] (tb_pin (tr_body r))) s' = (s1, e)" by fastforce
  then have "quiet s s1 = quiet s s'" using quiet_send_ticket_response [of s L io ip _ s'] by (metis fst_conv)
  then show ?thesis by (simp add: refuse_ticket_def st Let_def split: option.split)
qed

section \<open>Freshness of timestamps\<close>

text \<open>
  The freshness test in terms of the distance of the two timestamps: it is undefined at a distance
  of exactly \<open>2 ^ 63\<close>, exact below, and above it measures the distance the other way round.
\<close>

lemma uint64_bounds: "0 \<le> uint (w :: 64 word)" "uint w < 18446744073709551616"
  using uint_lt2p [of w] by simp_all

lemma power_numeral_64: "(2 :: int) ^ 64 = 18446744073709551616"
  by simp

lemma sint_word64: "sint (w :: 64 word) = (if uint w < 2 ^ 63 then uint w else uint w - 2 ^ 64)"
proof (cases "uint w < 2 ^ 63")
  case True
  have "- (2 ^ 63) \<le> uint w" by (rule order_trans [OF _ uint64_bounds(1)]) simp
  with True show ?thesis by (simp add: sint_uint signed_take_bit_int_eq_self)
next
  case False
  then have "(uint w + 2 ^ 63) mod 2 ^ 64 = uint w - 2 ^ 63"
    using uint64_bounds [of w] mod_add_self2 [of "uint w - 2 ^ 63" "2 ^ 64"]
    by (simp add: add.commute)
  with False show ?thesis by (simp add: sint_uint signed_take_bit_eq_take_bit_shift take_bit_eq_mod)
qed

lemma uint_time_difference: "uint (time_difference now ts) = \<bar>uint now - uint ts\<bar>"
  by (simp add: time_difference_def word_less_alt uint_sub_if')

lemma std_abs64_eq:
  "std_abs64 x = (if uint x = 2 ^ 63 then Inl UB else Inr (if uint x < 2 ^ 63 then x else - x))"
  using uint64_bounds [of x] by (auto simp: std_abs64_def sint_word64 word_eq_iff_unsigned [where 'a = int])

lemma sint_minus_big: "2 ^ 63 < uint (x :: 64 word) \<Longrightarrow> sint (- x) = 2 ^ 64 - uint x"
  using uint64_bounds [of x] by (simp add: sint_word64 uint_word_ariths(4) zmod_zminus1_eq_if)

lemma is_stale_eq:
  "is_stale interval now ts =
     (let d = \<bar>uint now - uint ts\<bar> in
      if d = 2 ^ 63 then Inl UB
      else Inr (uint interval < (if d < 2 ^ 63 then d else 2 ^ 64 - d)))"
  unfolding is_stale_def std_abs64_eq uint_time_difference [symmetric] Let_def
  using sint_minus_big [of "time_difference now ts"] by (auto simp: sint_word64 [of "time_difference now ts"])

lemma is_stale_iff:
  assumes "uint interval \<le> uint now" "uint now + uint interval < 2 ^ 64" "\<bar>uint now - uint ts\<bar> \<noteq> 2 ^ 63"
  shows "is_stale interval now ts = Inr (uint interval < \<bar>uint now - uint ts\<bar>)"
proof (cases "\<bar>uint now - uint ts\<bar> < 2 ^ 63")
  case False
  have "uint interval < 2 ^ 63" using uint_lt2p [of interval] by simp
  moreover have "uint interval < 2 ^ 64 - \<bar>uint now - uint ts\<bar>"
    using uint64_bounds [of ts] uint64_bounds [of now] assms(1,2) [simplified] by (simp only: power_numeral_64)
  ultimately show ?thesis using False assms(3) by (simp add: is_stale_eq)
qed (simp add: is_stale_eq assms(3))

section \<open>Check-in requests\<close>

text \<open>The key a client's signatures are checked with: the one in memory, else the one on file.\<close>

definition client_key :: "('j, 'k, 'c) libs \<Rightarrow> checkin_config \<Rightarrow> 'k checkin_service \<Rightarrow> u32 \<Rightarrow> 'k option" where
  "client_key L cfg s c = (case client_verifiers s c of
       Some key \<Rightarrow> Some key
     | None \<Rightarrow> (case from_pem_public L (key_files s) (key_file_path cfg c) of
           Inl _ \<Rightarrow> None
         | Inr key \<Rightarrow> Some key))"

lemma client_key_cong:
  "client_verifiers s = client_verifiers s' \<Longrightarrow> key_files s = key_files s' \<Longrightarrow>
     client_key L cfg s c = client_key L cfg s' c"
  unfolding client_key_def by presburger

lemma key_in_memory:
  assumes "(if client_verifiers s c = None then load_client_public_key L cfg c s else (s, True)) = (s', loaded)"
  shows "client_verifiers s' c = client_key L cfg s c" "loaded = (client_key L cfg s c \<noteq> None)"
    "id_service_verifier s' = id_service_verifier s" "signer_key s' = signer_key s"
  using assms
  by (auto simp: client_key_def load_client_public_key_def split: if_splits sum.splits option.splits)

text \<open>The conditions under which a check-in request is valid.\<close>

definition request_valid ::
  "('j, 'k, 'c) libs \<Rightarrow> checkin_config \<Rightarrow> 'k checkin_service \<Rightarrow> checkin_request \<Rightarrow> u64 \<Rightarrow> bool" where
  "request_valid L cfg s request now \<longleftrightarrow>
     (let body = cr_body request; idm = cb_verified_id_message body in
      (case client_key L cfg s (cb_client_id_num body) of
         None \<Rightarrow> False
       | Some key \<Rightarrow> bindR (j_dump L (CheckinRequest_Body_ToJson L body))
           (\<lambda>str. verify_string L key str (cr_client_signature request)) = Inr True) \<and>
      bindR (j_dump L (id_statement_json L (vv_presented_id idm) (vv_voter_unique_id idm)))
        (\<lambda>msg. verify_string L (id_service_verifier s) msg (vv_id_service_signature idm)) = Inr True \<and>
      cb_voter_unique_id body = vv_voter_unique_id idm \<and>
      is_stale (request_freshness_interval cfg) now (cb_timestamp body) = Inr False)"

lemma request_valid_cong:
  "client_verifiers s = client_verifiers s' \<Longrightarrow> key_files s = key_files s' \<Longrightarrow>
     id_service_verifier s = id_service_verifier s' \<Longrightarrow>
     request_valid L cfg s r now = request_valid L cfg s' r now"
  using client_key_cong [of s s' L cfg] by (simp add: request_valid_def Let_def)

lemma validate_client_request_iff:
  assumes "client_verifiers s (cb_client_id_num (cr_body r)) \<noteq> None"
  shows "snd (validate_client_request L cfg io r now s) = Inr True \<longleftrightarrow> request_valid L cfg s r now"
  using assms
  by (auto simp: validate_client_request_def request_valid_def client_key_def Let_def result_simps
      split: sum.split option.split)

lemma request_valid_loaded:
  assumes "(if client_verifiers s (cb_client_id_num (cr_body r)) = None
            then load_client_public_key L cfg (cb_client_id_num (cr_body r)) s else (s, True)) = (s', True)"
  shows "request_valid L cfg s' r now = request_valid L cfg s r now"
  using key_in_memory [OF assms] by (auto simp: request_valid_def Let_def client_key_def [of L cfg s'])

lemma validate_client_request_True:
  "validate_client_request L cfg io r now s = (s', Inr True) \<Longrightarrow> s' = s"
  by (auto simp: validate_client_request_def Let_def split: sum.splits option.splits if_splits)

lemma quiet_validate_client_request:
  "validate_client_request L cfg io r now s = (s', x) \<Longrightarrow> quiet s s'"
  using validate_client_request_frame [of L cfg io r now s] by (simp add: quiet_def)

lemma decide_checkin_cases:
  assumes "decide_checkin L cfg io ok r now s = (s', res)"
  obtains (reject) "quiet s s'" "res \<noteq> Inr (Some True)"
  | (accept) s1 where "ok" "quiet s s1" "request_valid L cfg s r now"
      "voter_status_table s (cb_voter_unique_id (cr_body r)) = Some ELIGIBLE"
      "s' = fst (admit_voter cfg io (cb_voter_unique_id (cr_body r)) s1)" "res = Inr (Some True)"
proof -
  let ?c = "cb_client_id_num (cr_body r)" and ?v = "cb_voter_unique_id (cr_body r)"
  obtain s1 loaded where
    ld: "(if client_verifiers s ?c = None then load_client_public_key L cfg ?c s else (s, True)) = (s1, loaded)"
    by fastforce
  have q1: "quiet s s1" using key_in_memory_frame [OF ld] by (simp add: quiet_def)
  obtain s2 x where va: "validate_client_request L cfg io r now s1 = (s2, x)" by fastforce
  have q2: "quiet s s2" using q1 quiet_validate_client_request [OF va] by (rule quiet_trans)
  note eq = assms [unfolded decide_checkin_def Let_def ld prod.case va]
  show ?thesis
  proof (cases "ok \<and> loaded \<and> x = Inr True \<and> voter_status_table s2 ?v = Some ELIGIBLE")
    case True
    with va have [simp]: "s2 = s1" by (auto dest: validate_client_request_True)
    have ld': "(if client_verifiers s ?c = None then load_client_public_key L cfg ?c s else (s, True)) = (s1, True)"
      using ld True by simp
    have "request_valid L cfg s r now"
      using True va validate_client_request_iff [of s1 r L cfg io now] key_in_memory [OF ld']
        request_valid_loaded [OF ld'] by auto
    moreover have "voter_status_table s ?v = Some ELIGIBLE"
      using True q2 by (simp add: quiet_def voting_def)
    ultimately show ?thesis using eq True q1 by (intro accept) (auto simp: admit_voter_def)
  next
    case False
    with eq q1 q2 have "quiet s s' \<and> res \<noteq> Inr (Some True)"
      by (auto simp: admit_voter_def split: if_splits sum.splits)
    then show ?thesis by (intro reject) auto
  qed
qed

lemma admit_voter_cong:
  assumes "quiet s s1"
  shows "voting (fst (admit_voter cfg io v s1)) = voting (fst (admit_voter cfg io v s))"
    "ticketing (fst (admit_voter cfg io v s1)) = ticketing s"
  using assms by (simp_all add: quiet_def admit_voter_def start_timer_def Let_def voting_def ticketing_def)

lemma issue_ticket_voting: "voting (fst (issue_ticket io accept v s)) = voting s"
  by (simp add: issue_ticket_def service_frame split: sum.split prod.split)

lemma issue_ticket_False: "issue_ticket io False v s = (s, Inr [])"
  by (simp add: issue_ticket_def)

lemma issue_ticket_True:
  assumes "issue_ticket io True v s = (s', x)"
  obtains (issued) ticket secret where
      "generate_secret (rand_ticket io) = Inr ticket" "generate_secret (rand_secret io) = Inr secret"
      "x = Inr ticket"
      "ticketing s' = ((client_tickets_map s)(ticket \<mapsto> (v, secret)),
                       write_to_csv (csv_opens io) ticket secret v (ticket_file s))"
  | (no_randomness) e where "x = Inl e" "s' = s"
  using assms that by (auto simp: issue_ticket_def ticketing_def result_simps split: sum.splits prod.splits)

lemma handle_checkin_request_cases:
  assumes "handle_checkin_request L cfg io ip r s = (s', e)"
  obtains (reject) "quiet s s'"
  | (accept) "client_id_map s ip = Some (cb_client_id_num (cr_body r)) \<or>
        client_id_map s ip = None \<and> cb_client_id_num (cr_body r) = 0"
      "request_valid L cfg s r (now_ms io)"
      "voter_status_table s (cb_voter_unique_id (cr_body r)) = Some ELIGIBLE"
      "voting s' = voting (fst (admit_voter cfg io (cb_voter_unique_id (cr_body r)) s))"
      "ticketing s' = ticketing s \<and> e \<noteq> None \<or>
       (\<exists>ticket secret. generate_secret (rand_ticket io) = Inr ticket \<and>
          generate_secret (rand_secret io) = Inr secret \<and>
          ticketing s' = ((client_tickets_map s)(ticket \<mapsto> (cb_voter_unique_id (cr_body r), secret)),
             write_to_csv (csv_opens io) ticket secret (cb_voter_unique_id (cr_body r)) (ticket_file s)))"
proof -
  let ?v = "cb_voter_unique_id (cr_body r)"
  obtain id_map c where sub: "subscript 0 ip (client_id_map s) = (id_map, c)" by fastforce
  let ?ok = "cb_client_id_num (cr_body r) = c"
  define s2 where "s2 = (if ?ok then s\<lparr>client_id_map := id_map\<rparr> else
     report io c ''Claimed client_id_num does not match TLS-authenticated client identity'' (s\<lparr>client_id_map := id_map\<rparr>))"
  have q2: "quiet s s2" by (simp add: s2_def)
  obtain s3 res where de: "decide_checkin L cfg io ?ok r (now_ms io) s2 = (s3, res)" by fastforce
  note eq = assms [unfolded handle_checkin_request_def Let_def sub prod.case, folded s2_def, unfolded de prod.case]
  from de show ?thesis
  proof (cases rule: decide_checkin_cases)
    case reject
    have "quiet s s3" using q2 reject(1) by (rule quiet_trans)
    with eq q2 reject(2) have "quiet s s'"
      by (auto simp: issue_ticket_False split: sum.splits option.splits bool.splits
          dest!: arg_cong [where f = fst, symmetric])
    then show ?thesis by (rule that(1))
  next
    case (accept s1)
    have q1: "quiet s s1" using q2 accept(2) by (rule quiet_trans)
    obtain s4 x where iss: "issue_ticket io True ?v s3 = (s4, x)" by fastforce
    have s3: "voting s3 = voting (fst (admit_voter cfg io ?v s))" "ticketing s3 = ticketing s"
      using accept(5) admit_voter_cong [OF q1] by simp_all
    have v4: "voting s4 = voting s3" using issue_ticket_voting [of io True ?v s3] iss by simp
    have el: "voter_status_table s ?v = Some ELIGIBLE" using accept(4) q2 by (simp add: quiet_def voting_def)
    have ci: "client_id_map s ip = Some (cb_client_id_num (cr_body r)) \<or>
        client_id_map s ip = None \<and> cb_client_id_num (cr_body r) = 0"
      using sub accept(1) by (auto simp: subscript_def split: option.splits)
    have rv: "request_valid L cfg s r (now_ms io)"
      using accept(3) by (subst request_valid_cong [of s s2]) (simp_all add: s2_def report_def)
    show ?thesis
    proof (cases "bindR (j_dump L (CheckinRequest_Body_ToJson L (cr_body r)))
                    (\<lambda>_. j_dump L (CheckinRequest_ToJson L r))")
      case (Inl err)
      with eq q2 show ?thesis by (intro that(1)) simp
    next
      case (Inr b)
      note eq' = eq [unfolded Inr accept(6) sum.case option.case iss prod.case]
      from iss show ?thesis
      proof (cases rule: issue_ticket_True)
        case (issued ticket secret)
        with eq' have "voting s' = voting s4" "ticketing s' = ticketing s4"
          using send_checkin_response_frame [of L io ip _ s4] by (auto dest!: arg_cong [where f = fst, symmetric])
        with issued s3 v4 show ?thesis
          by (intro that(2) [OF ci rv el]) (auto simp: ticketing_def)
      next
        case (no_randomness err)
        with eq' s3 show ?thesis by (intro that(2) [OF ci rv el]) auto
      qed
    qed
  qed
qed

section \<open>Ticket requests\<close>

text \<open>The conditions of a ticket request before its PIN and its timer are looked at.\<close>

definition ticket_authentic ::
  "('j, 'k, 'c) libs \<Rightarrow> checkin_config \<Rightarrow> io_input \<Rightarrow> endpoint \<Rightarrow> ticket_request \<Rightarrow> u32 \<Rightarrow> 'k checkin_service \<Rightarrow> bool"
where
  "ticket_authentic L cfg io ip request voter_id s \<longleftrightarrow>
     (let body = tr_body request in
      (client_id_map s ip = Some (tb_client_id body) \<or> client_id_map s ip = None \<and> tb_client_id body = 0) \<and>
      map_option fst (client_tickets_map s (tb_ticket body)) = Some voter_id \<and>
      (case client_key L cfg s (tb_client_id body) of
         None \<Rightarrow> False
       | Some key \<Rightarrow> bindR (j_dump L (TicketRequest_Body_ToJson L body))
           (\<lambda>str. verify_string L key str (tr_signature request)) = Inr True) \<and>
      is_stale (request_freshness_interval cfg) (now_ms io) (tb_timestamp body) = Inr False)"

lemma authenticate_ticket_request_quiet:
  assumes "authenticate_ticket_request L cfg io ip r s = (s', x)"
  shows "quiet s s'" "x = Inr (Some (c', v)) \<Longrightarrow> c' = tb_client_id (tr_body r) \<and> ticket_authentic L cfg io ip r v s"
proof -
  let ?c = "tb_client_id (tr_body r)"
  obtain id_map c where sub: "subscript 0 ip (client_id_map s) = (id_map, c)" by fastforce
  let ?s1 = "s\<lparr>client_id_map := id_map\<rparr>"
  obtain s2 loaded where
    ld: "(if client_verifiers ?s1 ?c = None then load_client_public_key L cfg ?c ?s1 else (?s1, True)) = (s2, loaded)"
    by fastforce
  note fr = key_in_memory_frame [OF ld] 
  have q: "quiet s s2" using fr by (simp add: quiet_def service_frame)
  note eq = assms [unfolded authenticate_ticket_request_def Let_def sub prod.case ld]
  show "quiet s s'"
    using eq q by (auto split: if_splits sum.splits option.splits)
  assume x: "x = Inr (Some (c', v))"
  have ci: "?c = c \<Longrightarrow> client_id_map s ip = Some ?c \<or> client_id_map s ip = None \<and> ?c = 0"
    using sub by (auto simp: subscript_def split: option.splits)
  have "client_key L cfg ?s1 ?c = client_key L cfg s ?c" by (rule client_key_cong) simp_all
  with eq x ci show "c' = ?c \<and> ticket_authentic L cfg io ip r v s"
    using key_in_memory [OF ld]
    by (auto simp: ticket_authentic_def Let_def result_simps split: if_splits sum.splits option.splits)
qed

lemma claim_timer_cases:
  assumes "claim_timer cfg io c v s = (s', t, valid)"
  obtains (in_window) tm where "request_timers s v = Some tm" "t = Some tm" "valid"
      "timer_expiry tm - minutes (sint (timeout_interval cfg)) \<le> steady_now io" "steady_now io \<le> timer_expiry tm"
      "s' = s\<lparr>request_timers := (request_timers s)(v := None)\<rparr>"
  | (refused) "\<not> valid" "quiet s s'" "client_ssl_streams s' = client_ssl_streams s" "signer_key s' = signer_key s" "sent s' = sent s"
  using assms that by (auto simp: claim_timer_def Let_def service_frame split: option.splits if_splits)


text \<open>
  A ticket request is confirmed when the PIN is the voter's and the request falls in the window of
  the voter's timer.
\<close>

definition pin_matches :: "checkin_config \<Rightarrow> ticket_request \<Rightarrow> u32 \<Rightarrow> bool" where
  "pin_matches cfg request voter_id \<longleftrightarrow>
     to_string (unat (tb_pin (tr_body request))) = info (find_voter (voter_list_file cfg) voter_id) ''pin''"

definition in_window :: "checkin_config \<Rightarrow> io_input \<Rightarrow> timer \<Rightarrow> bool" where
  "in_window cfg io t \<longleftrightarrow>
     timer_expiry t - minutes (sint (timeout_interval cfg)) \<le> steady_now io \<and> steady_now io \<le> timer_expiry t"

definition confirmed :: "io_input \<Rightarrow> u32 \<Rightarrow> timer \<Rightarrow> 'k checkin_service \<Rightarrow> 'k checkin_service" where
  "confirmed io v t s = s\<lparr>request_timers := (request_timers s)(v := None),
     voter_status_table := (if voter_status_table s v = Some PENDING
       then (voter_status_table s)(v \<mapsto> CHECKED_IN) else voter_status_table s),
     timer_waits := cancel_wait io (Some t) (timer_waits s)\<rparr>"

lemma confirm_checkin_eq:
  assumes "claim_timer cfg io c v s = (s1, t, True)"
  shows "\<exists>tm. request_timers s v = Some tm \<and> in_window cfg io tm \<and> t = Some tm \<and>
    confirm_checkin L io ip vi v r secret t s1 =
      send_ticket_response L io ip (ticket_response_body_of True vi v secret (tb_pin (tr_body r)))
        (confirmed io v tm s)"
  using assms
  by (auto simp: claim_timer_def Let_def in_window_def confirm_checkin_def confirmed_def
      split: option.splits if_splits)

text \<open>The text of a signed ticket response.\<close>

definition ticket_reply :: "('j, 'k, 'c) libs \<Rightarrow> 'k \<Rightarrow> ticket_response_body \<Rightarrow> string \<Rightarrow> bool" where
  "ticket_reply L key body msg \<longleftrightarrow>
     (\<exists>str signature txt. j_dump L (TicketResponse_Body_ToJson L body) = Inr str \<and>
        sign_string L key str = Inr signature \<and>
        j_dump L (TicketResponse_ToJson L \<lparr>rr_body = body, rr_signature = signature\<rparr>) = Inr txt \<and>
        msg = txt @ [newline])"

definition sent_reply ::
  "('j, 'k, 'c) libs \<Rightarrow> endpoint \<Rightarrow> ticket_response_body \<Rightarrow> 'k checkin_service \<Rightarrow> 'k checkin_service \<Rightarrow> bool" where
  "sent_reply L ip body s s' \<longleftrightarrow> sent s' = sent s \<or>
     (\<exists>msg. ticket_reply L (signer_key s) body msg \<and> sent s' = sent s @ [(ip, msg)])"

lemma send_ticket_response_sent:
  "send_ticket_response L io ip body s = (s', e) \<Longrightarrow> sent_reply L ip body s s'"
  by (auto simp: send_ticket_response_def sent_reply_def ticket_reply_def result_simps
      split: sum.splits if_splits)

lemma refuse_ticket_sent:
  assumes "refuse_ticket L io ip vi c v r t s = (s', e)"
  shows "sent_reply L ip (ticket_response_body_of False vi v [] (tb_pin (tr_body r))) s s'"
proof -
  obtain s1 x where st: "send_ticket_response L io ip
      (ticket_response_body_of False vi v [] (tb_pin (tr_body r))) s = (s1, x)" by fastforce
  have "sent s' = sent s1"
    using assms by (auto simp: refuse_ticket_def st Let_def service_frame split: option.splits)
  with send_ticket_response_sent [OF st] show ?thesis by (simp add: sent_reply_def)
qed

definition denial :: "checkin_config \<Rightarrow> ticket_request \<Rightarrow> u32 \<Rightarrow> ticket_response_body" where
  "denial cfg r v = ticket_response_body_of False (find_voter (voter_list_file cfg) v) v [] (tb_pin (tr_body r))"

definition approval :: "checkin_config \<Rightarrow> ticket_request \<Rightarrow> u32 \<Rightarrow> string \<Rightarrow> ticket_response_body" where
  "approval cfg r v secret =
     ticket_response_body_of True (find_voter (voter_list_file cfg) v) v secret (tb_pin (tr_body r))"

lemma settle_ticket_request_cases:
  assumes "settle_ticket_request L cfg io ip r c v s = (s', e)"
    and ticket: "client_tickets_map s (tb_ticket (tr_body r)) = Some (v, secret)"
  obtains (refuse) "quiet s s'" "sent_reply L ip (denial cfg r v) s s'"
      "\<not> (pin_matches cfg r v \<and> (\<exists>t. request_timers s v = Some t \<and> in_window cfg io t))"
  | (confirm) t where "pin_matches cfg r v" "request_timers s v = Some t" "in_window cfg io t"
      "(s', e) = send_ticket_response L io ip (approval cfg r v secret) (confirmed io v t s)"
proof (cases "pin_matches cfg r v")
  case False
  with assms(1) have "(s', e) = send_ticket_response L io ip (denial cfg r v) s"
    by (simp add: settle_ticket_request_def pin_matches_def Let_def denial_def)
  then show ?thesis
    using quiet_send_ticket_response [of s L io ip "denial cfg r v" s] send_ticket_response_sent [of L io ip _ s s' e]
      False by (intro refuse) (auto dest!: arg_cong [where f = fst])
next
  case pin: True
  obtain s1 t valid where cl: "claim_timer cfg io c v s = (s1, t, valid)" by (metis prod_cases3)
  have tk: "client_tickets_map s1 (tb_ticket (tr_body r)) = Some (v, secret)"
    using cl ticket by (auto simp: claim_timer_def report_def Let_def split: option.splits if_splits)
  note eq = assms(1) [unfolded settle_ticket_request_def Let_def cl prod.case tk option.case,
      folded pin_matches_def]
  show ?thesis
  proof (cases valid)
    case True
    then have True_valid: "valid = True" by simp
    obtain tm where tm: "request_timers s v = Some tm" "in_window cfg io tm" "t = Some tm"
      "confirm_checkin L io ip (find_voter (voter_list_file cfg) v) v r secret t s1 =
         send_ticket_response L io ip (approval cfg r v secret) (confirmed io v tm s)"
      unfolding approval_def using confirm_checkin_eq [OF cl [unfolded True_valid]] by blast
    then show ?thesis
      using eq pin True by (intro confirm [of tm]) (simp_all add: pin_matches_def)
  next
    case False
    with cl have s1: "quiet s s1" "sent s1 = sent s" "signer_key s1 = signer_key s"
      and nw: "\<not> (\<exists>t. request_timers s v = Some t \<and> in_window cfg io t)"
      by (auto simp: claim_timer_def Let_def in_window_def service_frame split: option.splits if_splits)
    have rf: "refuse_ticket L io ip (find_voter (voter_list_file cfg) v) c v r t s1 = (s', e)"
      using eq pin False by (simp add: pin_matches_def)
    show ?thesis
    proof (rule refuse)
      show "quiet s s'" using s1(1) rf quiet_refuse_ticket [of s L io ip _ c v r t s1] by (metis fst_conv)
      show "sent_reply L ip (denial cfg r v) s s'"
        using refuse_ticket_sent [OF rf] s1 by (simp add: sent_reply_def denial_def)
    qed (use nw in blast)
  qed
qed


lemma ticket_authentic_accepted:
  assumes "authenticate_ticket_request L cfg io ip r s = (s', x)" "ticket_authentic L cfg io ip r v s"
  shows "x = Inr (Some (tb_client_id (tr_body r), v))"
proof -
  let ?c = "tb_client_id (tr_body r)"
  obtain id_map c where sub: "subscript 0 ip (client_id_map s) = (id_map, c)" by fastforce
  let ?s1 = "s\<lparr>client_id_map := id_map\<rparr>"
  obtain s2 loaded where
    ld: "(if client_verifiers ?s1 ?c = None then load_client_public_key L cfg ?c ?s1 else (?s1, True)) = (s2, loaded)"
    by fastforce
  have c: "c = ?c" using assms(2) sub by (auto simp: ticket_authentic_def subscript_def Let_def split: option.splits)
  have "client_key L cfg ?s1 ?c = client_key L cfg s ?c" by (rule client_key_cong) simp_all
  then show ?thesis
    using key_in_memory [OF ld] assms(2) assms(1) [unfolded authenticate_ticket_request_def Let_def sub prod.case ld]
    by (auto simp: ticket_authentic_def Let_def result_simps c split: if_splits sum.splits option.splits)
qed

definition with_tickets :: "'k checkin_service \<Rightarrow> 'k checkin_service" where
  "with_tickets s = s\<lparr>client_tickets_map := read_from_csv (ticket_file s) (client_tickets_map s)\<rparr>"

lemma with_tickets_frame [service_frame]:
  "voting (with_tickets s) = voting s" "sent (with_tickets s) = sent s"
  "signer_key (with_tickets s) = signer_key s" "request_timers (with_tickets s) = request_timers s"
  by (simp_all add: with_tickets_def service_frame)

text \<open>The conditions under which a trusted device's message confirms a check-in.\<close>

definition confirms ::
  "('j, 'k, 'c) libs \<Rightarrow> checkin_config \<Rightarrow> io_input \<Rightarrow> string \<Rightarrow> endpoint \<Rightarrow> ticket_request \<Rightarrow> u32 \<Rightarrow> string
     \<Rightarrow> timer \<Rightarrow> 'k checkin_service \<Rightarrow> bool" where
  "confirms L cfg io msg ip r v secret t s \<longleftrightarrow>
     bindR (j_parse L msg) (TicketRequest_FromJson L) = Inr r \<and>
     ticket_authentic L cfg io ip r v (with_tickets s) \<and>
     client_tickets_map (with_tickets s) (tb_ticket (tr_body r)) = Some (v, secret) \<and>
     pin_matches cfg r v \<and> request_timers s v = Some t \<and> in_window cfg io t"

lemma confirmed_voting:
  "voting (confirmed io v t s) =
     ((if voter_status_table s v = Some PENDING then (voter_status_table s)(v \<mapsto> CHECKED_IN)
       else voter_status_table s),
      (request_timers s)(v := None), cancel_wait io (Some t) (timer_waits s))"
  by (simp add: confirmed_def voting_def)

lemma confirmed_voting_cong:
  "voting s = voting s' \<Longrightarrow> voting (confirmed io v t s) = voting (confirmed io v t s')"
  unfolding confirmed_voting by (simp add: voting_def)

lemma authenticate_ticket_request_sent:
  assumes "authenticate_ticket_request L cfg io ip r s = (s', x)"
  shows "sent s' = sent s \<and> signer_key s' = signer_key s"
proof -
  let ?c = "tb_client_id (tr_body r)"
  obtain id_map c where sub: "subscript 0 ip (client_id_map s) = (id_map, c)" by fastforce
  let ?s1 = "s\<lparr>client_id_map := id_map\<rparr>"
  obtain s2 loaded where
    ld: "(if client_verifiers ?s1 ?c = None then load_client_public_key L cfg ?c ?s1 else (?s1, True)) = (s2, loaded)"
    by fastforce
  then have "sent s2 = sent s \<and> signer_key s2 = signer_key s"
    by (auto simp: load_client_public_key_def split: if_splits sum.splits)
  then show ?thesis
    using assms [unfolded authenticate_ticket_request_def Let_def sub prod.case ld]
    by (auto simp: service_frame split: if_splits sum.splits option.splits)
qed

text \<open>
  A message of a trusted device is either not acted on (it does not decode, or its ticket request is
  not authentic), denied, or confirmed; which of them is decided by the message, the stored ticket and
  the timer alone.
\<close>

definition decode_ticket_request :: "('j, 'k, 'c) libs \<Rightarrow> string \<Rightarrow> ticket_request result" where
  "decode_ticket_request L msg = bindR (j_parse L msg) (TicketRequest_FromJson L)"

lemma confirms_unique:
  assumes "confirms L cfg io msg ip r v secret t s" "decode_ticket_request L msg = Inr r'"
    "client_tickets_map (with_tickets s) (tb_ticket (tr_body r')) = Some (v', secret')"
  shows "r = r' \<and> v = v' \<and> secret = secret'"
  using assms by (auto simp: confirms_def decode_ticket_request_def)

lemma handle_trusted_client_cases:
  assumes "handle_trusted_client L cfg io msg ip s = (s', e)"
  obtains (ignore) "voting s' = voting s" "sent s' = sent s" "\<not> (\<exists>r v secret t. confirms L cfg io msg ip r v secret t s)"
  | (refuse) r v secret where "voting s' = voting s" "\<not> (\<exists>r v secret t. confirms L cfg io msg ip r v secret t s)"
      "decode_ticket_request L msg = Inr r" "ticket_authentic L cfg io ip r v (with_tickets s)"
      "client_tickets_map (with_tickets s) (tb_ticket (tr_body r)) = Some (v, secret)"
      "sent_reply L ip (denial cfg r v) s s'"
  | (confirm) r v secret t where "confirms L cfg io msg ip r v secret t s"
      "voting s' = voting (confirmed io v t s)" "sent_reply L ip (approval cfg r v secret) s s'"
proof (cases "bindR (j_parse L msg) (TicketRequest_FromJson L)")
  case (Inl err)
  with assms have "voting s' = voting s \<and> sent s' = sent s"
    by (auto simp: handle_trusted_client_def Let_def result_simps service_frame
        split: sum.splits cpp_error.splits if_splits)
  then show ?thesis using Inl by (intro ignore) (auto simp: confirms_def)
next
  case (Inr r)
  then obtain j where j: "j_parse L msg = Inr j" "TicketRequest_FromJson L j = Inr r"
    by (auto simp: result_simps)
  obtain s2 x where au: "authenticate_ticket_request L cfg io ip r (with_tickets s) = (s2, x)" by fastforce
  have q2: "quiet (with_tickets s) s2" by (rule authenticate_ticket_request_quiet(1) [OF au])
  have v2: "voting s2 = voting s" using q2 by (simp add: quiet_def service_frame)
  have t2: "client_tickets_map s2 = client_tickets_map (with_tickets s)"
    using q2 by (simp add: quiet_def ticketing_def)
  have n2: "sent s2 = sent s" "signer_key s2 = signer_key s"
    using authenticate_ticket_request_sent [OF au] by (simp_all add: service_frame)
  note eq = assms [unfolded handle_trusted_client_def Let_def j sum.case, folded with_tickets_def,
      unfolded au prod.case]
  show ?thesis
  proof (cases "\<exists>c v. x = Inr (Some (c, v))")
    case False
    with eq have "s' = s2" by (auto split: sum.splits option.splits)
    moreover have "\<not> confirms L cfg io msg ip r' v' secret' t' s" for r' v' secret' t'
      using False Inr ticket_authentic_accepted [OF au, of v'] by (auto simp: confirms_def)
    ultimately show ?thesis using v2 n2 by (intro ignore) auto
  next
    case True
    then obtain c v where x: "x = Inr (Some (c, v))" by blast
    from authenticate_ticket_request_quiet(2) [OF au x]
    have ta: "ticket_authentic L cfg io ip r v (with_tickets s)" by simp
    then obtain secret where tk: "client_tickets_map (with_tickets s) (tb_ticket (tr_body r)) = Some (v, secret)"
      by (auto simp: ticket_authentic_def Let_def)
    have st: "settle_ticket_request L cfg io ip r c v s2 = (s', e)" using eq x by simp
    from st tk [folded t2] show ?thesis
    proof (cases rule: settle_ticket_request_cases)
      case refuse2: refuse
      have "\<not> (\<exists>r v secret t. confirms L cfg io msg ip r v secret t s)"
        using refuse2(3) voting_eqD [OF v2] Inr tk by (auto simp: confirms_def)
      then show ?thesis
        using refuse2 v2 n2 ta tk Inr
        by (intro refuse [of r v secret]) (auto simp: quiet_def sent_reply_def decode_ticket_request_def)
    next
      case c2: (confirm t)
      show ?thesis
      proof (rule confirm [of r v secret t])
        show "confirms L cfg io msg ip r v secret t s"
          using Inr ta tk c2 voting_eqD [OF v2] by (simp add: confirms_def)
        have fs: "fst (send_ticket_response L io ip (approval cfg r v secret) (confirmed io v t s2)) = s'"
          using c2(4) by (metis fst_conv)
        show "voting s' = voting (confirmed io v t s)"
          using send_ticket_response_frame(1) [of L io ip _ "confirmed io v t s2"] fs
            confirmed_voting_cong [OF v2] by metis
        show "sent_reply L ip (approval cfg r v secret) s s'"
          using send_ticket_response_sent [OF c2(4) [symmetric]] n2
          by (simp add: sent_reply_def confirmed_def)
      qed
    qed
  qed
qed

end
