(* ===== verification/Transition_System.thy ===== *)
theory Transition_System
  imports Prelude
begin

text \<open>
  Labelled transition systems: paths, reachable states, and the interfaces the protocol proofs
  use: an invariant kept by every step, a simulation of an abstract system under an invariant, whose
  steps carry the reason they have in the concrete system, and steps that a partial function of the
  label computes, with the states a list of labels visits.
\<close>

inductive path :: "('s \<Rightarrow> 'l \<Rightarrow> 's \<Rightarrow> bool) \<Rightarrow> 's \<Rightarrow> 'l list \<Rightarrow> 's \<Rightarrow> bool"
  for step :: "'s \<Rightarrow> 'l \<Rightarrow> 's \<Rightarrow> bool" where
  path_Nil: "path step s [] s"
| path_Cons: "step s l s' \<Longrightarrow> path step s' ls s'' \<Longrightarrow> path step s (l # ls) s''"

inductive_simps path_Nil_iff [simp]: "path step s [] s'"
inductive_simps path_Cons_iff [simp]: "path step s (l # ls) s'"

lemma path_append_iff: "path step s (as @ bs) s' \<longleftrightarrow> (\<exists>m. path step s as m \<and> path step m bs s')"
  by (induction as arbitrary: s) auto

lemma path_snoc: "path step s ls s' \<Longrightarrow> step s' l s'' \<Longrightarrow> path step s (ls @ [l]) s''"
  by (auto simp: path_append_iff)

definition reachable :: "('s \<Rightarrow> bool) \<Rightarrow> ('s \<Rightarrow> 'l \<Rightarrow> 's \<Rightarrow> bool) \<Rightarrow> 's \<Rightarrow> bool" where
  "reachable init step s \<longleftrightarrow> (\<exists>s0 ls. init s0 \<and> path step s0 ls s)"

lemma reachable_init: "init s \<Longrightarrow> reachable init step s"
  unfolding reachable_def by (intro exI [of _ s] exI [of _ "[]"]) simp

lemma reachable_step: "reachable init step s \<Longrightarrow> step s l s' \<Longrightarrow> reachable init step s'"
  unfolding reachable_def using path_snoc by metis

text \<open>Steps that are a partial function of the label make runs executable.\<close>

fun run_all :: "('s \<Rightarrow> 'l \<Rightarrow> 's option) \<Rightarrow> 's \<Rightarrow> 'l list \<Rightarrow> 's option" where
  "run_all act s [] = Some s"
| "run_all act s (l # ls) = (case act s l of None \<Rightarrow> None | Some s' \<Rightarrow> run_all act s' ls)"

lemma run_all_append:
  "run_all act s (as @ bs) = (case run_all act s as of None \<Rightarrow> None | Some s' \<Rightarrow> run_all act s' bs)"
  by (induction as arbitrary: s) (auto split: option.split)

lemma run_all_single: "run_all act s [l] = act s l"
  by (simp split: option.split)

text \<open>The states a run goes through, the first one included.\<close>

fun visited :: "('s \<Rightarrow> 'l \<Rightarrow> 's option) \<Rightarrow> 's \<Rightarrow> 'l list \<Rightarrow> 's list" where
  "visited act s [] = [s]"
| "visited act s (l # ls) = s # (case act s l of None \<Rightarrow> [] | Some s' \<Rightarrow> visited act s' ls)"

lemma visited_first [simp]: "visited act s ls ! 0 = s"
  by (cases ls) simp_all

lemma visited_length: "run_all act s ls = Some s' \<Longrightarrow> length (visited act s ls) = Suc (length ls)"
  by (induction ls arbitrary: s) (auto split: option.splits)

lemma visited_final: "run_all act s ls = Some s' \<Longrightarrow> visited act s ls ! length ls = s'"
  by (induction ls arbitrary: s) (auto split: option.splits)

lemma visited_step:
  "run_all act s ls = Some s' \<Longrightarrow> i < length ls \<Longrightarrow>
     act (visited act s ls ! i) (ls ! i) = Some (visited act s ls ! Suc i)"
  by (induction ls arbitrary: s i) (auto simp: less_Suc_eq_0_disj split: option.splits)

locale executable_steps =
  fixes step :: "'s \<Rightarrow> 'l \<Rightarrow> 's \<Rightarrow> bool" and act :: "'s \<Rightarrow> 'l \<Rightarrow> 's option"
  assumes step_iff_act: "step s l s' \<longleftrightarrow> act s l = Some s'"
begin

lemma path_iff_run_all: "path step s ls s' \<longleftrightarrow> run_all act s ls = Some s'"
  by (induction ls arbitrary: s) (auto simp: step_iff_act split: option.splits)

lemma step_visited:
  "run_all act s ls = Some s' \<Longrightarrow> i < length ls \<Longrightarrow> step (visited act s ls ! i) (ls ! i) (visited act s ls ! Suc i)"
  by (simp add: step_iff_act visited_step)

end

text \<open>An inductive invariant.\<close>

locale invariant =
  fixes init :: "'s \<Rightarrow> bool" and step :: "'s \<Rightarrow> 'l \<Rightarrow> 's \<Rightarrow> bool" and inv :: "'s \<Rightarrow> bool"
  assumes inv_init: "init s \<Longrightarrow> inv s"
    and inv_step: "inv s \<Longrightarrow> step s l s' \<Longrightarrow> inv s'"
begin

lemma inv_path: "path step s ls s' \<Longrightarrow> inv s \<Longrightarrow> inv s'"
  by (induction rule: path.induct) (auto intro: inv_step)

lemma inv_reachable: "reachable init step s \<Longrightarrow> inv s"
  unfolding reachable_def using inv_path inv_init by blast

end

text \<open>
  A run of an abstract system along the states \<open>ss\<close> a concrete run visits: one abstract action per
  label, a step between the abstractions of the states around it, with a cause in that state and label.
\<close>

definition follows ::
  "('a \<Rightarrow> 'b \<Rightarrow> 'a \<Rightarrow> bool) \<Rightarrow> ('s \<Rightarrow> 'a) \<Rightarrow> ('s \<Rightarrow> 'l \<Rightarrow> 'b \<Rightarrow> bool) \<Rightarrow> 's list \<Rightarrow> 'l list \<Rightarrow> 'b list \<Rightarrow> bool"
where
  "follows astep view because ss ls as \<longleftrightarrow> length as = length ls \<and>
     (\<forall>i<length ls. astep (view (ss ! i)) (as ! i) (view (ss ! Suc i)) \<and> because (ss ! i) (ls ! i) (as ! i))"

lemma follows_path:
  assumes "follows astep view because ss ls as"
  shows "path astep (view (ss ! 0)) as (view (ss ! length ls))"
proof -
  have "k \<le> length as \<Longrightarrow> path astep (view (ss ! 0)) (take k as) (view (ss ! k))" for k
  proof (induction k)
    case (Suc k)
    then show ?case
      using assms path_snoc [of astep _ "take k as" _ "as ! k"]
      by (simp add: follows_def take_Suc_conv_app_nth)
  qed simp
  from this [of "length as"] show ?thesis using assms by (simp add: follows_def)
qed

text \<open>
  A simulation: under the invariant every step of the concrete system is a step of the abstract one
  between the abstractions, by an action the label is a cause of.
\<close>

locale simulation = invariant init step inv
  for init :: "'s \<Rightarrow> bool" and step :: "'s \<Rightarrow> 'l \<Rightarrow> 's \<Rightarrow> bool" and inv :: "'s \<Rightarrow> bool" +
  fixes astep :: "'a \<Rightarrow> 'b \<Rightarrow> 'a \<Rightarrow> bool" and abs :: "'s \<Rightarrow> 'a" and because :: "'s \<Rightarrow> 'l \<Rightarrow> 'b \<Rightarrow> bool"
  assumes simulate: "inv s \<Longrightarrow> step s l s' \<Longrightarrow> \<exists>a. astep (abs s) a (abs s') \<and> because s l a"
begin

lemma path_simulated:
  "path step s ls s' \<Longrightarrow> inv s \<Longrightarrow> \<exists>as. length as = length ls \<and> path astep (abs s) as (abs s')"
proof (induction rule: path.induct)
  case (path_Nil s)
  then show ?case by simp
next
  case (path_Cons s l t ls u)
  then have "inv t" by (blast intro: inv_step)
  with path_Cons obtain as where as: "length as = length ls" "path astep (abs t) as (abs u)" by blast
  obtain a where "astep (abs s) a (abs t)" using simulate [OF path_Cons.prems path_Cons.hyps(1)] by blast
  with as show ?case by (intro exI [of _ "a # as"]) auto
qed

lemma run_followed:
  assumes "\<And>i. i < length ls \<Longrightarrow> step (ss ! i) (ls ! i) (ss ! Suc i)" "inv (ss ! 0)"
  shows "\<exists>as. follows astep abs because ss ls as"
proof -
  have inv: "i \<le> length ls \<Longrightarrow> inv (ss ! i)" for i
    by (induction i) (use assms in \<open>auto intro: inv_step simp: Suc_le_eq\<close>)
  have "\<forall>i\<in>{..<length ls}. \<exists>a. astep (abs (ss ! i)) a (abs (ss ! Suc i)) \<and> because (ss ! i) (ls ! i) a"
    using simulate [OF inv assms(1)] by simp
  then obtain f where "\<forall>i\<in>{..<length ls}. astep (abs (ss ! i)) (f i) (abs (ss ! Suc i)) \<and> because (ss ! i) (ls ! i) (f i)"
    by metis
  then show ?thesis by (intro exI [of _ "map f [0..<length ls]"]) (simp add: follows_def)
qed

end

end
