(* ===== verification/Checkin_Protocol.thy ===== *)
theory Checkin_Protocol
  imports Checkin_Behaviour Transition_System
begin

text \<open>
  The check-in service as a transition system: the events the network, the clients and the clocks
  produce, the step relation over the service's handlers, the protocol invariant, and the
  refinement to an abstract machine in which every voter is eligible, pending or checked in. The
  process ends when an exception leaves a handler.
\<close>

section \<open>The abstract voter machine\<close>

datatype voter_action = Begin u32 | Confirm u32 | Expire u32 | Idle

inductive voter_step :: "status_table \<Rightarrow> voter_action \<Rightarrow> status_table \<Rightarrow> bool" where
  begin_checkin: "tbl v = Some ELIGIBLE \<Longrightarrow> voter_step tbl (Begin v) (tbl(v \<mapsto> PENDING))"
| confirm_checkin: "tbl v = Some PENDING \<Longrightarrow> voter_step tbl (Confirm v) (tbl(v \<mapsto> CHECKED_IN))"
| expire_checkin: "tbl v = Some PENDING \<Longrightarrow> voter_step tbl (Expire v) (tbl(v \<mapsto> ELIGIBLE))"
| idle: "voter_step tbl Idle tbl"

inductive_cases voter_step_E: "voter_step tbl a tbl'"
inductive_simps voter_step_simps:
  "voter_step tbl (Begin v) tbl'" "voter_step tbl (Confirm v) tbl'" "voter_step tbl (Expire v) tbl'"
  "voter_step tbl Idle tbl'"

lemma voter_step_dom: "voter_step tbl a tbl' \<Longrightarrow> dom tbl' = dom tbl"
  by (erule voter_step_E) (auto simp: insert_absorb domI)

lemma voter_step_CHECKED_IN:
  "voter_step tbl a tbl' \<Longrightarrow> tbl v = Some CHECKED_IN \<Longrightarrow> tbl' v = Some CHECKED_IN \<and> a \<noteq> Confirm v"
  by (erule voter_step_E) auto

lemma voter_path_dom: "path voter_step tbl as tbl' \<Longrightarrow> dom tbl' = dom tbl"
  by (induction rule: path.induct) (simp_all add: voter_step_dom)

lemma voter_path_CHECKED_IN:
  "path voter_step tbl as tbl' \<Longrightarrow> tbl v = Some CHECKED_IN \<Longrightarrow>
     tbl' v = Some CHECKED_IN \<and> Confirm v \<notin> set as"
  by (induction rule: path.induct) (auto dest: voter_step_CHECKED_IN)

text \<open>A voter is checked in at the end of a path exactly when it was at the start or was confirmed.\<close>

lemma voter_path_checked_in_iff:
  "path voter_step tbl as tbl' \<Longrightarrow>
     tbl' v = Some CHECKED_IN \<longleftrightarrow> tbl v = Some CHECKED_IN \<or> Confirm v \<in> set as"
proof (induction rule: path.induct)
  case (path_Cons tbl a tbl1 as tbl2)
  have "tbl1 v = Some CHECKED_IN \<longleftrightarrow> tbl v = Some CHECKED_IN \<or> a = Confirm v"
    using path_Cons.hyps(1) by (cases rule: voter_step.cases) auto
  with path_Cons.IH show ?case by auto
qed simp

text \<open>Along any path each voter is confirmed at most once, and every confirmation follows a begin.\<close>

lemma voter_path_confirm_once:
  "path voter_step tbl as tbl' \<Longrightarrow> count_list as (Confirm v) \<le> 1"
proof (induction rule: path.induct)
  case (path_Nil tbl)
  show ?case by simp
next
  case (path_Cons tbl a tbl1 as tbl2)
  show ?case
  proof (cases "a = Confirm v")
    case True
    then have "tbl1 v = Some CHECKED_IN" using path_Cons.hyps(1) by (auto simp: voter_step_simps)
    then have "Confirm v \<notin> set as" using path_Cons.hyps(2) voter_path_CHECKED_IN by blast
    then show ?thesis using True by simp
  next
    case False
    then show ?thesis using path_Cons.IH by simp
  qed
qed

section \<open>The running service\<close>

datatype 'k process = Running "'k checkin_service" | Ended "'k checkin_service" cpp_error

fun service_of :: "'k process \<Rightarrow> 'k checkin_service" where
  "service_of (Running s) = s"
| "service_of (Ended s e) = s"

fun process_of :: "'k outcome \<Rightarrow> 'k process" where
  "process_of (s, None) = Running s"
| "process_of (s, Some e) = Ended s e"

lemma service_of_process_of [simp]: "service_of (process_of r) = fst r"
  by (cases r rule: process_of.cases) simp_all

datatype 'k event =
    Accepted endpoint
  | Accept_failed
  | Handshaken endpoint "'k certificate option"
  | Handshake_failed endpoint string
  | Received endpoint string
  | Read_line endpoint
  | Read_failed endpoint io_error
  | Timer_expired timer
  | Faults_cleaned int

inductive step ::
  "('j, 'k, 'c) libs \<Rightarrow> checkin_config \<Rightarrow> 'k process \<Rightarrow> io_input \<times> 'k event \<Rightarrow> 'k process \<Rightarrow> bool"
  for L :: "('j, 'k, 'c) libs" and cfg :: checkin_config where
  accepted: "accept_pending s \<Longrightarrow>
     step L cfg (Running s) (io, Accepted ip) (Running (handle_accept (Some ip) s))"
| accept_failed: "accept_pending s \<Longrightarrow>
     step L cfg (Running s) (io, Accept_failed) (Running (handle_accept None s))"
| handshaken: "ip \<in> handshakes s \<Longrightarrow>
     step L cfg (Running s) (io, Handshaken ip cert)
       (process_of (on_handshake L cfg io ip cert (s\<lparr>handshakes := handshakes s - {ip}\<rparr>)))"
| handshake_failed: "ip \<in> handshakes s \<Longrightarrow>
     step L cfg (Running s) (io, Handshake_failed ip what)
       (Running (on_handshake_error io what (s\<lparr>handshakes := handshakes s - {ip}\<rparr>)))"
| received: "pending_reads s ip = Some r \<Longrightarrow> client_buffers s ip = Some b \<Longrightarrow>
     step L cfg (Running s) (io, Received ip bytes)
       (Running (s\<lparr>client_buffers := (client_buffers s)(ip \<mapsto> b @ bytes)\<rparr>))"
| read_line: "pending_reads s ip = Some r \<Longrightarrow> client_buffers s ip = Some b \<Longrightarrow> newline \<in> set b \<Longrightarrow>
     step L cfg (Running s) (io, Read_line ip) (process_of (on_read L cfg io ip r (first_line b) s))"
| read_failed: "pending_reads s ip = Some r \<Longrightarrow>
     step L cfg (Running s) (io, Read_failed ip err) (Running (on_read_error io ip r err s))"
| timer_expired: "w \<in> set (timer_waits s) \<Longrightarrow> timer_expiry w \<le> steady_now io \<Longrightarrow>
     step L cfg (Running s) (io, Timer_expired w)
       (Running (handle_verification_timeout io (timer_voter_id w)
          (s\<lparr>timer_waits := remove1 w (timer_waits s)\<rparr>)))"
| faults_cleaned: "step L cfg (Running s) (io, Faults_cleaned threshold)
       (case clearOldRecords (sys_now io) threshold (faults s) of
          Inl e \<Rightarrow> Ended s e | Inr m \<Rightarrow> Running (s\<lparr>faults := m\<rparr>))"

inductive_cases step_E: "step L cfg p l p'"

text \<open>
  The step relation is a partial function of the event, which makes runs executable.
\<close>

fun perform ::
  "('j, 'k, 'c) libs \<Rightarrow> checkin_config \<Rightarrow> 'k process \<Rightarrow> io_input \<times> 'k event \<Rightarrow> 'k process option" where
  "perform L cfg (Ended s e) l = None"
| "perform L cfg (Running s) (io, Accepted ip) =
     (if accept_pending s then Some (Running (handle_accept (Some ip) s)) else None)"
| "perform L cfg (Running s) (io, Accept_failed) =
     (if accept_pending s then Some (Running (handle_accept None s)) else None)"
| "perform L cfg (Running s) (io, Handshaken ip cert) =
     (if ip \<in> handshakes s
      then Some (process_of (on_handshake L cfg io ip cert (s\<lparr>handshakes := handshakes s - {ip}\<rparr>))) else None)"
| "perform L cfg (Running s) (io, Handshake_failed ip what) =
     (if ip \<in> handshakes s
      then Some (Running (on_handshake_error io what (s\<lparr>handshakes := handshakes s - {ip}\<rparr>))) else None)"
| "perform L cfg (Running s) (io, Received ip bytes) = (case (pending_reads s ip, client_buffers s ip) of
       (Some _, Some b) \<Rightarrow> Some (Running (s\<lparr>client_buffers := (client_buffers s)(ip \<mapsto> b @ bytes)\<rparr>))
     | _ \<Rightarrow> None)"
| "perform L cfg (Running s) (io, Read_line ip) = (case (pending_reads s ip, client_buffers s ip) of
       (Some r, Some b) \<Rightarrow>
         if newline \<in> set b then Some (process_of (on_read L cfg io ip r (first_line b) s)) else None
     | _ \<Rightarrow> None)"
| "perform L cfg (Running s) (io, Read_failed ip err) = (case pending_reads s ip of
       Some r \<Rightarrow> Some (Running (on_read_error io ip r err s))
     | None \<Rightarrow> None)"
| "perform L cfg (Running s) (io, Timer_expired w) =
     (if w \<in> set (timer_waits s) \<and> timer_expiry w \<le> steady_now io
      then Some (Running (handle_verification_timeout io (timer_voter_id w)
          (s\<lparr>timer_waits := remove1 w (timer_waits s)\<rparr>)))
      else None)"
| "perform L cfg (Running s) (io, Faults_cleaned threshold) =
     Some (case clearOldRecords (sys_now io) threshold (faults s) of
       Inl e \<Rightarrow> Ended s e | Inr m \<Rightarrow> Running (s\<lparr>faults := m\<rparr>))"

lemma step_iff_perform: "step L cfg p l p' \<longleftrightarrow> perform L cfg p l = Some p'"
proof
  show "step L cfg p l p' \<Longrightarrow> perform L cfg p l = Some p'"
    by (induction rule: step.induct) auto
  show "perform L cfg p l = Some p' \<Longrightarrow> step L cfg p l p'"
    by (cases "(L, cfg, p, l)" rule: perform.cases)
      (auto intro: step.intros split: if_splits option.splits)
qed

abbreviation perform_all ::
  "('j, 'k, 'c) libs \<Rightarrow> checkin_config \<Rightarrow> 'k process \<Rightarrow> (io_input \<times> 'k event) list \<Rightarrow> 'k process option" where
  "perform_all L cfg \<equiv> run_all (perform L cfg)"

interpretation checkin_steps: executable_steps "step L cfg" "perform L cfg"
  by unfold_locales (rule step_iff_perform)

lemmas path_iff_perform_all = checkin_steps.path_iff_run_all


section \<open>What a step does to the voters\<close>

lemma register_key_voting: "register_key L cfg io c k s = Inr s' \<Longrightarrow> voting s' = voting s"
  by (auto simp: register_key_def save_pub_key_def Let_def service_frame result_simps split: option.splits if_splits)

lemma register_client_voting [service_frame]: "voting (register_client c s) = voting s"
  by (simp add: register_client_def add_client_def service_frame)

lemma register_peer_voting: "register_peer L cfg io ip cert s = Inr s' \<Longrightarrow> voting s' = voting s"
  by (auto simp: register_peer_def result_simps Let_def service_frame dest!: register_key_voting split: option.splits)

lemma on_handshake_voting [service_frame]: "voting (fst (on_handshake L cfg io ip cert s)) = voting s"
proof (cases "register_peer L cfg io ip cert s")
  case (Inl e)
  then show ?thesis by (simp add: on_handshake_def)
next
  case (Inr s2)
  then have "voting s2 = voting s" by (rule register_peer_voting)
  moreover obtain s3 x where "start_size_read ip (s2\<lparr>client_ssl_streams := insert ip (client_ssl_streams s2)\<rparr>) = (s3, x)"
    by fastforce
  moreover from this have "voting s3 = voting s2"
    using start_read_frame(1) [of Size_read ip "s2\<lparr>client_ssl_streams := insert ip (client_ssl_streams s2)\<rparr>"]
    by (simp add: start_size_read_def service_frame)
  ultimately show ?thesis using Inr
    by (simp add: on_handshake_def do_accept_def service_frame split: option.split)
qed

lemma on_size_read_voting [service_frame]: "voting (fst (on_size_read ip line s)) = voting s"
  by (simp add: on_size_read_def start_payload_read_def consume_def service_frame split: sum.split)

definition sender_type :: "endpoint \<Rightarrow> 'k checkin_service \<Rightarrow> client_type option" where
  "sender_type ip s = (case client_id_map s ip of None \<Rightarrow> None | Some c \<Rightarrow> map_option ci_type (clients s c))"

text \<open>A message of an untrusted client that begins a check-in of voter \<open>v\<close>.\<close>

definition begins ::
  "('j, 'k, 'c) libs \<Rightarrow> checkin_config \<Rightarrow> io_input \<Rightarrow> string \<Rightarrow> endpoint \<Rightarrow> checkin_request \<Rightarrow> 'k checkin_service \<Rightarrow> bool" where
  "begins L cfg io msg ip r s \<longleftrightarrow> decode_checkin_request L msg = Inr r \<and>
     client_id_map s ip = Some (cb_client_id_num (cr_body r)) \<and>
     request_valid L cfg s r (now_ms io) \<and>
     voter_status_table s (cb_voter_unique_id (cr_body r)) = Some ELIGIBLE"

lemma admit_voter_voting:
  "voting s = voting s' \<Longrightarrow> voting (fst (admit_voter cfg io v s)) = voting (fst (admit_voter cfg io v s'))"
  by (simp add: admit_voter_def start_timer_def Let_def voting_def)

lemma confirms_cong:
  assumes "client_id_map s = client_id_map s'" "client_tickets_map s = client_tickets_map s'"
    "ticket_file s = ticket_file s'" "client_verifiers s = client_verifiers s'" "key_files s = key_files s'"
    "request_timers s = request_timers s'"
  shows "confirms L cfg io msg ip r v secret t s = confirms L cfg io msg ip r v secret t s'"
  using assms client_key_cong [of "with_tickets s" "with_tickets s'" L cfg]
  by (simp add: confirms_def ticket_authentic_def with_tickets_def Let_def)

lemma ticket_authentic_cong:
  assumes "client_id_map s = client_id_map s'" "client_tickets_map s = client_tickets_map s'"
    "ticket_file s = ticket_file s'" "client_verifiers s = client_verifiers s'" "key_files s = key_files s'"
  shows "ticket_authentic L cfg io ip r v (with_tickets s) = ticket_authentic L cfg io ip r v (with_tickets s')"
  using assms client_key_cong [of "with_tickets s" "with_tickets s'" L cfg]
  by (simp add: ticket_authentic_def with_tickets_def Let_def)

lemma dispatch_message_cases:
  assumes "dispatch_message L cfg io msg ip s = (s', e)"
  obtains (none) "voting s' = voting s"
  | (start) r where "sender_type ip s = Some UntrustedClient" "begins L cfg io msg ip r s"
      "voting s' = voting (fst (admit_voter cfg io (cb_voter_unique_id (cr_body r)) s))"
  | (confirm) r v secret t where "sender_type ip s = Some TrustedClient"
      "confirms L cfg io msg ip r v secret t s" "voting s' = voting (confirmed io v t s)"
proof (cases "sender_type ip s")
  case None
  with assms have "voting s' = voting s"
    by (auto simp: dispatch_message_def sender_type_def service_frame split: option.splits)
  then show ?thesis by (rule none)
next
  case (Some ty)
  then obtain c ci where c: "client_id_map s ip = Some c" "clients s c = Some ci" "ci_type ci = ty"
    by (auto simp: sender_type_def split: option.splits)
  let ?s1 = "s\<lparr>cur_client_id := c\<rparr>"
  show ?thesis
  proof (cases ty)
    case TrustedClient
    with assms c have "handle_trusted_client L cfg io msg ip ?s1 = (s', e)"
      by (simp add: dispatch_message_def)
    then show ?thesis
    proof (cases rule: handle_trusted_client_cases)
      case ignore
      then show ?thesis by (intro none) (simp add: service_frame)
    next
      case (refuse r v secret)
      then show ?thesis by (intro none) (simp add: service_frame)
    next
      case (confirm r v secret t)
      then show ?thesis
        using that(3) [of r v secret t] Some TrustedClient confirms_cong [of ?s1 s L cfg io msg ip r v secret t]
          confirmed_voting_cong [of ?s1 s] by (simp add: service_frame)
    qed
  next
    case UntrustedClient
    show ?thesis
    proof (cases "decode_checkin_request L msg")
      case (Inl err)
      with assms c UntrustedClient show ?thesis
        by (intro none) (auto simp: dispatch_message_def service_frame)
    next
      case (Inr r)
      with assms c UntrustedClient have "handle_checkin_request L cfg io ip r ?s1 = (s', e)"
        by (simp add: dispatch_message_def)
      then show ?thesis
      proof (cases rule: handle_checkin_request_cases)
        case reject
        then show ?thesis by (intro none) (simp add: quiet_def service_frame)
      next
        case accept
        then show ?thesis
          using that(2) [of r] Some UntrustedClient Inr request_valid_cong [of ?s1 s L cfg r] c
            admit_voter_voting [of ?s1 s] by (simp add: begins_def service_frame)
      qed
    qed
  qed
qed


text \<open>Every step is one of four: it leaves the voters alone, begins, confirms or expires a check-in.\<close>

lemma voting_handle_verification_timeout:
  "voting (handle_verification_timeout io v s) =
     ((if voter_status_table s v = Some PENDING then (voter_status_table s)(v \<mapsto> ELIGIBLE)
       else voter_status_table s),
      (request_timers s)(v := None), cancel_wait io (request_timers s v) (timer_waits s))"
  by (simp add: handle_verification_timeout_def voting_def Let_def)

lemma on_read_cases:
  assumes "on_read L cfg io ip rd line s = (s', e)"
  obtains (none) "voting s' = voting s"
  | (start) n r where "rd = Payload_read n" "sender_type ip s = Some UntrustedClient" "begins L cfg io line ip r s"
      "voting s' = voting (fst (admit_voter cfg io (cb_voter_unique_id (cr_body r)) s))"
  | (confirm) n r v secret t where "rd = Payload_read n" "sender_type ip s = Some TrustedClient"
      "confirms L cfg io line ip r v secret t s" "voting s' = voting (confirmed io v t s)"
proof (cases "\<exists>n. rd = Payload_read n \<and> n = length line - 1")
  case False
  then have "voting (fst (on_read L cfg io ip rd line s)) = voting s"
    by (auto simp: on_read_def on_payload_read_def Let_def service_frame split: pending_read.split)
  with assms have "voting s' = voting s" by simp
  then show ?thesis by (rule none)
next
  case True
  then obtain n where n: "rd = Payload_read n" "n = length line - 1" by blast
  let ?s1 = "consume (length line) ip (s\<lparr>pending_reads := (pending_reads s)(ip := None)\<rparr>)"
  have v1: "voting ?s1 = voting s" by (simp add: consume_def service_frame)
  have c1: "client_id_map ?s1 = client_id_map s" "clients ?s1 = clients s" "client_verifiers ?s1 = client_verifiers s"
    "key_files ?s1 = key_files s" "id_service_verifier ?s1 = id_service_verifier s"
    "client_tickets_map ?s1 = client_tickets_map s" "ticket_file ?s1 = ticket_file s"
    by (simp_all add: consume_def)
  have ty: "sender_type ip ?s1 = sender_type ip s" by (simp add: sender_type_def c1 split: option.split)
  from assms n have "dispatch_message L cfg io line ip ?s1 = (s', e)"
    by (simp add: on_read_def on_payload_read_def)
  then show ?thesis
  proof (cases rule: dispatch_message_cases)
    case none2: none
    then show ?thesis using v1 by (intro none) simp
  next
    case (start r)
    then show ?thesis
      using that(2) [of n r] n(1) ty request_valid_cong [of ?s1 s L cfg r] c1 voting_eqD [OF v1]
        admit_voter_voting [OF v1] by (simp add: begins_def)
  next
    case (confirm r v secret t)
    then show ?thesis
      using that(3) [of n r v secret t] n(1) ty confirms_cong [of ?s1 s L cfg io line ip r v secret t] c1
        voting_eqD [OF v1] confirmed_voting_cong [OF v1] by simp
  qed
qed

lemma step_cases:
  assumes "step L cfg p (io, ev) p'"
  obtains (none) "voting (service_of p') = voting (service_of p)"
  | (start) s ip b n r where "p = Running s" "ev = Read_line ip" "client_buffers s ip = Some b"
      "pending_reads s ip = Some (Payload_read n)" "sender_type ip s = Some UntrustedClient"
      "begins L cfg io (first_line b) ip r s"
      "voting (service_of p') = voting (fst (admit_voter cfg io (cb_voter_unique_id (cr_body r)) s))"
  | (confirm) s ip b n r v secret t where "p = Running s" "ev = Read_line ip" "client_buffers s ip = Some b"
      "pending_reads s ip = Some (Payload_read n)" "sender_type ip s = Some TrustedClient"
      "confirms L cfg io (first_line b) ip r v secret t s"
      "voting (service_of p') = voting (confirmed io v t s)"
  | (expire) s w where "p = Running s" "ev = Timer_expired w" "w \<in> set (timer_waits s)"
      "timer_expiry w \<le> steady_now io"
      "voting (service_of p') = voting (handle_verification_timeout io (timer_voter_id w)
         (s\<lparr>timer_waits := remove1 w (timer_waits s)\<rparr>))"
  using assms
proof (cases rule: step.cases)
  case (read_line s ip r b)
  obtain s' e where eq: "on_read L cfg io ip r (first_line b) s = (s', e)" by fastforce
  from eq show ?thesis
  proof (cases rule: on_read_cases)
    case none2: none
    then show ?thesis using read_line eq by (intro none) simp
  next
    case s2: (start n r')
    then show ?thesis using read_line eq by (intro start [of s ip b n r']) simp_all
  next
    case c2: (confirm n r' v secret t)
    then show ?thesis using read_line eq by (intro confirm [of s ip b n r' v secret t]) simp_all
  qed
next
  case (timer_expired w s)
  then show ?thesis by (intro expire [of s w]) simp_all
qed (use none in \<open>simp_all add: service_frame handle_accept_def on_handshake_error_def do_accept_def
       on_read_error_def Let_def split: option.splits pending_read.splits sum.splits\<close>)


text \<open>A line that a trusted device's connection delivers, read to the end: ignored, denied or confirmed.\<close>

lemma trusted_read_cases:
  assumes "step L cfg (Running s) (io, Read_line ip) p'" "sender_type ip s = Some TrustedClient"
    "client_buffers s ip = Some b"
  obtains (incomplete) "voting (service_of p') = voting s" "sent (service_of p') = sent s"
      "pending_reads s ip \<noteq> Some (Payload_read (length (first_line b) - 1))"
  | (ignore) "voting (service_of p') = voting s" "sent (service_of p') = sent s"
      "\<not> (\<exists>r v secret t. confirms L cfg io (first_line b) ip r v secret t s)"
  | (refuse) r v secret where "voting (service_of p') = voting s"
      "\<not> (\<exists>r v secret t. confirms L cfg io (first_line b) ip r v secret t s)"
      "decode_ticket_request L (first_line b) = Inr r" "ticket_authentic L cfg io ip r v (with_tickets s)"
      "client_tickets_map (with_tickets s) (tb_ticket (tr_body r)) = Some (v, secret)"
      "sent_reply L ip (denial cfg r v) s (service_of p')"
  | (confirm) r v secret t where "confirms L cfg io (first_line b) ip r v secret t s"
      "voting (service_of p') = voting (confirmed io v t s)" "sent_reply L ip (approval cfg r v secret) s (service_of p')"
proof -
  let ?line = "first_line b"
  obtain rd where rd: "pending_reads s ip = Some rd" and p': "p' = process_of (on_read L cfg io ip rd ?line s)"
    using assms(1,3) by (auto elim!: step_E)
  show thesis
  proof (cases "rd = Payload_read (length ?line - 1)")
    case False
    then have "voting (service_of p') = voting s \<and> sent (service_of p') = sent s"
      by (auto simp: p' on_read_def on_payload_read_def on_size_read_def start_payload_read_def start_read_def consume_def
          Let_def service_frame split: pending_read.split sum.split)
    then show thesis using False rd by (intro incomplete) simp_all
  next
    case True
    obtain c ci where c: "client_id_map s ip = Some c" "clients s c = Some ci" "ci_type ci = TrustedClient"
      using assms(2) by (auto simp: sender_type_def split: option.splits)
    let ?s1 = "(consume (length ?line) ip (s\<lparr>pending_reads := (pending_reads s)(ip := None)\<rparr>))\<lparr>cur_client_id := c\<rparr>"
    obtain s' e where eq: "handle_trusted_client L cfg io ?line ip ?s1 = (s', e)" by fastforce
    have srv: "service_of p' = s'"
      using True c eq by (simp add: p' on_read_def on_payload_read_def dispatch_message_def consume_def)
    have v1: "voting ?s1 = voting s" by (simp add: consume_def service_frame)
    have c1: "client_id_map ?s1 = client_id_map s" "client_verifiers ?s1 = client_verifiers s" "key_files ?s1 = key_files s"
      "client_tickets_map ?s1 = client_tickets_map s" "ticket_file ?s1 = ticket_file s" "sent ?s1 = sent s"
      "signer_key ?s1 = signer_key s"
      by (simp_all add: consume_def)
    have cf: "confirms L cfg io ?line ip r v secret t ?s1 = confirms L cfg io ?line ip r v secret t s" for r v secret t
      by (rule confirms_cong) (simp_all add: c1 voting_eqD [OF v1])
    have ta: "ticket_authentic L cfg io ip r v (with_tickets ?s1) = ticket_authentic L cfg io ip r v (with_tickets s)" for r v
      by (rule ticket_authentic_cong) (simp_all add: c1)
    have tk: "client_tickets_map (with_tickets ?s1) = client_tickets_map (with_tickets s)"
      by (simp add: with_tickets_def c1)
    have sr: "sent_reply L ip body ?s1 s' = sent_reply L ip body s s'" for body by (simp add: sent_reply_def c1)
    from eq show thesis
    proof (cases rule: handle_trusted_client_cases)
      case ig: ignore
      then show thesis by (intro that(2)) (simp_all add: srv v1 c1 cf)
    next
      case rf: (refuse r v secret)
      then show thesis by (intro that(3) [of r v secret]) (simp_all only: srv v1 cf ta tk sr not_False_eq_True)
    next
      case co: (confirm r v secret t)
      then show thesis
        using confirmed_voting_cong [OF v1] by (intro that(4) [of r v secret t]) (simp_all only: srv cf sr not_False_eq_True)
    qed
  qed
qed

section \<open>The invariant of the protocol\<close>

text \<open>
  A pending voter has exactly one timer, its own, whose wait is the only wait for that voter in
  flight. An eligible voter, and a number not on the roll, has neither timer nor wait. A checked-in
  voter has no timer (a wait whose handler was already queued may be left).
\<close>

definition voter_ok :: "status_table \<times> (u32 \<rightharpoonup> timer) \<times> timer list \<Rightarrow> u32 \<Rightarrow> bool" where
  "voter_ok vt v = (case vt of (tbl, timers, waits) \<Rightarrow>
     (let ws = filter (\<lambda>w. timer_voter_id w = v) waits in
      (case tbl v of
         Some PENDING \<Rightarrow> (case timers v of
             None \<Rightarrow> False
           | Some t \<Rightarrow> timer_voter_id t = v \<and> ws = [t])
       | Some CHECKED_IN \<Rightarrow> timers v = None
       | _ \<Rightarrow> timers v = None \<and> ws = [])))"

definition protocol_inv :: "'k process \<Rightarrow> bool" where
  "protocol_inv p \<longleftrightarrow> (\<forall>v. voter_ok (voting (service_of p)) v)"

lemma voter_ok_cong:
  assumes "tbl u = tbl' u" "timers u = timers' u"
    "filter (\<lambda>w. timer_voter_id w = u) ws = filter (\<lambda>w. timer_voter_id w = u) ws'"
  shows "voter_ok (tbl, timers, ws) u = voter_ok (tbl', timers', ws') u"
  unfolding voter_ok_def prod.case assms ..

lemma voter_ok_wait:
  assumes "voter_ok (tbl, timers, ws) u" "w \<in> set ws'" "filter (\<lambda>x. timer_voter_id x = u) ws = ws'"
  shows "tbl u = Some CHECKED_IN \<or> tbl u = Some PENDING \<and> ws' = [w]"
  using assms(1,2) unfolding voter_ok_def prod.case assms(3)
  by (auto simp: Let_def split: option.splits voter_status.splits)

lemma voter_ok_PENDING:
  "voter_ok (tbl, timers, waits) v \<Longrightarrow> tbl v = Some PENDING \<longleftrightarrow> timers v \<noteq> None"
  by (auto simp: voter_ok_def Let_def split: option.splits voter_status.splits)

text \<open>The only wait for a pending voter is that of its timer.\<close>

lemma voter_ok_timer:
  assumes "voter_ok (voting s) v" "voter_status_table s v = Some PENDING"
    "w \<in> set (timer_waits s)" "timer_voter_id w = v"
  shows "request_timers s v = Some w"
proof -
  from assms(1,2) obtain t where t: "request_timers s v = Some t"
    "filter (\<lambda>w. timer_voter_id w = v) (timer_waits s) = [t]"
    by (auto simp: voter_ok_def voting_def Let_def split: option.splits)
  have "w \<in> set (filter (\<lambda>w. timer_voter_id w = v) (timer_waits s))" using assms(3,4) by simp
  with t show ?thesis by simp
qed

lemma filter_cancel_wait_other:
  "timer_voter_id t \<noteq> v \<Longrightarrow>
     filter (\<lambda>w. timer_voter_id w = v) (cancel_wait io (Some t) ws) = filter (\<lambda>w. timer_voter_id w = v) ws"
  by (auto simp: cancel_wait_def filter_filter intro!: filter_cong)

lemma filter_remove1_other:
  "\<not> P w \<Longrightarrow> filter P (remove1 w ws) = filter P ws"
  by (induction ws) auto

lemma voter_ok_admit:
  assumes ok: "\<And>u. voter_ok (voting s) u" and el: "voter_status_table s v = Some ELIGIBLE"
  shows "voter_ok (voting (fst (admit_voter cfg io v s))) u"
  using ok [of u] ok [of v] el
  by (auto simp: voter_ok_def voting_def admit_voter_def start_timer_def cancel_wait_def Let_def
      split: option.splits voter_status.splits)

lemma voter_ok_confirmed:
  assumes ok: "\<And>u. voter_ok (voting s) u" and t: "request_timers s v = Some t"
  shows "voter_ok (voting (confirmed io v t s)) u"
proof -
  have p: "voter_status_table s v = Some PENDING" "timer_voter_id t = v"
    using ok [of v] t by (auto simp: voter_ok_def voting_def Let_def split: option.splits voter_status.splits)
  show ?thesis
  proof (cases "u = v")
    case True
    then show ?thesis using p by (simp add: voter_ok_def confirmed_voting)
  next
    case False
    then have "voter_ok (voting (confirmed io v t s)) u = voter_ok (voting s) u"
      using p unfolding confirmed_voting voting_def
      by (intro voter_ok_cong) (simp_all add: confirmed_def filter_cancel_wait_other)
    with ok show ?thesis by simp
  qed
qed

lemma filter_remove1_same: "P w \<Longrightarrow> filter P (remove1 w ws) = remove1 w (filter P ws)"
  by (induction ws) auto

lemma filter_cancel_wait_Nil: "filter P ws = [] \<Longrightarrow> filter P (cancel_wait io t ws) = []"
  by (auto simp: cancel_wait_def filter_empty_conv split: option.split)

lemma voter_ok_timeout:
  assumes ok: "\<And>u. voter_ok (voting s) u" and w: "w \<in> set (timer_waits s)"
  shows "voter_ok (voting (handle_verification_timeout io (timer_voter_id w)
     (s\<lparr>timer_waits := remove1 w (timer_waits s)\<rparr>))) u"
proof (cases "u = timer_voter_id w")
  case False
  have "request_timers s (timer_voter_id w) = Some t \<Longrightarrow> timer_voter_id t \<noteq> u" for t
    using ok [of "timer_voter_id w"] False
    by (auto simp: voter_ok_def voting_def Let_def split: option.splits voter_status.splits)
  then have "filter (\<lambda>x. timer_voter_id x = u)
      (cancel_wait io (request_timers s (timer_voter_id w)) (remove1 w (timer_waits s))) =
      filter (\<lambda>x. timer_voter_id x = u) (timer_waits s)"
    using False by (cases "request_timers s (timer_voter_id w)")
      (simp_all add: filter_cancel_wait_other filter_remove1_other cancel_wait_def [of io None])
  then have "voter_ok (voting (handle_verification_timeout io (timer_voter_id w)
      (s\<lparr>timer_waits := remove1 w (timer_waits s)\<rparr>))) u = voter_ok (voting s) u"
    using False unfolding voting_handle_verification_timeout voting_def [of s]
    by (intro voter_ok_cong) simp_all
  with ok show ?thesis by simp
next
  case True
  have "w \<in> set (filter (\<lambda>x. timer_voter_id x = u) (timer_waits s))" using w True by simp
  then consider "voter_status_table s u = Some CHECKED_IN"
    | "voter_status_table s u = Some PENDING" "filter (\<lambda>x. timer_voter_id x = u) (timer_waits s) = [w]"
    using voter_ok_wait [OF ok [of u, unfolded voting_def] _ refl] by blast
  then show ?thesis
  proof cases
    case 1
    then show ?thesis using True by (simp add: voter_ok_def voting_handle_verification_timeout)
  next
    case 2
    then have "filter (\<lambda>x. timer_voter_id x = u) (remove1 w (timer_waits s)) = []"
      using True by (simp add: filter_remove1_same)
    then show ?thesis
      using 2 True by (simp add: voter_ok_def voting_handle_verification_timeout filter_cancel_wait_Nil)
  qed
qed

lemma protocol_inv_step:
  assumes "protocol_inv p" "step L cfg p l p'"
  shows "protocol_inv p'"
proof -
  obtain io ev where [simp]: "l = (io, ev)" by fastforce
  from assms(2) have "step L cfg p (io, ev) p'" by simp
  then show ?thesis
  proof (cases rule: step_cases)
    case none
    with assms(1) show ?thesis by (simp add: protocol_inv_def)
  next
    case (start s ip b n r)
    with assms(1) show ?thesis by (auto simp: protocol_inv_def begins_def intro!: voter_ok_admit)
  next
    case (confirm s ip b n r v secret t)
    with assms(1) show ?thesis by (auto simp: protocol_inv_def confirms_def intro!: voter_ok_confirmed)
  next
    case (expire s w)
    with assms(1) show ?thesis by (auto simp: protocol_inv_def intro!: voter_ok_timeout)
  qed
qed

text \<open>The state in which the constructor and \<open>run\<close> leave the service.\<close>

definition started ::
  "('j, 'k, 'c) libs \<Rightarrow> checkin_config \<Rightarrow> 'k process \<Rightarrow> bool" where
  "started L cfg p \<longleftrightarrow> (\<exists>id_key own_key garbage tickets fs names s.
     CheckinService L cfg names (blank_service id_key own_key garbage tickets fs) = Inr s \<and> p = Running (run s))"

lemma load_key_entries_voting:
  "load_key_entries cfg es s = Inr (s', b) \<Longrightarrow> voting s' = voting s"
  by (induction cfg es s rule: load_key_entries.induct)
    (auto simp: result_simps service_frame split: sum.splits cpp_error.splits if_splits)

lemma load_voter_list_ELIGIBLE:
  assumes "load_voter_list csv_path file Map.empty = Inr tbl" "tbl v = Some st"
  shows "st = ELIGIBLE"
  using assms load_voter_rows_ELIGIBLE [of _ Map.empty tbl v st]
  by (auto simp: load_voter_list_def Let_def split: option.splits if_splits prod.splits)

lemma started_voting:
  assumes "started L cfg p"
  obtains tbl where "load_voter_list (voter_list_path cfg) (voter_list_file cfg) Map.empty = Inr tbl"
    "voting (service_of p) = (tbl, Map.empty, [])"
proof -
  from assms obtain id_key own_key garbage tickets fs names s where
    c: "CheckinService L cfg names (blank_service id_key own_key garbage tickets fs) = Inr s" "p = Running (run s)"
    by (auto simp: started_def)
  show thesis
    using c that
    by (auto simp: CheckinService_def result_simps load_client_public_keys_def blank_service_def run_def
        do_accept_def voting_def dest!: load_key_entries_voting)
qed

interpretation checkin: invariant "started L cfg" "step L cfg" protocol_inv for L cfg
proof (unfold_locales, goal_cases)
  case (1 p)
  then obtain tbl where "load_voter_list (voter_list_path cfg) (voter_list_file cfg) Map.empty = Inr tbl"
    "voting (service_of p) = (tbl, Map.empty, [])" by (rule started_voting)
  then show ?case
    by (auto simp: protocol_inv_def voter_ok_def split: option.split voter_status.split dest: load_voter_list_ELIGIBLE)
next
  case (2 p l p')
  then show ?case by (rule protocol_inv_step)
qed


section \<open>Refinement of the abstract voter machine\<close>

definition votes :: "'k process \<Rightarrow> status_table" where
  "votes p = voter_status_table (service_of p)"

lemma votes_voting: "voting (service_of p) = (tbl, tms, ws) \<Longrightarrow> votes p = tbl"
  by (simp add: voting_def votes_def)

lemma protocol_inv_PENDING:
  "protocol_inv p \<Longrightarrow> votes p v = Some PENDING \<longleftrightarrow> request_timers (service_of p) v \<noteq> None"
  using voter_ok_PENDING [of "votes p" "request_timers (service_of p)" "timer_waits (service_of p)" v]
  by (simp add: protocol_inv_def voting_def votes_def)

text \<open>What each of the three effective steps does to the table.\<close>

lemma votes_admit:
  assumes "voting (service_of p') = voting (fst (admit_voter cfg io v s))" "voter_status_table s v = Some ELIGIBLE"
  shows "votes p' = (voter_status_table s)(v \<mapsto> PENDING)"
  using assms by (auto simp: votes_def voting_def admit_voter_def start_timer_def Let_def)

lemma votes_confirmed:
  assumes "voting (service_of p') = voting (confirmed io v t s)" "voter_status_table s v = Some PENDING"
  shows "votes p' = (voter_status_table s)(v \<mapsto> CHECKED_IN)"
  using assms by (auto simp: votes_def voting_def confirmed_def)

lemma votes_timeout:
  assumes "voting (service_of p') = voting (handle_verification_timeout io v s)"
  shows "votes p' = (if voter_status_table s v = Some PENDING then (voter_status_table s)(v \<mapsto> ELIGIBLE)
                     else voter_status_table s)"
  using assms by (auto simp: votes_def voting_handle_verification_timeout) (auto simp: voting_def)

text \<open>
  The event behind each abstract action: a check-in begins by a valid request of an untrusted client
  for that voter, is confirmed by an authentic ticket request of a trusted client for that voter, and
  expires by the expiry of that voter's own timer.
\<close>

fun caused_by ::
  "('j, 'k, 'c) libs \<Rightarrow> checkin_config \<Rightarrow> 'k process \<Rightarrow> io_input \<times> 'k event \<Rightarrow> voter_action \<Rightarrow> bool" where
  "caused_by L cfg p (io, ev) (Begin v) \<longleftrightarrow> (\<exists>s ip b r. p = Running s \<and> ev = Read_line ip \<and>
     client_buffers s ip = Some b \<and> sender_type ip s = Some UntrustedClient \<and>
     begins L cfg io (first_line b) ip r s \<and> cb_voter_unique_id (cr_body r) = v)"
| "caused_by L cfg p (io, ev) (Confirm v) \<longleftrightarrow> (\<exists>s ip b r secret t. p = Running s \<and> ev = Read_line ip \<and>
     client_buffers s ip = Some b \<and> sender_type ip s = Some TrustedClient \<and>
     confirms L cfg io (first_line b) ip r v secret t s)"
| "caused_by L cfg p (io, ev) (Expire v) \<longleftrightarrow> (\<exists>s t. p = Running s \<and> ev = Timer_expired t \<and>
     request_timers s v = Some t \<and> timer_voter_id t = v \<and> timer_expiry t \<le> steady_now io)"
| "caused_by L cfg p (io, ev) Idle \<longleftrightarrow> True"

lemma step_simulated:
  assumes inv: "protocol_inv p" and st: "step L cfg p l p'"
  shows "\<exists>a. voter_step (votes p) a (votes p') \<and> caused_by L cfg p l a"
proof -
  obtain io ev where l: "l = (io, ev)" by fastforce
  from st [unfolded l] show ?thesis
  proof (cases rule: step_cases)
    case none
    then have "votes p' = votes p" by (simp add: votes_def voting_def)
    then show ?thesis using voter_step.idle l by (intro exI [of _ Idle]) simp
  next
    case (start s ip b n r)
    then have "voter_status_table s (cb_voter_unique_id (cr_body r)) = Some ELIGIBLE" by (simp add: begins_def)
    with start votes_admit [OF start(7)] show ?thesis
      by (intro exI [of _ "Begin (cb_voter_unique_id (cr_body r))"]) (auto simp: l votes_def voter_step_simps)
  next
    case (confirm s ip b n r v secret t)
    then have "votes p v = Some PENDING" using protocol_inv_PENDING [OF inv] by (simp add: confirms_def)
    with confirm votes_confirmed [OF confirm(7)] show ?thesis
      by (intro exI [of _ "Confirm v"]) (auto simp: l votes_def voter_step_simps)
  next
    case (expire s w)
    show ?thesis
    proof (cases "voter_status_table s (timer_voter_id w) = Some PENDING")
      case True
      have "voter_ok (voting s) (timer_voter_id w)" using inv expire(1) by (simp add: protocol_inv_def)
      then have "request_timers s (timer_voter_id w) = Some w"
        using True expire(3) by (rule voter_ok_timer) simp
      with True expire votes_timeout [OF expire(5)] show ?thesis
        by (intro exI [of _ "Expire (timer_voter_id w)"]) (auto simp: l votes_def voter_step_simps)
    next
      case False
      with expire votes_timeout [OF expire(5)] show ?thesis
        by (intro exI [of _ Idle]) (simp add: l votes_def voter_step_simps)
    qed
  qed
qed

interpretation voters: simulation "started L cfg" "step L cfg" protocol_inv voter_step votes "caused_by L cfg" for L cfg
  by unfold_locales (rule step_simulated)


text \<open>A pending voter's timer, and the state its expiry leads to.\<close>

lemma pending_timer:
  assumes "protocol_inv p" "votes p v = Some PENDING"
  shows "\<exists>t. request_timers (service_of p) v = Some t \<and> timer_voter_id t = v \<and> t \<in> set (timer_waits (service_of p))"
proof -
  have "voter_ok (voting (service_of p)) v" using assms(1) by (simp add: protocol_inv_def)
  then obtain t where t: "request_timers (service_of p) v = Some t" "timer_voter_id t = v"
    "filter (\<lambda>w. timer_voter_id w = v) (timer_waits (service_of p)) = [t]"
    using assms(2) by (auto simp: voter_ok_def voting_def votes_def Let_def split: option.splits)
  have "t \<in> set (filter (\<lambda>w. timer_voter_id w = v) (timer_waits (service_of p)))" by (simp add: t)
  then show ?thesis using t(1,2) by simp
qed

definition timed_out :: "io_input \<Rightarrow> timer \<Rightarrow> 'k checkin_service \<Rightarrow> 'k checkin_service" where
  "timed_out io t s = handle_verification_timeout io (timer_voter_id t) (s\<lparr>timer_waits := remove1 t (timer_waits s)\<rparr>)"

end
