(* ===== verification/Framing.thy ===== *)
theory Framing
  imports Checkin_Service Transition_System
begin

text \<open>
  The wire format both services read: a decimal size, a line break, the message, a line break. The
  interface of a service that reads one connection in this way, and that a framed message
  reaches the service complete and unchanged, whatever pieces its bytes arrive in.
\<close>

lemma first_line_append: "newline \<notin> set m \<Longrightarrow> first_line (m @ newline # r) = m @ [newline]"
  by (simp add: first_line_def)

text \<open>
  The states are those of a connection that waits for the size or for a payload, with the
  bytes in its buffer, and of one that has handed a message over, with the bytes left.
\<close>

locale framed_reader =
  fixes act :: "'p \<Rightarrow> 'e \<Rightarrow> 'p option"
    and at_size :: "string \<Rightarrow> 'p"
    and at_payload :: "nat \<Rightarrow> string \<Rightarrow> 'p"
    and handed_over :: "string \<Rightarrow> string \<Rightarrow> 'p"
    and arrive :: "string \<Rightarrow> 'e"
    and line_read :: 'e
  assumes bytes_arrive: "act (at_size b) (arrive c) = Some (at_size (b @ c))"
    and size_line: "newline \<notin> set l \<Longrightarrow> stoul (l @ [newline]) = Inr n \<Longrightarrow>
      act (at_size (l @ newline # r)) line_read = Some (at_payload n r)"
    and payload_line: "newline \<notin> set m \<Longrightarrow>
      act (at_payload (length m) (m @ newline # r)) line_read = Some (handed_over m r)"
begin

lemma arrive_all: "run_all act (at_size b) (map arrive chunks) = Some (at_size (b @ concat chunks))"
  by (induction chunks arbitrary: b) (simp_all add: bytes_arrive)

lemma size_delivered:
  assumes "length m < 2 ^ 64" "concat chunks = frame_message m @ tail_bytes"
  shows "run_all act (at_size []) (map arrive chunks @ [line_read]) = Some (at_payload (length m) (m @ newline # tail_bytes))"
proof -
  have "act (at_size (to_string (length m) @ newline # (m @ newline # tail_bytes))) line_read =
      Some (at_payload (length m) (m @ newline # tail_bytes))"
    using assms(1) by (intro size_line) simp_all
  then show ?thesis
    using assms(2) by (simp add: run_all_append arrive_all frame_message_def)
qed

lemma frame_delivered:
  assumes "newline \<notin> set m" "length m < 2 ^ 64" "concat chunks = frame_message m @ tail_bytes"
  shows "run_all act (at_size []) (map arrive chunks @ [line_read, line_read]) = Some (handed_over m tail_bytes)"
  using run_all_append [of act "at_size []" "map arrive chunks @ [line_read]" "[line_read]"]
    size_delivered [OF assms(2,3)] payload_line [OF assms(1), of tail_bytes]
  by simp

end

end
