(* ===== verification/Checkin_Delivery.thy ===== *)
theory Checkin_Delivery
  imports Checkin_Protocol Framing
begin

text \<open>
  What the check-in service does with a well-formed message: a framed message is delivered to its
  handler whatever pieces its bytes arrive in, a valid check-in request is accepted, and a valid
  ticket request is confirmed. These are the success paths of the two phases of a check-in, with
  the state they end in.
\<close>

section \<open>Delivery of framed messages\<close>

text \<open>The bytes of a message may arrive in any number of pieces.\<close>

definition arrivals :: "io_input \<Rightarrow> endpoint \<Rightarrow> string list \<Rightarrow> (io_input \<times> 'k event) list" where
  "arrivals io ip chunks = map (\<lambda>c. (io, Received ip c)) chunks"

definition after_payload :: "endpoint \<Rightarrow> string \<Rightarrow> 'k checkin_service \<Rightarrow> 'k checkin_service" where
  "after_payload ip tail_bytes s =
     s\<lparr>pending_reads := (pending_reads s)(ip := None), client_buffers := (client_buffers s)(ip \<mapsto> tail_bytes)\<rparr>"

definition awaiting_payload :: "endpoint \<Rightarrow> string \<Rightarrow> string \<Rightarrow> 'k checkin_service \<Rightarrow> 'k checkin_service" where
  "awaiting_payload ip m tail_bytes s =
     s\<lparr>client_buffers := (client_buffers s)(ip \<mapsto> m @ newline # tail_bytes),
       pending_reads := (pending_reads s)(ip \<mapsto> Payload_read (length m))\<rparr>"

text \<open>A connection with a read in flight and the given bytes in its buffer.\<close>

definition reading :: "pending_read \<Rightarrow> endpoint \<Rightarrow> string \<Rightarrow> 'k checkin_service \<Rightarrow> 'k checkin_service" where
  "reading r ip b s =
     s\<lparr>client_buffers := (client_buffers s)(ip \<mapsto> b), pending_reads := (pending_reads s)(ip \<mapsto> r),
       client_ssl_streams := insert ip (client_ssl_streams s)\<rparr>"

interpretation checkin_frames: framed_reader "perform L cfg"
  "\<lambda>b. Running (reading Size_read ip b s)" "\<lambda>n b. Running (reading (Payload_read n) ip b s)"
  "\<lambda>m b. process_of (dispatch_message L cfg io (m @ [newline]) ip
     (after_payload ip b (s\<lparr>client_ssl_streams := insert ip (client_ssl_streams s)\<rparr>)))"
  "\<lambda>c. (io, Received ip c)" "(io, Read_line ip)"
  by unfold_locales
    (auto simp: reading_def first_line_append on_read_def on_size_read_def start_payload_read_def start_read_def
      consume_def on_payload_read_def after_payload_def)

lemma reading_idle:
  assumes "pending_reads s ip = Some Size_read" "client_buffers s ip = Some []" "ip \<in> client_ssl_streams s"
  shows "reading Size_read ip [] s = s" "s\<lparr>client_ssl_streams := insert ip (client_ssl_streams s)\<rparr> = s"
    "reading (Payload_read (length m)) ip (m @ newline # tail_bytes) s = awaiting_payload ip m tail_bytes s"
  using assms by (simp_all add: reading_def awaiting_payload_def insert_absorb fun_upd_idem)

lemma deliver_size:
  assumes "pending_reads s ip = Some Size_read" "client_buffers s ip = Some []"
    and "ip \<in> client_ssl_streams s" "length m < 2 ^ 64" "concat chunks = frame_message m @ tail_bytes"
  shows "perform_all L cfg (Running s) (arrivals io ip chunks @ [(io, Read_line ip)]) =
     Some (Running (awaiting_payload ip m tail_bytes s))"
  using checkin_frames.size_delivered [OF assms(4,5), of L cfg ip s io]
  unfolding reading_idle [OF assms(1-3)] arrivals_def .

lemma deliver_frame:
  assumes "pending_reads s ip = Some Size_read" "client_buffers s ip = Some []"
    and "ip \<in> client_ssl_streams s" "newline \<notin> set m" "length m < 2 ^ 64" "concat chunks = frame_message m @ tail_bytes"
  shows "perform_all L cfg (Running s) (arrivals io ip chunks @ [(io, Read_line ip), (io, Read_line ip)]) =
     Some (process_of (dispatch_message L cfg io (m @ [newline]) ip (after_payload ip tail_bytes s)))"
  using checkin_frames.frame_delivered [OF assms(4,5,6), of L cfg ip s io]
  unfolding reading_idle [OF assms(1-3)] arrivals_def .

section \<open>A valid check-in request is accepted\<close>

definition approval_response ::
  "('j, 'k, 'c) libs \<Rightarrow> 'k \<Rightarrow> checkin_response_body \<Rightarrow> string result" where
  "approval_response L key body =
     bindR (j_dump L (CheckinResponse_Body_ToJson L body)) (\<lambda>str.
     bindR (sign_string L key str) (\<lambda>signature.
     j_dump L (CheckinResponse_ToJson L \<lparr>pr_body = body, pr_checkin_service_signature = signature\<rparr>)))"

definition response_for :: "io_input \<Rightarrow> bool \<Rightarrow> checkin_request \<Rightarrow> string \<Rightarrow> checkin_response_body" where
  "response_for io accept r ticket = (let body = cr_body r in
     \<lparr>pb_approved = accept, pb_requesting_client_id = cb_client_id_num body, pb_timestamp = now_ms io,
      pb_last_name = cb_last_name body, pb_first_name = cb_first_name body, pb_middle_name = cb_middle_name body,
      pb_voter_unique_id = cb_voter_unique_id body, pb_ticket = ticket\<rparr>)"

definition accepted_state ::
  "checkin_config \<Rightarrow> io_input \<Rightarrow> endpoint \<Rightarrow> checkin_request \<Rightarrow> string \<Rightarrow> string \<Rightarrow> string \<Rightarrow> 'k checkin_service
     \<Rightarrow> 'k checkin_service" where
  "accepted_state cfg io ip r ticket secret reply s =
     (let v = cb_voter_unique_id (cr_body r); s1 = fst (admit_voter cfg io v s);
          s2 = s1\<lparr>client_tickets_map := (client_tickets_map s)(ticket \<mapsto> (v, secret)),
                  ticket_file := write_to_csv (csv_opens io) ticket secret v (ticket_file s),
                  sent := sent s @ [(ip, frame_message reply)]\<rparr>
      in fst (start_size_read ip s2))"

lemma handle_checkin_request_accept:
  assumes ident: "client_id_map s ip = Some (cb_client_id_num (cr_body r))"
    and key: "client_verifiers s (cb_client_id_num (cr_body r)) = Some key"
    and valid: "request_valid L cfg s r (now_ms io)"
    and elig: "voter_status_table s (cb_voter_unique_id (cr_body r)) = Some ELIGIBLE"
    and dump: "j_dump L (CheckinRequest_ToJson L r) = Inr full"
    and rand: "generate_secret (rand_ticket io) = Inr ticket" "generate_secret (rand_secret io) = Inr secret"
    and resp: "approval_response L (signer_key s) (response_for io True r ticket) = Inr reply"
    and net: "ip \<in> client_ssl_streams s" "\<not> write_fails io"
  shows "handle_checkin_request L cfg io ip r s = (accepted_state cfg io ip r ticket secret reply s, None)"
proof -
  let ?c = "cb_client_id_num (cr_body r)" and ?v = "cb_voter_unique_id (cr_body r)"
  have s0: "s\<lparr>client_id_map := client_id_map s\<rparr> = s" by simp
  from valid key obtain b where b: "j_dump L (CheckinRequest_Body_ToJson L (cr_body r)) = Inr b"
    by (auto simp: request_valid_def client_key_def Let_def result_simps)
  obtain s1 x where va: "validate_client_request L cfg io r (now_ms io) s = (s1, x)" by fastforce
  with valid key have x: "x = Inr True" using validate_client_request_iff [of s r L cfg io "now_ms io"] by simp
  with va have s1: "s1 = s" by (auto dest: validate_client_request_True)
  have de: "decide_checkin L cfg io True r (now_ms io) s = (fst (admit_voter cfg io ?v s), Inr (Some True))"
    using key va x s1 elig by (simp add: decide_checkin_def admit_voter_def)
  have "handle_checkin_request L cfg io ip r s =
      (case issue_ticket io True ?v (fst (admit_voter cfg io ?v s)) of
         (s4, Inl e) \<Rightarrow> (s4, Some e)
       | (s4, Inr ticket) \<Rightarrow> send_checkin_response L io ip (response_for io True r ticket) s4)"
    using ident b dump de by (simp add: handle_checkin_request_def response_for_def Let_def split: prod.split sum.split)
  also have "\<dots> = (accepted_state cfg io ip r ticket secret reply s, None)"
    using rand resp net elig
    by (simp add: issue_ticket_def send_checkin_response_def approval_response_def accepted_state_def
        admit_voter_def start_timer_def start_size_read_def start_read_def Let_def)
  finally show ?thesis .
qed


section \<open>A valid ticket request is confirmed\<close>

definition ticket_response_text :: "('j, 'k, 'c) libs \<Rightarrow> 'k \<Rightarrow> ticket_response_body \<Rightarrow> string result" where
  "ticket_response_text L key body =
     bindR (j_dump L (TicketResponse_Body_ToJson L body)) (\<lambda>str.
     bindR (sign_string L key str) (\<lambda>signature.
     j_dump L (TicketResponse_ToJson L \<lparr>rr_body = body, rr_signature = signature\<rparr>)))"

lemma send_ticket_response_ok:
  assumes "ticket_response_text L (signer_key s) body = Inr reply" "ip \<in> client_ssl_streams s" "\<not> write_fails io"
  shows "send_ticket_response L io ip body s = (s\<lparr>sent := sent s @ [(ip, reply @ [newline])]\<rparr>, None)"
  using assms by (simp add: send_ticket_response_def ticket_response_text_def)

lemma authenticate_ticket_request_ok:
  assumes "ticket_authentic L cfg io ip r v s" "client_id_map s ip = Some (tb_client_id (tr_body r))"
    "client_verifiers s (tb_client_id (tr_body r)) = Some key"
  shows "authenticate_ticket_request L cfg io ip r s = (s, Inr (Some (tb_client_id (tr_body r), v)))"
  using assms
  by (auto simp: authenticate_ticket_request_def ticket_authentic_def client_key_def Let_def result_simps)

lemma settle_ticket_request_ok:
  assumes "pin_matches cfg r v" "request_timers s v = Some t" "in_window cfg io t"
    "client_tickets_map s (tb_ticket (tr_body r)) = Some (v, secret)"
  shows "settle_ticket_request L cfg io ip r c v s =
     send_ticket_response L io ip (approval cfg r v secret) (confirmed io v t s)"
  using assms
  by (simp add: settle_ticket_request_def pin_matches_def claim_timer_def in_window_def confirm_checkin_def
      approval_def confirmed_def Let_def)

lemma handle_trusted_client_confirm:
  assumes conf: "confirms L cfg io msg ip r v secret t s"
    and ident: "client_id_map s ip = Some (tb_client_id (tr_body r))"
      "client_verifiers s (tb_client_id (tr_body r)) = Some key"
    and resp: "ticket_response_text L (signer_key s) (approval cfg r v secret) = Inr reply"
    and net: "ip \<in> client_ssl_streams s" "\<not> write_fails io"
  shows "handle_trusted_client L cfg io msg ip s =
     ((confirmed io v t (with_tickets s))\<lparr>sent := sent s @ [(ip, reply @ [newline])]\<rparr>, None)"
proof -
  from conf obtain j where j: "j_parse L msg = Inr j" "TicketRequest_FromJson L j = Inr r"
    by (auto simp: confirms_def result_simps)
  let ?s = "with_tickets s"
  have "authenticate_ticket_request L cfg io ip r ?s = (?s, Inr (Some (tb_client_id (tr_body r), v)))"
    using conf ident by (intro authenticate_ticket_request_ok) (simp_all add: confirms_def with_tickets_def)
  moreover have "settle_ticket_request L cfg io ip r (tb_client_id (tr_body r)) v ?s =
      send_ticket_response L io ip (approval cfg r v secret) (confirmed io v t ?s)"
    using conf by (intro settle_ticket_request_ok) (simp_all add: confirms_def service_frame)
  moreover have "send_ticket_response L io ip (approval cfg r v secret) (confirmed io v t ?s) =
      ((confirmed io v t ?s)\<lparr>sent := sent s @ [(ip, reply @ [newline])]\<rparr>, None)"
    using resp net by (subst send_ticket_response_ok) (simp_all add: confirmed_def with_tickets_def)
  ultimately show ?thesis
    by (simp add: handle_trusted_client_def j Let_def flip: with_tickets_def)
qed


section \<open>The two phases over the wire\<close>

text \<open>A connection of client \<open>c\<close> of the given type that waits for a message and has a verification key.\<close>

definition connected :: "endpoint \<Rightarrow> u32 \<Rightarrow> client_type \<Rightarrow> 'k \<Rightarrow> 'k checkin_service \<Rightarrow> bool" where
  "connected ip c ty key s \<longleftrightarrow>
     pending_reads s ip = Some Size_read \<and> client_buffers s ip = Some [] \<and> ip \<in> client_ssl_streams s \<and>
     client_id_map s ip = Some c \<and> map_option ci_type (clients s c) = Some ty \<and> client_verifiers s c = Some key"

definition current :: "u32 \<Rightarrow> endpoint \<Rightarrow> 'k checkin_service \<Rightarrow> 'k checkin_service" where
  "current c ip s = (after_payload ip [] s)\<lparr>cur_client_id := c\<rparr>"

lemma current_frame [service_frame]:
  "voting (current c ip s) = voting s" "ticketing (current c ip s) = ticketing s"
  by (simp_all add: current_def after_payload_def service_frame)

lemma checkin_phase:
  assumes laws: "codec_laws L" and conn: "connected ip (cb_client_id_num (cr_body r)) UntrustedClient key s"
    and wire: "valid_checkin_request r" "j_dump L (CheckinRequest_ToJson L r) = Inr m" "length m < 2 ^ 64"
      "concat chunks = frame_message m"
    and valid: "request_valid L cfg s r (now_ms io)"
    and elig: "voter_status_table s (cb_voter_unique_id (cr_body r)) = Some ELIGIBLE"
    and rand: "generate_secret (rand_ticket io) = Inr ticket" "generate_secret (rand_secret io) = Inr secret"
    and resp: "approval_response L (signer_key s) (response_for io True r ticket) = Inr reply"
    and net: "\<not> write_fails io"
  shows "perform_all L cfg (Running s) (arrivals io ip chunks @ [(io, Read_line ip), (io, Read_line ip)]) =
     Some (Running (accepted_state cfg io ip r ticket secret reply (current (cb_client_id_num (cr_body r)) ip s)))"
proof -
  let ?c = "cb_client_id_num (cr_body r)" and ?s = "current (cb_client_id_num (cr_body r)) ip s"
  have nl: "newline \<notin> set m" using laws by (intro json_text(1) [OF _ wire(2)]) (simp add: codec_laws_def)
  have "bindR (j_parse L (m @ [newline])) (CheckinRequest_FromJson L) = Inr r"
    using laws wire(1,2) by (rule checkin_request.wire_round_trip)
  then have dec: "decode_checkin_request L (m @ [newline]) = Inr r"
    by (auto simp: decode_checkin_request_def result_simps)
  have v: "request_valid L cfg ?s r (now_ms io)"
    using valid request_valid_cong [of ?s s L cfg r] by (simp add: current_def after_payload_def)
  have "handle_checkin_request L cfg io ip r ?s = (accepted_state cfg io ip r ticket secret reply ?s, None)"
    using v conn elig rand resp net wire(2)
    by (intro handle_checkin_request_accept [where key = key and full = m])
      (simp_all add: connected_def current_def after_payload_def)
  moreover obtain ci where "clients s ?c = Some ci" "ci_type ci = UntrustedClient"
    using conn by (auto simp: connected_def)
  ultimately have "dispatch_message L cfg io (m @ [newline]) ip (after_payload ip [] s) =
      (accepted_state cfg io ip r ticket secret reply ?s, None)"
    using conn dec by (simp add: dispatch_message_def connected_def current_def after_payload_def)
  then show ?thesis
    using deliver_frame [of s ip m chunks "[]" L cfg io] conn nl wire(3,4) by (simp add: connected_def)
qed

lemma ticket_phase:
  assumes laws: "codec_laws L" and conn: "connected ip (tb_client_id (tr_body q)) TrustedClient key s"
    and wire: "tr_signature q \<noteq> []" "j_dump L (TicketRequest_ToJson L q) = Inr m" "length m < 2 ^ 64"
      "concat chunks = frame_message m"
    and auth: "ticket_authentic L cfg io ip q v (with_tickets s)" "pin_matches cfg q v"
      "client_tickets_map (with_tickets s) (tb_ticket (tr_body q)) = Some (v, secret)"
    and window: "request_timers s v = Some t" "in_window cfg io t"
    and resp: "ticket_response_text L (signer_key s) (approval cfg q v secret) = Inr reply"
    and net: "\<not> write_fails io"
  shows "perform_all L cfg (Running s) (arrivals io ip chunks @ [(io, Read_line ip), (io, Read_line ip)]) =
     Some (Running ((confirmed io v t (with_tickets (current (tb_client_id (tr_body q)) ip s)))
        \<lparr>sent := sent s @ [(ip, reply @ [newline])]\<rparr>))"
proof -
  let ?c = "tb_client_id (tr_body q)" and ?s = "current (tb_client_id (tr_body q)) ip s"
  have nl: "newline \<notin> set m" using laws by (intro json_text(1) [OF _ wire(2)]) (simp add: codec_laws_def)
  have "bindR (j_parse L (m @ [newline])) (TicketRequest_FromJson L) = Inr q"
    using laws wire(1,2) by (rule ticket_request.wire_round_trip)
  then have "confirms L cfg io (m @ [newline]) ip q v secret t s"
    using auth window by (simp add: confirms_def)
  then have "confirms L cfg io (m @ [newline]) ip q v secret t ?s"
    by (subst confirms_cong [of _ s]) (simp_all add: current_def after_payload_def)
  then have "handle_trusted_client L cfg io (m @ [newline]) ip ?s =
      ((confirmed io v t (with_tickets ?s))\<lparr>sent := sent ?s @ [(ip, reply @ [newline])]\<rparr>, None)"
    using conn resp net
    by (intro handle_trusted_client_confirm [where key = key]) (simp_all add: connected_def current_def after_payload_def)
  moreover obtain ci where "clients s ?c = Some ci" "ci_type ci = TrustedClient"
    using conn by (auto simp: connected_def)
  ultimately have "dispatch_message L cfg io (m @ [newline]) ip (after_payload ip [] s) =
      ((confirmed io v t (with_tickets ?s))\<lparr>sent := sent s @ [(ip, reply @ [newline])]\<rparr>, None)"
    using conn by (simp add: dispatch_message_def connected_def current_def after_payload_def)
  then show ?thesis
    using deliver_frame [of s ip m chunks "[]" L cfg io] conn nl wire(3,4) by (simp add: connected_def)
qed


text \<open>What the first phase leaves for the second.\<close>

definition issued_timer :: "checkin_config \<Rightarrow> io_input \<Rightarrow> u32 \<Rightarrow> timer" where
  "issued_timer cfg io v = \<lparr>timer_voter_id = v,
     timer_expiry = steady_now io + minutes (sint (timeout_interval cfg))\<rparr>"

lemma accepted_state_fields:
  fixes s :: "'k checkin_service" and cfg io ip ticket secret reply
  assumes elig: "voter_status_table s (cb_voter_unique_id (cr_body r)) = Some ELIGIBLE"
  defines "s' \<equiv> accepted_state cfg io ip r ticket secret reply s" and "v \<equiv> cb_voter_unique_id (cr_body r)"
  shows "voter_status_table s' = (voter_status_table s)(v \<mapsto> PENDING)"
    "request_timers s' = (request_timers s)(v \<mapsto> issued_timer cfg io v)"
    "client_tickets_map s' = (client_tickets_map s)(ticket \<mapsto> (v, secret))"
    "ticket_file s' = write_to_csv (csv_opens io) ticket secret v (ticket_file s)"
    "sent s' = sent s @ [(ip, frame_message reply)]"
    "signer_key s' = signer_key s" "client_verifiers s' = client_verifiers s" "key_files s' = key_files s"
    "client_id_map s' = client_id_map s" "clients s' = clients s" "client_ssl_streams s' = client_ssl_streams s"
    "ip' \<noteq> ip \<Longrightarrow> pending_reads s' ip' = pending_reads s ip'"
    "ip' \<noteq> ip \<Longrightarrow> client_buffers s' ip' = client_buffers s ip'"
  using assms
  by (simp_all add: accepted_state_def admit_voter_def start_timer_def start_size_read_def start_read_def
      issued_timer_def Let_def)

lemma connected_after_checkin:
  assumes "connected ip' c' ty key s" "ip' \<noteq> ip"
    "voter_status_table s (cb_voter_unique_id (cr_body r)) = Some ELIGIBLE"
  shows "connected ip' c' ty key (accepted_state cfg io ip r ticket secret reply (current c ip s))"
  using assms by (simp add: connected_def accepted_state_fields current_def after_payload_def)

lemma ticket_loaded_after_checkin:
  assumes "voter_status_table s (cb_voter_unique_id (cr_body r)) = Some ELIGIBLE"
    "ticket_file_ok (ticket_file s)" "ticket_entry_ok ticket secret" "csv_opens io"
  shows "client_tickets_map (with_tickets (accepted_state cfg io ip r ticket secret reply s)) ticket =
     Some (cb_voter_unique_id (cr_body r), secret)"
  using assms ticket_csv.load_store [OF assms(2,3)]
  by (simp add: with_tickets_def accepted_state_fields)

lemma in_window_issued:
  "in_window cfg io' (issued_timer cfg io v) \<longleftrightarrow>
     steady_now io \<le> steady_now io' \<and> steady_now io' \<le> steady_now io + minutes (sint (timeout_interval cfg))"
  by (simp add: in_window_def issued_timer_def)

end
