(* ===== verification/Sample_Libs.thy ===== *)
theory Sample_Libs
  imports Messages
begin

text \<open>
  A concrete instance of the library interface: JSON values as a datatype with a textual format and
  a parser for it, byte strings as characters in place of base64, keys as numbers, and a checksum
  in place of a signature. It satisfies every law the theorems assume of the third-party code, so
  their hypotheses can hold together, and it is executable, so that runs of the program can be
  evaluated. It is no model of the real libraries.
\<close>

section \<open>JSON text\<close>

datatype json = JNull | JBool bool | JInt int | JStr string | JArr "string list" | JObj fields
and fields = FNil | FCons string json fields

definition esc :: "char \<Rightarrow> string" where
  "esc c = (if c = newline then [CHR 0x5C, CHR ''n''] else if c = CHR 0x5C then [CHR 0x5C, CHR 0x5C]
            else if c = CHR 0x22 then [CHR 0x5C, CHR 0x22] else [c])"

definition show_str :: "string \<Rightarrow> string" where
  "show_str s = CHR 0x22 # concat (map esc s) @ [CHR 0x22]"

fun scan_str :: "string \<Rightarrow> (string \<times> string) option" where
  "scan_str [] = None"
| "scan_str (c # r) =
     (if c = CHR 0x22 then Some ([], r)
      else if c = CHR 0x5C then
        (case r of
           [] \<Rightarrow> None
         | d # r' \<Rightarrow> map_option (\<lambda>(s, u). ((if d = CHR ''n'' then newline else d) # s, u)) (scan_str r'))
      else map_option (\<lambda>(s, u). (c # s, u)) (scan_str r))"

lemma scan_str_esc: "scan_str (concat (map esc s) @ CHR 0x22 # r) = Some (s, r)"
  by (induction s) (auto simp: esc_def)

lemma newline_show_str: "newline \<notin> set (show_str s)"
  by (auto simp: show_str_def esc_def)

fun show_strs :: "string list \<Rightarrow> string" where
  "show_strs [] = '']''"
| "show_strs (s # ss) = CHR '','' # show_str s @ show_strs ss"

primrec show_json :: "json \<Rightarrow> string" and show_fields :: "fields \<Rightarrow> string" where
  "show_json JNull = ''n''"
| "show_json (JBool b) = (if b then ''t'' else ''f'')"
| "show_json (JInt i) = (if i < 0 then ''-'' else ''+'') @ to_string (nat \<bar>i\<bar>) @ '';''"
| "show_json (JStr s) = show_str s"
| "show_json (JArr ss) = CHR ''['' # show_strs ss"
| "show_json (JObj fs) = CHR ''{'' # show_fields fs"
| "show_fields FNil = ''}''"
| "show_fields (FCons k v fs) = CHR '','' # show_str k @ show_json v @ show_fields fs"

definition scan_quoted :: "string \<Rightarrow> (string \<times> string) option" where
  "scan_quoted s = (case s of [] \<Rightarrow> None | c # r \<Rightarrow> if c = CHR 0x22 then scan_str r else None)"

lemma scan_quoted_show_str: "scan_quoted (show_str s @ r) = Some (s, r)"
  by (simp add: scan_quoted_def show_str_def scan_str_esc)

definition scan_int :: "string \<Rightarrow> (nat \<times> string) option" where
  "scan_int s = (case dropWhile is_digit s of
       [] \<Rightarrow> None
     | c # r \<Rightarrow> if c = CHR '';'' then Some (digits_value (takeWhile is_digit s), r) else None)"

lemma scan_int_to_string: "scan_int (to_string n @ CHR '';'' # r) = Some (n, r)"
proof -
  have "\<not> is_digit (CHR '';'')" by (simp add: is_digit_def)
  moreover have "\<forall>c \<in> set (to_string n). is_digit c" using to_string_digits [of n] by (simp add: list_all_iff)
  ultimately show ?thesis
    by (simp add: scan_int_def takeWhile_append2 dropWhile_append2 split: list.split)
qed

fun scan_strs :: "nat \<Rightarrow> string \<Rightarrow> (string list \<times> string) option" where
  "scan_strs 0 s = None"
| "scan_strs (Suc n) s = (case s of
       [] \<Rightarrow> None
     | c # r \<Rightarrow>
         if c = CHR '']'' then Some ([], r)
         else (case scan_quoted r of
             None \<Rightarrow> None
           | Some (x, r') \<Rightarrow> map_option (\<lambda>(xs, u). (x # xs, u)) (scan_strs n r')))"

lemma scan_strs_show_strs: "length ss < n \<Longrightarrow> scan_strs n (show_strs ss @ r) = Some (ss, r)"
proof (induction ss arbitrary: n)
  case Nil
  then show ?case by (cases n) auto
next
  case (Cons s ss)
  then obtain m where "n = Suc m" "length ss < m" by (cases n) auto
  with Cons.IH [of m] show ?case by (simp add: scan_quoted_show_str)
qed

fun scan_json :: "nat \<Rightarrow> string \<Rightarrow> (json \<times> string) option"
  and scan_fields :: "nat \<Rightarrow> string \<Rightarrow> (fields \<times> string) option" where
  "scan_json 0 s = None"
| "scan_json (Suc n) s = (case s of
       [] \<Rightarrow> None
     | c # r \<Rightarrow>
         if c = CHR ''n'' then Some (JNull, r)
         else if c = CHR ''t'' then Some (JBool True, r)
         else if c = CHR ''f'' then Some (JBool False, r)
         else if c = CHR ''+'' then map_option (\<lambda>(i, u). (JInt (int i), u)) (scan_int r)
         else if c = CHR ''-'' then map_option (\<lambda>(i, u). (JInt (- int i), u)) (scan_int r)
         else if c = CHR 0x22 then map_option (\<lambda>(x, u). (JStr x, u)) (scan_str r)
         else if c = CHR ''['' then map_option (\<lambda>(xs, u). (JArr xs, u)) (scan_strs (length r) r)
         else if c = CHR ''{'' then map_option (\<lambda>(fs, u). (JObj fs, u)) (scan_fields n r)
         else None)"
| "scan_fields 0 s = None"
| "scan_fields (Suc n) s = (case s of
       [] \<Rightarrow> None
     | c # r \<Rightarrow>
         if c = CHR ''}'' then Some (FNil, r)
         else (case scan_quoted r of
             None \<Rightarrow> None
           | Some (k, r1) \<Rightarrow> (case scan_json n r1 of
                 None \<Rightarrow> None
               | Some (v, r2) \<Rightarrow> map_option (\<lambda>(fs, u). (FCons k v fs, u)) (scan_fields n r2))))"

lemma length_show_strs: "length ss < length (show_strs ss)"
  by (induction ss) auto

lemma scan_show:
  shows scan_json_show_json: "length (show_json j) \<le> n \<Longrightarrow> scan_json n (show_json j @ r) = Some (j, r)"
    and scan_fields_show_fields: "length (show_fields f) \<le> n \<Longrightarrow> scan_fields n (show_fields f @ r) = Some (f, r)"
proof (induction j and f arbitrary: n r and n r)
  case (JInt i)
  then show ?case by (cases n) (auto simp: scan_int_to_string)
next
  case (JStr s)
  then show ?case by (cases n) (auto simp: show_str_def scan_str_esc)
next
  case (JArr ss)
  have "scan_strs (length (show_strs ss @ r)) (show_strs ss @ r) = Some (ss, r)"
    using length_show_strs [of ss] by (intro scan_strs_show_strs) simp
  with JArr show ?case by (cases n) auto
next
  case (JObj fs)
  then show ?case by (cases n) auto
next
  case (FCons k v fs)
  then obtain m where "n = Suc m" "length (show_json v) \<le> m" "length (show_fields fs) \<le> m" by (cases n) auto
  with FCons.IH show ?case by (simp add: scan_quoted_show_str)
qed (case_tac n, auto)+

lemma newline_show_strs: "newline \<notin> set (show_strs ss)"
  by (induction ss) (auto simp: newline_show_str)

lemma newline_show_json: "newline \<notin> set (show_json j)" "newline \<notin> set (show_fields f)"
  by (induction j and f) (auto simp: newline_show_str newline_show_strs)

definition parse_json :: "string \<Rightarrow> json result" where
  "parse_json s = (case scan_json (length s) s of
       Some (j, r) \<Rightarrow> if r = [] \<or> r = [newline] then Inr j else Inl (Exn Json_parse_error ''parse error'')
     | None \<Rightarrow> Inl (Exn Json_parse_error ''parse error''))"

lemma parse_show_json: "parse_json (show_json j) = Inr j" "parse_json (show_json j @ [newline]) = Inr j"
  using scan_json_show_json [of j "length (show_json j)" "[]"]
    scan_json_show_json [of j "length (show_json j @ [newline])" "[newline]"]
  by (simp_all add: parse_json_def)


section \<open>The operations\<close>

fun fields_of :: "(string \<times> json) list \<Rightarrow> fields" where
  "fields_of [] = FNil"
| "fields_of ((k, v) # fs) = FCons k v (fields_of fs)"

primrec lookup_field :: "fields \<Rightarrow> string \<Rightarrow> json option" where
  "lookup_field FNil k = None"
| "lookup_field (FCons k' v fs) k = (if k = k' then Some v else lookup_field fs k)"

lemma lookup_fields_of: "lookup_field (fields_of fs) k = map_of fs k"
  by (induction fs rule: fields_of.induct) auto

definition sample_at :: "json \<Rightarrow> string \<Rightarrow> json result" where
  "sample_at j k = (case j of
       JObj fs \<Rightarrow> (case lookup_field fs k of
           Some v \<Rightarrow> Inr v
         | None \<Rightarrow> Inl UB)
     | _ \<Rightarrow> Inl (Exn Json_exception ''type_error''))"

definition sample_contains :: "json \<Rightarrow> string \<Rightarrow> bool" where
  "sample_contains j k = (case j of JObj fs \<Rightarrow> lookup_field fs k \<noteq> None | _ \<Rightarrow> False)"

definition type_mismatch :: "'a result" where
  "type_mismatch = Inl (Exn Json_exception ''type_error'')"

type_synonym sample_ctx = "nat \<times> byte list"

definition sample_digest :: "sample_ctx \<Rightarrow> byte list" where
  "sample_digest c = [of_nat (fst c), sum_list (snd c)]"

definition sample_update :: "byte list \<Rightarrow> sample_ctx \<Rightarrow> int \<times> sample_ctx" where
  "sample_update bs c = (1, (fst c, snd c @ bs))"

definition sample_libs :: "(json, nat, sample_ctx) libs" where
  "sample_libs = \<lparr>
     j_null = JNull, j_object = JObj \<circ> fields_of, j_string = JStr, j_uint = (\<lambda>x. JInt (uint x)), j_int = JInt,
     j_bool = JBool, j_strings = JArr, j_parse = parse_json, j_dump = Inr \<circ> show_json,
     j_at = sample_at, j_subscript = sample_at, j_contains = sample_contains,
     j_is_object = (\<lambda>j. case j of JObj _ \<Rightarrow> True | _ \<Rightarrow> False),
     j_get_uint32 = (\<lambda>j. case j of JInt i \<Rightarrow> Inr (word_of_int i) | _ \<Rightarrow> type_mismatch),
     j_get_uint64 = (\<lambda>j. case j of JInt i \<Rightarrow> Inr (word_of_int i) | _ \<Rightarrow> type_mismatch),
     j_get_int = (\<lambda>j. case j of JInt i \<Rightarrow> Inr i | _ \<Rightarrow> type_mismatch),
     j_get_string = (\<lambda>j. case j of JStr s \<Rightarrow> Inr s | _ \<Rightarrow> type_mismatch),
     j_get_bool = (\<lambda>j. case j of JBool b \<Rightarrow> Inr b | _ \<Rightarrow> type_mismatch),
     j_get_strings = (\<lambda>j. case j of JArr ss \<Rightarrow> Inr ss | _ \<Rightarrow> type_mismatch),
     b64_write = map (\<lambda>b. char_of (unat b)), b64_read = (\<lambda>s. Some (map (\<lambda>c. of_nat (of_char c)) s)),
     pkey_eq = (\<lambda>a b. if a = b then 1 else 0), pkey_size = (\<lambda>_. 2),
     pem_write = (\<lambda>k. Some (to_string k)),
     pem_read = (\<lambda>s. if s \<noteq> [] \<and> list_all is_digit s then Some (digits_value s) else None),
     md_ctx_new = (0, []), md_ctx_reset = (\<lambda>c. (1, (0, []))), md_ctx_size = (\<lambda>_. 2),
     digest_init = (\<lambda>_ c. (1, c)), digest_update = sample_update, digest_final = (\<lambda>c. (1, sample_digest c)),
     sign_init = (\<lambda>_ k c. (1, (k, []))), sign_update = sample_update, sign_final_len = (\<lambda>_. (1, 2)),
     sign_final = (\<lambda>c. (1, sample_digest c)),
     verify_init = (\<lambda>_ k c. (1, (k, []))), verify_update = sample_update,
     verify_final = (\<lambda>s c. if s = sample_digest c then 1 else 0), err_string = []\<rparr>"

section \<open>The laws hold\<close>

lemma sample_json_laws: "json_laws sample_libs"
  unfolding json_laws_def
proof (intro conjI)
  show "json_object_laws sample_libs"
    by (simp add: json_object_laws_def sample_libs_def sample_at_def sample_contains_def lookup_fields_of
        map_of_eq_None_iff)
  show "json_scalar_laws sample_libs"
    by (simp add: json_scalar_laws_def sample_libs_def ucast_up_ucast_id is_up_def source_size target_size)
  show "json_text_laws sample_libs"
    by (auto simp: json_text_laws_def sample_libs_def newline_show_json parse_show_json)
qed

lemma sample_base64_law: "base64_law sample_libs"
  using unat_byte_less by (simp add: base64_law_def sample_libs_def comp_def)

lemma sample_codec_laws: "codec_laws sample_libs"
  by (simp add: codec_laws_def sample_json_laws sample_base64_law)

lemma sample_pem_law: "pem_law sample_libs"
  by (simp add: pem_law_def sample_libs_def to_string_digits)

lemma sample_sign: "sign_string sample_libs k s = Inr [of_nat k, sum_list (string_bytes s)]"
  by (simp add: sign_string_def Signer_init_def Signer_def Signer_add_bytes_def Signer_finalize_def expect_1_def
      sample_libs_def sample_update_def sample_digest_def into_buffer_def)

lemma sample_verify:
  "verify_string sample_libs k s sig = Inr (sig = [of_nat k, sum_list (string_bytes s)])"
  by (simp add: verify_string_def Verifier_init_def Verifier_def Verifier_add_bytes_def Verifier_finalize_def
      expect_1_def sample_libs_def sample_update_def sample_digest_def)

lemma sample_key_pair: "key_pair sample_libs k k"
  by (simp add: key_pair_def sample_sign sample_verify)

lemma sample_streaming: "update_streaming sample_libs operation sample_update"
  by (simp add: update_streaming_def sample_update_def expect_1_def)

end
