(* ===== verification/Sample_Run.thy ===== *)
theory Sample_Run
  imports Checkin_Delivery Sample_Libs "HOL-Library.Code_Target_Numeral"
begin

text \<open>
  A concrete deployment over the sample libraries: one voter, one untrusted client, one trusted
  device, and the events of an honest two-phase check-in, after which the ticket is presented again. The runs are evaluated in the kernel and
  serve as instances of the theorems.
\<close>

definition sample_cfg :: checkin_config where
  "sample_cfg = \<lparr>request_freshness_interval = 100, timeout_interval = 5, client_keys_folder = ''keys'',
     client_key_file_prefix = ''client_'', voter_list_path = ''voters.csv'',
     voter_list_file = Some (''UID,PIN,Last,First,Middle,Addr,City,State,Zip'' @ [newline] @
                             ''7,42,Doe,Jane,Q,1 Main,Town,AL,36849'' @ [newline]),
     trusted_clients_path = ''trusted'', trusted_clients_file = Some (''3'' @ [newline])\<rparr>"

definition sample_io :: "int \<Rightarrow> io_input" where
  "sample_io steady = \<lparr>sys_now = 200000000, steady_now = steady, rand_ticket = Some [1, 171], rand_secret = Some [2, 3],
     write_fails = False, csv_opens = True, fopen_w = (\<lambda>_. None), wait_queued = (\<lambda>_. True)\<rparr>"

definition sample_blank :: "nat checkin_service" where
  "sample_blank = blank_service 9 8 0 None (\<lambda>_. Inl ENOENT)"

definition sample_service :: "nat checkin_service" where
  "sample_service = (case CheckinService sample_libs sample_cfg [] sample_blank of Inr s \<Rightarrow> run s | Inl _ \<Rightarrow> sample_blank)"

definition pollbook_ip :: endpoint where "pollbook_ip = (1, 5000)"
definition device_ip :: endpoint where "device_ip = (2, 6000)"
definition replay_ip :: endpoint where "replay_ip = (2, 6001)"

definition sample_cert :: "string \<Rightarrow> nat \<Rightarrow> nat certificate option" where
  "sample_cert c k = Some \<lparr>cert_common_name = Some (''client '' @ c), cert_public_key = Some k\<rparr>"

text \<open>Signing with the sample libraries.\<close>

definition sample_signature :: "nat \<Rightarrow> json \<Rightarrow> byte list" where
  "sample_signature k j = [of_nat k, sum_list (string_bytes (show_json j))]"

definition sample_id_request :: voter_id_request where
  "sample_id_request =
     (let body = \<lparr>vb_client_id_num = 2, vb_timestamp = 200, vb_last_name = ''Doe'', vb_middle_name = ''Q'',
                  vb_first_name = ''Jane'', vb_voter_id_data = [7, 0, 0, 0]\<rparr>
      in \<lparr>vr_body = body, vr_client_signature = sample_signature 2 (VoterIDRequest_Body_ToJson sample_libs body)\<rparr>)"

definition sample_verified_id :: verified_voter_id where
  "sample_verified_id = \<lparr>vv_presented_id = sample_id_request, vv_voter_unique_id = 7,
     vv_id_service_signature = sample_signature 9 (id_statement_json sample_libs sample_id_request 7)\<rparr>"

definition sample_request_body :: checkin_request_body where
  "sample_request_body = \<lparr>cb_client_id_num = 2, cb_timestamp = 190, cb_last_name = ''Doe'', cb_first_name = ''Jane'',
     cb_middle_name = ''Q'', cb_voter_unique_id = 7, cb_verified_id_message = sample_verified_id\<rparr>"

definition sample_request :: checkin_request where
  "sample_request = \<lparr>cr_body = sample_request_body,
     cr_client_signature = sample_signature 2 (CheckinRequest_Body_ToJson sample_libs sample_request_body)\<rparr>"

definition sample_ticket_body :: ticket_request_body where
  "sample_ticket_body = \<lparr>tb_client_id = 3, tb_timestamp = 195, tb_ticket = ''01ab'', tb_pin = 42\<rparr>"

definition sample_ticket_request :: ticket_request where
  "sample_ticket_request = \<lparr>tr_body = sample_ticket_body,
     tr_signature = sample_signature 3 (TicketRequest_Body_ToJson sample_libs sample_ticket_body)\<rparr>"

text \<open>The poll book connects, and the device, twice.\<close>

definition connect_events :: "(io_input \<times> nat event) list" where
  "connect_events = map (Pair (sample_io 0))
     [Accepted pollbook_ip, Handshaken pollbook_ip (sample_cert ''2'' 2),
      Accepted device_ip, Handshaken device_ip (sample_cert ''3'' 3),
      Accepted replay_ip, Handshaken replay_ip (sample_cert ''3'' 3)]"

definition running :: "nat process option \<Rightarrow> nat checkin_service option" where
  "running p = (case p of Some (Running s) \<Rightarrow> Some s | _ \<Rightarrow> None)"

definition sample_ready :: "nat checkin_service" where
  "sample_ready = (case running (perform_all sample_libs sample_cfg (Running sample_service) connect_events) of
       Some s \<Rightarrow> s | None \<Rightarrow> sample_blank)"


section \<open>The state with the clients connected\<close>

lemma sample_started: "started sample_libs sample_cfg (Running sample_service)"
proof -
  have "is_ok (CheckinService sample_libs sample_cfg [] sample_blank)" by code_simp
  then obtain s where "CheckinService sample_libs sample_cfg [] sample_blank = Inr s" by (auto simp: is_ok_iff)
  then show ?thesis unfolding started_def sample_service_def sample_blank_def by fastforce
qed

definition ready_ok :: "nat checkin_service \<Rightarrow> bool" where
  "ready_ok s \<longleftrightarrow>
     connected pollbook_ip 2 UntrustedClient 2 s \<and> connected device_ip 3 TrustedClient 3 s \<and>
     voter_status_table s 7 = Some ELIGIBLE \<and> voter_status_table s 8 = None \<and>
     client_verifiers s 2 = Some 2 \<and> client_verifiers s 3 = Some 3 \<and>
     sent s = [] \<and> timer_waits s = [] \<and> signer_key s = 8 \<and> ticket_file s = None \<and> id_service_verifier s = 9 \<and>
     connected replay_ip 3 TrustedClient 3 s"

lemma sample_connects:
  "case running (perform_all sample_libs sample_cfg (Running sample_service) connect_events) of
     None \<Rightarrow> False | Some s \<Rightarrow> ready_ok s"
  by code_simp

lemma sample_ready_ok: "ready_ok sample_ready"
  using sample_connects by (simp add: sample_ready_def split: option.splits)

lemmas sample_ready_simps [simp] = sample_ready_ok [unfolded ready_ok_def]

lemma sample_ready_run:
  "perform_all sample_libs sample_cfg (Running sample_service) connect_events = Some (Running sample_ready)"
  using sample_connects unfolding sample_ready_def
  by (auto simp: running_def split: option.splits process.splits)

lemma sample_ready_reachable: "reachable (started sample_libs sample_cfg) (step sample_libs sample_cfg) (Running sample_ready)"
  unfolding reachable_def path_iff_perform_all using sample_started sample_ready_run by blast

lemma sample_ready_timers: "request_timers sample_ready u = None"
proof -
  have inv: "protocol_inv (Running sample_ready)" by (rule checkin.inv_reachable [OF sample_ready_reachable])
  then have "votes (Running sample_ready) u \<noteq> Some PENDING"
    using pending_timer [OF inv, of u] by auto
  with inv show ?thesis using protocol_inv_PENDING [OF inv, of u] by simp
qed

section \<open>The honest run\<close>

text \<open>A bound on the length of a printed value, to evaluate without printing.\<close>

primrec json_bound :: "json \<Rightarrow> nat" and fields_bound :: "fields \<Rightarrow> nat" where
  "json_bound JNull = 1"
| "json_bound (JBool b) = 1"
| "json_bound (JInt i) = nat \<bar>i\<bar> + 3"
| "json_bound (JStr s) = 2 * length s + 2"
| "json_bound (JArr ss) = 2 + sum_list (map (\<lambda>s. 2 * length s + 3) ss)"
| "json_bound (JObj fs) = 1 + fields_bound fs"
| "fields_bound FNil = 1"
| "fields_bound (FCons k v fs) = 2 * length k + 3 + json_bound v + fields_bound fs"

lemma length_show_str: "length (show_str s) \<le> 2 * length s + 2"
  by (induction s) (auto simp: show_str_def esc_def)

lemma length_to_string: "length (to_string n) \<le> n + 1"
proof (induction n rule: to_string.induct)
  case (1 n)
  then show ?case by (cases "n < 10") (simp_all add: to_string.simps [of n])
qed

lemma length_show_strs_bound: "length (show_strs ss) \<le> 1 + sum_list (map (\<lambda>s. 2 * length s + 3) ss)"
proof (induction ss)
  case (Cons s ss)
  then show ?case using length_show_str [of s] by simp
qed simp

lemma length_show_json: "length (show_json j) \<le> json_bound j" "length (show_fields f) \<le> fields_bound f"
proof (induction j and f)
  case (JInt i)
  then show ?case using length_to_string [of "nat i"] length_to_string [of "nat (- i)"] by simp
next
  case (JStr s)
  then show ?case using length_show_str [of s] by simp
next
  case (JArr ss)
  then show ?case using length_show_strs_bound [of ss] by simp
next
  case (FCons k v fs)
  then show ?case using length_show_str [of k] by simp
qed simp_all

definition sample_text :: string where
  "sample_text = show_json (CheckinRequest_ToJson sample_libs sample_request)"

definition sample_ticket_text :: string where
  "sample_ticket_text = show_json (TicketRequest_ToJson sample_libs sample_ticket_request)"

lemma sample_dump: "j_dump sample_libs j = Inr (show_json j)"
  by (simp add: sample_libs_def)

lemmas sample_message_defs = sample_request_def sample_request_body_def sample_verified_id_def sample_id_request_def
  sample_ticket_request_def sample_ticket_body_def sample_signature_def

lemma sample_text_short: "length sample_text < 2 ^ 64"
proof -
  have "json_bound (CheckinRequest_ToJson sample_libs sample_request) < 2 ^ 64"
    by (simp add: CheckinRequest_ToJson_def CheckinRequest_Body_ToJson_def VerifiedVoterID_ToJson_def
        VoterIDRequest_ToJson_def VoterIDRequest_Body_ToJson_def j_bytes_def Base64_encode_def j_u32_def
        sample_message_defs Let_def) (simp add: sample_libs_def)
  then show ?thesis unfolding sample_text_def by (rule le_less_trans [OF length_show_json(1)])
qed

lemma sample_ticket_text_short: "length sample_ticket_text < 2 ^ 64"
proof -
  have "json_bound (TicketRequest_ToJson sample_libs sample_ticket_request) < 2 ^ 64"
    by (simp add: TicketRequest_ToJson_def TicketRequest_Body_ToJson_def j_bytes_def Base64_encode_def j_u32_def
        sample_message_defs) (simp add: sample_libs_def)
  then show ?thesis unfolding sample_ticket_text_def by (rule le_less_trans [OF length_show_json(1)])
qed

lemma sample_fresh: "is_stale 100 200 190 = Inr False" "is_stale 100 200 195 = Inr False"
  by (simp_all add: is_stale_eq)

lemma sample_now: "now_ms (sample_io t) = 200"
  by (simp add: now_ms_def sample_io_def)

lemma sample_request_valid: "request_valid sample_libs sample_cfg sample_ready sample_request (now_ms (sample_io t))"
  by (simp add: request_valid_def client_key_def sample_now sample_dump sample_verify sample_message_defs Let_def
      sample_cfg_def sample_fresh)

lemma sample_secrets:
  "generate_secret (rand_ticket (sample_io t)) = Inr ''01ab''" "generate_secret (rand_secret (sample_io t)) = Inr ''0203''"
  by (simp_all add: sample_io_def) code_simp+


text \<open>The first phase: the poll book's request, in two pieces.\<close>

definition halves :: "string \<Rightarrow> string list" where
  "halves m = [take 10 (frame_message m), drop 10 (frame_message m)]"

lemma concat_halves: "concat (halves m) = frame_message m"
  by (simp add: halves_def)

definition deliver :: "int \<Rightarrow> endpoint \<Rightarrow> string \<Rightarrow> (io_input \<times> nat event) list" where
  "deliver t ip m = arrivals (sample_io t) ip (halves m) @ [(sample_io t, Read_line ip), (sample_io t, Read_line ip)]"

definition sample_response :: checkin_response_body where
  "sample_response = response_for (sample_io 0) True sample_request ''01ab''"

definition sample_reply :: string where
  "sample_reply = show_json (CheckinResponse_ToJson sample_libs \<lparr>pr_body = sample_response,
     pr_checkin_service_signature = sample_signature 8 (CheckinResponse_Body_ToJson sample_libs sample_response)\<rparr>)"

definition sample_pending :: "nat checkin_service" where
  "sample_pending = accepted_state sample_cfg (sample_io 0) pollbook_ip sample_request ''01ab'' ''0203'' sample_reply
     (current 2 pollbook_ip sample_ready)"

lemma sample_request_fields [simp]:
  "cb_client_id_num (cr_body sample_request) = 2" "cb_voter_unique_id (cr_body sample_request) = 7"
  "tb_client_id (tr_body sample_ticket_request) = 3" "tb_ticket (tr_body sample_ticket_request) = ''01ab''"
  by (simp_all add: sample_message_defs)

lemma sample_valid_messages:
  "valid_checkin_request sample_request" "tr_signature sample_ticket_request \<noteq> []"
  by (simp_all add: valid_checkin_request_def valid_verified_voter_id_def valid_voter_id_request_def
      sample_message_defs Let_def)

lemma sample_approval_response:
  "approval_response sample_libs 8 (response_for (sample_io 0) True sample_request ''01ab'') = Inr sample_reply"
  by (simp add: approval_response_def sample_dump sample_sign sample_reply_def sample_response_def sample_signature_def)

lemma sample_io_simps [simp]:
  "\<not> write_fails (sample_io t)" "csv_opens (sample_io t)" "steady_now (sample_io t) = t"
  by (simp_all add: sample_io_def)

lemma sample_phase_1:
  "perform_all sample_libs sample_cfg (Running sample_ready) (deliver 0 pollbook_ip sample_text) =
     Some (Running sample_pending)"
  unfolding deliver_def sample_pending_def
  using checkin_phase [OF sample_codec_laws, of pollbook_ip sample_request 2 sample_ready sample_text "halves sample_text"
      sample_cfg "sample_io 0" "''01ab''" "''0203''" sample_reply]
  by (simp add: sample_valid_messages sample_dump sample_text_def [symmetric] sample_text_short [simplified] concat_halves
      sample_request_valid sample_secrets sample_approval_response)

lemma sample_current_voters: "voter_status_table (current c ip sample_ready) 7 = Some ELIGIBLE"
  by (simp add: current_def after_payload_def)

lemma sample_pending_voters:
  "votes (Running sample_pending) 7 = Some PENDING"
  "request_timers sample_pending 7 = Some (issued_timer sample_cfg (sample_io 0) 7)"
  using sample_current_voters by (simp_all add: votes_def sample_pending_def accepted_state_fields)

lemma sample_pending_reachable:
  "reachable (started sample_libs sample_cfg) (step sample_libs sample_cfg) (Running sample_pending)"
  using sample_ready_reachable sample_phase_1 unfolding reachable_def
  by (metis path_append_iff path_iff_perform_all)

text \<open>The second phase: the device presents the ticket.\<close>

lemma sample_pending_tickets:
  "client_tickets_map (with_tickets sample_pending) ''01ab'' = Some (7, ''0203'')"
proof -
  have "ticket_file_ok (ticket_file (current 2 pollbook_ip sample_ready))"
    by (simp add: current_def after_payload_def ticket_file_ok_def file_text_def line_terminated_def)
  then show ?thesis
    using ticket_loaded_after_checkin [of "current 2 pollbook_ip sample_ready" sample_request "''01ab''" "''0203''" "sample_io 0"
        sample_cfg pollbook_ip sample_reply] sample_current_voters
    by (simp add: sample_pending_def ticket_entry_ok_def)
qed

lemma sample_pending_device: "connected device_ip 3 TrustedClient 3 sample_pending"
  unfolding sample_pending_def
  by (intro connected_after_checkin) (simp_all add: device_ip_def pollbook_ip_def sample_ready_ok [unfolded ready_ok_def device_ip_def])

lemma sample_pin: "pin_matches sample_cfg sample_ticket_request 7"
  by code_simp

lemma sample_ticket_authentic:
  "ticket_authentic sample_libs sample_cfg (sample_io t) device_ip sample_ticket_request 7 (with_tickets sample_pending)"
  using sample_pending_device sample_pending_tickets
  by (simp add: ticket_authentic_def client_key_def connected_def with_tickets_def sample_now sample_dump sample_verify
      sample_message_defs sample_cfg_def sample_fresh)


definition sample_ticket_reply :: string where
  "sample_ticket_reply = (let body = approval sample_cfg sample_ticket_request 7 ''0203'' in
     show_json (TicketResponse_ToJson sample_libs \<lparr>rr_body = body,
       rr_signature = sample_signature 8 (TicketResponse_Body_ToJson sample_libs body)\<rparr>))"

definition sample_done :: "nat checkin_service" where
  "sample_done =
     (confirmed (sample_io 1000) 7 (issued_timer sample_cfg (sample_io 0) 7) (with_tickets (current 3 device_ip sample_pending)))
       \<lparr>sent := sent sample_pending @ [(device_ip, sample_ticket_reply @ [newline])]\<rparr>"

lemma sample_signer: "signer_key sample_pending = 8"
  using sample_current_voters by (simp add: sample_pending_def accepted_state_fields current_def after_payload_def)

lemma sample_ticket_response:
  "ticket_response_text sample_libs 8 (approval sample_cfg sample_ticket_request 7 ''0203'') = Inr sample_ticket_reply"
  by (simp add: ticket_response_text_def sample_dump sample_sign sample_ticket_reply_def sample_signature_def Let_def)

lemma sample_window: "in_window sample_cfg (sample_io 1000) (issued_timer sample_cfg (sample_io 0) 7)"
  unfolding in_window_issued by (simp add: sample_cfg_def minutes_def ns_per_s_def)

lemma sample_phase_2:
  "perform_all sample_libs sample_cfg (Running sample_pending) (deliver 1000 device_ip sample_ticket_text) =
     Some (Running sample_done)"
  unfolding deliver_def sample_done_def
  using ticket_phase [OF sample_codec_laws, of device_ip sample_ticket_request 3 sample_pending sample_ticket_text
      "halves sample_ticket_text" sample_cfg "sample_io 1000" 7 "''0203''" "issued_timer sample_cfg (sample_io 0) 7"
      sample_ticket_reply]
  by (simp add: sample_valid_messages sample_dump sample_ticket_text_def [symmetric] sample_ticket_text_short [simplified]
      concat_halves sample_pending_device sample_ticket_authentic sample_pin sample_pending_tickets sample_pending_voters
      sample_window sample_signer sample_ticket_response)

lemma sample_done_voters: "votes (Running sample_done) 7 = Some CHECKED_IN"
  using sample_pending_voters(1)
  by (simp add: votes_def sample_done_def confirmed_def with_tickets_def current_def after_payload_def)

lemma sample_done_reachable:
  "reachable (started sample_libs sample_cfg) (step sample_libs sample_cfg) (Running sample_done)"
  using sample_pending_reachable sample_phase_2 unfolding reachable_def
  by (metis path_append_iff path_iff_perform_all)


text \<open>The whole honest run, from the start of the service.\<close>

definition sample_events :: "(io_input \<times> nat event) list" where
  "sample_events = connect_events @ deliver 0 pollbook_ip sample_text @ deliver 1000 device_ip sample_ticket_text"

lemma sample_honest_run:
  "perform_all sample_libs sample_cfg (Running sample_service) sample_events = Some (Running sample_done)"
  by (simp add: sample_events_def run_all_append sample_ready_run sample_phase_1 sample_phase_2)

text \<open>The states just before the two decisive messages are handled.\<close>

definition before_begin :: "nat checkin_service" where
  "before_begin = awaiting_payload pollbook_ip sample_text [] sample_ready"

definition before_confirm :: "nat checkin_service" where
  "before_confirm = awaiting_payload device_ip sample_ticket_text [] sample_pending"

lemma before_reachable:
  "reachable (started sample_libs sample_cfg) (step sample_libs sample_cfg) (Running before_begin)"
  "reachable (started sample_libs sample_cfg) (step sample_libs sample_cfg) (Running before_confirm)"
proof -
  have "perform_all sample_libs sample_cfg (Running sample_ready)
      (arrivals (sample_io 0) pollbook_ip (halves sample_text) @ [(sample_io 0, Read_line pollbook_ip)]) =
      Some (Running before_begin)"
    using sample_ready_ok unfolding before_begin_def ready_ok_def connected_def
    by (intro deliver_size) (simp_all add: sample_text_short [simplified] concat_halves)
  then show "reachable (started sample_libs sample_cfg) (step sample_libs sample_cfg) (Running before_begin)"
    using sample_ready_reachable unfolding reachable_def by (metis path_append_iff path_iff_perform_all)
  have "perform_all sample_libs sample_cfg (Running sample_pending)
      (arrivals (sample_io 1000) device_ip (halves sample_ticket_text) @ [(sample_io 1000, Read_line device_ip)]) =
      Some (Running before_confirm)"
    using sample_pending_device unfolding before_confirm_def connected_def
    by (intro deliver_size) (simp_all add: sample_ticket_text_short [simplified] concat_halves)
  then show "reachable (started sample_libs sample_cfg) (step sample_libs sample_cfg) (Running before_confirm)"
    using sample_pending_reachable unfolding reachable_def by (metis path_append_iff path_iff_perform_all)
qed

lemma before_steps:
  "step sample_libs sample_cfg (Running before_begin) (sample_io 0, Read_line pollbook_ip) (Running sample_pending)"
  "step sample_libs sample_cfg (Running before_confirm) (sample_io 1000, Read_line device_ip) (Running sample_done)"
proof -
  have "perform_all sample_libs sample_cfg (Running before_begin) [(sample_io 0, Read_line pollbook_ip)] =
      Some (Running sample_pending)"
    using sample_phase_1 deliver_size [of sample_ready pollbook_ip sample_text "halves sample_text" "[]" sample_libs sample_cfg "sample_io 0"]
      sample_ready_ok run_all_append [of "perform sample_libs sample_cfg" "Running sample_ready"
        "arrivals (sample_io 0) pollbook_ip (halves sample_text) @ [(sample_io 0, Read_line pollbook_ip)]"
        "[(sample_io 0, Read_line pollbook_ip)]"]
    by (simp add: deliver_def before_begin_def ready_ok_def connected_def sample_text_short [simplified] concat_halves)
  then show "step sample_libs sample_cfg (Running before_begin) (sample_io 0, Read_line pollbook_ip) (Running sample_pending)"
    by (simp only: step_iff_perform run_all_single)
  have "perform_all sample_libs sample_cfg (Running before_confirm) [(sample_io 1000, Read_line device_ip)] =
      Some (Running sample_done)"
    using sample_phase_2 deliver_size [of sample_pending device_ip sample_ticket_text "halves sample_ticket_text" "[]" sample_libs
        sample_cfg "sample_io 1000"]
      sample_pending_device run_all_append [of "perform sample_libs sample_cfg" "Running sample_pending"
        "arrivals (sample_io 1000) device_ip (halves sample_ticket_text) @ [(sample_io 1000, Read_line device_ip)]"
        "[(sample_io 1000, Read_line device_ip)]"]
    by (simp add: deliver_def before_confirm_def connected_def sample_ticket_text_short [simplified] concat_halves)
  then show "step sample_libs sample_cfg (Running before_confirm) (sample_io 1000, Read_line device_ip) (Running sample_done)"
    by (simp only: step_iff_perform run_all_single)
qed

lemma before_voters:
  "voter_status_table before_begin 7 = Some ELIGIBLE" "voter_status_table before_confirm 7 = Some PENDING"
  using sample_pending_voters(1) by (simp_all add: before_begin_def before_confirm_def awaiting_payload_def votes_def)


text \<open>The messages the device sends, and the state in which it presents the used ticket again.\<close>

lemma sample_device_line:
  "newline \<notin> set sample_ticket_text" "decode_ticket_request sample_libs (sample_ticket_text @ [newline]) = Inr sample_ticket_request"
proof -
  show "newline \<notin> set sample_ticket_text" by (simp add: sample_ticket_text_def newline_show_json)
  show "decode_ticket_request sample_libs (sample_ticket_text @ [newline]) = Inr sample_ticket_request"
    unfolding decode_ticket_request_def
    using sample_codec_laws sample_valid_messages(2)
    by (rule ticket_request.wire_round_trip) (simp add: sample_ticket_text_def sample_dump)
qed

lemma first_line_device: "first_line (sample_ticket_text @ [newline]) = sample_ticket_text @ [newline]"
  using first_line_append [OF sample_device_line(1), of "[]"] by simp

lemma before_confirm_state:
  "sender_type device_ip before_confirm = Some TrustedClient"
  "client_buffers before_confirm device_ip = Some (sample_ticket_text @ [newline])"
  "pending_reads before_confirm device_ip = Some (Payload_read (length sample_ticket_text))"
  "client_tickets_map (with_tickets before_confirm) ''01ab'' = Some (7, ''0203'')"
  "confirms sample_libs sample_cfg (sample_io 1000) (sample_ticket_text @ [newline]) device_ip sample_ticket_request 7 ''0203''
     (issued_timer sample_cfg (sample_io 0) 7) before_confirm"
proof -
  show "sender_type device_ip before_confirm = Some TrustedClient"
    using sample_pending_device
    by (auto simp: before_confirm_def awaiting_payload_def connected_def sender_type_def)
  show "client_tickets_map (with_tickets before_confirm) ''01ab'' = Some (7, ''0203'')"
    using sample_pending_tickets by (simp add: before_confirm_def awaiting_payload_def with_tickets_def)
  have "ticket_authentic sample_libs sample_cfg (sample_io 1000) device_ip sample_ticket_request 7 (with_tickets before_confirm)"
    using sample_ticket_authentic [of 1000]
    by (subst ticket_authentic_cong [of _ sample_pending]) (simp_all add: before_confirm_def awaiting_payload_def)
  then show "confirms sample_libs sample_cfg (sample_io 1000) (sample_ticket_text @ [newline]) device_ip sample_ticket_request 7
      ''0203'' (issued_timer sample_cfg (sample_io 0) 7) before_confirm"
    using sample_device_line(2) \<open>client_tickets_map (with_tickets before_confirm) _ = _\<close> sample_pin sample_window sample_pending_voters(2)
    by (simp add: confirms_def decode_ticket_request_def) (simp add: before_confirm_def awaiting_payload_def)
qed (simp_all add: before_confirm_def awaiting_payload_def)

definition before_replay :: "nat checkin_service" where
  "before_replay = awaiting_payload replay_ip sample_ticket_text [] sample_done"

lemma sample_done_replay: "connected replay_ip 3 TrustedClient 3 sample_done"
proof -
  have "connected replay_ip 3 TrustedClient 3 sample_pending"
    unfolding sample_pending_def
    by (intro connected_after_checkin) (simp_all add: replay_ip_def pollbook_ip_def sample_ready_ok [unfolded ready_ok_def replay_ip_def])
  then show ?thesis
    by (simp add: sample_done_def connected_def confirmed_def with_tickets_def current_def after_payload_def
        replay_ip_def device_ip_def)
qed

lemma replay_reachable:
  "reachable (started sample_libs sample_cfg) (step sample_libs sample_cfg) (Running before_replay)"
proof -
  have "perform_all sample_libs sample_cfg (Running sample_done)
      (arrivals (sample_io 2000) replay_ip (halves sample_ticket_text) @ [(sample_io 2000, Read_line replay_ip)]) =
      Some (Running before_replay)"
    using sample_done_replay unfolding before_replay_def connected_def
    by (intro deliver_size) (simp_all add: sample_ticket_text_short [simplified] concat_halves)
  then show ?thesis
    using sample_done_reachable unfolding reachable_def by (metis path_append_iff path_iff_perform_all)
qed

lemma replay_state:
  "voter_status_table before_replay 7 = Some CHECKED_IN" "sender_type replay_ip before_replay = Some TrustedClient"
  "client_buffers before_replay replay_ip = Some (sample_ticket_text @ [newline])"
  "client_tickets_map (with_tickets before_replay) ''01ab'' = Some (7, ''0203'')"
  "\<exists>p'. step sample_libs sample_cfg (Running before_replay) (sample_io 2000, Read_line replay_ip) p'"
proof -
  show "voter_status_table before_replay 7 = Some CHECKED_IN"
    using sample_done_voters by (simp add: before_replay_def awaiting_payload_def votes_def)
  show "sender_type replay_ip before_replay = Some TrustedClient"
    using sample_done_replay by (auto simp: before_replay_def awaiting_payload_def connected_def sender_type_def)
  show buf: "client_buffers before_replay replay_ip = Some (sample_ticket_text @ [newline])"
    by (simp add: before_replay_def awaiting_payload_def)
  have unchanged: "ticket_file before_replay = ticket_file sample_pending"
    by (simp add: before_replay_def awaiting_payload_def sample_done_def confirmed_def with_tickets_def current_def after_payload_def)
  have "ticket_file_ok (ticket_file (current 2 pollbook_ip sample_ready))"
    by (simp add: current_def after_payload_def ticket_file_ok_def file_text_def line_terminated_def)
  then have "read_from_csv (ticket_file sample_pending) m ''01ab'' = Some (7, ''0203'')" for m
    using ticket_csv.load_store [of "ticket_file (current 2 pollbook_ip sample_ready)" "''01ab''" "''0203''" 7 m] sample_current_voters
    by (simp add: sample_pending_def accepted_state_fields ticket_entry_ok_def)
  then show "client_tickets_map (with_tickets before_replay) ''01ab'' = Some (7, ''0203'')"
    by (simp add: with_tickets_def unchanged)
  have "pending_reads before_replay replay_ip = Some (Payload_read (length sample_ticket_text))"
    by (simp add: before_replay_def awaiting_payload_def)
  then show "\<exists>p'. step sample_libs sample_cfg (Running before_replay) (sample_io 2000, Read_line replay_ip) p'"
    using buf by (simp add: step_iff_perform)
qed

text \<open>The timeout of the pending check-in.\<close>

definition sample_expired :: "nat checkin_service" where
  "sample_expired = timed_out (sample_io 400000000000) (issued_timer sample_cfg (sample_io 0) 7) sample_pending"

lemma sample_expires:
  "step sample_libs sample_cfg (Running sample_pending)
     (sample_io 400000000000, Timer_expired (issued_timer sample_cfg (sample_io 0) 7)) (Running sample_expired)"
  "voter_status_table sample_expired 7 = Some ELIGIBLE"
proof -
  have "issued_timer sample_cfg (sample_io 0) 7 \<in> set (timer_waits sample_pending)"
    using pending_timer [OF checkin.inv_reachable [OF sample_pending_reachable], of 7] sample_pending_voters by auto
  moreover have "timer_expiry (issued_timer sample_cfg (sample_io 0) 7) \<le> steady_now (sample_io 400000000000)"
    by (simp add: issued_timer_def sample_cfg_def minutes_def ns_per_s_def)
  ultimately show "step sample_libs sample_cfg (Running sample_pending)
      (sample_io 400000000000, Timer_expired (issued_timer sample_cfg (sample_io 0) 7)) (Running sample_expired)"
    unfolding sample_expired_def timed_out_def by (rule step.timer_expired)
  show "voter_status_table sample_expired 7 = Some ELIGIBLE"
    using sample_pending_voters
    by (simp add: sample_expired_def timed_out_def handle_verification_timeout_def votes_def issued_timer_def Let_def)
qed

text \<open>A pass of the fault clean-up over the final state.\<close>

definition sample_cleaned :: "nat checkin_service" where
  "sample_cleaned = sample_done\<lparr>faults := filter (\<lambda>(c, r). 200000000 - lastReportTime r \<le> 24 * ns_per_hour) (faults sample_done)\<rparr>"

lemma sample_cleans:
  "path (step sample_libs sample_cfg) (Running sample_done) [(sample_io 0, Faults_cleaned 24)] (Running sample_cleaned)"
  by (simp add: step_iff_perform sample_io_def sample_cleaned_def clearOldRecords_eq_filter)

section \<open>A roll with a leading zero in a PIN\<close>

definition zero_cfg :: checkin_config where
  "zero_cfg = sample_cfg\<lparr>voter_list_file := Some (''UID,PIN,Last,First,Middle,Addr,City,State,Zip'' @ [newline] @
     ''7,042,Doe,Jane,Q,1 Main,Town,AL,36849'' @ [newline])\<rparr>"

definition zero_service :: "nat checkin_service" where
  "zero_service = (case CheckinService sample_libs zero_cfg [] sample_blank of Inr s \<Rightarrow> run s | Inl _ \<Rightarrow> sample_blank)"

lemma zero_started: "reachable (started sample_libs zero_cfg) (step sample_libs zero_cfg) (Running zero_service)"
proof -
  have "is_ok (CheckinService sample_libs zero_cfg [] sample_blank)" by code_simp
  then obtain s where "CheckinService sample_libs zero_cfg [] sample_blank = Inr s" by (auto simp: is_ok_iff)
  then have "started sample_libs zero_cfg (Running zero_service)"
    unfolding started_def zero_service_def sample_blank_def by fastforce
  then show ?thesis by (rule reachable_init)
qed

end
