(* ===== verification/Checkin_Registry.thy ===== *)
theory Checkin_Registry
  imports Checkin_Protocol
begin

text \<open>
  Further invariants of the check-in service: a client's type is fixed by the list of trusted
  clients when it first connects, tickets are never removed, and a checked-in voter has a PIN that
  is a number. The first two follow from a preorder on states that every handler respects.
\<close>

definition grows :: "'k checkin_service \<Rightarrow> 'k checkin_service \<Rightarrow> bool" where
  "grows s s' \<longleftrightarrow> clients s' = clients s \<and> trusted_clients s' = trusted_clients s \<and>
     dom (client_tickets_map s) \<subseteq> dom (client_tickets_map s')"

lemma grows_refl [simp, intro]: "grows s s"
  by (simp add: grows_def)

lemma grows_trans [trans]: "grows s s' \<Longrightarrow> grows s' s'' \<Longrightarrow> grows s s''"
  unfolding grows_def by (metis subset_trans)

lemma grows_updates [simp]:
  "grows s (s'\<lparr>client_sockets := a2\<rparr>) = grows s s'" "grows s (s'\<lparr>client_ssl_streams := a3\<rparr>) = grows s s'"
  "grows s (s'\<lparr>client_buffers := a4\<rparr>) = grows s s'" "grows s (s'\<lparr>client_verifiers := a5\<rparr>) = grows s s'"
  "grows s (s'\<lparr>client_public_keys := a5\<rparr>) = grows s s'" "grows s (s'\<lparr>ticket_file := a6\<rparr>) = grows s s'"
  "grows s (s'\<lparr>cur_client_id := a7\<rparr>) = grows s s'" "grows s (s'\<lparr>client_id_map := a8\<rparr>) = grows s s'"
  "grows s (s'\<lparr>pending_reads := a9\<rparr>) = grows s s'" "grows s (s'\<lparr>accept_pending := b1\<rparr>) = grows s s'"
  "grows s (s'\<lparr>handshakes := b2\<rparr>) = grows s s'" "grows s (s'\<lparr>faults := b3\<rparr>) = grows s s'"
  "grows s (s'\<lparr>key_files := b4\<rparr>) = grows s s'" "grows s (s'\<lparr>sent := b5\<rparr>) = grows s s'"
  "grows s (s'\<lparr>voter_status_table := b6\<rparr>) = grows s s'" "grows s (s'\<lparr>request_timers := b7\<rparr>) = grows s s'"
  "grows s (s'\<lparr>timer_waits := b8\<rparr>) = grows s s'"
  by (simp_all add: grows_def)

lemma grows_report [simp]: "grows s (report io c d s') = grows s s'"
  by (simp add: report_def)

lemma grows_start_read: "grows s (fst (start_read r ip s))"
  by (simp add: start_read_def Let_def)

lemma grows_key_in_memory:
  assumes "(if client_verifiers s c = None then load_client_public_key L cfg c s else (s, True)) = (s', b)"
  shows "grows s s'"
  using assms by (auto simp: load_client_public_key_def split: if_splits sum.splits)

lemma grows_validate:
  assumes "validate_client_request L cfg io r now s = (s', x)"
  shows "grows s s'"
  using assms by (auto simp: validate_client_request_def Let_def split: sum.splits option.splits if_splits)

lemma grows_admit: "grows s (fst (admit_voter cfg io v s))"
  by (simp add: admit_voter_def start_timer_def Let_def)

lemma grows_decide_checkin:
  assumes "decide_checkin L cfg io ok r now s = (s', res)"
  shows "grows s s'"
proof -
  let ?c = "cb_client_id_num (cr_body r)" and ?v = "cb_voter_unique_id (cr_body r)"
  obtain s1 loaded where
    ld: "(if client_verifiers s ?c = None then load_client_public_key L cfg ?c s else (s, True)) = (s1, loaded)"
    by fastforce
  obtain s2 x where va: "validate_client_request L cfg io r now s1 = (s2, x)" by fastforce
  have g1: "grows s s1" using ld by (rule grows_key_in_memory)
  have g2: "grows s s2" using g1 grows_validate [OF va] by (rule grows_trans)
  have g3: "grows s (fst (admit_voter cfg io ?v s2))" using g2 grows_admit by (rule grows_trans)
  from assms [unfolded decide_checkin_def Let_def ld prod.case va] g1 g2 g3 show ?thesis
    by (auto split: if_splits sum.splits prod.splits)
qed

lemma grows_issue_ticket: "issue_ticket io accept v s = (s', x) \<Longrightarrow> grows s s'"
  by (auto simp: issue_ticket_def grows_def split: if_splits sum.splits prod.splits)

lemma grows_send_checkin_response: "send_checkin_response L io ip body s = (s', x) \<Longrightarrow> grows s s'"
  using grows_start_read [of "s\<lparr>sent := _\<rparr>"]
  by (auto simp: send_checkin_response_def start_size_read_def start_read_def Let_def split: sum.splits if_splits)

lemma grows_handle_checkin_request:
  assumes "handle_checkin_request L cfg io ip r s = (s', e)"
  shows "grows s s'"
proof -
  obtain id_map c where sub: "subscript 0 ip (client_id_map s) = (id_map, c)" by fastforce
  define s2 where "s2 = (if cb_client_id_num (cr_body r) = c then s\<lparr>client_id_map := id_map\<rparr> else
     report io c ''Claimed client_id_num does not match TLS-authenticated client identity'' (s\<lparr>client_id_map := id_map\<rparr>))"
  have g2: "grows s s2" by (simp add: s2_def)
  obtain s3 res where de: "decide_checkin L cfg io (cb_client_id_num (cr_body r) = c) r (now_ms io) s2 = (s3, res)" by fastforce
  have g3: "grows s s3" using g2 grows_decide_checkin [OF de] by (rule grows_trans)
  note eq = assms [unfolded handle_checkin_request_def Let_def sub prod.case, folded s2_def, unfolded de prod.case]
  have "grows s s'" if "issue_ticket io a v s3 = (s4, Inr t)" "send_checkin_response L io ip body s4 = (s', e)" for a v s4 t body
    using g3 grows_issue_ticket [OF that(1)] grows_send_checkin_response [OF that(2)] by (meson grows_trans)
  moreover have "grows s s'" if "issue_ticket io a v s3 = (s', Inl err)" for a v err
    using g3 grows_issue_ticket [OF that] by (rule grows_trans)
  ultimately show ?thesis using eq g2 g3 by (auto split: sum.splits option.splits prod.splits)
qed

lemma grows_authenticate:
  assumes "authenticate_ticket_request L cfg io ip r s = (s', x)"
  shows "grows s s'"
proof -
  let ?c = "tb_client_id (tr_body r)"
  obtain id_map c where sub: "subscript 0 ip (client_id_map s) = (id_map, c)" by fastforce
  let ?s1 = "s\<lparr>client_id_map := id_map\<rparr>"
  obtain s2 loaded where
    ld: "(if client_verifiers ?s1 ?c = None then load_client_public_key L cfg ?c ?s1 else (?s1, True)) = (s2, loaded)"
    by fastforce
  have "grows s s2" using grows_key_in_memory [OF ld] by (simp add: grows_def)
  then show ?thesis
    using assms [unfolded authenticate_ticket_request_def Let_def sub prod.case ld]
    by (auto split: if_splits sum.splits option.splits)
qed

lemma grows_send [simp]: "grows s (fst (send_ticket_response L io ip body s1)) = grows s s1"
  by (simp add: send_ticket_response_def split: sum.splits)

lemma grows_confirm: "grows s s1 \<Longrightarrow> grows s (fst (confirm_checkin L io ip vi v r secret t s1))"
  by (simp add: confirm_checkin_def Let_def)

lemma grows_refuse:
  assumes "grows s s1"
  shows "grows s (fst (refuse_ticket L io ip vi c v r t s1))"
proof -
  let ?send = "send_ticket_response L io ip (ticket_response_body_of False vi v [] (tb_pin (tr_body r))) s1"
  obtain s2 e where "?send = (s2, e)" by fastforce
  moreover from this have "grows s s2" using assms grows_send [of s L io ip _ s1] by (metis fst_conv)
  ultimately show ?thesis by (cases e) (simp_all add: refuse_ticket_def Let_def)
qed

lemma grows_settle: "grows s (fst (settle_ticket_request L cfg io ip r c v s))"
proof -
  obtain s1 t valid where cl: "claim_timer cfg io c v s = (s1, t, valid)" by (metis prod_cases3)
  have "grows s s1" using cl by (auto simp: claim_timer_def Let_def split: option.splits if_splits)
  then show ?thesis
    by (simp add: settle_ticket_request_def cl Let_def grows_confirm grows_refuse split: option.split)
qed

lemma dom_read_from_csv: "dom m \<subseteq> dom (read_from_csv file m)"
  by (subst ticket_csv.load_override) auto

lemma grows_handle_trusted_client: "grows s (fst (handle_trusted_client L cfg io msg ip s))"
proof -
  have g0: "grows s (with_tickets s)" using dom_read_from_csv by (auto simp: grows_def with_tickets_def)
  show ?thesis
  proof (cases "bindR (j_parse L msg) (TicketRequest_FromJson L)")
    case (Inl err)
    then consider err where "j_parse L msg = Inl err" | j err where "j_parse L msg = Inr j" "TicketRequest_FromJson L j = Inl err"
      by (auto simp: result_simps)
    then show ?thesis
      using g0 unfolding handle_trusted_client_def Let_def with_tickets_def [symmetric] by cases (auto split: cpp_error.split)
  next
    case (Inr r)
    then obtain j where j: "j_parse L msg = Inr j" "TicketRequest_FromJson L j = Inr r" by (auto simp: result_simps)
    obtain s2 x where au: "authenticate_ticket_request L cfg io ip r (with_tickets s) = (s2, x)" by fastforce
    have g2: "grows s s2" using g0 grows_authenticate [OF au] by (rule grows_trans)
    have "grows s (fst (settle_ticket_request L cfg io ip r c v s2))" for c v
      using g2 grows_settle by (rule grows_trans)
    with g2 show ?thesis
      unfolding handle_trusted_client_def Let_def with_tickets_def [symmetric] j sum.case au prod.case
      by (auto split: sum.split option.split)
  qed
qed

lemma grows_dispatch: "grows s (fst (dispatch_message L cfg io msg ip s))"
proof (cases "sender_type ip s")
  case None
  then show ?thesis by (auto simp: dispatch_message_def sender_type_def split: option.splits)
next
  case (Some ty)
  then obtain c ci where c: "client_id_map s ip = Some c" "clients s c = Some ci" "ci_type ci = ty"
    by (auto simp: sender_type_def split: option.splits)
  let ?s1 = "s\<lparr>cur_client_id := c\<rparr>"
  have g1: "grows s ?s1" by simp
  have "grows s (fst (handle_trusted_client L cfg io msg ip ?s1))" using g1 grows_handle_trusted_client by (rule grows_trans)
  moreover have "grows s (fst (handle_checkin_request L cfg io ip r ?s1))" for r
    using g1 grows_handle_checkin_request [OF surjective_pairing] by (rule grows_trans)
  ultimately show ?thesis
    using c by (cases ty) (auto simp: dispatch_message_def Let_def split: sum.split)
qed

lemma grows_on_read: "grows s (fst (on_read L cfg io ip rd line s))"
proof -
  let ?s1 = "consume (length line) ip (s\<lparr>pending_reads := (pending_reads s)(ip := None)\<rparr>)"
  have g1: "grows s ?s1" by (simp add: consume_def)
  have "grows s (fst (dispatch_message L cfg io line ip ?s1))" using g1 grows_dispatch by (rule grows_trans)
  moreover have "grows s (fst (start_read rr ip ?s1))" for rr using g1 grows_start_read by (rule grows_trans)
  ultimately show ?thesis
    by (cases rd) (auto simp: on_read_def on_payload_read_def on_size_read_def start_payload_read_def Let_def split: sum.split)
qed

section \<open>Registered clients\<close>

text \<open>A handshake registers at most one client, with the type the list of trusted clients gives it.\<close>

definition registers :: "'k checkin_service \<Rightarrow> 'k checkin_service \<Rightarrow> bool" where
  "registers s s' \<longleftrightarrow> trusted_clients s' = trusted_clients s \<and> client_tickets_map s' = client_tickets_map s \<and>
     (clients s' = clients s \<or> (\<exists>c ty. clients s c = None \<and> (ty = TrustedClient \<longleftrightarrow> c \<in> trusted_clients s) \<and>
        clients s' = (clients s)(c \<mapsto> \<lparr>ci_id = c, ci_type = ty\<rparr>)))"

lemma registers_refl [simp]: "registers s s"
  by (simp add: registers_def)

lemma registers_updates [simp]:
  "registers (s\<lparr>handshakes := a1\<rparr>) s' = registers s s'" "registers s (s'\<lparr>client_id_map := a2\<rparr>) = registers s s'"
  "registers s (s'\<lparr>client_ssl_streams := a3\<rparr>) = registers s s'" "registers s (s'\<lparr>accept_pending := a4\<rparr>) = registers s s'"
  by (simp_all add: registers_def)

lemma registers_client:
  assumes "clients s1 = clients s" "trusted_clients s1 = trusted_clients s" "client_tickets_map s1 = client_tickets_map s"
  shows "registers s (register_client c s1)"
  using assms by (auto simp: registers_def register_client_def add_client_def)

lemma register_key_frame:
  assumes "register_key L cfg io c k s = Inr s'"
  shows "clients s' = clients s" "trusted_clients s' = trusted_clients s" "client_tickets_map s' = client_tickets_map s"
  using assms by (auto simp: register_key_def save_pub_key_def report_def Let_def result_simps split: option.splits if_splits)

lemma registers_peer: "register_peer L cfg io ip cert s = Inr s' \<Longrightarrow> registers s s'"
  by (auto simp: register_peer_def result_simps Let_def intro!: registers_client split: option.splits)
    (drule register_key_frame; simp)+

lemma registers_grows: "registers s s1 \<Longrightarrow> grows s1 s2 \<Longrightarrow> client_tickets_map s2 = client_tickets_map s1 \<Longrightarrow> registers s s2"
  by (auto simp: registers_def grows_def)

lemma start_read_tickets: "client_tickets_map (fst (start_read r ip s)) = client_tickets_map s"
  by (simp add: start_read_def Let_def)

lemma registers_on_handshake: "registers s (fst (on_handshake L cfg io ip cert s))"
proof (cases "register_peer L cfg io ip cert s")
  case (Inl e)
  then show ?thesis by (simp add: on_handshake_def registers_def)
next
  case (Inr s2)
  then have "registers s s2" by (rule registers_peer)
  then have r: "registers s (s2\<lparr>client_ssl_streams := insert ip (client_ssl_streams s2)\<rparr>)" by simp
  obtain s3 e where s3: "start_read Size_read ip (s2\<lparr>client_ssl_streams := insert ip (client_ssl_streams s2)\<rparr>) = (s3, e)"
    by fastforce
  then have "registers s s3"
    using registers_grows [OF r] grows_start_read start_read_tickets by (metis fst_conv)
  with Inr s3 show ?thesis
    by (cases e) (simp_all add: on_handshake_def start_size_read_def do_accept_def)
qed

lemma step_registry:
  assumes "step L cfg p l p'"
  shows "grows (service_of p) (service_of p') \<or> registers (service_of p) (service_of p')"
  using assms
proof (cases rule: step.cases)
  case (handshaken ip s io cert)
  then show ?thesis
    using registers_on_handshake [of "s\<lparr>handshakes := handshakes s - {ip}\<rparr>" L cfg io ip cert] by simp
qed (simp_all add: grows_on_read handle_accept_def on_handshake_error_def do_accept_def on_read_error_def
      handle_verification_timeout_def Let_def split: pending_read.split sum.split)

definition registry_ok :: "checkin_config \<Rightarrow> 'k process \<Rightarrow> bool" where
  "registry_ok cfg p \<longleftrightarrow>
     load_trusted_clients (trusted_clients_path cfg) (trusted_clients_file cfg) = Inr (trusted_clients (service_of p)) \<and>
     (\<forall>c ci. clients (service_of p) c = Some ci \<longrightarrow>
        ci_id ci = c \<and> (ci_type ci = TrustedClient \<longleftrightarrow> c \<in> trusted_clients (service_of p)))"

lemma load_key_entries_registry:
  "load_key_entries cfg es s = Inr (s', b) \<Longrightarrow> clients s' = clients s \<and> trusted_clients s' = trusted_clients s"
  by (induction cfg es s rule: load_key_entries.induct)
    (auto simp: result_simps split: sum.splits cpp_error.splits if_splits)

interpretation registry: invariant "started L cfg" "step L cfg" "registry_ok cfg" for L cfg
proof (unfold_locales, goal_cases)
  case (1 p)
  then show ?case
    by (auto simp: started_def CheckinService_def result_simps load_client_public_keys_def blank_service_def run_def
        do_accept_def registry_ok_def dest!: load_key_entries_registry)
next
  case (2 p l p')
  with step_registry [OF 2(2)] show ?case by (auto simp: registry_ok_def grows_def registers_def split: if_splits)
qed

section \<open>Tickets and PINs\<close>

lemma path_tickets:
  "path (step L cfg) p ls p' \<Longrightarrow> dom (client_tickets_map (service_of p)) \<subseteq> dom (client_tickets_map (service_of p'))"
proof (induction rule: path.induct)
  case (path_Cons p l p' ls p'')
  from step_registry [OF path_Cons.hyps(1)] have
    "dom (client_tickets_map (service_of p)) \<subseteq> dom (client_tickets_map (service_of p'))"
    by (auto simp: grows_def registers_def)
  with path_Cons.IH show ?case by blast
qed simp

text \<open>A checked-in voter's PIN column is the decimal text of a 32-bit number.\<close>

definition pins_ok :: "checkin_config \<Rightarrow> 'k process \<Rightarrow> bool" where
  "pins_ok cfg p \<longleftrightarrow> protocol_inv p \<and> (\<forall>v. votes p v = Some CHECKED_IN \<longrightarrow>
     (\<exists>pin :: u32. info (find_voter (voter_list_file cfg) v) ''pin'' = to_string (unat pin)))"

lemma pins_ok_step:
  assumes "pins_ok cfg p" "step L cfg p (io, ev) p'"
  shows "pins_ok cfg p'"
proof -
  have inv: "protocol_inv p" "protocol_inv p'" using assms protocol_inv_step by (auto simp: pins_ok_def)
  from assms(2) show ?thesis
  proof (cases rule: step_cases)
    case none
    then have "votes p' = votes p" by (simp add: votes_def voting_def)
    with assms(1) inv show ?thesis by (simp add: pins_ok_def)
  next
    case (start s ip b n r)
    with votes_admit [OF start(7)] assms(1) inv show ?thesis by (simp add: begins_def votes_def pins_ok_def)
  next
    case (confirm s ip b n r v secret t)
    then have "votes p v = Some PENDING" "pin_matches cfg r v"
      using protocol_inv_PENDING [OF inv(1)] by (simp_all add: confirms_def)
    with confirm votes_confirmed [OF confirm(7)] assms(1) inv show ?thesis
      unfolding pins_ok_def pin_matches_def votes_def by auto metis
  next
    case (expire s w)
    with votes_timeout [OF expire(5)] assms(1) inv show ?thesis by (simp add: votes_def pins_ok_def)
  qed
qed

interpretation pins: invariant "started L cfg" "step L cfg" "pins_ok cfg" for L cfg
proof (unfold_locales, goal_cases)
  case (1 p)
  then obtain tbl where "load_voter_list (voter_list_path cfg) (voter_list_file cfg) Map.empty = Inr tbl"
    "voting (service_of p) = (tbl, Map.empty, [])" by (rule started_voting)
  with 1 checkin.inv_init [OF 1] show ?case
    by (auto simp: pins_ok_def votes_voting dest: load_voter_list_ELIGIBLE)
next
  case (2 p l p')
  then show ?case using pins_ok_step by (cases l) blast
qed

section \<open>New check-ins\<close>

lemma newly_checked_in:
  assumes "reachable (started L cfg) (step L cfg) p" "step L cfg p (io, ev) p'"
    and "voter_status_table (service_of p) v \<noteq> Some CHECKED_IN" "voter_status_table (service_of p') v = Some CHECKED_IN"
  shows "\<exists>s ip b r secret t. p = Running s \<and> ev = Read_line ip \<and> client_buffers s ip = Some b \<and>
    sender_type ip s = Some TrustedClient \<and> confirms L cfg io (first_line b) ip r v secret t s \<and>
    voter_status_table s v = Some PENDING"
  using assms(2)
proof (cases rule: step_cases)
  case none
  with assms(3,4) show ?thesis by (simp add: voting_def)
next
  case (start s ip b n r)
  with votes_admit [OF start(7)] assms(3,4) show ?thesis by (auto simp: begins_def votes_def split: if_splits)
next
  case (confirm s ip b n r u secret t)
  then have u: "voter_status_table s u = Some PENDING"
    using protocol_inv_PENDING [OF checkin.inv_reachable [OF assms(1)]] by (simp add: confirms_def votes_def)
  with votes_confirmed [OF confirm(7)] assms(3,4) confirm(1) have "u = v"
    by (auto simp: votes_def split: if_splits)
  with confirm u show ?thesis by blast
next
  case (expire s w)
  with votes_timeout [OF expire(5)] assms(3,4) show ?thesis by (auto simp: votes_def split: if_splits)
qed

end
