(* ===== verification/Checkin_Properties.thy ===== *)
theory Checkin_Properties
  imports Sample_Run Checkin_Registry
begin

text \<open>
  The properties of the check-in service, each with an instance over the sample deployment:
  authorisation and permanence of check-ins, the timers, the refinement of the abstract voter
  machine, delivery of messages, freshness of timestamps and the paths on which the process ends.
\<close>

section \<open>Invariant and refinement\<close>

text \<open>
  C8: in every reachable state a voter is pending exactly when it has a timer, the timer is its own,
  and the wait of that timer is the only wait for the voter in flight.
\<close>

theorem pending_iff_timer:
  assumes "reachable (started L cfg) (step L cfg) p"
  shows "(voter_status_table (service_of p) v = Some PENDING \<longleftrightarrow> request_timers (service_of p) v \<noteq> None) \<and>
    (\<forall>t. request_timers (service_of p) v = Some t \<longrightarrow> timer_voter_id t = v \<and>
       filter (\<lambda>w. timer_voter_id w = v) (timer_waits (service_of p)) = [t])"
proof -
  have "voter_ok (voting (service_of p)) v"
    using checkin.inv_reachable [OF assms] by (simp add: protocol_inv_def)
  then show ?thesis
    by (auto simp: voter_ok_def voting_def Let_def split: option.splits voter_status.splits)
qed

theorem pending_iff_timer_witness:
  "voter_status_table sample_pending 7 = Some PENDING \<and> request_timers sample_pending 7 \<noteq> None"
  using pending_iff_timer [OF sample_pending_reachable, of 7] sample_pending_voters by (simp add: votes_def)

text \<open>
  C4: every run of the service follows the abstract voter machine event by event, from the loaded
  roll: around each event every status stays as it is, or exactly one voter goes from eligible to
  pending (by its own valid check-in request), from pending to checked in (by an authentic ticket
  request for it) or from pending back to eligible (by the expiry of its own timer). A voter is
  confirmed at most once in a run, and is checked in at its end exactly when it was confirmed.
\<close>

theorem voters_refined:
  assumes "started L cfg p0" "perform_all L cfg p0 events = Some p"
  shows "load_voter_list (voter_list_path cfg) (voter_list_file cfg) Map.empty = Inr (votes p0) \<and>
    (\<exists>as. follows voter_step votes (caused_by L cfg) (visited (perform L cfg) p0 events) events as \<and>
      (\<forall>v. count_list as (Confirm v) \<le> 1 \<and> (votes p v = Some CHECKED_IN \<longleftrightarrow> Confirm v \<in> set as)))"
proof -
  let ?ss = "visited (perform L cfg) p0 events"
  obtain tbl where tbl: "load_voter_list (voter_list_path cfg) (voter_list_file cfg) Map.empty = Inr tbl"
    "voting (service_of p0) = (tbl, Map.empty, [])"
    by (rule started_voting [OF assms(1)])
  have inv: "protocol_inv (?ss ! 0)" using checkin.inv_init [OF assms(1)] by simp
  obtain as where as: "follows voter_step votes (caused_by L cfg) ?ss events as"
    using voters.run_followed [OF checkin_steps.step_visited [OF assms(2)] inv] by blast
  have "path voter_step (votes p0) as (votes p)"
    using follows_path [OF as] visited_final [OF assms(2)] by simp
  then show ?thesis
    using as tbl votes_voting [OF tbl(2)] voter_path_confirm_once voter_path_checked_in_iff
      load_voter_list_ELIGIBLE [OF tbl(1)] by blast
qed

theorem voters_refined_witness:
  "\<exists>as. follows voter_step votes (caused_by sample_libs sample_cfg)
      (visited (perform sample_libs sample_cfg) (Running sample_service) sample_events) sample_events as \<and> Confirm 7 \<in> set as"
  using voters_refined [OF sample_started sample_honest_run] sample_done_voters by blast

text \<open>C5: a voter that is checked in stays checked in, whatever happens.\<close>

theorem checked_in_forever:
  assumes "reachable (started L cfg) (step L cfg) p" "path (step L cfg) p ls p'"
    and "voter_status_table (service_of p) v = Some CHECKED_IN"
  shows "voter_status_table (service_of p') v = Some CHECKED_IN"
proof -
  obtain as where "path voter_step (votes p) as (votes p')"
    using voters.path_simulated [OF assms(2) checkin.inv_reachable [OF assms(1)]] by blast
  from voter_path_CHECKED_IN [OF this] assms(3) show ?thesis by (simp add: votes_def)
qed

theorem checked_in_forever_witness:
  "voter_status_table sample_cleaned 7 = Some CHECKED_IN"
  using checked_in_forever [OF sample_done_reachable sample_cleans, of 7] sample_done_voters by (simp add: votes_def)

section \<open>Authorisation\<close>

text \<open>
  C6: a voter becomes checked in only by a message of a connection authenticated as a trusted client
  that is a well-formed ticket request, signed by that client, fresh, for a stored ticket of that
  voter, with the voter's PIN, inside the window of the voter's timer, while the voter is pending.
\<close>

theorem confirmation_authorised:
  assumes "reachable (started L cfg) (step L cfg) p" "step L cfg p (io, ev) p'"
    and "voter_status_table (service_of p) v \<noteq> Some CHECKED_IN" "voter_status_table (service_of p') v = Some CHECKED_IN"
  shows "\<exists>s ip b r secret t. p = Running s \<and> ev = Read_line ip \<and> client_buffers s ip = Some b \<and>
    sender_type ip s = Some TrustedClient \<and> confirms L cfg io (first_line b) ip r v secret t s \<and>
    voter_status_table s v = Some PENDING"
  using assms by (rule newly_checked_in)

theorem confirmation_authorised_witness:
  "\<exists>b r secret t. client_buffers before_confirm device_ip = Some b \<and>
     sender_type device_ip before_confirm = Some TrustedClient \<and>
     confirms sample_libs sample_cfg (sample_io 1000) (first_line b) device_ip r 7 secret t before_confirm"
  using confirmation_authorised [OF before_reachable(2) before_steps(2), of 7] before_voters sample_done_voters
  by (auto simp: votes_def)

text \<open>
  C7: a voter becomes pending only by a message of a connection authenticated as an untrusted client
  that decodes to a check-in request in that client's name, valid at that moment, for a voter of the
  roll that is eligible.
\<close>

theorem checkin_authorised:
  assumes "step L cfg p (io, ev) p'"
    and "voter_status_table (service_of p) v \<noteq> Some PENDING" "voter_status_table (service_of p') v = Some PENDING"
  shows "\<exists>s ip b r. p = Running s \<and> ev = Read_line ip \<and> client_buffers s ip = Some b \<and>
    sender_type ip s = Some UntrustedClient \<and> begins L cfg io (first_line b) ip r s \<and>
    cb_voter_unique_id (cr_body r) = v"
  using assms(1)
proof (cases rule: step_cases)
  case none
  with assms(2,3) show ?thesis by (simp add: voting_def)
next
  case (start s ip b n r)
  with votes_admit [OF start(7)] assms(2,3) have "cb_voter_unique_id (cr_body r) = v"
    by (auto simp: begins_def votes_def split: if_splits)
  with start show ?thesis by blast
next
  case (confirm s ip b n r u secret t)
  with confirmed_voting [of io u t s] assms(2,3) show ?thesis by (auto simp: voting_def split: if_splits)
next
  case (expire s w)
  with votes_timeout [OF expire(5)] assms(2,3) show ?thesis by (auto simp: votes_def split: if_splits)
qed

theorem checkin_authorised_witness:
  "\<exists>b r. client_buffers before_begin pollbook_ip = Some b \<and>
     sender_type pollbook_ip before_begin = Some UntrustedClient \<and>
     begins sample_libs sample_cfg (sample_io 0) (first_line b) pollbook_ip r before_begin"
  using checkin_authorised [OF before_steps(1), of 7] before_voters sample_pending_voters by (auto simp: votes_def)

section \<open>Timers\<close>

text \<open>
  C10: a pending check-in is undone only by the expiry of its own timer: no earlier timer of the same
  voter, and no timer of another voter, can revert it.
\<close>

theorem expiry_by_own_timer:
  assumes "reachable (started L cfg) (step L cfg) p" "step L cfg p (io, ev) p'"
    and "voter_status_table (service_of p) v = Some PENDING" "voter_status_table (service_of p') v = Some ELIGIBLE"
  shows "\<exists>t. ev = Timer_expired t \<and> request_timers (service_of p) v = Some t \<and> timer_expiry t \<le> steady_now io"
  using assms(2)
proof (cases rule: step_cases)
  case none
  with assms(3,4) show ?thesis by (simp add: voting_def)
next
  case (start s ip b n r)
  with votes_admit [OF start(7)] assms(3,4) show ?thesis by (auto simp: begins_def votes_def split: if_splits)
next
  case (confirm s ip b n r u secret t)
  with confirmed_voting [of io u t s] assms(3,4) show ?thesis by (auto simp: voting_def split: if_splits)
next
  case (expire s w)
  with votes_timeout [OF expire(5)] assms(3,4) have v: "timer_voter_id w = v"
    by (auto simp: votes_def split: if_splits)
  have "voter_ok (voting s) v"
    using checkin.inv_reachable [OF assms(1)] expire(1) by (simp add: protocol_inv_def)
  then have "request_timers s v = Some w"
    using voter_ok_timer [of s v w] expire assms(3) v by simp
  with expire show ?thesis by simp
qed


theorem expiry_by_own_timer_witness:
  "request_timers sample_pending 7 = Some (issued_timer sample_cfg (sample_io 0) 7) \<and>
   timer_expiry (issued_timer sample_cfg (sample_io 0) 7) \<le> 400000000000"
  using expiry_by_own_timer [OF sample_pending_reachable sample_expires(1), of 7]
    sample_pending_voters sample_expires(2) by (auto simp: votes_def)

text \<open>
  C11: a pending voter is not stuck: once its timer's expiry is reached, the timeout is enabled and
  makes the voter eligible again, with no timer left.
\<close>

theorem timeout_frees_voter:
  assumes "reachable (started L cfg) (step L cfg) (Running s)" "voter_status_table s v = Some PENDING"
  shows "\<exists>t. request_timers s v = Some t \<and>
    (\<forall>io. timer_expiry t \<le> steady_now io \<longrightarrow>
       (\<exists>s'. step L cfg (Running s) (io, Timer_expired t) (Running s') \<and>
          voter_status_table s' v = Some ELIGIBLE \<and> request_timers s' v = None))"
proof -
  obtain t where t: "request_timers s v = Some t" "timer_voter_id t = v" "t \<in> set (timer_waits s)"
    using pending_timer [OF checkin.inv_reachable [OF assms(1)]] assms(2) by (auto simp: votes_def)
  have "step L cfg (Running s) (io, Timer_expired t) (Running (timed_out io t s))"
    if "timer_expiry t \<le> steady_now io" for io
    unfolding timed_out_def using t(3) that by (rule step.timer_expired)
  moreover have "voter_status_table (timed_out io t s) v = Some ELIGIBLE \<and> request_timers (timed_out io t s) v = None"
    for io using assms(2) t(2) by (simp add: timed_out_def handle_verification_timeout_def Let_def)
  ultimately show ?thesis using t(1) by blast
qed

theorem timeout_frees_voter_witness:
  "\<exists>s'. step sample_libs sample_cfg (Running sample_pending)
       (sample_io 400000000000, Timer_expired (issued_timer sample_cfg (sample_io 0) 7)) (Running s') \<and>
     voter_status_table s' 7 = Some ELIGIBLE"
proof -
  have "timer_expiry (issued_timer sample_cfg (sample_io 0) 7) \<le> steady_now (sample_io 400000000000)"
    by (simp add: issued_timer_def sample_cfg_def minutes_def ns_per_s_def)
  then show ?thesis
    using timeout_frees_voter [OF sample_pending_reachable, of 7] sample_pending_voters
    by (auto simp: votes_def dest!: spec [of _ "sample_io 400000000000"])
qed

text \<open>
  C12: once a voter is checked in, its tickets are worthless: in any reachable state, the message of a
  trusted device that presents a stored ticket of that voter changes no status and no timer, and is
  answered with nothing or with the denial, which carries no secret. The approval is not sent again.
\<close>

theorem no_second_confirmation:
  assumes "reachable (started L cfg) (step L cfg) (Running s)" "voter_status_table s v = Some CHECKED_IN"
    and "step L cfg (Running s) (io, Read_line ip) p'" "sender_type ip s = Some TrustedClient" "client_buffers s ip = Some b"
    and "decode_ticket_request L (first_line b) = Inr r"
    and "client_tickets_map (with_tickets s) (tb_ticket (tr_body r)) = Some (v, secret)"
  shows "voting (service_of p') = voting s \<and>
    (sent (service_of p') = sent s \<or>
     (\<exists>answer. ticket_reply L (signer_key s) (denial cfg r v) answer \<and> sent (service_of p') = sent s @ [(ip, answer)])) \<and>
    \<not> rb_approved (denial cfg r v) \<and> rb_secret (denial cfg r v) = []"
proof -
  have "\<not> confirms L cfg io (first_line b) ip r' v' secret' t s" for r' v' secret' t
    using assms(2,6,7) protocol_inv_PENDING [OF checkin.inv_reachable [OF assms(1)], of v]
    by (auto simp: confirms_def decode_ticket_request_def votes_def)
  with assms(3-5) show ?thesis
    by (cases rule: trusted_read_cases) (use assms(6,7) in \<open>auto simp: sent_reply_def denial_def ticket_response_body_of_def\<close>)
qed

theorem no_second_confirmation_witness:
  "\<exists>p'. step sample_libs sample_cfg (Running before_replay) (sample_io 2000, Read_line replay_ip) p' \<and>
     voting (service_of p') = voting before_replay \<and>
     (sent (service_of p') = sent before_replay \<or> (\<exists>answer. sent (service_of p') = sent before_replay @ [(replay_ip, answer)]))"
proof -
  obtain p' where p': "step sample_libs sample_cfg (Running before_replay) (sample_io 2000, Read_line replay_ip) p'"
    using replay_state(5) by blast
  from no_second_confirmation [OF replay_reachable replay_state(1) p' replay_state(2,3), of sample_ticket_request "''0203''"] p'
  show ?thesis using replay_state(4) by (auto simp: first_line_device sample_device_line(2))
qed


section \<open>Ticket requests\<close>

text \<open>
  C13: what the device is told is what happened, and it is decided by the presented ticket. A complete
  message of a trusted device that does not decode, or whose ticket is not stored, changes nothing and
  is not answered. For a ticket stored with a voter and a secret, exactly when the conditions of a
  confirmation hold that voter goes from pending to checked in and the answer, if the connection takes
  one, is the approval with that secret; otherwise no status changes, and the answer is the denial
  without a secret if the request is authentic, and none at all if it is not.
\<close>

theorem ticket_reply_matches_outcome:
  assumes "reachable (started L cfg) (step L cfg) (Running s)" "step L cfg (Running s) (io, Read_line ip) p'"
    and "sender_type ip s = Some TrustedClient" "client_buffers s ip = Some b"
    and "pending_reads s ip = Some (Payload_read (length (first_line b) - 1))"
  shows "case decode_ticket_request L (first_line b) of
      Inl _ \<Rightarrow> votes p' = votes (Running s) \<and> sent (service_of p') = sent s
    | Inr r \<Rightarrow> (case client_tickets_map (with_tickets s) (tb_ticket (tr_body r)) of
        None \<Rightarrow> votes p' = votes (Running s) \<and> sent (service_of p') = sent s
      | Some (v, secret) \<Rightarrow>
          if \<exists>t. confirms L cfg io (first_line b) ip r v secret t s
          then voter_status_table s v = Some PENDING \<and>
            votes p' = (voter_status_table s)(v \<mapsto> CHECKED_IN) \<and>
            sent_reply L ip (approval cfg r v secret) s (service_of p')
          else if ticket_authentic L cfg io ip r v (with_tickets s)
          then votes p' = votes (Running s) \<and> sent_reply L ip (denial cfg r v) s (service_of p')
          else votes p' = votes (Running s) \<and> sent (service_of p') = sent s)"
  using assms(2-4)
proof (cases rule: trusted_read_cases)
  case incomplete
  with assms(5) show ?thesis by simp
next
  case ignore
  then show ?thesis by (auto simp: votes_def voting_def sent_reply_def split: sum.split option.split)
next
  case (refuse r v secret)
  then show ?thesis by (auto simp: votes_def voting_def)
next
  case (confirm r v secret t)
  then have "voter_status_table s v = Some PENDING"
    using protocol_inv_PENDING [OF checkin.inv_reachable [OF assms(1)], of v] by (simp add: confirms_def votes_def)
  with confirm votes_confirmed [OF confirm(2)] show ?thesis
    by (auto simp: confirms_def decode_ticket_request_def)
qed

theorem ticket_reply_matches_outcome_witness:
  "votes (Running sample_done) = (voter_status_table before_confirm)(7 \<mapsto> CHECKED_IN) \<and>
   sent_reply sample_libs device_ip (approval sample_cfg sample_ticket_request 7 ''0203'') before_confirm sample_done"
proof -
  have "\<exists>t. confirms sample_libs sample_cfg (sample_io 1000) (sample_ticket_text @ [newline]) device_ip sample_ticket_request 7
      ''0203'' t before_confirm"
    using before_confirm_state(5) by blast
  then show ?thesis
    using ticket_reply_matches_outcome [OF before_reachable(2) before_steps(2) before_confirm_state(1,2)] before_confirm_state(3,4)
    by (simp add: first_line_device sample_device_line(2))
qed

section \<open>Check-in requests\<close>

text \<open>
  C14: a valid request of a connected poll book for an eligible voter is accepted: the voter becomes
  pending with a fresh timer, the ticket and secret are stored in memory and in the ticket file, the
  signed approval with the ticket is sent, and the service waits for the next message.
\<close>

theorem valid_request_accepted:
  assumes "client_id_map s ip = Some (cb_client_id_num (cr_body r))"
    and "client_verifiers s (cb_client_id_num (cr_body r)) = Some key"
    and "request_valid L cfg s r (now_ms io)"
    and "voter_status_table s (cb_voter_unique_id (cr_body r)) = Some ELIGIBLE"
    and "j_dump L (CheckinRequest_ToJson L r) = Inr full"
    and "generate_secret (rand_ticket io) = Inr ticket" "generate_secret (rand_secret io) = Inr secret"
    and "approval_response L (signer_key s) (response_for io True r ticket) = Inr reply"
    and "ip \<in> client_ssl_streams s" "\<not> write_fails io"
  shows "\<exists>s'. handle_checkin_request L cfg io ip r s = (s', None) \<and>
    voter_status_table s' = (voter_status_table s)(cb_voter_unique_id (cr_body r) \<mapsto> PENDING) \<and>
    request_timers s' = (request_timers s)
      (cb_voter_unique_id (cr_body r) \<mapsto> issued_timer cfg io (cb_voter_unique_id (cr_body r))) \<and>
    client_tickets_map s' = (client_tickets_map s)(ticket \<mapsto> (cb_voter_unique_id (cr_body r), secret)) \<and>
    ticket_file s' = write_to_csv (csv_opens io) ticket secret (cb_voter_unique_id (cr_body r)) (ticket_file s) \<and>
    sent s' = sent s @ [(ip, frame_message reply)] \<and> pending_reads s' ip = Some Size_read"
proof -
  have "pending_reads (accepted_state cfg io ip r ticket secret reply s) ip = Some Size_read"
    using assms(4,9) by (simp add: accepted_state_def admit_voter_def start_timer_def start_size_read_def start_read_def Let_def)
  then show ?thesis
    using handle_checkin_request_accept [OF assms] accepted_state_fields(1-5) [OF assms(4)] by simp
qed

theorem valid_request_accepted_witness:
  "\<exists>s'. handle_checkin_request sample_libs sample_cfg (sample_io 0) pollbook_ip sample_request sample_ready = (s', None) \<and>
     voter_status_table s' 7 = Some PENDING \<and> sent s' = [(pollbook_ip, frame_message sample_reply)]"
  using valid_request_accepted [of sample_ready pollbook_ip sample_request 2 sample_libs sample_cfg "sample_io 0" sample_text
      "''01ab''" "''0203''" sample_reply] sample_ready_ok
  by (auto simp: ready_ok_def connected_def sample_request_valid sample_dump sample_text_def sample_secrets
      sample_approval_response)

text \<open>
  C15: a check-in request that is not made in the connection's own name, is not valid, or names a
  voter that is not eligible changes no status, no timer and no ticket.
\<close>

theorem rejected_request_no_effect:
  assumes "\<not> (client_id_map s ip = Some (cb_client_id_num (cr_body r)) \<and> request_valid L cfg s r (now_ms io) \<and>
      voter_status_table s (cb_voter_unique_id (cr_body r)) = Some ELIGIBLE)"
    and "client_id_map s ip \<noteq> None"
  shows "voting (fst (handle_checkin_request L cfg io ip r s)) = voting s \<and>
    ticketing (fst (handle_checkin_request L cfg io ip r s)) = ticketing s"
proof -
  obtain s' e where eq: "handle_checkin_request L cfg io ip r s = (s', e)" by fastforce
  then show ?thesis
    by (cases rule: handle_checkin_request_cases) (use assms eq in \<open>auto simp: quiet_def\<close>)
qed

theorem rejected_request_no_effect_witness:
  "voting (fst (handle_checkin_request sample_libs sample_cfg (sample_io 0) device_ip sample_request sample_ready))
     = voting sample_ready"
  using rejected_request_no_effect [of sample_ready device_ip sample_request sample_libs sample_cfg "sample_io 0"]
    sample_ready_ok by (simp add: ready_ok_def connected_def)


section \<open>Delivery and freshness\<close>



text \<open>
  C23: the freshness test accepts a timestamp exactly when it is at most the interval away from the
  clock, in either direction, as long as the clock itself is at least one interval away from both
  ends of the 64-bit range; only for a timestamp that is exactly \<open>2 ^ 63\<close> milliseconds away (a
  client chooses its timestamp) the behaviour is undefined.
\<close>

theorem freshness_exact:
  assumes "uint interval \<le> uint now" "uint now + uint interval < 2 ^ 64"
  shows "is_stale interval now ts =
    (if \<bar>uint now - uint ts\<bar> = 2 ^ 63 then Inl UB else Inr (uint interval < \<bar>uint now - uint ts\<bar>))"
proof (cases "\<bar>uint now - uint ts\<bar> = 2 ^ 63")
  case True
  then show ?thesis by (auto simp: is_stale_eq Let_def)
next
  case False
  with assms show ?thesis using is_stale_iff by simp
qed

theorem freshness_exact_witness: "is_stale 100 1700000000000 1700000000101 = Inr True"
  using freshness_exact [of 100 1700000000000 1700000000101] by simp

section \<open>Messages that end the process\<close>

text \<open>
  C39: a payload of an untrusted client that is not JSON ends the process: decoding goes on with a
  null value, on which member access raises an exception nobody catches. The process survives the
  completion of a size read exactly when the size line starts with a number of 64 bits and the
  stream is still there, so any client can end it with a line of text.
\<close>

theorem malformed_input_ends_process:
  assumes "sender_type ip s = Some UntrustedClient" "j_parse L msg = Inl (Exn Json_parse_error what)"
    and "j_at L (j_null L) ''body'' = Inl err"
  shows "snd (dispatch_message L cfg io msg ip s) = Some err \<and>
    (snd (on_size_read ip line s) = None \<longleftrightarrow> is_ok (stoul line) \<and> ip \<in> client_ssl_streams s)"
proof
  show "snd (dispatch_message L cfg io msg ip s) = Some err"
    using assms
    by (auto simp: sender_type_def dispatch_message_def decode_checkin_request_def CheckinRequest_FromJson_def j_at2_def
        split: option.splits)
  show "snd (on_size_read ip line s) = None \<longleftrightarrow> is_ok (stoul line) \<and> ip \<in> client_ssl_streams s"
    by (auto simp: on_size_read_def start_payload_read_def start_read_def consume_def Let_def is_ok_iff split: sum.splits)
qed

theorem malformed_input_ends_process_witness:
  "snd (dispatch_message sample_libs sample_cfg (sample_io 0) (''hello'' @ [newline]) pollbook_ip sample_ready) =
     Some (Exn Json_exception ''type_error'')"
proof (rule malformed_input_ends_process [THEN conjunct1])
  show "sender_type pollbook_ip sample_ready = Some UntrustedClient"
    using sample_ready_ok by (auto simp: ready_ok_def connected_def sender_type_def)
  show "j_parse sample_libs (''hello'' @ [newline]) = Inl (Exn Json_parse_error ''parse error'')"
    by (simp add: sample_libs_def) code_simp
  show "j_at sample_libs (j_null sample_libs) ''body'' = Inl (Exn Json_exception ''type_error'')"
    by (simp add: sample_libs_def sample_at_def)
qed

section \<open>Trusted clients, tickets and PINs\<close>

text \<open>
  C9: only a device on the list of trusted clients checks a voter in: the connection that delivers the
  confirming message was authenticated with the number of a client of that file.
\<close>

theorem confirmed_by_listed_device:
  assumes "reachable (started L cfg) (step L cfg) p" "step L cfg p (io, ev) p'"
    and "voter_status_table (service_of p) v \<noteq> Some CHECKED_IN" "voter_status_table (service_of p') v = Some CHECKED_IN"
  shows "\<exists>ip c trusted. ev = Read_line ip \<and> client_id_map (service_of p) ip = Some c \<and>
    load_trusted_clients (trusted_clients_path cfg) (trusted_clients_file cfg) = Inr trusted \<and> c \<in> trusted"
proof -
  obtain s ip where s: "p = Running s" "ev = Read_line ip" "sender_type ip s = Some TrustedClient"
    using newly_checked_in [OF assms] by blast
  then obtain c ci where "client_id_map s ip = Some c" "clients s c = Some ci" "ci_type ci = TrustedClient"
    by (auto simp: sender_type_def split: option.splits)
  with s registry.inv_reachable [OF assms(1)] show ?thesis by (auto simp: registry_ok_def)
qed

theorem confirmed_by_listed_device_witness:
  "\<exists>c trusted. client_id_map before_confirm device_ip = Some c \<and>
     load_trusted_clients (trusted_clients_path sample_cfg) (trusted_clients_file sample_cfg) = Inr trusted \<and> c \<in> trusted"
  using confirmed_by_listed_device [OF before_reachable(2) before_steps(2), of 7] before_voters sample_done_voters
  by (auto simp: votes_def)

text \<open>
  C36: a ticket in memory is never forgotten, whatever happens, whether its check-in is confirmed,
  refused or expires.
\<close>

theorem tickets_kept:
  assumes "path (step L cfg) p ls p'" "client_tickets_map (service_of p) ticket \<noteq> None"
  shows "client_tickets_map (service_of p') ticket \<noteq> None"
  using path_tickets [OF assms(1)] assms(2) by blast

theorem tickets_kept_witness:
  "client_tickets_map sample_cleaned ''01ab'' \<noteq> None"
proof -
  have "client_tickets_map sample_done ''01ab'' \<noteq> None"
    using sample_pending_tickets by (simp add: sample_done_def confirmed_def with_tickets_def current_def after_payload_def)
  then show ?thesis using tickets_kept [OF sample_cleans, of "''01ab''"] by simp
qed

text \<open>
  C38: a voter whose PIN on the roll is written with a leading zero is never checked in, because the
  PIN of a request is compared as the decimal text of a number.
\<close>

theorem leading_zero_pin_never:
  assumes "reachable (started L cfg) (step L cfg) p" "info (find_voter (voter_list_file cfg) v) ''pin'' = CHR ''0'' # c # cs"
  shows "voter_status_table (service_of p) v \<noteq> Some CHECKED_IN"
  using pins.inv_reachable [OF assms(1)] pin_leading_zero assms(2) by (auto simp: pins_ok_def votes_def)

theorem leading_zero_pin_never_witness: "voter_status_table zero_service 7 \<noteq> Some CHECKED_IN"
proof -
  have "info (find_voter (voter_list_file zero_cfg) 7) ''pin'' = ''042''" by code_simp
  from leading_zero_pin_never [OF zero_started this] show ?thesis by simp
qed

end
