(* ===== verification/Voter_ID_Service.thy ===== *)
theory Voter_ID_Service
  imports Checkin_Behaviour
begin

text \<open>
  The voter ID service (\<^verbatim>\<open>voter_id_service.hpp\<close>, \<^verbatim>\<open>voter_id_service.cpp\<close>): it matches ID data
  to a voter number, checks the presented name against its voter records and the poll book's
  signature, and signs the statement that the poll book forwards to the check-in service. The
  conventions are those of the check-in service: a record of the members, handlers as functions
  from the state and one invocation's inputs, and the exception that leaves a handler, which ends
  the process.
\<close>

section \<open>State\<close>

record id_config =
  ic_freshness_interval :: u32
  ic_client_keys_folder :: string
  ic_client_key_file_prefix :: string
  ic_voter_list_file :: "string option"

record 'k id_service =
  is_ssl_streams :: "endpoint set"
  is_buffers :: "endpoint \<rightharpoonup> string"
  is_signer_key :: 'k
  is_public_keys :: "u32 \<rightharpoonup> 'k"
  is_verifiers :: "u32 \<rightharpoonup> 'k"
  is_voter_names :: "u32 \<rightharpoonup> string"
  is_voter_data :: "u32 \<rightharpoonup> string list"
  is_pending_reads :: "endpoint \<rightharpoonup> pending_read"
  is_accept_pending :: bool
  is_handshakes :: "endpoint set"
  is_key_files :: file_system
  is_sent :: "(endpoint \<times> string) list"

type_synonym 'k id_outcome = "'k id_service \<times> cpp_error option"

definition INVALID_VOTER_ID :: u32 where
  "INVALID_VOTER_ID = - 1"

section \<open>Voter records\<close>

text \<open>Every comma-separated field of a line; an empty last field does not count.\<close>

definition csv_fields :: "string \<Rightarrow> string list" where
  "csv_fields line = getlines comma line"

definition load_voter_record :: "string \<Rightarrow> 'k id_service \<Rightarrow> 'k id_service" where
  "load_voter_record line s =
     (let fields = csv_fields line
      in if length fields < 8 then s
         else (case stoul (fields ! 0) of
             Inl _ \<Rightarrow> s
           | Inr uid \<Rightarrow>
               s\<lparr>is_voter_data := (is_voter_data s)(of_nat uid \<mapsto> fields),
                 is_voter_names := (is_voter_names s)
                   (of_nat uid \<mapsto> fields ! 2 @ '' '' @ fields ! 3 @ '' '' @ fields ! 1)\<rparr>))"

definition load_voter_data_from_csv :: "id_config \<Rightarrow> 'k id_service \<Rightarrow> 'k id_service" where
  "load_voter_data_from_csv cfg s = (case getline newline (file_text (ic_voter_list_file cfg)) of
       None \<Rightarrow> s
     | Some (_, body) \<Rightarrow> fold load_voter_record (getlines newline body) s)"

definition case_insensitive_equal :: "string \<Rightarrow> string \<Rightarrow> bool" where
  "case_insensitive_equal a b \<longleftrightarrow> length a = length b \<and> list_all2 (\<lambda>x y. tolower x = tolower y) a b"

definition validate_voter_name :: "string \<Rightarrow> string \<Rightarrow> string \<Rightarrow> u32 \<Rightarrow> 'k id_service \<Rightarrow> bool" where
  "validate_voter_name first_name middle_name last_name voter_unique_id s =
     (case is_voter_data s voter_unique_id of
        None \<Rightarrow> False
      | Some data \<Rightarrow>
          if length data < 8 then False
          else case_insensitive_equal first_name (data ! 2) \<and> case_insensitive_equal middle_name (data ! 3)
             \<and> case_insensitive_equal last_name (data ! 1))"

text \<open>The first four bytes of the ID data are the voter's number; shorter data is read past its end.\<close>

definition validate_and_match_id_data :: "byte list \<Rightarrow> u32 result" where
  "validate_and_match_id_data id_data = memcpy_u32 id_data"

section \<open>Client keys\<close>

definition id_key_path :: "id_config \<Rightarrow> u32 \<Rightarrow> string" where
  "id_key_path cfg client_id =
     ic_client_keys_folder cfg @ ic_client_key_file_prefix cfg @ to_string (unat client_id) @ ''.pem''"

definition id_save_pub_key ::
  "('j, 'k, 'c) libs \<Rightarrow> id_config \<Rightarrow> io_input \<Rightarrow> 'k \<Rightarrow> u32 \<Rightarrow> 'k id_service \<Rightarrow> 'k id_service" where
  "id_save_pub_key L cfg io pubkey client_id s =
     s\<lparr>is_key_files := fst (to_pem_public L (fopen_w io) pubkey (id_key_path cfg client_id) (is_key_files s))\<rparr>"

text \<open>Only OpenSSL errors are caught; a missing or unreadable file is an exception of the caller.\<close>

definition id_load_client_public_key ::
  "('j, 'k, 'c) libs \<Rightarrow> id_config \<Rightarrow> u32 \<Rightarrow> 'k id_service \<Rightarrow> 'k id_service \<times> bool result" where
  "id_load_client_public_key L cfg client_id s =
     (case from_pem_public L (is_key_files s) (id_key_path cfg client_id) of
        Inr key \<Rightarrow> (s\<lparr>is_verifiers := emplace client_id key (is_verifiers s)\<rparr>, Inr True)
      | Inl (Exn x what) \<Rightarrow> if x = Openssl_error then (s, Inr False) else (s, Inl (Exn x what))
      | Inl e \<Rightarrow> (s, Inl e))"

fun id_load_key_entries ::
  "id_config \<Rightarrow> (string \<times> 'k result) list \<Rightarrow> 'k id_service \<Rightarrow> ('k id_service \<times> bool) result" where
  "id_load_key_entries cfg [] s = Inr (s, True)"
| "id_load_key_entries cfg ((name, read) # entries) s = (case read of
       Inl (Exn x what) \<Rightarrow> if x = Openssl_error then Inr (s, False) else Inl (Exn x what)
     | Inl e \<Rightarrow> Inl e
     | Inr key \<Rightarrow>
         (case find_sub (ic_client_key_file_prefix cfg) (drop_extension name) of
            None \<Rightarrow> Inl (Exn Out_of_range ''basic_string::erase'')
          | Some i \<Rightarrow>
              bindR (stoul (take i (drop_extension name) @
                            drop (i + length (ic_client_key_file_prefix cfg)) (drop_extension name))) (\<lambda>n.
              id_load_key_entries cfg entries
                (s\<lparr>is_verifiers := emplace (of_nat n) key (is_verifiers s),
                   is_public_keys := emplace (of_nat n) key (is_public_keys s)\<rparr>))))"

definition id_load_client_public_keys ::
  "('j, 'k, 'c) libs \<Rightarrow> id_config \<Rightarrow> string list \<Rightarrow> 'k id_service \<Rightarrow> ('k id_service \<times> bool) result" where
  "id_load_client_public_keys L cfg names s =
     id_load_key_entries cfg
       (map (\<lambda>name. (name, from_pem_public L (is_key_files s) (ic_client_keys_folder cfg @ ''/'' @ name))) names) s"

section \<open>Validation requests\<close>

text \<open>Sign the statement and send it; the reply is the serialised message and a line break.\<close>

definition send_verified_id ::
  "('j, 'k, 'c) libs \<Rightarrow> io_input \<Rightarrow> endpoint \<Rightarrow> voter_id_request \<Rightarrow> u32 \<Rightarrow> 'k id_service \<Rightarrow> 'k id_outcome" where
  "send_verified_id L io client_ip request voter_unique_id s =
     (case bindR (j_dump L (id_statement_json L request voter_unique_id)) (\<lambda>str.
           bindR (sign_string L (is_signer_key s) str) (\<lambda>signature.
           j_dump L (VerifiedVoterID_ToJson L \<lparr>vv_presented_id = request, vv_voter_unique_id = voter_unique_id,
                                             vv_id_service_signature = signature\<rparr>))) of
        Inl e \<Rightarrow> (s, Some e)
      | Inr response_msg_str \<Rightarrow>
          if client_ip \<notin> is_ssl_streams s then (s, Some (Exn Out_of_range ''map::at''))
          else if write_fails io then (s, Some (Exn System_error ''write''))
          else (s\<lparr>is_sent := is_sent s @ [(client_ip, response_msg_str @ [newline])]\<rparr>, None))"

definition check_and_sign ::
  "('j, 'k, 'c) libs \<Rightarrow> io_input \<Rightarrow> endpoint \<Rightarrow> voter_id_request \<Rightarrow> u32 \<Rightarrow> 'k id_service \<Rightarrow> 'k id_outcome" where
  "check_and_sign L io client_ip request voter_unique_id s =
     (case j_dump L (VoterIDRequest_Body_ToJson L (vr_body request)) of
        Inl e \<Rightarrow> (s, Some e)
      | Inr request_body_string \<Rightarrow>
     (case is_verifiers s (vb_client_id_num (vr_body request)) of
        None \<Rightarrow> (s, Some (Exn Out_of_range ''map::at''))
      | Some verifier \<Rightarrow>
     (case verify_string L verifier request_body_string (vr_client_signature request) of
        Inl e \<Rightarrow> (s, Some e)
      | Inr valid \<Rightarrow>
          if \<not> valid then (s, None)
          else send_verified_id L io client_ip request voter_unique_id s)))"

definition handle_validation_request ::
  "('j, 'k, 'c) libs \<Rightarrow> id_config \<Rightarrow> io_input \<Rightarrow> endpoint \<Rightarrow> voter_id_request \<Rightarrow> 'k id_service \<Rightarrow> 'k id_outcome"
where
  "handle_validation_request L cfg io client_ip request s =
     (let body = vr_body request in
      case is_stale (ic_freshness_interval cfg) (now_ms io) (vb_timestamp body) of
        Inl e \<Rightarrow> (s, Some e)
      | Inr stale \<Rightarrow>
          if stale then (s, None)
          else
     (case validate_and_match_id_data (vb_voter_id_data body) of
        Inl e \<Rightarrow> (s, Some e)
      | Inr voter_unique_id \<Rightarrow>
          if voter_unique_id = INVALID_VOTER_ID then (s, None)
          else if \<not> validate_voter_name (vb_first_name body) (vb_middle_name body) (vb_last_name body) voter_unique_id s
          then (s, None)
          else
     (case (if is_verifiers s (vb_client_id_num body) = None
            then id_load_client_public_key L cfg (vb_client_id_num body) s else (s, Inr True)) of
        (s1, Inl e) \<Rightarrow> (s1, Some e)
      | (s1, Inr loaded) \<Rightarrow>
          if \<not> loaded then (s1, None)
          else check_and_sign L io client_ip request voter_unique_id s1)))"

section \<open>Reading and accepting\<close>

definition id_start_read :: "pending_read \<Rightarrow> endpoint \<Rightarrow> 'k id_service \<Rightarrow> 'k id_outcome" where
  "id_start_read r client_ip s =
     (let s' = (if is_buffers s client_ip = None
                then s\<lparr>is_buffers := (is_buffers s)(client_ip \<mapsto> [])\<rparr> else s)
      in if client_ip \<in> is_ssl_streams s
         then (s'\<lparr>is_pending_reads := (is_pending_reads s)(client_ip \<mapsto> r)\<rparr>, None)
         else (s', Some (Exn Out_of_range ''map::at'')))"

definition id_consume :: "nat \<Rightarrow> endpoint \<Rightarrow> 'k id_service \<Rightarrow> 'k id_service" where
  "id_consume n client_ip s = s\<lparr>is_buffers := (is_buffers s)
     (client_ip \<mapsto> drop n (case is_buffers s client_ip of None \<Rightarrow> [] | Some b \<Rightarrow> b))\<rparr>"

definition id_on_size_read :: "endpoint \<Rightarrow> string \<Rightarrow> 'k id_service \<Rightarrow> 'k id_outcome" where
  "id_on_size_read client_ip line s = (case stoul line of
       Inl e \<Rightarrow> (s, Some e)
     | Inr message_size \<Rightarrow>
         id_start_read (Payload_read message_size) client_ip (id_consume (length line) client_ip s))"

text \<open>Neither the parser's nor the decoder's exceptions are caught. A size mismatch drops the stream.\<close>

definition id_on_payload_read ::
  "('j, 'k, 'c) libs \<Rightarrow> id_config \<Rightarrow> io_input \<Rightarrow> endpoint \<Rightarrow> nat \<Rightarrow> string \<Rightarrow> 'k id_service \<Rightarrow> 'k id_outcome" where
  "id_on_payload_read L cfg io client_ip size_of_message line s =
     (if size_of_message = length line - 1 then
        (let s1 = id_consume (length line) client_ip s
         in case bindR (j_parse L line) (VoterIDRequest_FromJson L) of
              Inl e \<Rightarrow> (s1, Some e)
            | Inr request \<Rightarrow> handle_validation_request L cfg io client_ip request s1)
      else (s\<lparr>is_ssl_streams := is_ssl_streams s - {client_ip}\<rparr>, None))"

definition id_on_read ::
  "('j, 'k, 'c) libs \<Rightarrow> id_config \<Rightarrow> io_input \<Rightarrow> endpoint \<Rightarrow> pending_read \<Rightarrow> string \<Rightarrow> 'k id_service \<Rightarrow> 'k id_outcome"
where
  "id_on_read L cfg io client_ip r line s =
     (let s1 = s\<lparr>is_pending_reads := (is_pending_reads s)(client_ip := None)\<rparr>
      in case r of
           Size_read \<Rightarrow> id_on_size_read client_ip line s1
         | Payload_read n \<Rightarrow> id_on_payload_read L cfg io client_ip n line s1)"

definition id_on_read_error :: "endpoint \<Rightarrow> io_error \<Rightarrow> 'k id_service \<Rightarrow> 'k id_service" where
  "id_on_read_error client_ip err s =
     (let s1 = s\<lparr>is_pending_reads := (is_pending_reads s)(client_ip := None)\<rparr>
      in if err = Eof \<or> err = Connection_aborted
         then s1\<lparr>is_ssl_streams := is_ssl_streams s1 - {client_ip}\<rparr> else s1)"

definition id_do_accept :: "'k id_service \<Rightarrow> 'k id_service" where
  "id_do_accept s = s\<lparr>is_accept_pending := True\<rparr>"

definition id_handle_accept :: "endpoint option \<Rightarrow> 'k id_service \<Rightarrow> 'k id_service" where
  "id_handle_accept peer s = (case peer of
       None \<Rightarrow> s\<lparr>is_accept_pending := False\<rparr>
     | Some client_ip \<Rightarrow>
         s\<lparr>is_accept_pending := False, is_handshakes := insert client_ip (is_handshakes s)\<rparr>)"

definition id_get_client_id_from_cert :: "string option \<Rightarrow> u32 result" where
  "id_get_client_id_from_cert cn = (case cn of
       None \<Rightarrow> Inl UB
     | Some s \<Rightarrow>
         (let (id_str, st, _) = getline_into space (open_string s) [];
              (id_str, _, _) = getline_into space st id_str
          in bindR (stoul id_str) (\<lambda>n. Inr (of_nat n))))"

definition id_register_key ::
  "('j, 'k, 'c) libs \<Rightarrow> id_config \<Rightarrow> io_input \<Rightarrow> u32 \<Rightarrow> 'k \<Rightarrow> 'k id_service \<Rightarrow> 'k id_service result" where
  "id_register_key L cfg io client_id envelope_key s = (case is_public_keys s client_id of
       Some old_key \<Rightarrow>
         if \<not> EnvelopeKey_eq L old_key envelope_key
         then bindR (to_pem_public_string L old_key) (\<lambda>_. bindR (to_pem_public_string L envelope_key) (\<lambda>_. Inr s))
         else Inr (s\<lparr>is_verifiers := emplace client_id envelope_key (is_verifiers s)\<rparr>)
     | None \<Rightarrow>
         (let s1 = id_save_pub_key L cfg io envelope_key client_id
                     (s\<lparr>is_public_keys := (is_public_keys s)(client_id \<mapsto> envelope_key)\<rparr>)
          in Inr (s1\<lparr>is_verifiers := emplace client_id envelope_key (is_verifiers s1)\<rparr>)))"

definition id_on_handshake ::
  "('j, 'k, 'c) libs \<Rightarrow> id_config \<Rightarrow> io_input \<Rightarrow> endpoint \<Rightarrow> 'k certificate option \<Rightarrow> 'k id_service \<Rightarrow> 'k id_outcome"
where
  "id_on_handshake L cfg io client_ip cert s =
     (case (case cert of
              None \<Rightarrow> Inr s
            | Some crt \<Rightarrow> bindR (id_get_client_id_from_cert (cert_common_name crt)) (\<lambda>client_id.
                case cert_public_key crt of
                  None \<Rightarrow> Inr s
                | Some k \<Rightarrow> id_register_key L cfg io client_id k s)) of
        Inl e \<Rightarrow> (s, Some e)
      | Inr s2 \<Rightarrow>
          (case id_start_read Size_read client_ip (s2\<lparr>is_ssl_streams := insert client_ip (is_ssl_streams s2)\<rparr>) of
             (s3, Some e) \<Rightarrow> (s3, Some e)
           | (s3, None) \<Rightarrow> (id_do_accept s3, None)))"

definition id_on_handshake_error :: "'k id_service \<Rightarrow> 'k id_service" where
  "id_on_handshake_error s = id_do_accept s"

section \<open>Start-up\<close>

definition id_blank :: "'k \<Rightarrow> file_system \<Rightarrow> 'k id_service" where
  "id_blank own_key fs =
     \<lparr>is_ssl_streams = {}, is_buffers = Map.empty, is_signer_key = own_key, is_public_keys = Map.empty,
      is_verifiers = Map.empty, is_voter_names = Map.empty, is_voter_data = Map.empty, is_pending_reads = Map.empty,
      is_accept_pending = False, is_handshakes = {}, is_key_files = fs, is_sent = []\<rparr>"

definition VoterIDService ::
  "('j, 'k, 'c) libs \<Rightarrow> id_config \<Rightarrow> string list \<Rightarrow> 'k id_service \<Rightarrow> 'k id_service result" where
  "VoterIDService L cfg names s =
     bindR (id_load_client_public_keys L cfg names s) (\<lambda>(s', _). Inr (load_voter_data_from_csv cfg s'))"

definition id_run :: "'k id_service \<Rightarrow> 'k id_service" where
  "id_run s = id_do_accept s"


section \<open>Voter records and names\<close>

text \<open>Every stored record has the columns the name check reads.\<close>

definition records_ok :: "'k id_service \<Rightarrow> bool" where
  "records_ok s \<longleftrightarrow> (\<forall>uid data. is_voter_data s uid = Some data \<longrightarrow> 8 \<le> length data)"

lemma records_ok_load_voter_record: "records_ok s \<Longrightarrow> records_ok (load_voter_record line s)"
  by (auto simp: records_ok_def load_voter_record_def Let_def split: sum.splits)

lemma records_ok_fold: "records_ok s \<Longrightarrow> records_ok (fold load_voter_record ls s)"
  by (induction ls arbitrary: s) (auto intro: records_ok_load_voter_record)

lemma records_ok_load: "records_ok s \<Longrightarrow> records_ok (load_voter_data_from_csv cfg s)"
  by (auto simp: load_voter_data_from_csv_def split: option.splits intro: records_ok_fold)

lemma id_load_key_entries_records:
  "id_load_key_entries cfg entries s = Inr (s', b) \<Longrightarrow> is_voter_data s' = is_voter_data s"
  by (induction cfg entries s rule: id_load_key_entries.induct)
    (fastforce simp: result_simps split: sum.splits cpp_error.splits if_splits option.splits)+

lemma records_ok_VoterIDService:
  assumes "VoterIDService L cfg names (id_blank key fs) = Inr s"
  shows "records_ok s"
proof -
  from assms obtain s1 b where "id_load_client_public_keys L cfg names (id_blank key fs) = Inr (s1, b)"
    "s = load_voter_data_from_csv cfg s1" by (auto simp: VoterIDService_def result_simps)
  moreover from this have "records_ok s1"
    unfolding id_load_client_public_keys_def by (auto dest: id_load_key_entries_records simp: records_ok_def id_blank_def)
  ultimately show ?thesis by (simp add: records_ok_load)
qed

lemma case_insensitive_equal_iff: "case_insensitive_equal a b \<longleftrightarrow> map tolower a = map tolower b"
  unfolding case_insensitive_equal_def
  by (metis length_map list_all2_conv_all_nth list_all2_lengthD list_all2_map1 list_all2_map2 list_all2_eq)

section \<open>When a statement is signed\<close>

definition id_client_key :: "('j, 'k, 'c) libs \<Rightarrow> id_config \<Rightarrow> 'k id_service \<Rightarrow> u32 \<Rightarrow> 'k option" where
  "id_client_key L cfg s c = (case is_verifiers s c of
       Some key \<Rightarrow> Some key
     | None \<Rightarrow> (case from_pem_public L (is_key_files s) (id_key_path cfg c) of Inl _ \<Rightarrow> None | Inr key \<Rightarrow> Some key))"

definition id_request_valid ::
  "('j, 'k, 'c) libs \<Rightarrow> id_config \<Rightarrow> io_input \<Rightarrow> voter_id_request \<Rightarrow> u32 \<Rightarrow> 'k id_service \<Rightarrow> bool" where
  "id_request_valid L cfg io request v s \<longleftrightarrow>
     (let body = vr_body request in
      is_stale (ic_freshness_interval cfg) (now_ms io) (vb_timestamp body) = Inr False \<and>
      validate_and_match_id_data (vb_voter_id_data body) = Inr v \<and> v \<noteq> INVALID_VOTER_ID \<and>
      validate_voter_name (vb_first_name body) (vb_middle_name body) (vb_last_name body) v s \<and>
      (case id_client_key L cfg s (vb_client_id_num body) of
         None \<Rightarrow> False
       | Some key \<Rightarrow> bindR (j_dump L (VoterIDRequest_Body_ToJson L body))
           (\<lambda>str. verify_string L key str (vr_client_signature request)) = Inr True))"

text \<open>The text of the signed answer.\<close>

definition id_reply :: "('j, 'k, 'c) libs \<Rightarrow> 'k \<Rightarrow> voter_id_request \<Rightarrow> u32 \<Rightarrow> string result" where
  "id_reply L key request v =
     bindR (j_dump L (id_statement_json L request v)) (\<lambda>str.
     bindR (sign_string L key str) (\<lambda>signature.
     j_dump L (VerifiedVoterID_ToJson L \<lparr>vv_presented_id = request, vv_voter_unique_id = v,
                                       vv_id_service_signature = signature\<rparr>)))"

lemma send_verified_id_eq:
  "send_verified_id L io ip r v s = (case id_reply L (is_signer_key s) r v of
       Inl e \<Rightarrow> (s, Some e)
     | Inr msg \<Rightarrow>
         if ip \<notin> is_ssl_streams s then (s, Some (Exn Out_of_range ''map::at''))
         else if write_fails io then (s, Some (Exn System_error ''write''))
         else (s\<lparr>is_sent := is_sent s @ [(ip, msg @ [newline])]\<rparr>, None))"
  by (simp add: send_verified_id_def id_reply_def)

lemma id_key_in_memory:
  assumes "(if is_verifiers s c = None then id_load_client_public_key L cfg c s else (s, Inr True)) = (s', x)"
  shows "is_sent s' = is_sent s" "is_signer_key s' = is_signer_key s" "is_ssl_streams s' = is_ssl_streams s"
    "is_voter_data s' = is_voter_data s" "x = Inr True \<Longrightarrow> is_verifiers s' c = id_client_key L cfg s c"
    "x = Inr True \<Longrightarrow> id_client_key L cfg s c \<noteq> None"
  using assms
  by (auto simp: id_client_key_def id_load_client_public_key_def split: if_splits sum.splits option.splits cpp_error.splits)

lemma check_and_sign_cases:
  assumes "check_and_sign L io ip r v s = (s', e)"
  obtains (silent) "is_sent s' = is_sent s"
  | (answered) key msg where "is_verifiers s (vb_client_id_num (vr_body r)) = Some key"
      "bindR (j_dump L (VoterIDRequest_Body_ToJson L (vr_body r)))
         (\<lambda>str. verify_string L key str (vr_client_signature r)) = Inr True"
      "id_reply L (is_signer_key s) r v = Inr msg" "is_sent s' = is_sent s @ [(ip, msg @ [newline])]" "e = None"
  using assms that by (auto simp: check_and_sign_def send_verified_id_eq split: sum.splits option.splits if_splits)

lemma handle_validation_request_cases:
  assumes "handle_validation_request L cfg io ip r s = (s', e)"
  obtains (silent) "is_sent s' = is_sent s"
  | (answered) v msg where "id_request_valid L cfg io r v s" "id_reply L (is_signer_key s) r v = Inr msg"
      "is_sent s' = is_sent s @ [(ip, msg @ [newline])]" "e = None"
proof -
  let ?b = "vr_body r"
  obtain s1 x where
    ld: "(if is_verifiers s (vb_client_id_num ?b) = None then id_load_client_public_key L cfg (vb_client_id_num ?b) s
          else (s, Inr True)) = (s1, x)" by fastforce
  note m = id_key_in_memory [OF ld]
  note eq = assms [unfolded handle_validation_request_def Let_def ld]
  show thesis
  proof (cases "\<exists>v. is_stale (ic_freshness_interval cfg) (now_ms io) (vb_timestamp ?b) = Inr False \<and>
      validate_and_match_id_data (vb_voter_id_data ?b) = Inr v \<and> v \<noteq> INVALID_VOTER_ID \<and>
      validate_voter_name (vb_first_name ?b) (vb_middle_name ?b) (vb_last_name ?b) v s \<and> x = Inr True")
    case False
    with eq m(1) have "is_sent s' = is_sent s" by (auto split: sum.splits if_splits)
    then show thesis by (rule silent)
  next
    case True
    then obtain v where v: "is_stale (ic_freshness_interval cfg) (now_ms io) (vb_timestamp ?b) = Inr False"
      "validate_and_match_id_data (vb_voter_id_data ?b) = Inr v" "v \<noteq> INVALID_VOTER_ID"
      "validate_voter_name (vb_first_name ?b) (vb_middle_name ?b) (vb_last_name ?b) v s" "x = Inr True" by blast
    with eq have "check_and_sign L io ip r v s1 = (s', e)" by simp
    then show thesis
    proof (cases rule: check_and_sign_cases)
      case silent2: silent
      then show thesis using m(1) by (intro silent) simp
    next
      case a: (answered key msg)
      then show thesis using v m
        by (intro answered [of v msg]) (simp_all add: id_request_valid_def Let_def)
    qed
  qed
qed

lemma handle_validation_request_valid:
  assumes "id_request_valid L cfg io r v s" "id_reply L (is_signer_key s) r v = Inr msg"
    and "ip \<in> is_ssl_streams s" "\<not> write_fails io"
  shows "\<exists>s'. handle_validation_request L cfg io ip r s = (s', None) \<and> is_sent s' = is_sent s @ [(ip, msg @ [newline])]"
proof -
  let ?c = "vb_client_id_num (vr_body r)"
  from assms(1) obtain key where key: "id_client_key L cfg s ?c = Some key"
    "bindR (j_dump L (VoterIDRequest_Body_ToJson L (vr_body r)))
       (\<lambda>str. verify_string L key str (vr_client_signature r)) = Inr True"
    by (auto simp: id_request_valid_def Let_def split: option.splits)
  obtain s1 x where
    ld: "(if is_verifiers s ?c = None then id_load_client_public_key L cfg ?c s else (s, Inr True)) = (s1, x)" by fastforce
  with key(1) have x: "x = Inr True"
    by (auto simp: id_client_key_def id_load_client_public_key_def split: option.splits sum.splits if_splits)
  note m = id_key_in_memory [OF ld]
  have "check_and_sign L io ip r v s1 = (s1\<lparr>is_sent := is_sent s @ [(ip, msg @ [newline])]\<rparr>, None)"
    using key m x assms(2-) by (auto simp: check_and_sign_def send_verified_id_eq result_simps)
  moreover have "handle_validation_request L cfg io ip r s = check_and_sign L io ip r v s1"
    using assms(1) ld x by (simp add: handle_validation_request_def id_request_valid_def Let_def)
  ultimately show ?thesis by simp
qed

section \<open>What the answer is worth\<close>

text \<open>
  The answer decodes to a verified ID for exactly the request and voter, whose signature the
  check-in service accepts.
\<close>

lemma id_reply_decodes:
  assumes "codec_laws L" "valid_voter_id_request r" "key_pair L key pub" "id_reply L key r v = Inr msg"
  shows "\<exists>signature. bindR (j_parse L (msg @ [newline])) (VerifiedVoterID_FromJson L) =
      Inr \<lparr>vv_presented_id = r, vv_voter_unique_id = v, vv_id_service_signature = signature\<rparr> \<and> signature \<noteq> [] \<and>
    bindR (j_dump L (id_statement_json L r v)) (\<lambda>str. verify_string L pub str signature) = Inr True"
proof -
  from assms(4) obtain str signature where s: "j_dump L (id_statement_json L r v) = Inr str"
    "sign_string L key str = Inr signature"
    "j_dump L (VerifiedVoterID_ToJson L \<lparr>vv_presented_id = r, vv_voter_unique_id = v,
        vv_id_service_signature = signature\<rparr>) = Inr msg"
    by (auto simp: id_reply_def result_simps)
  with assms(3) have sig: "signature \<noteq> []" "verify_string L pub str signature = Inr True"
    by (auto simp: key_pair_def)
  then have "valid_verified_voter_id \<lparr>vv_presented_id = r, vv_voter_unique_id = v, vv_id_service_signature = signature\<rparr>"
    using assms(2) by (simp add: valid_verified_voter_id_def)
  from verified_voter_id.wire_round_trip [OF assms(1) this s(3)] s(1) sig show ?thesis by auto
qed

end
