(* ===== verification/Pollbook_Client.thy ===== *)
theory Pollbook_Client
  imports Checkin_Behaviour
begin

text \<open>
  The client library of the poll books and of the trusted devices (\<^verbatim>\<open>pollbook_client.hpp\<close>,
  \<^verbatim>\<open>pollbook_client.cpp\<close>): connecting to the two servers, the chain of asynchronous operations of
  a check-in (ID request, ID response, check-in request, check-in response) and of a ticket
  verification, and the promise that carries the outcome to the caller. A message is handed to the
  network when its write is started. An exception of a method reaches its caller, one of a
  completion handler ends the process.
\<close>

section \<open>State\<close>

record checkin_result =
  success :: bool
  failure_reason :: string

datatype server = Id_server | Checkin_server

text \<open>The asynchronous operations in flight; the reads carry the bytes already buffered.\<close>

datatype client_op =
    Write_id_request
  | Read_id_response
  | Write_checkin_request
  | Read_response_size
  | Read_checkin_response string
  | Write_ticket_request
  | Read_ticket_response

record client_config =
  cc_client_id :: u32

record 'k pollbook_client =
  pc_checkin_connected :: bool
  pc_id_connected :: bool
  pc_signer_key :: 'k
  pc_id_verifier :: "'k option"
  pc_checkin_verifier :: "'k option"
  pc_promise :: "checkin_result option"
  pc_voter_name :: "string \<times> string \<times> string" \<comment> \<open>first, middle, last\<close>
  pc_buffer_size :: nat
  pc_ops :: "client_op list"
  pc_key_files :: file_system
  pc_sent :: "(server \<times> string) list"

type_synonym 'k client_outcome = "'k pollbook_client \<times> cpp_error option"

text \<open>\<^verbatim>\<open>set_value\<close> on a promise that already has a value throws.\<close>

definition set_promise :: "checkin_result \<Rightarrow> 'k pollbook_client \<Rightarrow> 'k client_outcome" where
  "set_promise r s = (case pc_promise s of
       None \<Rightarrow> (s\<lparr>pc_promise := Some r\<rparr>, None)
     | Some _ \<Rightarrow> (s, Some (Exn Future_error ''Promise already satisfied'')))"

definition failure :: "string \<Rightarrow> checkin_result" where
  "failure m = \<lparr>success = False, failure_reason = m\<rparr>"

definition enqueue :: "client_op \<Rightarrow> 'k pollbook_client \<Rightarrow> 'k pollbook_client" where
  "enqueue op s = s\<lparr>pc_ops := pc_ops s @ [op]\<rparr>"

definition transmit :: "server \<Rightarrow> string \<Rightarrow> 'k pollbook_client \<Rightarrow> 'k pollbook_client" where
  "transmit srv m s = s\<lparr>pc_sent := pc_sent s @ [(srv, m)]\<rparr>"

section \<open>Connecting\<close>

text \<open>
  \<^verbatim>\<open>write_pubkey_pem\<close>: the directory is created first, then the file is written. \<open>dir_error\<close> is
  the error of creating the directory.
\<close>

definition server_key_path :: "bool \<Rightarrow> string" where
  "server_key_path is_id_server =
     ''server_keys/'' @ (if is_id_server then ''id_pubkey.pem'' else ''checkin_pubkey.pem'')"

definition write_pubkey_pem ::
  "('j, 'k, 'c) libs \<Rightarrow> string option \<Rightarrow> io_input \<Rightarrow> 'k \<Rightarrow> string \<Rightarrow> 'k pollbook_client \<Rightarrow> 'k client_outcome" where
  "write_pubkey_pem L dir_error io pkey out_path s = (case dir_error of
       Some m \<Rightarrow> (s, Some (Exn Runtime_error (''Failed to create directories for server_keys: '' @ m)))
     | None \<Rightarrow>
         (case fopen_w io out_path of
            Some _ \<Rightarrow> (s, Some (Exn Runtime_error (''Failed to open file for writing: '' @ out_path)))
          | None \<Rightarrow>
              (let (fs, r) = to_pem_public L (fopen_w io) pkey out_path (pc_key_files s); s1 = s\<lparr>pc_key_files := fs\<rparr>
               in case r of
                    Inl _ \<Rightarrow> (s1, Some (Exn Runtime_error (''PEM_write_PUBKEY failed for '' @ out_path)))
                  | Inr _ \<Rightarrow> (s1, None))))"

text \<open>
  \<^verbatim>\<open>make_handshake\<close>: the outcome of resolving, connecting and the TLS handshake is the peer's
  certificate or an exception.
\<close>

definition make_handshake ::
  "('j, 'k, 'c) libs \<Rightarrow> string option \<Rightarrow> io_input \<Rightarrow> 'k certificate option result \<Rightarrow> bool \<Rightarrow> 'k pollbook_client
     \<Rightarrow> 'k client_outcome" where
  "make_handshake L dir_error io peer is_id_server s = (case peer of
       Inl e \<Rightarrow> (s, Some e)
     | Inr None \<Rightarrow> (s, Some (Exn Runtime_error ''No certificate received from peer''))
     | Inr (Some cert) \<Rightarrow>
         (case cert_public_key cert of
            None \<Rightarrow> (s, Some (Exn Runtime_error ''Could not extract public key from certificate''))
          | Some pubkey \<Rightarrow>
              (case write_pubkey_pem L dir_error io pubkey (server_key_path is_id_server) s of
                 (s1, Some e) \<Rightarrow> (s1, Some e)
               | (s1, None) \<Rightarrow>
                   (case from_pem_public L (pc_key_files s1) (server_key_path is_id_server) of
                      Inl e \<Rightarrow> (s1, Some e)
                    | Inr key \<Rightarrow>
                        (if is_id_server then s1\<lparr>pc_id_verifier := Some key\<rparr>
                         else s1\<lparr>pc_checkin_verifier := Some key\<rparr>, None)))))"

definition connect_checkin_server ::
  "('j, 'k, 'c) libs \<Rightarrow> string option \<Rightarrow> io_input \<Rightarrow> 'k certificate option result \<Rightarrow> 'k pollbook_client \<Rightarrow> 'k client_outcome"
where
  "connect_checkin_server L dir_error io peer s = (case make_handshake L dir_error io peer False s of
       (s1, Some e) \<Rightarrow> (s1, Some e)
     | (s1, None) \<Rightarrow> (s1\<lparr>pc_checkin_connected := True\<rparr>, None))"

definition connect_id_server ::
  "('j, 'k, 'c) libs \<Rightarrow> string option \<Rightarrow> io_input \<Rightarrow> 'k certificate option result \<Rightarrow> 'k pollbook_client \<Rightarrow> 'k client_outcome"
where
  "connect_id_server L dir_error io peer s = (case make_handshake L dir_error io peer True s of
       (s1, Some e) \<Rightarrow> (s1, Some e)
     | (s1, None) \<Rightarrow> (s1\<lparr>pc_id_connected := True\<rparr>, None))"

definition connect ::
  "('j, 'k, 'c) libs \<Rightarrow> string option \<Rightarrow> io_input \<Rightarrow> 'k certificate option result \<Rightarrow> 'k certificate option result
     \<Rightarrow> 'k pollbook_client \<Rightarrow> 'k client_outcome" where
  "connect L dir_error io checkin_peer id_peer s =
     (case connect_checkin_server L dir_error io checkin_peer s of
        (s1, Some e) \<Rightarrow> (s1, Some e)
      | (s1, None) \<Rightarrow> connect_id_server L dir_error io id_peer s1)"

section \<open>A check-in\<close>

text \<open>The messages the client builds: body, signature over the serialised body, serialised message.\<close>

definition id_request_text ::
  "('j, 'k, 'c) libs \<Rightarrow> 'k \<Rightarrow> voter_id_request_body \<Rightarrow> string result" where
  "id_request_text L key body =
     bindR (j_dump L (VoterIDRequest_Body_ToJson L body)) (\<lambda>body_string.
     bindR (sign_string L key body_string) (\<lambda>signature.
     j_dump L (VoterIDRequest_ToJson L \<lparr>vr_body = body, vr_client_signature = signature\<rparr>)))"

definition start_id_request_write ::
  "('j, 'k, 'c) libs \<Rightarrow> client_config \<Rightarrow> u64 \<Rightarrow> string \<Rightarrow> string \<Rightarrow> string \<Rightarrow> byte list \<Rightarrow> 'k pollbook_client
     \<Rightarrow> 'k client_outcome" where
  "start_id_request_write L cfg timestamp first_name middle_name last_name voter_id_data s =
     (case id_request_text L (pc_signer_key s)
             \<lparr>vb_client_id_num = cc_client_id cfg, vb_timestamp = timestamp, vb_last_name = last_name,
              vb_middle_name = middle_name, vb_first_name = first_name, vb_voter_id_data = voter_id_data\<rparr> of
        Inl e \<Rightarrow> (s, Some e)
      | Inr m \<Rightarrow> (enqueue Write_id_request (transmit Id_server (frame_message m) s), None))"

definition start_message_read :: "bool \<Rightarrow> 'k pollbook_client \<Rightarrow> 'k pollbook_client" where
  "start_message_read on_id_server s = enqueue (if on_id_server then Read_id_response else Read_response_size) s"

definition on_id_request_written :: "bool \<Rightarrow> 'k pollbook_client \<Rightarrow> 'k client_outcome" where
  "on_id_request_written failed s =
     (if \<not> failed then (start_message_read True s, None)
      else set_promise (failure ''Network error: I/O error when sending a request to the Voter ID service'') s)"

definition checkin_request_text :: "('j, 'k, 'c) libs \<Rightarrow> 'k \<Rightarrow> checkin_request_body \<Rightarrow> string result" where
  "checkin_request_text L key body =
     bindR (j_dump L (CheckinRequest_Body_ToJson L body)) (\<lambda>body_string.
     bindR (sign_string L key body_string) (\<lambda>signature.
     j_dump L (CheckinRequest_ToJson L \<lparr>cr_body = body, cr_client_signature = signature\<rparr>)))"

definition checkin_body_of ::
  "client_config \<Rightarrow> u64 \<Rightarrow> string \<times> string \<times> string \<Rightarrow> verified_voter_id \<Rightarrow> checkin_request_body" where
  "checkin_body_of cfg timestamp name verified = (case name of (first_name, middle_name, last_name) \<Rightarrow>
     \<lparr>cb_client_id_num = cc_client_id cfg, cb_timestamp = timestamp, cb_last_name = last_name,
      cb_first_name = first_name, cb_middle_name = middle_name,
      cb_voter_unique_id = vv_voter_unique_id verified, cb_verified_id_message = verified\<rparr>)"

definition start_checkin_request_write ::
  "('j, 'k, 'c) libs \<Rightarrow> client_config \<Rightarrow> io_input \<Rightarrow> verified_voter_id \<Rightarrow> 'k pollbook_client \<Rightarrow> 'k client_outcome" where
  "start_checkin_request_write L cfg io verified_id_response s =
     (case checkin_request_text L (pc_signer_key s)
             (checkin_body_of cfg (now_ms io) (pc_voter_name s) verified_id_response) of
        Inl e \<Rightarrow> (s, Some e)
      | Inr m \<Rightarrow> (enqueue Write_checkin_request (transmit Checkin_server (frame_message m) s), None))"

definition handle_id_response ::
  "('j, 'k, 'c) libs \<Rightarrow> client_config \<Rightarrow> io_input \<Rightarrow> verified_voter_id \<Rightarrow> 'k pollbook_client \<Rightarrow> 'k client_outcome" where
  "handle_id_response L cfg io response s =
     (case j_dump L (id_statement_json L (vv_presented_id response) (vv_voter_unique_id response)) of
        Inl e \<Rightarrow> (s, Some e)
      | Inr response_str \<Rightarrow>
     (case pc_id_verifier s of
        None \<Rightarrow> (s, Some UB)
      | Some verifier \<Rightarrow>
     (case verify_string L verifier response_str (vv_id_service_signature response) of
        Inl e \<Rightarrow> (s, Some e)
      | Inr verified \<Rightarrow>
          if verified then start_checkin_request_write L cfg io response s
          else set_promise (failure
            (''Invalid signature from the ID verification service on the voter's ID. OpenSSL error: '' @
             get_error_string L [])) s)))"

text \<open>The ID service's answer is one line.\<close>

definition on_id_response ::
  "('j, 'k, 'c) libs \<Rightarrow> client_config \<Rightarrow> io_input \<Rightarrow> io_error + string \<Rightarrow> 'k pollbook_client \<Rightarrow> 'k client_outcome" where
  "on_id_response L cfg io r s = (case r of
       Inr line \<Rightarrow>
         (case bindR (j_parse L line) (VerifiedVoterID_FromJson L) of
            Inl e \<Rightarrow> (s, Some e)
          | Inr response \<Rightarrow> handle_id_response L cfg io response s)
     | Inl err \<Rightarrow>
         if err = Eof \<or> err = Connection_aborted
         then set_promise (failure ''Network error: Voter ID service disconnected'') s
         else set_promise (failure ''Network error: I/O error when reading from Voter ID service'') s)"

definition on_checkin_request_written :: "bool \<Rightarrow> 'k pollbook_client \<Rightarrow> 'k client_outcome" where
  "on_checkin_request_written failed s =
     (if \<not> failed then (start_message_read False s, None)
      else set_promise (failure ''Network error: I/O error when sending a request to the check-in service'') s)"

text \<open>
  \<^verbatim>\<open>ss >> message_size\<close> on a 64-bit unsigned value: zero without digits, the maximum on overflow.
  Resizing the buffer beyond \<^verbatim>\<open>max_size\<close> throws. The size is not used otherwise.
\<close>

definition extract_size :: "string \<Rightarrow> nat" where
  "extract_size s =
     (let (neg, t) = split_sign (dropWhile is_space s);
          ds = takeWhile is_digit t; n = digits_value ds
      in if ds = [] then 0 else if 2 ^ 64 \<le> n then 2 ^ 64 - 1
         else if neg then (2 ^ 64 - n) mod 2 ^ 64 else n)"

definition start_checkin_response_read :: "nat \<Rightarrow> string \<Rightarrow> 'k pollbook_client \<Rightarrow> 'k client_outcome" where
  "start_checkin_response_read message_size buf s =
     (if 2 ^ 63 \<le> message_size then (s, Some (Exn Length_error ''vector::_M_default_append''))
      else (enqueue (Read_checkin_response buf) (s\<lparr>pc_buffer_size := message_size\<rparr>), None))"

text \<open>The first line of the buffer is the size; what was read beyond it stays in the buffer.\<close>

definition on_response_size :: "io_error + string \<Rightarrow> 'k pollbook_client \<Rightarrow> 'k client_outcome" where
  "on_response_size r s = (case r of
       Inr buffer \<Rightarrow>
         start_checkin_response_read (extract_size (first_line buffer)) (drop (length (first_line buffer)) buffer) s
     | Inl err \<Rightarrow>
         if err = Eof \<or> err = Connection_aborted
         then set_promise (failure ''Network error: Checkin service disconnected'') s
         else set_promise (failure ''Network error: I/O error when reading from the checkin service'') s)"

definition handle_checkin_response ::
  "('j, 'k, 'c) libs \<Rightarrow> checkin_response \<Rightarrow> 'k pollbook_client \<Rightarrow> 'k client_outcome" where
  "handle_checkin_response L response s =
     (case j_dump L (CheckinResponse_Body_ToJson L (pr_body response)) of
        Inl e \<Rightarrow> (s, Some e)
      | Inr response_body_str \<Rightarrow>
     (case pc_checkin_verifier s of
        None \<Rightarrow> (s, Some UB)
      | Some verifier \<Rightarrow>
     (case verify_string L verifier response_body_str (pr_checkin_service_signature response) of
        Inl e \<Rightarrow> (s, Some e)
      | Inr verified \<Rightarrow>
          if \<not> verified then
            set_promise (failure (''Invalid signature on check-in service's response. OpenSSL error: '' @
              get_error_string L [])) s
          else if pb_approved (pr_body response) then set_promise \<lparr>success = True, failure_reason = []\<rparr> s
          else set_promise (failure ''Check-in service rejected the request'') s)))"

definition on_checkin_response ::
  "('j, 'k, 'c) libs \<Rightarrow> io_error + string \<Rightarrow> 'k pollbook_client \<Rightarrow> 'k client_outcome" where
  "on_checkin_response L r s = (case r of
       Inr line \<Rightarrow>
         (case bindR (j_parse L line) (CheckinResponse_FromJson L) of
            Inl e \<Rightarrow> (s, Some e)
          | Inr response \<Rightarrow> handle_checkin_response L response s)
     | Inl err \<Rightarrow>
         if err = Eof \<or> err = Connection_aborted
         then set_promise (failure ''Network error: Checkin service disconnected'') s
         else set_promise (failure ''Network error: I/O error when reading from the checkin service'') s)"

text \<open>The two overloads of \<^verbatim>\<open>check_in_voter\<close>; the first prepends the desired voter number.\<close>

definition check_in_voter ::
  "('j, 'k, 'c) libs \<Rightarrow> client_config \<Rightarrow> io_input \<Rightarrow> string \<Rightarrow> string \<Rightarrow> string \<Rightarrow> byte list \<Rightarrow> 'k pollbook_client
     \<Rightarrow> 'k client_outcome" where
  "check_in_voter L cfg io first_name middle_name last_name voter_id_data s =
     (if \<not> pc_checkin_connected s \<or> \<not> pc_id_connected s
      then (s, Some (Exn Runtime_error ''Client must be connected before calling check_in_voter!''))
      else start_id_request_write L cfg (now_ms io) first_name middle_name last_name voter_id_data
             (s\<lparr>pc_promise := None, pc_voter_name := (first_name, middle_name, last_name)\<rparr>))"

definition check_in_voter_id ::
  "('j, 'k, 'c) libs \<Rightarrow> client_config \<Rightarrow> io_input \<Rightarrow> string \<Rightarrow> string \<Rightarrow> string \<Rightarrow> u32 \<Rightarrow> byte list \<Rightarrow> 'k pollbook_client
     \<Rightarrow> 'k client_outcome" where
  "check_in_voter_id L cfg io first_name middle_name last_name desired_voter_unique_id voter_id_data s =
     check_in_voter L cfg io first_name middle_name last_name (u32_bytes desired_voter_unique_id @ voter_id_data) s"

section \<open>Verifying a ticket\<close>

definition ticket_request_text :: "('j, 'k, 'c) libs \<Rightarrow> 'k \<Rightarrow> ticket_request_body \<Rightarrow> string result" where
  "ticket_request_text L key body =
     bindR (j_dump L (TicketRequest_Body_ToJson L body)) (\<lambda>body_string.
     bindR (sign_string L key body_string) (\<lambda>signature.
     j_dump L (TicketRequest_ToJson L \<lparr>tr_body = body, tr_signature = signature\<rparr>)))"

definition verify_ticket ::
  "('j, 'k, 'c) libs \<Rightarrow> client_config \<Rightarrow> io_input \<Rightarrow> string \<Rightarrow> u32 \<Rightarrow> 'k pollbook_client \<Rightarrow> 'k client_outcome" where
  "verify_ticket L cfg io ticket pin s =
     (if \<not> pc_checkin_connected s
      then (s, Some (Exn Runtime_error ''Client must be connected before calling check_in_voter!''))
      else
        (let s1 = s\<lparr>pc_promise := None\<rparr>
         in case ticket_request_text L (pc_signer_key s1)
                   \<lparr>tb_client_id = cc_client_id cfg, tb_timestamp = now_ms io, tb_ticket = ticket, tb_pin = pin\<rparr> of
              Inl e \<Rightarrow> (s1, Some e)
            | Inr m \<Rightarrow> (enqueue Write_ticket_request (transmit Checkin_server (frame_message m) s1), None)))"

definition on_ticket_request_written :: "bool \<Rightarrow> 'k pollbook_client \<Rightarrow> 'k client_outcome" where
  "on_ticket_request_written failed s =
     (if \<not> failed then (enqueue Read_ticket_response s, None)
      else set_promise (failure
        ''Network error: I/O error when sending a verify_ticket request to the check-in service'') s)"

text \<open>The verdict inside the \<^verbatim>\<open>try\<close> block.\<close>

definition ticket_verdict ::
  "('j, 'k, 'c) libs \<Rightarrow> 'k option \<Rightarrow> string \<Rightarrow> checkin_result result" where
  "ticket_verdict L verifier response_str =
     bindR (j_parse L response_str) (\<lambda>json.
     bindR (TicketResponse_FromJson L json) (\<lambda>response.
     bindR (j_dump L (TicketResponse_Body_ToJson L (rr_body response))) (\<lambda>response_body_str.
     bindR (case verifier of None \<Rightarrow> Inl UB | Some key \<Rightarrow> verify_string L key response_body_str (rr_signature response))
       (\<lambda>verified.
     Inr (if verified then
            \<lparr>success = rb_approved (rr_body response), failure_reason = rb_secret (rr_body response)\<rparr>
          else failure (''Invalid signature from the ID verification service on the voter's ID. OpenSSL error: '' @
                 get_error_string L []))))))"

text \<open>
  An exception inside the block, that of a promise already satisfied included, is caught and answered
  with another \<^verbatim>\<open>set_value\<close>.
\<close>

definition on_ticket_response ::
  "('j, 'k, 'c) libs \<Rightarrow> io_error + string \<Rightarrow> 'k pollbook_client \<Rightarrow> 'k client_outcome" where
  "on_ticket_response L r s = (case r of
       Inr line \<Rightarrow>
         (case ticket_verdict L (pc_checkin_verifier s) line of
            Inl (Exn _ _) \<Rightarrow> set_promise (failure ''Error parsing server response'') s
          | Inl e \<Rightarrow> (s, Some e)
          | Inr v \<Rightarrow>
              (case set_promise v s of
                 (s1, None) \<Rightarrow> (s1, None)
               | (s1, Some _) \<Rightarrow> set_promise (failure ''Error parsing server response'') s1))
     | Inl err \<Rightarrow> set_promise (failure
         ''Network error: I/O error when reading verify_ticket response from the check-in service'') s)"

section \<open>Plain messages\<close>

definition send_string_message :: "io_input \<Rightarrow> string \<Rightarrow> 'k pollbook_client \<Rightarrow> 'k client_outcome" where
  "send_string_message io message s =
     (if \<not> pc_checkin_connected s
      then (s, Some (Exn Runtime_error ''Client must be connected before calling send_string_message!''))
      else if write_fails io then (s, Some (Exn System_error ''write''))
      else (transmit Checkin_server (frame_message message) s, None))"

definition receive_string_message :: "string + string \<Rightarrow> string result" where
  "receive_string_message r = (case r of
       Inl message \<Rightarrow> Inl (Exn Runtime_error (''Error receiving message: '' @ message))
     | Inr buffer \<Rightarrow> Inr (case getline newline buffer of None \<Rightarrow> [] | Some (line, _) \<Rightarrow> line))"

definition PollbookClient :: "'k \<Rightarrow> file_system \<Rightarrow> 'k pollbook_client" where
  "PollbookClient own_key fs =
     \<lparr>pc_checkin_connected = False, pc_id_connected = False, pc_signer_key = own_key, pc_id_verifier = None,
      pc_checkin_verifier = None, pc_promise = None, pc_voter_name = ([], [], []), pc_buffer_size = 0,
      pc_ops = [], pc_key_files = fs, pc_sent = []\<rparr>"


section \<open>Completions\<close>

text \<open>
  A completion of an operation in flight: a write that succeeded or failed, or a read with the bytes
  up to a line break or an error.
\<close>

datatype completion = Written bool | Got "io_error + string"

fun run_completion ::
  "('j, 'k, 'c) libs \<Rightarrow> client_config \<Rightarrow> io_input \<Rightarrow> client_op \<Rightarrow> completion \<Rightarrow> 'k pollbook_client \<Rightarrow> 'k client_outcome option"
where
  "run_completion L cfg io Write_id_request (Written failed) s = Some (on_id_request_written failed s)"
| "run_completion L cfg io Read_id_response (Got r) s = Some (on_id_response L cfg io r s)"
| "run_completion L cfg io Write_checkin_request (Written failed) s = Some (on_checkin_request_written failed s)"
| "run_completion L cfg io Read_response_size (Got r) s = Some (on_response_size r s)"
| "run_completion L cfg io (Read_checkin_response buf) (Got r) s =
     Some (on_checkin_response L (case r of Inl e \<Rightarrow> Inl e | Inr bytes \<Rightarrow> Inr (first_line (buf @ bytes))) s)"
| "run_completion L cfg io Write_ticket_request (Written failed) s = Some (on_ticket_request_written failed s)"
| "run_completion L cfg io Read_ticket_response (Got r) s = Some (on_ticket_response L r s)"
| "run_completion L cfg io op c s = None"

definition complete ::
  "('j, 'k, 'c) libs \<Rightarrow> client_config \<Rightarrow> io_input \<Rightarrow> client_op \<Rightarrow> completion \<Rightarrow> 'k pollbook_client \<Rightarrow> 'k client_outcome option"
where
  "complete L cfg io op c s =
     (if op \<in> set (pc_ops s) then run_completion L cfg io op c (s\<lparr>pc_ops := remove1 op (pc_ops s)\<rparr>) else None)"

text \<open>
  One request at a time: while the promise is open exactly one operation is in flight, and once it
  is fulfilled none is.
\<close>

definition one_request :: "'k pollbook_client \<Rightarrow> bool" where
  "one_request s \<longleftrightarrow> length (pc_ops s) = (case pc_promise s of None \<Rightarrow> 1 | Some _ \<Rightarrow> 0)"

text \<open>How many completions an operation is away from the answer.\<close>

fun op_rank :: "client_op \<Rightarrow> nat" where
  "op_rank Write_id_request = 5"
| "op_rank Read_id_response = 4"
| "op_rank Write_checkin_request = 3"
| "op_rank Read_response_size = 2"
| "op_rank (Read_checkin_response buf) = 1"
| "op_rank Write_ticket_request = 2"
| "op_rank Read_ticket_response = 1"

definition client_rank :: "'k pollbook_client \<Rightarrow> nat" where
  "client_rank s = sum_list (map op_rank (pc_ops s))"

text \<open>
  The outcome of a completion: an answer with nothing left to do, the next operation of the chain, or
  an exception that leaves the promise open.
\<close>

definition progressed :: "nat \<Rightarrow> 'k client_outcome \<Rightarrow> bool" where
  "progressed n r = (case r of
       (s, None) \<Rightarrow> (pc_promise s \<noteq> None \<and> pc_ops s = []) \<or>
                    (pc_promise s = None \<and> (\<exists>op. pc_ops s = [op] \<and> op_rank op < n))
     | (s, Some e) \<Rightarrow> pc_promise s = None \<and> pc_ops s = [])"

lemma progressed_set_promise [simp]: "pc_promise s = None \<Longrightarrow> pc_ops s = [] \<Longrightarrow> progressed n (set_promise r s)"
  by (simp add: progressed_def set_promise_def)

lemma progressed_enqueue [simp]:
  "pc_promise s = None \<Longrightarrow> pc_ops s = [] \<Longrightarrow> op_rank op < n \<Longrightarrow> progressed n (enqueue op s, None)"
  by (simp add: progressed_def enqueue_def)

lemma progressed_exception [simp]: "pc_promise s = None \<Longrightarrow> pc_ops s = [] \<Longrightarrow> progressed n (s, Some e)"
  by (simp add: progressed_def)

lemma transmit_frame [simp]:
  "pc_promise (transmit srv m s) = pc_promise s" "pc_ops (transmit srv m s) = pc_ops s"
  by (simp_all add: transmit_def)

lemma progressed_handle_id_response:
  assumes "pc_promise s = None" "pc_ops s = []" "3 < n"
  shows "progressed n (handle_id_response L cfg io response s)"
  using assms
  by (auto simp: handle_id_response_def start_checkin_request_write_def split: sum.splits option.splits)

lemma progressed_handle_checkin_response:
  assumes "pc_promise s = None" "pc_ops s = []"
  shows "progressed n (handle_checkin_response L response s)"
  using assms by (auto simp: handle_checkin_response_def split: sum.splits option.splits)

lemma progressed_on_ticket_response:
  assumes "pc_promise s = None" "pc_ops s = []"
  shows "progressed n (on_ticket_response L r s)"
  using assms
  by (auto simp: on_ticket_response_def set_promise_def progressed_def split: sum.splits option.splits cpp_error.splits)

lemma run_completion_progressed:
  assumes "run_completion L cfg io op c s = Some r" "pc_promise s = None" "pc_ops s = []"
  shows "progressed (op_rank op) r"
  using assms
  by (cases "(L, cfg, io, op, c, s)" rule: run_completion.cases)
    (auto simp: on_id_request_written_def on_id_response_def on_checkin_request_written_def on_response_size_def
      start_checkin_response_read_def on_checkin_response_def on_ticket_request_written_def start_message_read_def
      progressed_handle_id_response progressed_handle_checkin_response progressed_on_ticket_response
      split: sum.splits if_splits)

lemma complete_progressed:
  assumes "one_request s" "complete L cfg io op c s = Some r"
  shows "progressed (op_rank op) r"
proof -
  from assms have "op \<in> set (pc_ops s)" by (auto simp: complete_def split: if_splits)
  with assms(1) have "pc_promise s = None \<and> pc_ops s = [op]"
    by (cases "pc_ops s") (auto simp: one_request_def split: option.splits)
  with assms(2) show ?thesis
    using run_completion_progressed [of L cfg io op c "s\<lparr>pc_ops := []\<rparr>" r] by (simp add: complete_def)
qed

text \<open>Only a read that delivered data lets an exception out.\<close>

lemma run_completion_throws:
  assumes "run_completion L cfg io op c s = Some (u, Some e)" "pc_promise s = None"
  shows "\<exists>bytes. c = Got (Inr bytes)"
  using assms
  by (cases "(L, cfg, io, op, c, s)" rule: run_completion.cases)
    (auto simp: on_id_request_written_def on_id_response_def on_checkin_request_written_def on_response_size_def
      on_checkin_response_def on_ticket_request_written_def on_ticket_response_def set_promise_def
      split: sum.splits if_splits)

lemma complete_throws:
  assumes "one_request s" "complete L cfg io op c s = Some (u, e)"
  shows "e = None \<or> (\<exists>bytes. c = Got (Inr bytes))"
proof (cases e)
  case (Some x)
  from assms have "op \<in> set (pc_ops s)" by (auto simp: complete_def split: if_splits)
  with assms(1) have "pc_promise s = None" by (cases "pc_promise s") (auto simp: one_request_def)
  with assms(2) Some show ?thesis
    using run_completion_throws [of L cfg io op c "s\<lparr>pc_ops := remove1 op (pc_ops s)\<rparr>" u x]
    by (auto simp: complete_def split: if_splits)
qed simp

lemma progressed_one_request:
  "progressed n (s, None) \<Longrightarrow> one_request s"
  by (auto simp: progressed_def one_request_def)


text \<open>Sequences of completions without an exception.\<close>

fun complete_all ::
  "('j, 'k, 'c) libs \<Rightarrow> client_config \<Rightarrow> 'k pollbook_client \<Rightarrow> (io_input \<times> client_op \<times> completion) list
     \<Rightarrow> 'k pollbook_client option" where
  "complete_all L cfg s [] = Some s"
| "complete_all L cfg s ((io, op, c) # cs) = (case complete L cfg io op c s of
       Some (s', None) \<Rightarrow> complete_all L cfg s' cs
     | _ \<Rightarrow> None)"

lemma complete_rank:
  assumes "one_request s" "complete L cfg io op c s = Some (s', None)"
  shows "one_request s'" "client_rank s' < client_rank s"
proof -
  have p: "progressed (op_rank op) (s', None)" using assms by (rule complete_progressed)
  then show "one_request s'" by (rule progressed_one_request)
  from assms have "op \<in> set (pc_ops s)" by (auto simp: complete_def split: if_splits)
  with assms(1) have "pc_ops s = [op]" by (cases "pc_ops s") (auto simp: one_request_def split: option.splits)
  with p show "client_rank s' < client_rank s"
    by (cases op) (auto simp: progressed_def client_rank_def)
qed

lemma complete_all_rank:
  "one_request s \<Longrightarrow> complete_all L cfg s cs = Some s' \<Longrightarrow>
     one_request s' \<and> length cs + client_rank s' \<le> client_rank s"
proof (induction L cfg s cs rule: complete_all.induct)
  case (2 L cfg s io op c cs)
  then obtain s1 where s1: "complete L cfg io op c s = Some (s1, None)" "complete_all L cfg s1 cs = Some s'"
    by (auto split: option.splits prod.splits)
  note r = complete_rank [OF "2.prems"(1) s1(1)]
  have "one_request s' \<and> length cs + client_rank s' \<le> client_rank s1"
    using "2.IH" [OF s1(1) refl refl] r(1) s1(2) by simp
  with r(2) show ?case by simp
qed simp

text \<open>Starting a request on an idle client.\<close>

lemma check_in_voter_starts:
  assumes "check_in_voter L cfg io first_name middle_name last_name data s = (s', None)" "pc_ops s = []"
  shows "one_request s'" "client_rank s' = 5"
  using assms
  by (auto simp: check_in_voter_def start_id_request_write_def one_request_def client_rank_def enqueue_def transmit_def
      split: if_splits sum.splits)

lemma verify_ticket_starts:
  assumes "verify_ticket L cfg io ticket pin s = (s', None)" "pc_ops s = []"
  shows "one_request s'" "client_rank s' = 2"
  using assms
  by (auto simp: verify_ticket_def one_request_def client_rank_def enqueue_def transmit_def Let_def
      split: if_splits sum.splits)

lemma one_request_iff: "one_request s \<longleftrightarrow> (if pc_promise s = None then \<exists>op. pc_ops s = [op] else pc_ops s = [])"
  by (auto simp: one_request_def length_Suc_conv split: option.splits)

lemma client_rank_zero: "client_rank s = 0 \<longleftrightarrow> pc_ops s = []"
proof -
  have "0 < op_rank op" for op by (cases op) simp_all
  then show ?thesis by (cases "pc_ops s") (auto simp: client_rank_def)
qed

section \<open>Successes\<close>

lemma set_promise_result: "set_promise v s = (s', e) \<Longrightarrow> pc_promise s = None \<Longrightarrow> pc_promise s' = Some v"
  by (auto simp: set_promise_def)

lemma failure_not_success [simp]: "\<not> success (failure m)"
  by (simp add: failure_def)

lemma checkin_success_signed:
  assumes "on_checkin_response L (Inr line) s = (s', e)" "pc_promise s = None" "pc_promise s' = Some res" "success res"
  shows "\<exists>key r. pc_checkin_verifier s = Some key \<and>
    bindR (j_parse L line) (CheckinResponse_FromJson L) = Inr r \<and> pb_approved (pr_body r) \<and>
    bindR (j_dump L (CheckinResponse_Body_ToJson L (pr_body r)))
      (\<lambda>str. verify_string L key str (pr_checkin_service_signature r)) = Inr True"
proof -
  from assms(1-3) obtain r where r: "bindR (j_parse L line) (CheckinResponse_FromJson L) = Inr r"
    and h: "handle_checkin_response L r s = (s', e)" by (auto simp: on_checkin_response_def split: sum.splits)
  from h assms(2,3) obtain str key verified where k: "j_dump L (CheckinResponse_Body_ToJson L (pr_body r)) = Inr str"
    "pc_checkin_verifier s = Some key" "verify_string L key str (pr_checkin_service_signature r) = Inr verified"
    by (auto simp: handle_checkin_response_def split: sum.splits option.splits)
  have "verified \<and> pb_approved (pr_body r)"
    using h k assms(2-4) by (auto simp: handle_checkin_response_def dest!: set_promise_result split: if_splits)
  with r k show ?thesis by simp
qed

lemma ticket_success_signed:
  assumes "on_ticket_response L (Inr line) s = (s', e)" "pc_promise s = None" "pc_promise s' = Some res" "success res"
  shows "\<exists>key r. pc_checkin_verifier s = Some key \<and>
    bindR (j_parse L line) (TicketResponse_FromJson L) = Inr r \<and> rb_approved (rr_body r) \<and>
    failure_reason res = rb_secret (rr_body r) \<and>
    bindR (j_dump L (TicketResponse_Body_ToJson L (rr_body r))) (\<lambda>str. verify_string L key str (rr_signature r)) = Inr True"
proof -
  from assms have v: "ticket_verdict L (pc_checkin_verifier s) line = Inr res"
    by (auto simp: on_ticket_response_def set_promise_def split: sum.splits cpp_error.splits)
  then obtain json r str verified where
    "j_parse L line = Inr json" "TicketResponse_FromJson L json = Inr r"
    "j_dump L (TicketResponse_Body_ToJson L (rr_body r)) = Inr str"
    "(case pc_checkin_verifier s of None \<Rightarrow> Inl UB | Some key \<Rightarrow> verify_string L key str (rr_signature r)) = Inr verified"
    "res = (if verified then \<lparr>success = rb_approved (rr_body r), failure_reason = rb_secret (rr_body r)\<rparr>
       else failure (''Invalid signature from the ID verification service on the voter's ID. OpenSSL error: '' @
         get_error_string L []))"
    by (auto simp: ticket_verdict_def result_simps)
  with assms(4) show ?thesis by (auto split: option.splits if_splits)
qed

lemma quiet_before_success:
  assumes "pc_promise s = None" "pc_promise s' = Some res" "success res"
  shows "on_id_request_written b s \<noteq> (s', e)" "on_checkin_request_written b s \<noteq> (s', e)"
    "on_ticket_request_written b s \<noteq> (s', e)" "on_response_size x s \<noteq> (s', e)" "on_id_response L cfg io x s \<noteq> (s', e)"
    "on_checkin_response L (Inl err) s \<noteq> (s', e)" "on_ticket_response L (Inl err) s \<noteq> (s', e)"
  using assms
  by (auto simp: on_id_request_written_def on_checkin_request_written_def on_ticket_request_written_def on_response_size_def
      on_id_response_def handle_id_response_def start_checkin_request_write_def start_checkin_response_read_def
      start_message_read_def enqueue_def on_checkin_response_def on_ticket_response_def set_promise_def
      split: sum.splits option.splits if_splits)

end
