(* ===== verification/Pollbook_System.thy ===== *)
theory Pollbook_System
  imports Voter_ID_Service Pollbook_Client Checkin_Delivery
begin

text \<open>
  How the parts fit together: the messages the client library builds pass the checks of the two
  services, the ID service's answer passes the client's and the check-in service's checks, and the
  answers of the check-in service are accepted by the client.
\<close>

section \<open>Messages of the client library\<close>

lemma id_request_text_valid:
  assumes "codec_laws L" "key_pair L key pub" "vb_voter_id_data body \<noteq> []" "id_request_text L key body = Inr m"
  obtains r where "vr_body r = body" "valid_voter_id_request r" "j_dump L (VoterIDRequest_ToJson L r) = Inr m"
    "bindR (j_parse L (m @ [newline])) (VoterIDRequest_FromJson L) = Inr r"
    "bindR (j_dump L (VoterIDRequest_Body_ToJson L body)) (\<lambda>str. verify_string L pub str (vr_client_signature r)) = Inr True"
proof -
  from assms(4) obtain str signature where s: "j_dump L (VoterIDRequest_Body_ToJson L body) = Inr str"
    "sign_string L key str = Inr signature"
    "j_dump L (VoterIDRequest_ToJson L \<lparr>vr_body = body, vr_client_signature = signature\<rparr>) = Inr m"
    by (auto simp: id_request_text_def result_simps)
  with assms(2) have sig: "signature \<noteq> []" "verify_string L pub str signature = Inr True"
    by (auto simp: key_pair_def)
  let ?r = "\<lparr>vr_body = body, vr_client_signature = signature\<rparr>"
  have v: "valid_voter_id_request ?r" using sig assms(3) by (simp add: valid_voter_id_request_def)
  show thesis
    using that [of ?r] v s sig voter_id_request.wire_round_trip [OF assms(1) v s(3)] by simp
qed

lemma checkin_request_text_valid:
  assumes "codec_laws L" "key_pair L key pub" "valid_verified_voter_id (cb_verified_id_message body)"
    "checkin_request_text L key body = Inr m"
  obtains r where "cr_body r = body" "valid_checkin_request r" "j_dump L (CheckinRequest_ToJson L r) = Inr m"
    "bindR (j_dump L (CheckinRequest_Body_ToJson L body)) (\<lambda>str. verify_string L pub str (cr_client_signature r)) = Inr True"
proof -
  from assms(4) obtain str signature where s: "j_dump L (CheckinRequest_Body_ToJson L body) = Inr str"
    "sign_string L key str = Inr signature"
    "j_dump L (CheckinRequest_ToJson L \<lparr>cr_body = body, cr_client_signature = signature\<rparr>) = Inr m"
    by (auto simp: checkin_request_text_def result_simps)
  with assms(2) have "signature \<noteq> []" "verify_string L pub str signature = Inr True"
    by (auto simp: key_pair_def)
  with s assms(3) show thesis
    using that [of "\<lparr>cr_body = body, cr_client_signature = signature\<rparr>"] by (simp add: valid_checkin_request_def)
qed

lemma ticket_request_text_valid:
  assumes "codec_laws L" "key_pair L key pub" "ticket_request_text L key body = Inr m"
  obtains q where "tr_body q = body" "tr_signature q \<noteq> []" "j_dump L (TicketRequest_ToJson L q) = Inr m"
    "bindR (j_dump L (TicketRequest_Body_ToJson L body)) (\<lambda>str. verify_string L pub str (tr_signature q)) = Inr True"
proof -
  from assms(3) obtain str signature where s: "j_dump L (TicketRequest_Body_ToJson L body) = Inr str"
    "sign_string L key str = Inr signature"
    "j_dump L (TicketRequest_ToJson L \<lparr>tr_body = body, tr_signature = signature\<rparr>) = Inr m"
    by (auto simp: ticket_request_text_def result_simps)
  with assms(2) have "signature \<noteq> []" "verify_string L pub str signature = Inr True"
    by (auto simp: key_pair_def)
  with s show thesis
    using that [of "\<lparr>tr_body = body, tr_signature = signature\<rparr>"] by simp
qed

section \<open>The ID answer\<close>

text \<open>The poll book accepts the ID service's answer and sends the check-in request built from it.\<close>

lemma client_accepts_id_reply:
  assumes laws: "codec_laws L" and r: "valid_voter_id_request r" and keys: "key_pair L id_key id_pub"
    and reply: "id_reply L id_key r v = Inr m" and ver: "pc_id_verifier s = Some id_pub"
  obtains vid where "vv_presented_id vid = r" "vv_voter_unique_id vid = v" "valid_verified_voter_id vid"
    "bindR (j_dump L (id_statement_json L r v)) (\<lambda>str. verify_string L id_pub str (vv_id_service_signature vid)) = Inr True"
    "on_id_response L cfg io (Inr (m @ [newline])) s = start_checkin_request_write L cfg io vid s"
proof -
  obtain signature where sg: "bindR (j_parse L (m @ [newline])) (VerifiedVoterID_FromJson L) =
      Inr \<lparr>vv_presented_id = r, vv_voter_unique_id = v, vv_id_service_signature = signature\<rparr>" "signature \<noteq> []"
    "bindR (j_dump L (id_statement_json L r v)) (\<lambda>str. verify_string L id_pub str signature) = Inr True"
    using id_reply_decodes [OF laws r keys reply] by blast
  then show thesis
    using that [of "\<lparr>vv_presented_id = r, vv_voter_unique_id = v, vv_id_service_signature = signature\<rparr>"] sg r ver
    by (auto simp: on_id_response_def handle_id_response_def valid_verified_voter_id_def result_simps)
qed

section \<open>The check-in request\<close>

text \<open>
  The check-in request built from a verified ID is valid for the check-in service when the service
  knows the poll book's and the ID service's keys and the clocks agree.
\<close>

lemma client_request_valid:
  assumes "bindR (j_dump L (CheckinRequest_Body_ToJson L (cr_body r)))
      (\<lambda>str. verify_string L pub str (cr_client_signature r)) = Inr True"
    and "cr_body r = checkin_body_of cc ts name vid"
    and "bindR (j_dump L (id_statement_json L (vv_presented_id vid) (vv_voter_unique_id vid)))
      (\<lambda>str. verify_string L id_pub str (vv_id_service_signature vid)) = Inr True"
    and "client_key L cfg s (cc_client_id cc) = Some pub" "id_service_verifier s = id_pub"
    and "is_stale (request_freshness_interval cfg) now ts = Inr False"
  shows "request_valid L cfg s r now"
  using assms by (cases name) (simp add: request_valid_def checkin_body_of_def Let_def)

section \<open>The answers of the check-in service\<close>

lemma client_accepts_checkin_response:
  assumes laws: "codec_laws L" and keys: "key_pair L key pub" and ver: "pc_checkin_verifier s = Some pub"
    and reply: "approval_response L key body = Inr m" and opn: "pc_promise s = None"
  shows "on_checkin_response L (Inr (m @ [newline])) s =
    (s\<lparr>pc_promise := Some (if pb_approved body then \<lparr>success = True, failure_reason = []\<rparr>
       else failure ''Check-in service rejected the request'')\<rparr>, None)"
proof -
  from reply obtain str signature where s: "j_dump L (CheckinResponse_Body_ToJson L body) = Inr str"
    "sign_string L key str = Inr signature"
    "j_dump L (CheckinResponse_ToJson L \<lparr>pr_body = body, pr_checkin_service_signature = signature\<rparr>) = Inr m"
    by (auto simp: approval_response_def result_simps)
  with keys have sig: "signature \<noteq> []" "verify_string L pub str signature = Inr True" by (auto simp: key_pair_def)
  have "bindR (j_parse L (m @ [newline])) (CheckinResponse_FromJson L) =
      Inr \<lparr>pr_body = body, pr_checkin_service_signature = signature\<rparr>"
    using checkin_response.wire_round_trip [OF laws _ s(3)] sig(1) by simp
  then show ?thesis
    using s(1) sig(2) ver opn by (simp add: on_checkin_response_def handle_checkin_response_def set_promise_def)
qed

lemma client_accepts_ticket_response:
  assumes laws: "codec_laws L" and keys: "key_pair L key pub" and ver: "pc_checkin_verifier s = Some pub"
    and reply: "ticket_response_text L key body = Inr m" and opn: "pc_promise s = None"
  shows "on_ticket_response L (Inr (m @ [newline])) s =
    (s\<lparr>pc_promise := Some \<lparr>success = rb_approved body, failure_reason = rb_secret body\<rparr>\<rparr>, None)"
proof -
  from reply obtain str signature where s: "j_dump L (TicketResponse_Body_ToJson L body) = Inr str"
    "sign_string L key str = Inr signature"
    "j_dump L (TicketResponse_ToJson L \<lparr>rr_body = body, rr_signature = signature\<rparr>) = Inr m"
    by (auto simp: ticket_response_text_def result_simps)
  with keys have sig: "signature \<noteq> []" "verify_string L pub str signature = Inr True" by (auto simp: key_pair_def)
  have "bindR (j_parse L (m @ [newline])) (TicketResponse_FromJson L) = Inr \<lparr>rr_body = body, rr_signature = signature\<rparr>"
    using ticket_response.wire_round_trip [OF laws _ s(3)] sig(1) by simp
  then show ?thesis
    using s(1) sig(2) ver opn
    by (auto simp: on_ticket_response_def ticket_verdict_def set_promise_def result_simps split: sum.splits)
qed


section \<open>The two phases with the client library\<close>

text \<open>First phase: the poll book receives the ID answer and its check-in request is accepted.\<close>

lemma book_phase:
  fixes L :: "('j, 'k, 'c) libs" and s :: "'k checkin_service" and book :: "'k pollbook_client"
  assumes laws: "codec_laws L" and keys: "key_pair L (pc_signer_key book) book_pub" "key_pair L id_key id_pub"
    and verifiers: "pc_id_verifier book = Some id_pub" "id_service_verifier s = id_pub"
    and conn: "connected ip (cc_client_id book_cfg) UntrustedClient book_pub s"
    and voter: "voter_status_table s v = Some ELIGIBLE"
    and id_answer: "valid_voter_id_request presented" "id_reply L id_key presented v = Inr answer"
    and book_sends: "on_id_response L book_cfg io0 (Inr (answer @ [newline])) book = (book', None)"
    and delivery: "\<And>m. pc_sent book' = pc_sent book @ [(Checkin_server, frame_message m)] \<Longrightarrow>
        length m < 2 ^ 64 \<and> concat (chunks m) = frame_message m"
    and fresh: "is_stale (request_freshness_interval cfg) (now_ms io) (now_ms io0) = Inr False"
    and random: "generate_secret (rand_ticket io) = Inr ticket" "generate_secret (rand_secret io) = Inr secret"
    and response: "\<And>r. cb_voter_unique_id (cr_body r) = v \<Longrightarrow>
        \<exists>reply. approval_response L (signer_key s) (response_for io True r ticket) = Inr reply"
    and net: "\<not> write_fails io"
  obtains m r reply where "pc_sent book' = pc_sent book @ [(Checkin_server, frame_message m)]"
    "cb_voter_unique_id (cr_body r) = v"
    "perform_all L cfg (Running s) (arrivals io ip (chunks m) @ [(io, Read_line ip), (io, Read_line ip)]) =
       Some (Running (accepted_state cfg io ip r ticket secret reply (current (cc_client_id book_cfg) ip s)))"
proof -
  obtain vid where vid: "vv_presented_id vid = presented" "vv_voter_unique_id vid = v" "valid_verified_voter_id vid"
    "bindR (j_dump L (id_statement_json L presented v))
       (\<lambda>str. verify_string L id_pub str (vv_id_service_signature vid)) = Inr True"
    "on_id_response L book_cfg io0 (Inr (answer @ [newline])) book = start_checkin_request_write L book_cfg io0 vid book"
    by (rule client_accepts_id_reply [OF laws id_answer(1) keys(2) id_answer(2) verifiers(1)])
  let ?body = "checkin_body_of book_cfg (now_ms io0) (pc_voter_name book) vid"
  have bf: "cb_verified_id_message ?body = vid" "cb_client_id_num ?body = cc_client_id book_cfg" "cb_voter_unique_id ?body = v"
    using vid(2) by (simp_all add: checkin_body_of_def split: prod.splits)
  from book_sends vid(5) obtain m where m: "checkin_request_text L (pc_signer_key book) ?body = Inr m"
    and book': "pc_sent book' = pc_sent book @ [(Checkin_server, frame_message m)]"
    by (auto simp: start_checkin_request_write_def enqueue_def transmit_def split: sum.splits)
  obtain r where r: "cr_body r = ?body" "valid_checkin_request r" "j_dump L (CheckinRequest_ToJson L r) = Inr m"
    "bindR (j_dump L (CheckinRequest_Body_ToJson L ?body)) (\<lambda>str. verify_string L book_pub str (cr_client_signature r)) = Inr True"
    using vid(3) bf(1) by (auto intro: checkin_request_text_valid [OF laws keys(1) _ m])
  have "client_key L cfg s (cc_client_id book_cfg) = Some book_pub"
    using conn by (simp add: connected_def client_key_def)
  then have valid: "request_valid L cfg s r (now_ms io)"
    using r(1,4) vid fresh verifiers(2) by (intro client_request_valid [where cc = book_cfg and vid = vid]) simp_all
  obtain reply where reply: "approval_response L (signer_key s) (response_for io True r ticket) = Inr reply"
    using response [of r] r(1) bf(3) by auto
  show thesis
    using that [OF book', of r reply] checkin_phase [OF laws _ r(2,3) _ _ valid _ random reply net, of ip book_pub "chunks m"]
      conn voter delivery [OF book'] r(1) bf by simp
qed

text \<open>Second phase: the device asks for verification, its request is confirmed and it learns the secret.\<close>

lemma device_phase:
  fixes L :: "('j, 'k, 'c) libs" and s :: "'k checkin_service" and device :: "'k pollbook_client"
  assumes laws: "codec_laws L" and keys: "key_pair L (pc_signer_key device) device_pub" "key_pair L (signer_key s) service_pub"
    and verifiers: "pc_checkin_verifier device = Some service_pub" "pc_checkin_connected device"
    and conn: "connected ip (cc_client_id device_cfg) TrustedClient device_pub s"
    and ticket: "client_tickets_map (with_tickets s) ticket = Some (v, secret)"
    and timer: "request_timers s v = Some t" "in_window cfg io t" and voter: "voter_status_table s v = Some PENDING"
    and device_sends: "verify_ticket L device_cfg io0 ticket pin device = (device', None)"
    and delivery: "\<And>m. pc_sent device' = pc_sent device @ [(Checkin_server, frame_message m)] \<Longrightarrow>
        length m < 2 ^ 64 \<and> concat (chunks m) = frame_message m"
    and fresh: "is_stale (request_freshness_interval cfg) (now_ms io) (now_ms io0) = Inr False"
    and pin: "to_string (unat pin) = info (find_voter (voter_list_file cfg) v) ''pin''"
    and response: "\<And>q. tb_pin (tr_body q) = pin \<Longrightarrow>
        \<exists>reply. ticket_response_text L (signer_key s) (approval cfg q v secret) = Inr reply"
    and net: "\<not> write_fails io"
  obtains m s' reply where "pc_sent device' = pc_sent device @ [(Checkin_server, frame_message m)]"
    "perform_all L cfg (Running s) (arrivals io ip (chunks m) @ [(io, Read_line ip), (io, Read_line ip)]) = Some (Running s')"
    "voter_status_table s' = (voter_status_table s)(v \<mapsto> CHECKED_IN)" "sent s' = sent s @ [(ip, reply @ [newline])]"
    "on_ticket_response L (Inr (reply @ [newline])) (device'\<lparr>pc_ops := []\<rparr>) =
       (device'\<lparr>pc_ops := [], pc_promise := Some \<lparr>success = True, failure_reason = secret\<rparr>\<rparr>, None)"
proof -
  from device_sends obtain m where
    m: "ticket_request_text L (pc_signer_key device) \<lparr>tb_client_id = cc_client_id device_cfg, tb_timestamp = now_ms io0,
        tb_ticket = ticket, tb_pin = pin\<rparr> = Inr m"
    and device': "pc_sent device' = pc_sent device @ [(Checkin_server, frame_message m)]" "pc_promise device' = None"
      "pc_checkin_verifier device' = pc_checkin_verifier device"
    by (auto simp: verify_ticket_def enqueue_def transmit_def verifiers Let_def split: sum.splits)
  obtain q where q: "tr_body q = \<lparr>tb_client_id = cc_client_id device_cfg, tb_timestamp = now_ms io0, tb_ticket = ticket,
      tb_pin = pin\<rparr>" "tr_signature q \<noteq> []" "j_dump L (TicketRequest_ToJson L q) = Inr m"
    "bindR (j_dump L (TicketRequest_Body_ToJson L (tr_body q))) (\<lambda>str. verify_string L device_pub str (tr_signature q)) = Inr True"
    using ticket_request_text_valid [OF laws keys(1) m] by metis
  have auth: "ticket_authentic L cfg io ip q v (with_tickets s)"
    using conn q ticket fresh by (simp add: ticket_authentic_def client_key_def connected_def with_tickets_def)
  have pin2: "pin_matches cfg q v" using pin q(1) by (simp add: pin_matches_def)
  obtain reply where reply: "ticket_response_text L (signer_key s) (approval cfg q v secret) = Inr reply"
    using response [of q] q(1) by auto
  let ?s2 = "(confirmed io v t (with_tickets (current (tb_client_id (tr_body q)) ip s)))
      \<lparr>sent := sent s @ [(ip, reply @ [newline])]\<rparr>"
  have p2: "perform_all L cfg (Running s) (arrivals io ip (chunks m) @ [(io, Read_line ip), (io, Read_line ip)]) =
      Some (Running ?s2)"
    using ticket_phase [OF laws _ q(2,3) _ _ auth pin2 _ timer _ net, of device_pub "chunks m" secret reply]
      conn delivery [OF device'(1)] ticket reply q(1) by simp
  have t2: "voter_status_table ?s2 = (voter_status_table s)(v \<mapsto> CHECKED_IN)"
    using voter by (simp add: confirmed_def with_tickets_def current_def after_payload_def)
  have "on_ticket_response L (Inr (reply @ [newline])) (device'\<lparr>pc_ops := []\<rparr>) =
      (device'\<lparr>pc_ops := [], pc_promise := Some \<lparr>success = True, failure_reason = secret\<rparr>\<rparr>, None)"
    using client_accepts_ticket_response [OF laws keys(2) _ reply, of "device'\<lparr>pc_ops := []\<rparr>"] device' verifiers
    by (simp add: approval_def ticket_response_body_of_def)
  with p2 t2 show thesis using that [OF device'(1), of ?s2 reply] by simp
qed

end
