(* ===== verification/Sample_Clients.thy ===== *)
theory Sample_Clients
  imports Pollbook_System Sample_Run
begin

text \<open>
  A pollbook and a trusted device of the sample deployment, and the messages they send: the instances
  the properties of the client and of the whole system are evaluated on.
\<close>

text \<open>A frame determines its message.\<close>

lemma frame_message_inj: "frame_message m = frame_message n \<Longrightarrow> m = n"
proof -
  assume eq: "frame_message m = frame_message n"
  have "takeWhile (\<lambda>c. c \<noteq> newline) (frame_message x) = to_string (length x)" for x
    by (simp add: frame_message_def)
  then have "to_string (length m) = to_string (length n)" using eq by metis
  with eq show "m = n" by (simp add: frame_message_def)
qed

section \<open>Two clients of the sample deployment\<close>

definition sample_book :: "nat pollbook_client" where
  "sample_book = (PollbookClient 2 (\<lambda>_. Inl ENOENT))\<lparr>pc_checkin_connected := True, pc_id_connected := True,
     pc_id_verifier := Some 9, pc_checkin_verifier := Some 8, pc_voter_name := (''Jane'', ''Q'', ''Doe'')\<rparr>"

definition sample_device :: "nat pollbook_client" where
  "sample_device = (PollbookClient 3 (\<lambda>_. Inl ENOENT))\<lparr>pc_checkin_connected := True, pc_checkin_verifier := Some 8\<rparr>"

definition sample_io_at :: "int \<Rightarrow> io_input" where
  "sample_io_at ms = (sample_io 0)\<lparr>sys_now := ms * 1000000\<rparr>"

definition sample_answer :: string where
  "sample_answer = show_json (VerifiedVoterID_ToJson sample_libs sample_verified_id)"

definition sample_book_after :: "nat pollbook_client" where
  "sample_book_after = sample_book\<lparr>pc_sent := [(Checkin_server, frame_message sample_text)],
     pc_ops := [Write_checkin_request]\<rparr>"

definition sample_device_after :: "nat pollbook_client" where
  "sample_device_after = sample_device\<lparr>pc_sent := [(Checkin_server, frame_message sample_ticket_text)],
     pc_ops := [Write_ticket_request]\<rparr>"

lemma sample_id_reply: "id_reply sample_libs 9 sample_id_request 7 = Inr sample_answer"
  by (simp add: id_reply_def sample_dump sample_sign sample_answer_def sample_verified_id_def sample_signature_def)

lemma sample_presented: "valid_voter_id_request sample_id_request"
  by (simp add: valid_voter_id_request_def sample_message_defs Let_def)

lemma sample_book_sends:
  "on_id_response sample_libs \<lparr>cc_client_id = 2\<rparr> (sample_io_at 190) (Inr (sample_answer @ [newline])) sample_book =
     (sample_book_after, None)"
proof -
  have "checkin_request_text sample_libs 2 (checkin_body_of \<lparr>cc_client_id = 2\<rparr> 190 (''Jane'', ''Q'', ''Doe'') sample_verified_id) =
      Inr sample_text"
    by (simp add: checkin_request_text_def sample_dump sample_sign checkin_body_of_def sample_text_def sample_request_def
        sample_request_body_def sample_signature_def sample_verified_id_def)
  moreover have "bindR (j_parse sample_libs (sample_answer @ [newline])) (VerifiedVoterID_FromJson sample_libs) = Inr sample_verified_id"
    by (rule verified_voter_id.wire_round_trip [OF sample_codec_laws])
      (use sample_presented in \<open>simp_all add: sample_answer_def sample_dump valid_verified_voter_id_def sample_verified_id_def
         sample_signature_def\<close>)
  moreover have "verify_string sample_libs 9 (show_json (id_statement_json sample_libs (vv_presented_id sample_verified_id)
      (vv_voter_unique_id sample_verified_id))) (vv_id_service_signature sample_verified_id) = Inr True"
    by (simp add: sample_verify sample_verified_id_def sample_signature_def)
  moreover have "now_ms (sample_io_at 190) = 190" by (simp add: now_ms_def sample_io_at_def)
  ultimately show ?thesis
    by (simp add: on_id_response_def handle_id_response_def sample_dump start_checkin_request_write_def sample_book_def
        sample_book_after_def PollbookClient_def enqueue_def transmit_def)
qed

lemma sample_device_sends:
  "verify_ticket sample_libs \<lparr>cc_client_id = 3\<rparr> (sample_io_at 195) ''01ab'' 42 sample_device = (sample_device_after, None)"
  by (simp add: verify_ticket_def ticket_request_text_def sample_dump sample_sign sample_device_def sample_device_after_def
      PollbookClient_def enqueue_def transmit_def sample_ticket_text_def sample_message_defs now_ms_def sample_io_at_def Let_def)

end
