(* ===== verification/Service_Properties.thy ===== *)
theory Service_Properties
  imports Sample_Clients
begin

text \<open>
  The properties of the client library and of the parts the programs share (message codecs, digest
  objects, voter files), each with an instance.
\<close>

section \<open>The client library\<close>

text \<open>
  C20: a check-in started on an idle client ends after at most five completions: while the promise is
  open exactly one operation is in flight, no later than after the fifth completion the caller's
  promise is fulfilled, and then nothing is in flight. No completion sets a promise twice: every
  completion starts with the promise open, and one that throws leaves it open, while a second
  \<open>set_value\<close> throws with the promise fulfilled. Only a read that delivered data throws (a reply that
  is malformed, or that the libraries fail on); the process ends then, and the promise is never
  fulfilled.
\<close>

theorem check_in_answers:
  assumes "check_in_voter L cfg io first_name middle_name last_name data s0 = (s, None)" "pc_ops s0 = []"
    and "complete_all L cfg s cs = Some t"
  shows "length cs \<le> 5 \<and> (length cs = 5 \<longrightarrow> pc_promise t \<noteq> None) \<and>
    (if pc_promise t = None then \<exists>op. pc_ops t = [op] else pc_ops t = []) \<and>
    (\<forall>io' op c u e. complete L cfg io' op c t = Some (u, e) \<longrightarrow> pc_promise t = None \<and>
       (e = None \<or> pc_promise u = None \<and> pc_ops u = [] \<and> (\<exists>bytes. c = Got (Inr bytes))))"
proof (intro conjI allI impI)
  note start = check_in_voter_starts [OF assms(1,2)]
  have one: "one_request t" and len: "length cs + client_rank t \<le> 5"
    using complete_all_rank [OF start(1) assms(3)] start(2) by simp_all
  then show "length cs \<le> 5" "length cs = 5 \<Longrightarrow> pc_promise t \<noteq> None"
    "if pc_promise t = None then \<exists>op. pc_ops t = [op] else pc_ops t = []"
    by (auto simp: one_request_iff client_rank_zero split: if_splits)
  fix io' op c u e
  assume c: "complete L cfg io' op c t = Some (u, e)"
  show "pc_promise t = None" using one c by (auto simp: complete_def one_request_iff split: if_splits)
  show "e = None \<or> pc_promise u = None \<and> pc_ops u = [] \<and> (\<exists>bytes. c = Got (Inr bytes))"
    using complete_progressed [OF one c] complete_throws [OF one c] by (cases e) (auto simp: progressed_def)
qed

theorem check_in_answers_witness:
  "\<exists>s t u e. check_in_voter sample_libs \<lparr>cc_client_id = 2\<rparr> (sample_io_at 200) ''Jane'' ''Q'' ''Doe'' [7, 0, 0, 0] sample_book = (s, None) \<and>
     complete_all sample_libs \<lparr>cc_client_id = 2\<rparr> s [(sample_io_at 200, Write_id_request, Written False)] = Some t \<and>
     pc_ops t = [Read_id_response] \<and>
     complete sample_libs \<lparr>cc_client_id = 2\<rparr> (sample_io_at 200) Read_id_response (Got (Inr (''hello'' @ [newline]))) t = Some (u, Some e) \<and>
     pc_promise t = None \<and> pc_promise u = None"
proof -
  obtain s where s: "check_in_voter sample_libs \<lparr>cc_client_id = 2\<rparr> (sample_io_at 200) ''Jane'' ''Q'' ''Doe'' [7, 0, 0, 0] sample_book =
      (s, None)" "pc_ops s = [Write_id_request]"
    by (auto simp: check_in_voter_def start_id_request_write_def id_request_text_def sample_dump sample_sign sample_book_def
        PollbookClient_def enqueue_def transmit_def)
  have idle: "pc_ops sample_book = []" by (simp add: sample_book_def PollbookClient_def)
  let ?t = "s\<lparr>pc_ops := [Read_id_response]\<rparr>"
  have t: "complete_all sample_libs \<lparr>cc_client_id = 2\<rparr> s [(sample_io_at 200, Write_id_request, Written False)] = Some ?t"
    using s by (simp add: complete_def on_id_request_written_def start_message_read_def enqueue_def)
  have "j_parse sample_libs (''hello'' @ [newline]) = Inl (Exn Json_parse_error ''parse error'')"
    by (simp add: sample_libs_def) code_simp
  then have u: "complete sample_libs \<lparr>cc_client_id = 2\<rparr> (sample_io_at 200) Read_id_response (Got (Inr (''hello'' @ [newline]))) ?t =
      Some (s\<lparr>pc_ops := []\<rparr>, Some (Exn Json_parse_error ''parse error''))"
    by (simp add: complete_def on_id_response_def)
  from check_in_answers [OF s(1) idle t] u have "pc_promise ?t = None \<and> pc_promise (s\<lparr>pc_ops := []\<rparr>) = None"
    by blast
  then show ?thesis
    using s(1) t u by (intro exI [of _ s] exI [of _ ?t] exI [of _ "s\<lparr>pc_ops := []\<rparr>"] exI) auto
qed

text \<open>
  A ticket verification started on an idle client ends after at most two completions, with the
  caller's promise fulfilled.
\<close>

lemma verify_ticket_answers:
  assumes "verify_ticket L cfg io ticket pin s0 = (s, None)" "pc_ops s0 = []"
    and "complete_all L cfg s cs = Some t"
  shows "length cs \<le> 2 \<and> (length cs = 2 \<longrightarrow> pc_promise t \<noteq> None) \<and>
    (if pc_promise t = None then \<exists>op. pc_ops t = [op] else pc_ops t = [])"
proof -
  note start = verify_ticket_starts [OF assms(1,2)]
  have "one_request t" "length cs + client_rank t \<le> 2" using complete_all_rank [OF start(1) assms(3)] start(2) by simp_all
  then show ?thesis by (auto simp: one_request_iff client_rank_zero)
qed

section \<open>Messages and digests\<close>

text \<open>The three requests and the three replies.\<close>

lemma requests_wire:
  assumes "codec_laws L" "valid_voter_id_request r" "valid_checkin_request q" "tr_signature t \<noteq> []"
    and "j_dump L (VoterIDRequest_ToJson L r) = Inr mr" "j_dump L (CheckinRequest_ToJson L q) = Inr mq"
      "j_dump L (TicketRequest_ToJson L t) = Inr mt"
  shows "newline \<notin> set mr \<union> set mq \<union> set mt \<and>
    bindR (j_parse L (mr @ [newline])) (VoterIDRequest_FromJson L) = Inr r \<and>
    bindR (j_parse L (mq @ [newline])) (CheckinRequest_FromJson L) = Inr q \<and>
    bindR (j_parse L (mt @ [newline])) (TicketRequest_FromJson L) = Inr t"
  using voter_id_request.wire_round_trip [OF assms(1,2,5)] checkin_request.wire_round_trip [OF assms(1,3,6)]
    ticket_request.wire_round_trip [OF assms(1,4,7)] codec_text [OF assms(1)] assms(5-7) by simp

lemma responses_wire:
  assumes "codec_laws L" "valid_verified_voter_id r" "pr_checkin_service_signature q \<noteq> []" "rr_signature t \<noteq> []"
    and "j_dump L (VerifiedVoterID_ToJson L r) = Inr mr" "j_dump L (CheckinResponse_ToJson L q) = Inr mq"
      "j_dump L (TicketResponse_ToJson L t) = Inr mt"
  shows "newline \<notin> set mr \<union> set mq \<union> set mt \<and>
    bindR (j_parse L (mr @ [newline])) (VerifiedVoterID_FromJson L) = Inr r \<and>
    bindR (j_parse L (mq @ [newline])) (CheckinResponse_FromJson L) = Inr q \<and>
    bindR (j_parse L (mt @ [newline])) (TicketResponse_FromJson L) = Inr t"
  using verified_voter_id.wire_round_trip [OF assms(1,2,5)] checkin_response.wire_round_trip [OF assms(1,3,6)]
    ticket_response.wire_round_trip [OF assms(1,4,7)] codec_text [OF assms(1)] assms(5-7) by simp

text \<open>
  C24: the wire format of the six message types loses nothing: a serialised message followed by a
  line break has no line break inside and decodes to the message, for the three requests (ID
  request, check-in request, ticket request) and the three replies.
\<close>

theorem messages_round_trip:
  assumes "codec_laws L" "valid_voter_id_request r" "valid_checkin_request q" "tr_signature t \<noteq> []"
    and "valid_verified_voter_id r'" "pr_checkin_service_signature q' \<noteq> []" "rr_signature t' \<noteq> []"
    and "j_dump L (VoterIDRequest_ToJson L r) = Inr mr" "j_dump L (CheckinRequest_ToJson L q) = Inr mq"
      "j_dump L (TicketRequest_ToJson L t) = Inr mt"
    and "j_dump L (VerifiedVoterID_ToJson L r') = Inr mr'" "j_dump L (CheckinResponse_ToJson L q') = Inr mq'"
      "j_dump L (TicketResponse_ToJson L t') = Inr mt'"
  shows "newline \<notin> set mr \<union> set mq \<union> set mt \<union> set mr' \<union> set mq' \<union> set mt' \<and>
    bindR (j_parse L (mr @ [newline])) (VoterIDRequest_FromJson L) = Inr r \<and>
    bindR (j_parse L (mq @ [newline])) (CheckinRequest_FromJson L) = Inr q \<and>
    bindR (j_parse L (mt @ [newline])) (TicketRequest_FromJson L) = Inr t \<and>
    bindR (j_parse L (mr' @ [newline])) (VerifiedVoterID_FromJson L) = Inr r' \<and>
    bindR (j_parse L (mq' @ [newline])) (CheckinResponse_FromJson L) = Inr q' \<and>
    bindR (j_parse L (mt' @ [newline])) (TicketResponse_FromJson L) = Inr t'"
  using requests_wire [OF assms(1-4,8-10)] responses_wire [OF assms(1,5-7,11-13)] by simp

theorem messages_round_trip_witness:
  "bindR (j_parse sample_libs (sample_text @ [newline])) (CheckinRequest_FromJson sample_libs) = Inr sample_request \<and>
   bindR (j_parse sample_libs (show_json (TicketResponse_ToJson sample_libs
       \<lparr>rr_body = approval sample_cfg sample_ticket_request 7 ''0203'', rr_signature = [1]\<rparr>) @ [newline]))
     (TicketResponse_FromJson sample_libs) =
     Inr \<lparr>rr_body = approval sample_cfg sample_ticket_request 7 ''0203'', rr_signature = [1]\<rparr>"
proof -
  have v: "valid_checkin_request sample_request" "tr_signature sample_ticket_request \<noteq> []"
    using sample_presented
    by (simp_all add: valid_checkin_request_def valid_verified_voter_id_def sample_request_def sample_request_body_def
        sample_verified_id_def sample_signature_def sample_ticket_request_def)
  have v': "valid_verified_voter_id sample_verified_id"
    using sample_presented by (simp add: valid_verified_voter_id_def sample_verified_id_def sample_signature_def)
  have d: "j_dump sample_libs (CheckinRequest_ToJson sample_libs sample_request) = Inr sample_text"
    by (simp add: sample_dump sample_text_def)
  let ?q = "\<lparr>pr_body = response_for (sample_io 0) True sample_request ''01ab'', pr_checkin_service_signature = [1]\<rparr>"
    and ?t = "\<lparr>rr_body = approval sample_cfg sample_ticket_request 7 ''0203'', rr_signature = [1]\<rparr>"
  have s: "pr_checkin_service_signature ?q \<noteq> []" "rr_signature ?t \<noteq> []" by simp_all
  from messages_round_trip [OF sample_codec_laws sample_presented v v' s sample_dump d sample_dump sample_dump
      sample_dump sample_dump] show ?thesis by simp
qed

text \<open>
  C37: feeding a message to a digest object in any chunks and finishing it gives what the one-shot
  method gives on the whole message, for the hasher, the signer and the verifier alike.
\<close>

theorem digest_chunks:
  assumes "update_streaming L ''EVP_DigestUpdate'' (digest_update L)"
    and "update_streaming L ''EVP_DigestSignUpdate'' (sign_update L)"
    and "update_streaming L ''EVP_DigestVerifyUpdate'' (verify_update L)"
    and "bs \<noteq> []"
  shows "Hasher_hash_bytes L (concat bs) h =
      bindR (Hasher_init L h) (\<lambda>h. bindR (feed (Hasher_add_bytes L) bs h) (Hasher_finalize_into L)) \<and>
    Signer_sign_bytes L (concat bs) g =
      bindR (Signer_init L g) (\<lambda>g. bindR (feed (Signer_add_bytes L) bs g) (Signer_finalize_into L)) \<and>
    Verifier_verify_bytes L (concat bs) signature v =
      bindR (Verifier_init L v) (\<lambda>v. bindR (feed (Verifier_add_bytes L) bs v) (Verifier_finalize L signature))"
  using hasher.one_shot_chunks [OF assms(1,4), of h] signer.one_shot_chunks [OF assms(2,4), of g]
    verifier.one_shot_chunks [OF assms(3,4), of signature v]
  by simp

theorem digest_chunks_witness:
  "Hasher_hash_bytes sample_libs [1, 2, 3] (Hasher sample_libs SHA256) =
     bindR (Hasher_init sample_libs (Hasher sample_libs SHA256)) (\<lambda>h.
     bindR (feed (Hasher_add_bytes sample_libs) [[1], [2, 3]] h) (Hasher_finalize_into sample_libs))"
proof -
  have u: "digest_update sample_libs = sample_update" "sign_update sample_libs = sample_update"
    "verify_update sample_libs = sample_update" by (simp_all add: sample_libs_def)
  have s: "update_streaming sample_libs ''EVP_DigestUpdate'' (digest_update sample_libs)"
    "update_streaming sample_libs ''EVP_DigestSignUpdate'' (sign_update sample_libs)"
    "update_streaming sample_libs ''EVP_DigestVerifyUpdate'' (verify_update sample_libs)"
    unfolding u by (rule sample_streaming)+
  from digest_chunks [OF s, of "[[1], [2, 3]]" "Hasher sample_libs SHA256"] show ?thesis by simp
qed

section \<open>Files\<close>

text \<open>
  C35: the ticket file keeps what is written to it: after any sequence of issued tickets, re-reading the
  file adds exactly those entries to the tickets in memory, the last one winning for a ticket
  written twice, and whatever the file held before is still there.
\<close>

theorem ticket_file_round_trip:
  assumes "ticket_file_ok f" "\<forall>(t, s, v) \<in> set es. ticket_entry_ok t s"
  shows "read_from_csv (fold (\<lambda>(t, s, v). write_to_csv True t s v) es f) m =
    read_from_csv f m ++ map_of (rev (map (\<lambda>(t, s, v). (t, (v, s))) es))"
proof -
  have "ticket_csv.store_all es f = fold (\<lambda>(t, s, v). write_to_csv True t s v) es f"
    by (induction es arbitrary: f) (auto simp: split_beta)
  moreover have "(\<lambda>e :: string \<times> string \<times> u32. (fst e, (snd (snd e), fst (snd e)))) = (\<lambda>(t, s, v). (t, (v, s)))"
    by (simp add: fun_eq_iff split_beta)
  ultimately show ?thesis
    using ticket_csv.load_store_all [OF assms(1), of es m] assms(2) by (simp add: split_beta')
qed

theorem ticket_file_round_trip_witness:
  "read_from_csv (fold (\<lambda>(t, s, v). write_to_csv True t s v) [(''01ab'', ''0203'', 7), (''02'', ''ff'', 8)] None) Map.empty ''01ab'' =
     Some (7, ''0203'')"
proof -
  have "ticket_file_ok None" by (simp add: ticket_file_ok_def file_text_def line_terminated_def)
  moreover have "\<forall>(t, s, v) \<in> set [(''01ab'', ''0203'', 7), (''02'', ''ff'', 8 :: u32)]. ticket_entry_ok t s"
    by (simp add: ticket_entry_ok_def)
  ultimately have "read_from_csv (fold (\<lambda>(t, s, v). write_to_csv True t s v) [(''01ab'', ''0203'', 7), (''02'', ''ff'', 8)] None)
      Map.empty = read_from_csv None Map.empty ++ map_of (rev (map (\<lambda>(t, s, v). (t, (v, s))) [(''01ab'', ''0203'', 7), (''02'', ''ff'', 8)]))"
    by (rule ticket_file_round_trip)
  then show ?thesis by (simp add: map_add_def)
qed

text \<open>
  An issued ticket or secret shows all the randomness drawn for it: its text has two characters for
  each random byte, two different draws give different texts, and it can be stored in the ticket
  file.
\<close>

lemma secret_faithful:
  assumes "generate_secret (Some as) = Inr s" "generate_secret (Some bs) = Inr t" "as \<noteq> []"
  shows "length s = 2 * length as \<and> (s = t \<longleftrightarrow> as = bs) \<and> ticket_entry_ok t s"
proof -
  have "s = t \<longleftrightarrow> as = bs" using generate_secret_inj [OF assms(1), of bs] assms(1,2) by (metis sum.inject(2))
  then show ?thesis using generate_secret_length [OF assms(1)] generate_secret_entry_ok [OF assms(2,1,3)] by blast
qed

text \<open>
  When the roll loads, the voters are exactly the numbers in the first column of its rows, all of them
  eligible; a row whose first column is no number makes the start fail.
\<close>

lemma roll_loaded:
  assumes "load_voter_list csv_path (Some (header_line @ newline # body)) Map.empty = Inr tbl" "newline \<notin> set header_line"
  shows "\<exists>us. map (stoul \<circ> first_column) (getlines newline body) = map Inr us \<and>
    tbl = (\<lambda>v. if v \<in> of_nat ` set us then Some ELIGIBLE else None)"
proof -
  have rows: "load_voter_rows (getlines newline body) Map.empty = Inr tbl"
    using assms by (simp add: load_voter_list_def file_text_def split: if_splits)
  then obtain us where us: "map (stoul \<circ> first_column) (getlines newline body) = map Inr us" using load_voter_rows_numbers by blast
  then have dom: "dom tbl = of_nat ` set us" using load_voter_rows_dom [OF rows, of us] by simp
  have "tbl v = (if v \<in> of_nat ` set us then Some ELIGIBLE else None)" for v
  proof (cases "tbl v")
    case None
    then show ?thesis using dom domIff [of v tbl] by simp
  next
    case (Some st)
    then show ?thesis using dom domIff [of v tbl] load_voter_rows_ELIGIBLE [OF rows Some] by simp
  qed
  with us show ?thesis by blast
qed

end
