(* ===== verification/Ini_File.thy ===== *)
theory Ini_File
  imports Cpp_Std "HOL-Library.Char_ord" "HOL-Library.List_Lexorder"
begin

text \<open>
  The INI files the programs are configured with (\<^verbatim>\<open>config/inifile-cpp/inicpp.h\<close>): the
  ordered maps that hold sections and fields, the conversion of field values to C++ types, the
  comment and escape syntax, the line parser \<^verbatim>\<open>IniFileBase::decode\<close> with its errors, and
  the writer \<^verbatim>\<open>IniFileBase::encode\<close>. The lemmas show that the escape syntax is inverted by
  comment removal, and that a well-formed file object is what its own text decodes to. The
  line counter of the parser (an \<^verbatim>\<open>int\<close>) is a natural number here.
\<close>

section \<open>Ordered maps\<close>

text \<open>
  A \<^verbatim>\<open>std::map\<close> whose iteration order is observable is an association list with strictly
  increasing keys. Strings compare by the values of their characters as unsigned bytes.
\<close>

fun map_put :: "'k::linorder \<Rightarrow> 'v \<Rightarrow> ('k \<times> 'v) list \<Rightarrow> ('k \<times> 'v) list" where
  "map_put k v [] = [(k, v)]"
| "map_put k v ((j, w) # m) =
     (if k = j then (k, v) # m else if k < j then (k, v) # (j, w) # m else (j, w) # map_put k v m)"

definition map_sub :: "'v \<Rightarrow> 'k::linorder \<Rightarrow> ('k \<times> 'v) list \<Rightarrow> ('k \<times> 'v) list" where
  "map_sub d k m = (case map_of m k of None \<Rightarrow> map_put k d m | Some _ \<Rightarrow> m)"

definition map_val :: "'v \<Rightarrow> 'k \<Rightarrow> ('k \<times> 'v) list \<Rightarrow> 'v" where
  "map_val d k m = (case map_of m k of None \<Rightarrow> d | Some v \<Rightarrow> v)"

definition ordered :: "('k::linorder \<times> 'v) list \<Rightarrow> bool" where
  "ordered m \<longleftrightarrow> sorted_wrt (<) (map fst m)"

lemma ordered_Nil [simp]: "ordered []"
  by (simp add: ordered_def)

lemma ordered_snoc:
  "ordered (m @ [(k, v)]) \<longleftrightarrow> ordered m \<and> (\<forall>j \<in> fst ` set m. j < k)"
  by (auto simp: ordered_def sorted_wrt_append)

lemma ordered_Cons: "ordered ((j, w) # m) \<longleftrightarrow> (\<forall>k \<in> fst ` set m. j < k) \<and> ordered m"
  by (auto simp: ordered_def)

lemma keys_map_put [simp]: "fst ` set (map_put k v m) = insert k (fst ` set m)"
  by (induction k v m rule: map_put.induct) auto

lemma ordered_map_put: "ordered m \<Longrightarrow> ordered (map_put k v m)"
proof (induction k v m rule: map_put.induct)
  case (2 k v j w m)
  show ?case
  proof (cases "k = j \<or> k < j")
    case True
    with 2 show ?thesis by (auto simp: ordered_Cons intro: less_trans)
  next
    case False
    with 2 show ?thesis using keys_map_put [of k v m] by (auto simp: ordered_Cons)
  qed
qed (simp add: ordered_def)

lemma map_of_map_put: "ordered m \<Longrightarrow> map_of (map_put k v m) = (map_of m)(k \<mapsto> v)"
proof (induction k v m rule: map_put.induct)
  case (2 k v j w m)
  show ?case
  proof (cases "k = j \<or> k < j")
    case False
    with 2 show ?thesis by (auto simp: ordered_Cons fun_upd_twist)
  qed (auto simp: fun_eq_iff)
qed simp

lemma map_put_above: "\<forall>j \<in> fst ` set m. j < k \<Longrightarrow> map_put k v m = m @ [(k, v)]"
  by (induction k v m rule: map_put.induct) auto

lemma map_put_last: "\<forall>j \<in> fst ` set m. j < k \<Longrightarrow> map_put k v (m @ [(k, w)]) = m @ [(k, v)]"
  by (induction k v m rule: map_put.induct) auto

lemma map_of_above: "\<forall>j \<in> fst ` set m. j < (k :: 'k :: linorder) \<Longrightarrow> map_of m k = None"
  by (auto simp: map_of_eq_None_iff)

lemma map_val_last: "\<forall>j \<in> fst ` set m. j < (k :: 'k :: linorder) \<Longrightarrow> map_val d k (m @ [(k, v)]) = v"
  by (simp add: map_val_def map_add_Some_iff map_of_above map_add_def)

lemma map_sub_above: "\<forall>j \<in> fst ` set m. j < k \<Longrightarrow> map_sub d k m = m @ [(k, d)]"
  by (simp add: map_sub_def map_of_above map_put_above)

lemma ordered_map_sub: "ordered m \<Longrightarrow> ordered (map_sub d k m)"
  by (simp add: map_sub_def ordered_map_put split: option.splits)

lemma map_of_map_sub:
  "ordered m \<Longrightarrow> map_of (map_sub d k m) = (map_of m)(k \<mapsto> map_val d k m)"
  by (auto simp: map_sub_def map_val_def map_of_map_put fun_eq_iff split: option.splits)

section \<open>White space\<close>

text \<open>The characters of \<^verbatim>\<open>whitespaces()\<close> are those of \<^verbatim>\<open>isspace\<close>.\<close>

definition trim :: "string \<Rightarrow> string" where
  "trim str = dropWhile is_space (rev (dropWhile is_space (rev str)))"

abbreviation tab :: char where "tab \<equiv> CHR 0x09"

definition indents :: "char set" where
  "indents = {space, tab}"

definition trimmed :: "string \<Rightarrow> bool" where
  "trimmed s \<longleftrightarrow> s = [] \<or> \<not> is_space (hd s) \<and> \<not> is_space (last s)"

lemma dropWhile_hd: "\<not> P (hd s) \<Longrightarrow> dropWhile P s = s"
  by (cases s) auto

lemma dropWhile_rev_last: "\<not> P (last s) \<Longrightarrow> dropWhile P (rev s) = rev s"
  by (cases s rule: rev_cases) auto

lemma last_dropWhile: "dropWhile P s \<noteq> [] \<Longrightarrow> last (dropWhile P s) = last s"
  by (induction s) auto

lemma trim_trimmed [simp]: "trimmed s \<Longrightarrow> trim s = s"
  by (auto simp: trimmed_def trim_def dropWhile_rev_last dropWhile_hd)

lemma trimmed_trim: "trimmed (trim s)"
proof -
  let ?r = "rev (dropWhile is_space (rev s))"
  have last: "\<not> is_space (last ?r)" if "?r \<noteq> []"
    using that hd_dropWhile [of is_space "rev s"] by (simp add: last_rev)
  have "trim s = [] \<or> \<not> is_space (hd (trim s))"
    using hd_dropWhile [of is_space ?r] by (auto simp: trim_def)
  moreover have "last (trim s) = last ?r" if "trim s \<noteq> []"
    using that by (simp add: trim_def last_dropWhile)
  moreover have "?r \<noteq> []" if "trim s \<noteq> []" using that by (metis dropWhile.simps(1) trim_def)
  ultimately show ?thesis using last unfolding trimmed_def by metis
qed

lemma trim_idem [simp]: "trim (trim s) = trim s"
  by (simp add: trimmed_trim)

lemma trim_space_Cons [simp]: "is_space c \<Longrightarrow> trimmed s \<Longrightarrow> trim (c # s) = s"
  by (cases "s = []")
    (auto simp: trimmed_def trim_def dropWhile_rev_last [of _ "c # s", simplified] dropWhile_hd)

section \<open>Numbers in the syntax of strtol and strtoul\<close>

definition base_digit :: "char \<Rightarrow> nat option" where
  "base_digit c = (let n = of_char c :: nat in
     if is_digit c then Some (digit_val c)
     else if 97 \<le> n \<and> n \<le> 122 then Some (n - 87)
     else if 65 \<le> n \<and> n \<le> 90 then Some (n - 55) else None)"

definition in_base :: "nat \<Rightarrow> char \<Rightarrow> bool" where
  "in_base b c = (case base_digit c of None \<Rightarrow> False | Some d \<Rightarrow> d < b)"

definition base_value :: "nat \<Rightarrow> string \<Rightarrow> nat" where
  "base_value b ds = foldl (\<lambda>n c. b * n + the (base_digit c)) 0 ds"

text \<open>In base 16 a prefix \<^verbatim>\<open>0x\<close> is part of the number when a hexadecimal digit follows.\<close>

definition strip_0x :: "nat \<Rightarrow> string \<Rightarrow> string" where
  "strip_0x b s = (case s of
       z # x # d # r \<Rightarrow>
         if b = 16 \<and> z = CHR ''0'' \<and> x \<in> {CHR ''x'', CHR ''X''} \<and> in_base 16 d then d # r else s
     | _ \<Rightarrow> s)"

text \<open>
  The common scan: magnitude, sign, and the characters from \<^verbatim>\<open>endptr\<close> on. Without a digit the
  magnitude is zero and \<^verbatim>\<open>endptr\<close> is the start of the string.
\<close>

definition strto :: "nat \<Rightarrow> string \<Rightarrow> nat \<times> bool \<times> string" where
  "strto b s =
     (let (neg, t) = split_sign (dropWhile is_space s);
          u = strip_0x b t; ds = takeWhile (in_base b) u
      in if ds = [] then (0, False, s) else (base_value b ds, neg, dropWhile (in_base b) u))"

definition strtol :: "nat \<Rightarrow> string \<Rightarrow> int \<times> string" where
  "strtol b s =
     (let (n, neg, r) = strto b s
      in (max (- (2 ^ 63)) (min (2 ^ 63 - 1) (if neg then - int n else int n)), r))"

definition strtoul :: "nat \<Rightarrow> string \<Rightarrow> nat \<times> string" where
  "strtoul b s =
     (let (n, neg, r) = strto b s
      in (if 2 ^ 64 \<le> n then 2 ^ 64 - 1 else if neg then (2 ^ 64 - n) mod 2 ^ 64 else n, r))"

definition strToLong :: "string \<Rightarrow> int option" where
  "strToLong value =
     (let s = c_str value; (d, r10) = strtol 10 s; (q, r8) = strtol 8 s; (h, r16) = strtol 16 s
      in if r10 = [] then Some d else if r8 = [] then Some q else if r16 = [] then Some h else None)"

definition strToULong :: "string \<Rightarrow> nat option" where
  "strToULong value =
     (let s = c_str value; (d, r10) = strtoul 10 s; (q, r8) = strtoul 8 s; (h, r16) = strtoul 16 s
      in if r10 = [] then Some d else if r8 = [] then Some q else if r16 = [] then Some h else None)"

section \<open>Conversion of field values\<close>

definition toupper :: "char \<Rightarrow> char" where
  "toupper c = (if 97 \<le> (of_char c :: nat) \<and> (of_char c :: nat) \<le> 122
                then char_of ((of_char c :: nat) - 32) else c)"

text \<open>
  \<^verbatim>\<open>::toupper\<close> is given the value of a signed \<^verbatim>\<open>char\<close>: it is undefined on a negative one,
  \<^verbatim>\<open>EOF\<close> apart.
\<close>

definition decode_bool :: "string \<Rightarrow> bool result" where
  "decode_bool value =
     (let str = map toupper value
      in if list_ex (\<lambda>c. 128 \<le> (of_char c :: nat) \<and> (of_char c :: nat) < 255) value then Inl UB
         else if str = ''TRUE'' then Inr True
         else if str = ''FALSE'' then Inr False
         else Inl (Exn Invalid_argument ''field is not a bool''))"

definition encode_bool :: "bool \<Rightarrow> string" where
  "encode_bool value = (if value then ''true'' else ''false'')"

definition decode_char :: "string \<Rightarrow> char result" where
  "decode_char value = (case value of [] \<Rightarrow> Inl Abort | c # _ \<Rightarrow> Inr c)"

definition encode_char :: "char \<Rightarrow> string" where
  "encode_char value = [value]"

definition decode_short :: "string \<Rightarrow> 16 word result" where
  "decode_short value = (case strToLong value of
       None \<Rightarrow> Inl (Exn Invalid_argument ''field is not a short'')
     | Some tmp \<Rightarrow> Inr (word_of_int tmp))"

definition decode_ushort :: "string \<Rightarrow> 16 word result" where
  "decode_ushort value = (case strToULong value of
       None \<Rightarrow> Inl (Exn Invalid_argument ''field is not an unsigned short'')
     | Some tmp \<Rightarrow> Inr (of_nat tmp))"

definition decode_int :: "string \<Rightarrow> 32 word result" where
  "decode_int value = (case strToLong value of
       None \<Rightarrow> Inl (Exn Invalid_argument ''field is not an int'')
     | Some tmp \<Rightarrow> Inr (word_of_int tmp))"

definition decode_uint :: "string \<Rightarrow> 32 word result" where
  "decode_uint value = (case strToULong value of
       None \<Rightarrow> Inl (Exn Invalid_argument ''field is not an unsigned int'')
     | Some tmp \<Rightarrow> Inr (of_nat tmp))"

definition decode_long :: "string \<Rightarrow> 64 word result" where
  "decode_long value = (case strToLong value of
       None \<Rightarrow> Inl (Exn Invalid_argument ''field is not a long'')
     | Some tmp \<Rightarrow> Inr (word_of_int tmp))"

definition decode_ulong :: "string \<Rightarrow> 64 word result" where
  "decode_ulong value = (case strToULong value of
       None \<Rightarrow> Inl (Exn Invalid_argument ''field is not an unsigned long'')
     | Some tmp \<Rightarrow> Inr (of_nat tmp))"

definition decode_string :: "string \<Rightarrow> string result" where
  "decode_string value = Inr value"

definition encode_string :: "string \<Rightarrow> string" where
  "encode_string value = value"

text \<open>\<^verbatim>\<open>ss << value\<close> for a signed and for an unsigned integer.\<close>

definition print_signed :: "int \<Rightarrow> string" where
  "print_signed n = (if n < 0 then CHR ''-'' # to_string (nat (- n)) else to_string (nat n))"

definition encode_short :: "16 word \<Rightarrow> string" where
  "encode_short value = print_signed (sint value)"

definition encode_ushort :: "16 word \<Rightarrow> string" where
  "encode_ushort value = to_string (unat value)"

definition encode_int :: "32 word \<Rightarrow> string" where
  "encode_int value = print_signed (sint value)"

definition encode_uint :: "32 word \<Rightarrow> string" where
  "encode_uint value = to_string (unat value)"

definition encode_long :: "64 word \<Rightarrow> string" where
  "encode_long value = print_signed (sint value)"

definition encode_ulong :: "64 word \<Rightarrow> string" where
  "encode_ulong value = to_string (unat value)"

section \<open>The file object\<close>

text \<open>
  A field is its text (\<^verbatim>\<open>value_\<close>); a section maps field names to fields and a file maps section
  names to sections. Beside the map a file object keeps its syntax settings.
\<close>

type_synonym IniField = string

type_synonym IniSection = "(string \<times> IniField) list"

record IniFile =
  sections :: "(string \<times> IniSection) list"
  fieldSep :: char
  esc_char :: char
  commentPrefixes :: "string list"
  multiLineValues :: bool

definition default_IniFile :: IniFile where
  "default_IniFile =
     \<lparr>sections = [], fieldSep = CHR ''='', esc_char = CHR 0x5C, commentPrefixes = [''#'', '';''],
      multiLineValues = False\<rparr>"

definition setFieldSep :: "char \<Rightarrow> IniFile \<Rightarrow> IniFile" where
  "setFieldSep sep f = f\<lparr>fieldSep := sep\<rparr>"

definition setCommentChar :: "char \<Rightarrow> IniFile \<Rightarrow> IniFile" where
  "setCommentChar comment f = f\<lparr>commentPrefixes := [[comment]]\<rparr>"

definition setCommentPrefixes :: "string list \<Rightarrow> IniFile \<Rightarrow> IniFile" where
  "setCommentPrefixes prefixes f = f\<lparr>commentPrefixes := prefixes\<rparr>"

definition setEscapeChar :: "char \<Rightarrow> IniFile \<Rightarrow> IniFile" where
  "setEscapeChar esc f = f\<lparr>esc_char := esc\<rparr>"

definition setMultiLineValues :: "bool \<Rightarrow> IniFile \<Rightarrow> IniFile" where
  "setMultiLineValues enable f = f\<lparr>multiLineValues := enable\<rparr>"

text \<open>\<^verbatim>\<open>file[section][key]\<close> as a place: both subscripts insert what is missing.\<close>

definition ini_touch :: "string \<Rightarrow> string \<Rightarrow> IniFile \<Rightarrow> IniFile" where
  "ini_touch sec key f =
     f\<lparr>sections := map_put sec (map_sub [] key (map_val [] sec (sections f))) (sections f)\<rparr>"

definition ini_field :: "string \<Rightarrow> string \<Rightarrow> IniFile \<Rightarrow> IniField" where
  "ini_field sec key f = map_val [] key (map_val [] sec (sections f))"

definition ini_assign :: "string \<Rightarrow> string \<Rightarrow> IniField \<Rightarrow> IniFile \<Rightarrow> IniFile" where
  "ini_assign sec key value f =
     f\<lparr>sections := map_put sec (map_put key value (map_val [] sec (sections f))) (sections f)\<rparr>"

section \<open>Comments\<close>

function eraseComment :: "char \<Rightarrow> string \<Rightarrow> string \<Rightarrow> nat \<Rightarrow> string" where
  "eraseComment esc commentPrefix str startpos =
     (case find_from commentPrefix str startpos of
        None \<Rightarrow> str
      | Some prefixpos \<Rightarrow>
          if prefixpos \<noteq> 0 \<and> str ! (prefixpos - 1) = esc
          then eraseComment esc commentPrefix (take (prefixpos - 1) str @ drop prefixpos str)
                 (prefixpos - 1 + length commentPrefix)
          else take prefixpos str)"
  by pat_completeness auto
termination
  by (relation "measure (\<lambda>(esc, p, str, n). length str)") (auto dest: find_from_bound)

declare eraseComment.simps [simp del]

definition eraseComments :: "IniFile \<Rightarrow> string \<Rightarrow> string" where
  "eraseComments f str = foldl (\<lambda>s p. eraseComment (esc_char f) p s 0) str (commentPrefixes f)"

text \<open>
  \<^verbatim>\<open>findCommentPrefix\<close> at a position looks at the text from there on: the first comment
  prefix that starts it.
\<close>

definition findCommentPrefix :: "IniFile \<Rightarrow> string \<Rightarrow> string option" where
  "findCommentPrefix f str =
     (if str = [] then None else find (\<lambda>p. take (length p) str = p) (commentPrefixes f))"

text \<open>
  \<^verbatim>\<open>writeEscaped\<close>, from the position of its loop on. With an empty comment prefix the loop
  index stays where it is and the loop does not end.
\<close>

partial_function (option) writeEscaped :: "IniFile \<Rightarrow> string \<Rightarrow> string option" where
  "writeEscaped f str = (case str of
       [] \<Rightarrow> Some []
     | c # cs \<Rightarrow>
         (case findCommentPrefix f str of
            Some prefix \<Rightarrow>
              Option.bind (writeEscaped f (drop (length prefix) str)) (\<lambda>r. Some (esc_char f # prefix @ r))
          | None \<Rightarrow>
              Option.bind (writeEscaped f cs)
                (\<lambda>r. Some ((if multiLineValues f \<and> c = newline then [newline, tab] else [c]) @ r))))"

section \<open>Reading a file\<close>

text \<open>
  The variables of the parsing loop; \<^verbatim>\<open>currentSection\<close> points into the map, which is the name
  of the section.
\<close>

record ini_cursor =
  cur_sections :: "(string \<times> IniSection) list"
  lineNo :: nat
  currentSection :: "string option"
  mutliLineValueFieldName :: string

definition ini_error :: "ini_cursor \<Rightarrow> string \<Rightarrow> cpp_error" where
  "ini_error cur message =
     Exn Logic_error (''l.'' @ to_string (lineNo cur) @ '': ini parsing failed, '' @ message)"

definition decode_section_line :: "string \<Rightarrow> ini_cursor \<Rightarrow> ini_cursor result" where
  "decode_section_line line cur = (case find_sub '']'' line of
       None \<Rightarrow> Inl (ini_error cur ''section not closed'')
     | Some pos \<Rightarrow>
         if pos = 1 then Inl (ini_error cur ''section is empty'')
         else let secName = take (pos - 1) (drop 1 line)
              in Inr (cur\<lparr>cur_sections := map_sub [] secName (cur_sections cur),
                          currentSection := Some secName, mutliLineValueFieldName := []\<rparr>))"

definition put_field :: "string \<Rightarrow> string \<Rightarrow> string \<Rightarrow> ini_cursor \<Rightarrow> ini_cursor" where
  "put_field sec name value cur =
     cur\<lparr>cur_sections :=
       map_put sec (map_put name value (map_val [] sec (cur_sections cur))) (cur_sections cur)\<rparr>"

definition decode_field_line :: "IniFile \<Rightarrow> bool \<Rightarrow> string \<Rightarrow> ini_cursor \<Rightarrow> ini_cursor result" where
  "decode_field_line f hasIndent line cur = (case currentSection cur of
       None \<Rightarrow> Inl (ini_error cur ''field has no section'')
     | Some sec \<Rightarrow>
         if multiLineValues f \<and> hasIndent \<and> mutliLineValueFieldName cur \<noteq> []
         then let name = mutliLineValueFieldName cur;
                  previous_value = map_val [] name (map_val [] sec (cur_sections cur))
              in Inr (put_field sec name (previous_value @ newline # line) cur)
         else case find_sub [fieldSep f] line of
           None \<Rightarrow> Inl (ini_error cur (''no '' @ [CHR 0x27, fieldSep f, CHR 0x27] @ '' found'' @
                     (if multiLineValues f then '', and not a multi-line value continuation'' else [])))
         | Some pos \<Rightarrow>
             let name = trim (take pos line); value = trim (drop (pos + 1) line)
             in Inr ((put_field sec name value cur)\<lparr>mutliLineValueFieldName := name\<rparr>))"

definition has_indent :: "string \<Rightarrow> bool" where
  "has_indent line = (case line of [] \<Rightarrow> True | c # _ \<Rightarrow> c \<in> indents)"

definition decode_line :: "IniFile \<Rightarrow> string \<Rightarrow> ini_cursor \<Rightarrow> ini_cursor result" where
  "decode_line f raw cur =
     (let uncommented = eraseComments f raw; hasIndent = has_indent uncommented;
          line = trim uncommented; cur = cur\<lparr>lineNo := lineNo cur + 1\<rparr>
      in if line = [] then Inr cur
         else if hd line = CHR ''['' then decode_section_line line cur
         else decode_field_line f hasIndent line cur)"

function decode_loop :: "IniFile \<Rightarrow> istream \<Rightarrow> ini_cursor \<Rightarrow> ini_cursor result" where
  "decode_loop f st cur =
     (if \<not> good st then Inr cur
      else let (line, st', _) = getline_into newline st []
           in bindR (decode_line f line cur) (decode_loop f st'))"
  by pat_completeness auto
termination
  by (relation "measure (\<lambda>(f, st, cur). if good st then Suc (length (rest st)) else 0)")
    (auto simp: getline_into_def Let_def simp del: length_tl intro!: dropWhile_neq_length split: if_splits)

declare decode_loop.simps [simp del]

definition initial_cursor :: ini_cursor where
  "initial_cursor =
     \<lparr>cur_sections = [], lineNo = 0, currentSection = None, mutliLineValueFieldName = []\<rparr>"

definition IniFile_decode :: "istream \<Rightarrow> IniFile \<Rightarrow> IniFile result" where
  "IniFile_decode st f =
     bindR (decode_loop f st initial_cursor) (\<lambda>cur. Inr (f\<lparr>sections := cur_sections cur\<rparr>))"

definition decode_content :: "string \<Rightarrow> IniFile \<Rightarrow> IniFile result" where
  "decode_content content f = IniFile_decode (open_string content) f"

text \<open>\<^verbatim>\<open>load\<close>: a file that cannot be opened is a stream in the failed state.\<close>

definition IniFile_load :: "string option \<Rightarrow> IniFile \<Rightarrow> IniFile result" where
  "IniFile_load contents f =
     IniFile_decode (case contents of None \<Rightarrow> \<lparr>rest = [], good = False\<rparr> | Some s \<Rightarrow> open_string s) f"

section \<open>Writing a file\<close>

definition encode_field :: "IniFile \<Rightarrow> string \<times> IniField \<Rightarrow> string option" where
  "encode_field f = (\<lambda>(name, value).
     Option.bind (writeEscaped f name) (\<lambda>n.
     Option.bind (writeEscaped f value) (\<lambda>v. Some (n @ [fieldSep f] @ v @ [newline]))))"

definition encode_section :: "IniFile \<Rightarrow> string \<times> IniSection \<Rightarrow> string option" where
  "encode_section f = (\<lambda>(name, fields).
     Option.bind (writeEscaped f name) (\<lambda>n.
     Option.bind (those (map (encode_field f) fields)) (\<lambda>fs.
       Some (''['' @ n @ '']'' @ [newline] @ concat fs))))"

definition IniFile_encode :: "IniFile \<Rightarrow> string option" where
  "IniFile_encode f = map_option concat (those (map (encode_section f) (sections f)))"

end
