(* ===== verification/Ini_Round_Trip.thy ===== *)
theory Ini_Round_Trip
  imports Ini_File
begin

text \<open>
  What the text of an INI file object decodes to. The parsing loop is a fold over the lines of
  the stream; comment removal inverts the escapes of the writer; hence every line the writer
  produces has the effect of the section, field or continuation it stands for, and a
  well-formed object is read back from its own text. The last part relates the conversions of
  field values: each integer conversion reads back what it printed, and the octal attempt of
  \<^verbatim>\<open>strToLong\<close> never decides.
\<close>

section \<open>The parsing loop\<close>

lemma getline_into_pieces:
  "getline_into newline (open_string s) [] =
     (hd (pieces newline s),
      if newline \<in> set s then open_string (joined newline (tl (pieces newline s)))
      else \<lparr>rest = [], good = False\<rparr>, s \<noteq> [])"
proof (cases "newline \<in> set s")
  case True
  then obtain a b where s: "s = a @ newline # b" and a: "newline \<notin> set a" by (meson split_list_first)
  show ?thesis unfolding s using a by (simp add: getline_into_def open_string_def)
next
  case False
  then show ?thesis by (simp add: getline_into_def open_string_def)
qed

lemma good_open_string [simp]: "good (open_string s)"
  by (simp add: open_string_def)

lemma decode_loop_lines:
  "decode_loop f (open_string s) cur = foldR (decode_line f) (pieces newline s) cur"
proof (induction s arbitrary: cur rule: length_induct)
  case (1 s)
  show ?case
  proof (cases "newline \<in> set s")
    case True
    then obtain a b where s: "s = a @ newline # b" and a: "newline \<notin> set a" by (meson split_list_first)
    have "bindR m (decode_loop f (open_string b)) = bindR m (foldR (decode_line f) (pieces newline b))"
      for m using "1.IH" s by (cases m) auto
    with a show ?thesis
      unfolding s by (simp add: decode_loop.simps [of f "open_string (a @ newline # b)"] getline_into_pieces)
  next
    case False
    have "decode_loop f \<lparr>rest = [], good = False\<rparr> = Inr" by (simp add: decode_loop.simps fun_eq_iff)
    moreover have "foldR (decode_line f) [] = Inr" by (simp add: fun_eq_iff)
    ultimately show ?thesis using False
      by (simp add: decode_loop.simps [of f "open_string s"] getline_into_pieces)
  qed
qed

lemma decode_content_lines:
  "decode_content s f = bindR (foldR (decode_line f) (pieces newline s) initial_cursor)
     (\<lambda>cur. Inr (f\<lparr>sections := cur_sections cur\<rparr>))"
  by (simp add: decode_content_def IniFile_decode_def decode_loop_lines)

section \<open>Escapes\<close>

definition escaped :: "char set \<Rightarrow> char \<Rightarrow> string \<Rightarrow> string" where
  "escaped C e s = concat (map (\<lambda>x. if x \<in> C then [e, x] else [x]) s)"

lemma escaped_simps [simp]:
  "escaped C e [] = []"
  "escaped C e (x # s) = (if x \<in> C then e # x # escaped C e s else x # escaped C e s)"
  "escaped C e (s @ t) = escaped C e s @ escaped C e t"
  by (simp_all add: escaped_def)

lemma escaped_none: "set s \<inter> C = {} \<Longrightarrow> escaped C e s = s"
  by (induction s) auto

lemma set_escaped: "set (escaped C e s) \<subseteq> insert e (set s)"
  by (induction s) auto

lemma escaped_insert:
  "c \<notin> C \<Longrightarrow> c \<noteq> e \<Longrightarrow> escaped (insert c C) e s = escaped {c} e (escaped C e s)"
  by (induction s) auto

lemma eraseComment_escaped:
  assumes "c \<noteq> e"
  shows "eraseComment e [c] (a @ escaped {c} e s) (length a) = a @ s"
proof (induction s arbitrary: a rule: length_induct)
  case (1 s)
  show ?case
  proof (cases "c \<in> set s")
    case False
    then show ?thesis by (simp add: eraseComment.simps find_from_def escaped_none)
  next
    case True
    then obtain xs ys where s: "s = xs @ c # ys" and xs: "c \<notin> set xs" by (meson split_list_first)
    have esc: "escaped {c} e s = xs @ e # c # escaped {c} e ys"
      using xs by (simp add: s escaped_none)
    have "find_from [c] (a @ escaped {c} e s) (length a) = Some (length a + length xs + 1)"
      using find_sub_char [of c "xs @ [e]"] xs assms by (simp add: find_from_def esc)
    then have "eraseComment e [c] (a @ escaped {c} e s) (length a)
        = eraseComment e [c] ((a @ xs @ [c]) @ escaped {c} e ys) (length (a @ xs @ [c]))"
      by (subst eraseComment.simps) (simp add: esc nth_append)
    also have "\<dots> = (a @ xs @ [c]) @ ys" 
      using "1.IH" [rule_format, of ys "a @ xs @ [c]"] s by simp
    finally show ?thesis by (simp add: s)
  qed
qed

lemma erase_all_escaped:
  assumes "distinct cs" "e \<notin> set cs"
  shows "foldl (\<lambda>s p. eraseComment e p s 0) (escaped (set cs) e s) (map (\<lambda>c. [c]) cs) = s"
  using assms
proof (induction cs)
  case Nil
  then show ?case by (simp add: escaped_none)
next
  case (Cons c cs)
  have "eraseComment e [c] (escaped (set (c # cs)) e s) 0 = escaped (set cs) e s"
    using Cons.prems eraseComment_escaped [of c e "[]" "escaped (set cs) e s"]
      escaped_insert [of c "set cs" e s] by auto
  with Cons show ?case by simp
qed

text \<open>
  A syntax the writer and the parser agree on: the comment prefixes are distinct single
  characters, none of them a character the format itself uses, and multi-line values are on.
\<close>

definition plain_syntax :: "IniFile \<Rightarrow> bool" where
  "plain_syntax f \<longleftrightarrow>
     multiLineValues f \<and> distinct (commentPrefixes f) \<and>
     list_all (\<lambda>p. length p = 1 \<and>
       hd p \<notin> {esc_char f, fieldSep f, newline, tab, CHR ''['', CHR '']''}) (commentPrefixes f) \<and>
     \<not> is_space (fieldSep f) \<and> esc_char f \<noteq> newline"

definition comment_chars :: "IniFile \<Rightarrow> char set" where
  "comment_chars f = set (map hd (commentPrefixes f))"

abbreviation escape :: "IniFile \<Rightarrow> string \<Rightarrow> string" where
  "escape f \<equiv> escaped (comment_chars f) (esc_char f)"

lemma plain_prefixes:
  assumes "plain_syntax f"
  obtains cs where "commentPrefixes f = map (\<lambda>c. [c]) cs" "distinct cs" "comment_chars f = set cs"
    "set cs \<inter> {esc_char f, fieldSep f, newline, tab, CHR ''['', CHR '']''} = {}"
proof -
  let ?cs = "map hd (commentPrefixes f)"
  have one: "p = [hd p]" if "p \<in> set (commentPrefixes f)" for p
  proof -
    have "length p = 1" using that assms by (auto simp: plain_syntax_def list_all_iff)
    then show ?thesis by (cases p) auto
  qed
  then have eq: "commentPrefixes f = map (\<lambda>c. [c]) ?cs" by (simp add: map_idI comp_def)
  moreover have "distinct ?cs"
    using assms eq by (metis distinct_map plain_syntax_def)
  moreover have "set ?cs \<inter> {esc_char f, fieldSep f, newline, tab, CHR ''['', CHR '']''} = {}"
    using assms by (auto simp: plain_syntax_def list_all_iff)
  ultimately show thesis by (intro that [of ?cs]) (simp_all add: comment_chars_def)
qed

lemma comment_chars_plain:
  assumes "plain_syntax f"
  shows "fieldSep f \<notin> comment_chars f" "tab \<notin> comment_chars f" "newline \<notin> comment_chars f"
    "CHR ''['' \<notin> comment_chars f" "CHR '']'' \<notin> comment_chars f"
  using assms by (auto elim!: plain_prefixes)

lemma eraseComments_escape: "plain_syntax f \<Longrightarrow> eraseComments f (escape f s) = s"
  by (erule plain_prefixes) (use erase_all_escaped in \<open>auto simp: eraseComments_def\<close>)

lemma find_single:
  "find (\<lambda>p. take (length p) (c # s) = p) (map (\<lambda>c. [c]) cs) = (if c \<in> set cs then Some [c] else None)"
  by (induction cs) auto

text \<open>The writer's loop ends, and writes escapes and indented continuation lines.\<close>

definition written :: "IniFile \<Rightarrow> string \<Rightarrow> string" where
  "written f s = concat (map (\<lambda>c. if c = newline then [newline, tab] else escape f [c]) s)"

lemma written_append: "written f (s @ t) = written f s @ written f t"
  by (simp add: written_def)

lemma written_newline: "written f (newline # s) = newline # tab # written f s"
  by (simp add: written_def)

lemma written_line: "newline \<notin> set s \<Longrightarrow> written f s = escape f s"
  by (induction s) (auto simp: written_def)

lemma writeEscaped_written:
  assumes "plain_syntax f"
  shows "writeEscaped f s = Some (written f s)"
proof (induction s)
  case (Cons c s)
  obtain cs where cs: "commentPrefixes f = map (\<lambda>c. [c]) cs" "comment_chars f = set cs" "newline \<notin> set cs"
    using assms by (rule plain_prefixes) auto
  with Cons assms show ?case
    by (simp add: writeEscaped.simps [of f "c # s"] findCommentPrefix_def find_single written_def
        plain_syntax_def)
qed (simp add: writeEscaped.simps written_def)

section \<open>The lines of an encoded file\<close>

definition section_name_ok :: "string \<Rightarrow> bool" where
  "section_name_ok n \<longleftrightarrow> n \<noteq> [] \<and> newline \<notin> set n \<and> CHR '']'' \<notin> set n"

definition field_name_ok :: "IniFile \<Rightarrow> string \<Rightarrow> bool" where
  "field_name_ok f k \<longleftrightarrow>
     k \<noteq> [] \<and> trimmed k \<and> hd k \<noteq> CHR ''['' \<and> newline \<notin> set k \<and> fieldSep f \<notin> set k"

text \<open>
  A value is a first line, possibly empty, and continuation lines that are neither blank nor
  look like a section.
\<close>

definition continuation_ok :: "string \<Rightarrow> bool" where
  "continuation_ok l \<longleftrightarrow> trimmed l \<and> l \<noteq> [] \<and> hd l \<noteq> CHR ''[''"

definition value_ok :: "string \<Rightarrow> bool" where
  "value_ok v \<longleftrightarrow> trimmed (hd (pieces newline v)) \<and> list_all continuation_ok (tl (pieces newline v))"

definition section_ok :: "IniFile \<Rightarrow> string \<times> IniSection \<Rightarrow> bool" where
  "section_ok f = (\<lambda>(n, fs). section_name_ok n \<and> ordered fs \<and>
     list_all (\<lambda>(k, v). field_name_ok f k \<and> value_ok v) fs)"

definition wf_IniFile :: "IniFile \<Rightarrow> bool" where
  "wf_IniFile f \<longleftrightarrow> plain_syntax f \<and> ordered (sections f) \<and> list_all (section_ok f) (sections f)"

definition field_lines :: "IniFile \<Rightarrow> string \<times> IniField \<Rightarrow> string list" where
  "field_lines f = (\<lambda>(k, v). escape f (k @ fieldSep f # hd (pieces newline v))
     # map (\<lambda>l. escape f (tab # l)) (tl (pieces newline v)))"

definition section_lines :: "IniFile \<Rightarrow> string \<times> IniSection \<Rightarrow> string list" where
  "section_lines f = (\<lambda>(n, fs). escape f (''['' @ n @ '']'') # concat (map (field_lines f) fs))"

abbreviation as_lines :: "string list \<Rightarrow> string" where
  "as_lines ls \<equiv> concat (map (\<lambda>l. l @ [newline]) ls)"

lemma joined_concat: "joined d (l # ls) = l @ concat (map (\<lambda>l. d # l) ls)"
  by (induction ls arbitrary: l) (auto simp: joined_Cons)

lemma written_lines:
  assumes "plain_syntax f" "newline \<notin> set l" "\<And>l. l \<in> set ls \<Longrightarrow> newline \<notin> set l"
  shows "written f (l @ concat (map (\<lambda>l. newline # l) ls)) @ [newline] =
     as_lines (escape f l # map (\<lambda>l. escape f (tab # l)) ls)"
  using assms(2,3)
proof (induction ls arbitrary: l)
  case Nil
  then show ?case by (simp add: written_line)
next
  case (Cons m ls)
  from Cons.IH [of m] Cons.prems show ?case
    by (simp add: written_append written_newline written_line comment_chars_plain [OF assms(1)])
qed

lemma written_value:
  assumes "plain_syntax f"
  shows "written f v @ [newline] =
     as_lines (escape f (hd (pieces newline v)) # map (\<lambda>l. escape f (tab # l)) (tl (pieces newline v)))"
proof -
  obtain l ls where p: "pieces newline v = l # ls" by (rule pieces_Cons_cases)
  then have v: "v = l @ concat (map (\<lambda>l. newline # l) ls)"
    using joined_pieces [of newline v] by (simp add: joined_concat)
  have free: "newline \<notin> set m" if "m \<in> set (l # ls)" for m
    using that pieces_delim_free [of m newline v] p by simp
  show ?thesis
    unfolding p list.sel by (subst v) (rule written_lines [OF assms], auto simp: free)
qed

lemma encode_field_lines:
  assumes "plain_syntax f" "newline \<notin> set k"
  shows "encode_field f (k, v) = Some (as_lines (field_lines f (k, v)))"
proof -
  show ?thesis
    using written_value [OF assms(1), of v] assms comment_chars_plain [OF assms(1)]
    by (simp add: encode_field_def writeEscaped_written written_line field_lines_def)
qed

lemma those_map_Some: "(\<And>x. x \<in> set xs \<Longrightarrow> g x = Some (h x)) \<Longrightarrow> those (map g xs) = Some (map h xs)"
  by (induction xs) auto

lemma encode_section_lines:
  assumes "plain_syntax f" "section_ok f (n, fs)"
  shows "encode_section f (n, fs) = Some (as_lines (section_lines f (n, fs)))"
proof -
  have br: "escape f (''['' @ n @ '']'') = ''['' @ escape f n @ '']''"
    by (simp add: comment_chars_plain [OF assms(1)])
  have "those (map (encode_field f) fs) = Some (map (\<lambda>kv. as_lines (field_lines f kv)) fs)"
    using assms by (intro those_map_Some) (auto simp: section_ok_def field_name_ok_def list_all_iff
        encode_field_lines)
  moreover have "concat (map (\<lambda>kv. as_lines (field_lines f kv)) fs) = as_lines (concat (map (field_lines f) fs))"
    by (induction fs) auto
  ultimately show ?thesis
    using assms br by (simp add: encode_section_def section_lines_def writeEscaped_written written_line
        section_ok_def section_name_ok_def)
qed

lemma encode_lines:
  assumes "wf_IniFile f"
  shows "IniFile_encode f = Some (as_lines (concat (map (section_lines f) (sections f))))"
proof -
  have "those (map (encode_section f) (sections f)) = Some (map (\<lambda>s. as_lines (section_lines f s)) (sections f))"
    using assms by (intro those_map_Some) (auto simp: wf_IniFile_def list_all_iff encode_section_lines)
  moreover have "concat (map (\<lambda>s. as_lines (section_lines f s)) ss) = as_lines (concat (map (section_lines f) ss))" for ss
    by (induction ss) auto
  ultimately show ?thesis by (simp add: IniFile_encode_def)
qed

section \<open>Decoding the lines\<close>

lemma decode_section_step:
  assumes "plain_syntax f" "section_name_ok n"
  shows "decode_line f (escape f (''['' @ n @ '']'')) cur =
     Inr (cur\<lparr>lineNo := lineNo cur + 1, cur_sections := map_sub [] n (cur_sections cur),
              currentSection := Some n, mutliLineValueFieldName := []\<rparr>)"
proof -
  have "trimmed (CHR ''['' # n @ '']'')" by (simp add: trimmed_def is_space_def)
  moreover have "find_sub '']'' (CHR ''['' # n @ '']'') = Some (length n + 1)"
    using assms(2) find_sub_char [of "CHR '']''" "CHR ''['' # n" "[]"] by (simp add: section_name_ok_def)
  ultimately show ?thesis
    using assms eraseComments_escape [of f "''['' @ n @ '']''"]
    by (simp add: decode_line_def decode_section_line_def section_name_ok_def)
qed

definition cursor_at :: "(string \<times> IniSection) list \<Rightarrow> string \<Rightarrow> IniSection \<Rightarrow> string \<Rightarrow> nat \<Rightarrow> ini_cursor" where
  "cursor_at pre sec fs name n =
     \<lparr>cur_sections = pre @ [(sec, fs)], lineNo = n, currentSection = Some sec,
      mutliLineValueFieldName = name\<rparr>"

lemma put_field_cursor:
  "\<forall>j \<in> fst ` set pre. j < sec \<Longrightarrow>
     put_field sec k v (cursor_at pre sec fs name n) = cursor_at pre sec (map_put k v fs) name n"
  by (simp add: put_field_def cursor_at_def map_val_last map_put_last)

lemma decode_field_step:
  assumes f: "plain_syntax f" and k: "field_name_ok f k" and l: "trimmed l"
    and pre: "\<forall>j \<in> fst ` set pre. j < sec"
  shows "decode_line f (escape f (k @ fieldSep f # l)) (cursor_at pre sec fs name n) =
     Inr (cursor_at pre sec (map_put k l fs) k (n + 1))"
proof -
  let ?line = "k @ fieldSep f # l"
  have "\<not> is_space (fieldSep f)" using f by (simp add: plain_syntax_def)
  moreover from k have k': "k \<noteq> []" "\<not> is_space (hd k)" "hd k \<noteq> CHR ''[''" "fieldSep f \<notin> set k" "trimmed k"
    by (auto simp: field_name_ok_def trimmed_def)
  ultimately have "trimmed ?line" using l by (auto simp: trimmed_def)
  moreover have "\<not> has_indent ?line"
    using k' by (cases k) (auto simp: has_indent_def indents_def is_space_def)
  ultimately show ?thesis
    using k' l eraseComments_escape [OF f, of ?line] put_field_cursor [OF pre, of k l fs name "n + 1"]
    by (simp add: decode_line_def decode_field_line_def cursor_at_def)
qed

lemma decode_continuation_step:
  assumes f: "plain_syntax f" and l: "continuation_ok l" and "k \<noteq> []"
    and pre: "\<forall>j \<in> fst ` set pre. j < sec" and fs: "\<forall>j \<in> fst ` set fs. j < k"
  shows "decode_line f (escape f (tab # l)) (cursor_at pre sec (fs @ [(k, v)]) k n) =
     Inr (cursor_at pre sec (fs @ [(k, v @ newline # l)]) k (n + 1))"
proof -
  have "trim (tab # l) = l" "has_indent (tab # l)"
    using l by (auto simp: continuation_ok_def is_space_def has_indent_def indents_def)
  moreover have "multiLineValues f" using f by (simp add: plain_syntax_def)
  ultimately show ?thesis
    using l fs \<open>k \<noteq> []\<close> eraseComments_escape [OF f, of "tab # l"]
      put_field_cursor [OF pre, of k "v @ newline # l" "fs @ [(k, v)]" k "n + 1"]
    by (simp add: decode_line_def decode_field_line_def cursor_at_def continuation_ok_def
        map_val_last pre map_put_last)
qed

lemma decode_continuations:
  assumes f: "plain_syntax f" and "list_all continuation_ok ls" and k: "k \<noteq> []"
    and pre: "\<forall>j \<in> fst ` set pre. j < sec" and fs: "\<forall>j \<in> fst ` set fs. j < k"
  shows "foldR (decode_line f) (map (\<lambda>l. escape f (tab # l)) ls) (cursor_at pre sec (fs @ [(k, v)]) k n) =
     Inr (cursor_at pre sec (fs @ [(k, joined newline (v # ls))]) k (n + length ls))"
  using assms(2)
proof (induction ls arbitrary: v n)
  case (Cons l ls)
  then show ?case
    using decode_continuation_step [OF f _ k pre fs, of l v n] by (simp add: joined_concat)
qed simp

lemma decode_field_lines:
  assumes f: "plain_syntax f" and k: "field_name_ok f k" and v: "value_ok v"
    and pre: "\<forall>j \<in> fst ` set pre. j < sec" and fs: "\<forall>j \<in> fst ` set fs. j < k"
  shows "\<exists>n'. foldR (decode_line f) (field_lines f (k, v)) (cursor_at pre sec fs name n) =
     Inr (cursor_at pre sec (fs @ [(k, v)]) k n')"
proof -
  obtain l ls where p: "pieces newline v = l # ls" by (rule pieces_Cons_cases)
  then have "joined newline (l # ls) = v" using joined_pieces [of newline v] by simp
  with v p k show ?thesis
    using decode_field_step [OF f k _ pre, of l fs name n] decode_continuations [OF f _ _ pre fs, of ls l "n + 1"]
    by (intro exI [of _ "n + 1 + length ls"]) (simp add: field_lines_def value_ok_def map_put_above [OF fs] field_name_ok_def
        del: escaped_simps)
qed

lemma decode_fields:
  assumes f: "plain_syntax f" and pre: "\<forall>j \<in> fst ` set pre. j < sec"
  shows "ordered (fs @ gs) \<Longrightarrow> list_all (\<lambda>(k, v). field_name_ok f k \<and> value_ok v) gs \<Longrightarrow>
     \<exists>name' n'. foldR (decode_line f) (concat (map (field_lines f) gs)) (cursor_at pre sec fs name n) =
       Inr (cursor_at pre sec (fs @ gs) name' n')"
proof (induction gs arbitrary: fs name n)
  case (Cons kv gs)
  obtain k v where kv: "kv = (k, v)" by fastforce
  with Cons.prems have fs: "\<forall>j \<in> fst ` set fs. j < k" by (auto simp: ordered_def sorted_wrt_append)
  with Cons.prems decode_field_lines [OF f _ _ pre fs, of v name n] obtain n' where
    "foldR (decode_line f) (field_lines f (k, v)) (cursor_at pre sec fs name n)
       = Inr (cursor_at pre sec (fs @ [(k, v)]) k n')" by (auto simp: kv)
  with Cons.IH [of "fs @ [(k, v)]" k n'] Cons.prems show ?case by (simp add: kv foldR_append)
qed auto

lemma decode_sections:
  assumes f: "plain_syntax f"
  shows "ordered (pre @ ss) \<Longrightarrow> list_all (section_ok f) ss \<Longrightarrow> cur_sections cur = pre \<Longrightarrow>
     \<exists>cur'. foldR (decode_line f) (concat (map (section_lines f) ss)) cur = Inr cur' \<and>
       cur_sections cur' = pre @ ss"
proof (induction ss arbitrary: pre cur)
  case (Cons s ss)
  obtain sec fs where s: "s = (sec, fs)" by fastforce
  with Cons.prems have pre: "\<forall>j \<in> fst ` set pre. j < sec" by (auto simp: ordered_def sorted_wrt_append)
  have ok: "section_name_ok sec" "ordered ([] @ fs)" "list_all (\<lambda>(k, v). field_name_ok f k \<and> value_ok v) fs"
    using Cons.prems by (auto simp: s section_ok_def)
  have "decode_line f (escape f (''['' @ sec @ '']'')) cur = Inr (cursor_at pre sec [] [] (lineNo cur + 1))"
    using decode_section_step [OF f ok(1), of cur] Cons.prems pre by (simp add: cursor_at_def map_sub_above)
  moreover obtain name' n' where
    "foldR (decode_line f) (concat (map (field_lines f) fs)) (cursor_at pre sec [] [] (lineNo cur + 1))
       = Inr (cursor_at pre sec fs name' n')"
    using decode_fields [OF f pre ok(2,3)] by fastforce
  ultimately have "foldR (decode_line f) (section_lines f s) cur = Inr (cursor_at pre sec fs name' n')"
    by (simp add: s section_lines_def)
  with Cons.IH [of "pre @ [s]" "cursor_at pre sec fs name' n'"] Cons.prems show ?case
    by (simp add: s foldR_append cursor_at_def)
qed auto

lemma decode_blank: "plain_syntax f \<Longrightarrow> decode_line f [] cur = Inr (cur\<lparr>lineNo := lineNo cur + 1\<rparr>)"
  using eraseComments_escape [of f "[]"] by (simp add: decode_line_def trim_def)

lemma section_lines_plain:
  assumes f: "plain_syntax f" and s: "section_ok f s" and l: "l \<in> set (section_lines f s)"
  shows "newline \<notin> set l"
proof -
  have plain: "newline \<in> set t" if "newline \<in> set (escape f t)" for t
    using that set_escaped [of "comment_chars f" "esc_char f" t] f by (auto simp: plain_syntax_def)
  obtain n fs where n: "s = (n, fs)" by fastforce
  have sep: "fieldSep f \<noteq> newline" using f by (auto simp: plain_syntax_def is_space_def)
  have first: "newline \<notin> set (hd (pieces newline v))" for v
    using pieces_delim_free [of "hd (pieces newline v)" newline v] by simp
  have others: "newline \<notin> set m" if "m \<in> set (tl (pieces newline v))" for m v
    using that pieces_delim_free [of m newline v] by (simp add: list.set_sel(2))
  from l consider "l = escape f (''['' @ n @ '']'')"
    | k v where "(k, v) \<in> set fs" "l \<in> set (field_lines f (k, v))"
    by (auto simp: n section_lines_def simp del: escaped_simps)
  then show ?thesis
    using s sep first others by cases (auto simp: n section_ok_def section_name_ok_def field_name_ok_def
        list_all_iff field_lines_def simp del: escaped_simps dest!: plain)
qed

theorem encode_decode:
  assumes "wf_IniFile f"
  shows "\<exists>s. IniFile_encode f = Some s \<and> decode_content s f = Inr f"
proof -
  let ?ls = "concat (map (section_lines f) (sections f))"
  from assms have f: "plain_syntax f" and wf: "ordered ([] @ sections f)" "list_all (section_ok f) (sections f)"
    by (auto simp: wf_IniFile_def)
  have "newline \<notin> set l" if "l \<in> set ?ls" for l
    using that wf(2) section_lines_plain [OF f] by (auto simp: list_all_iff)
  then have "pieces newline (as_lines ?ls) = ?ls @ [[]]" by (rule pieces_lines)
  moreover obtain cur where "foldR (decode_line f) ?ls initial_cursor = Inr cur" "cur_sections cur = sections f"
    using decode_sections [OF f wf, of initial_cursor] by (auto simp: initial_cursor_def)
  ultimately show ?thesis
    using encode_lines [OF assms] decode_blank [OF f]
    by (simp add: decode_content_lines foldR_append)
qed

section \<open>Conversions\<close>

lemma in_base_10: "in_base 10 c \<longleftrightarrow> is_digit c"
  by (auto simp: in_base_def base_digit_def Let_def digit_val_def is_digit_def)

lemma in_base_8: "in_base 8 c \<Longrightarrow> in_base 10 c"
  by (auto simp: in_base_def split: option.splits)

lemma base_value_digits: "list_all is_digit ds \<Longrightarrow> base_value 10 ds = digits_value ds"
proof -
  have "list_all is_digit ds \<Longrightarrow> foldl (\<lambda>n c. 10 * n + the (base_digit c)) n ds
      = foldl (\<lambda>n c. 10 * n + digit_val c) n ds" for n
    by (induction ds arbitrary: n) (auto simp: base_digit_def)
  then show "list_all is_digit ds \<Longrightarrow> ?thesis" by (simp add: base_value_def digits_value_def)
qed

lemma strip_0x_10 [simp]: "b \<noteq> 16 \<Longrightarrow> strip_0x b s = s"
  by (simp add: strip_0x_def split: list.splits)

text \<open>
  A string that is wholly an octal number is wholly a decimal number: the decimal reading
  decides first.
\<close>

lemma takeWhile_all: "dropWhile P s = [] \<Longrightarrow> (\<And>x. P x \<Longrightarrow> Q x) \<Longrightarrow> takeWhile Q s = s \<and> dropWhile Q s = []"
  by (auto simp: dropWhile_eq_Nil_conv)

lemma strto_octal_decimal:
  assumes "snd (snd (strto 8 s)) = []"
  shows "snd (snd (strto 10 s)) = []"
proof (cases "s = []")
  case False
  obtain neg t where t: "split_sign (dropWhile is_space s) = (neg, t)" by fastforce
  with assms False have "takeWhile (in_base 8) t \<noteq> []" "dropWhile (in_base 8) t = []"
    by (auto simp: strto_def Let_def split: if_splits)
  then have "t \<noteq> []" "takeWhile (in_base 10) t = t \<and> dropWhile (in_base 10) t = []"
    using takeWhile_all [of "in_base 8" t "in_base 10"] in_base_8 by auto
  with t show ?thesis by (cases t) (auto simp: strto_def Let_def)
qed (simp add: strto_def split_sign_def strip_0x_def)

lemma strto_rest: "snd (strtol b s) = snd (snd (strto b s))" "snd (strtoul b s) = snd (snd (strto b s))"
  by (simp_all add: strtol_def strtoul_def case_prod_beta)

lemma octal_never_decides:
  "strToLong v = (if snd (strtol 10 (c_str v)) = [] then Some (fst (strtol 10 (c_str v)))
     else if snd (strtol 16 (c_str v)) = [] then Some (fst (strtol 16 (c_str v))) else None)"
  "strToULong v = (if snd (strtoul 10 (c_str v)) = [] then Some (fst (strtoul 10 (c_str v)))
     else if snd (strtoul 16 (c_str v)) = [] then Some (fst (strtoul 16 (c_str v))) else None)"
  using strto_octal_decimal [of "c_str v"]
  unfolding strToLong_def strToULong_def Let_def case_prod_beta strto_rest by simp_all

text \<open>The decimal print of a number reads back as that number.\<close>

lemma to_string_Cons:
  obtains c cs where "to_string n = c # cs" "is_digit c" "list_all is_digit cs"
  using to_string_digits [of n] by (cases "to_string n") auto

lemma strto_to_string [simp]: "strto 10 (to_string n) = (n, False, [])"
proof -
  obtain c cs where ds: "to_string n = c # cs" "is_digit c" "list_all is_digit cs" by (rule to_string_Cons)
  then have "split_sign (dropWhile is_space (to_string n)) = (False, to_string n)"
    by (auto simp: split_sign_def digit_not_space is_digit_def)
  moreover have "takeWhile (in_base 10) (to_string n) = to_string n" "dropWhile (in_base 10) (to_string n) = []"
    using to_string_digits [of n] by (auto simp: in_base_10 list_all_iff dropWhile_eq_Nil_conv)
  ultimately show ?thesis
    by (simp add: strto_def base_value_digits to_string_digits del: takeWhile_eq_all_conv dropWhile_eq_Nil_conv)
qed

lemma strto_minus_to_string [simp]: "strto 10 (CHR ''-'' # to_string n) = (n, True, [])"
proof -
  have "split_sign (dropWhile is_space (CHR ''-'' # to_string n)) = (True, to_string n)"
    by (simp add: split_sign_def is_space_def)
  moreover have "takeWhile (in_base 10) (to_string n) = to_string n" "dropWhile (in_base 10) (to_string n) = []"
    using to_string_digits [of n] by (auto simp: in_base_10 list_all_iff dropWhile_eq_Nil_conv)
  ultimately show ?thesis
    by (simp add: strto_def base_value_digits to_string_digits del: takeWhile_eq_all_conv dropWhile_eq_Nil_conv)
qed

lemma digit_plain: "is_digit c \<Longrightarrow> c \<noteq> CHR 0x00 \<and> c \<noteq> newline \<and> \<not> is_space c"
  by (auto simp: is_digit_def is_space_def)

lemma c_str_to_string [simp]: "c_str (to_string n) = to_string n" "c_str (CHR ''-'' # to_string n) = CHR ''-'' # to_string n"
  using to_string_digits [of n] digit_plain by (auto simp: c_str_def list_all_iff takeWhile_eq_all_conv)

lemma strToLong_print: "- (2 ^ 63) \<le> n \<Longrightarrow> n < 2 ^ 63 \<Longrightarrow> strToLong (print_signed n) = Some n"
  by (auto simp: print_signed_def octal_never_decides strtol_def)

lemma strToULong_print: "n < 2 ^ 64 \<Longrightarrow> strToULong (to_string n) = Some n"
  by (simp add: octal_never_decides strtoul_def)

text \<open>Printed numbers are clean one-line values.\<close>

lemma value_ok_line: "newline \<notin> set v \<Longrightarrow> trimmed v \<Longrightarrow> value_ok v"
  by (simp add: value_ok_def)

lemma value_ok_to_string: "value_ok (to_string n)" "value_ok (CHR ''-'' # to_string n)"
proof -
  have "\<forall>c \<in> set (to_string n). c \<noteq> newline \<and> \<not> is_space c"
    using to_string_digits [of n] digit_plain by (auto simp: list_all_iff)
  then have "newline \<notin> set (to_string n)" "trimmed (to_string n)" "trimmed (CHR ''-'' # to_string n)"
    by (auto simp: trimmed_def is_space_def)
  then show "value_ok (to_string n)" "value_ok (CHR ''-'' # to_string n)"
    by (auto intro!: value_ok_line)
qed

lemma value_ok_print_signed: "value_ok (print_signed n)"
  by (simp add: print_signed_def value_ok_to_string)

lemma sint_long_range:
  "- (2 ^ 63) \<le> sint (x :: 16 word)" "sint (x :: 16 word) < 2 ^ 63"
  "- (2 ^ 63) \<le> sint (y :: 32 word)" "sint (y :: 32 word) < 2 ^ 63"
  "- (2 ^ 63) \<le> sint (z :: 64 word)" "sint (z :: 64 word) < 2 ^ 63"
  using sint_range_size [of x] sint_range_size [of y] sint_range_size [of z] by (simp_all add: word_size)

lemma unat_ulong_range:
  "unat (x :: 16 word) < 2 ^ 64" "unat (y :: 32 word) < 2 ^ 64" "unat (z :: 64 word) < 2 ^ 64"
  using unsigned_less [of x, where 'a = nat] unsigned_less [of y, where 'a = nat]
    unsigned_less [of z, where 'a = nat] by simp_all

lemma strToLong_sint [simp]:
  "strToLong (print_signed (sint (x :: 16 word))) = Some (sint x)"
  "strToLong (print_signed (sint (y :: 32 word))) = Some (sint y)"
  "strToLong (print_signed (sint (z :: 64 word))) = Some (sint z)"
  by (rule strToLong_print; rule sint_long_range)+

lemma strToULong_unat [simp]:
  "strToULong (to_string (unat (x :: 16 word))) = Some (unat x)"
  "strToULong (to_string (unat (y :: 32 word))) = Some (unat y)"
  "strToULong (to_string (unat (z :: 64 word))) = Some (unat z)"
  by (rule strToULong_print; rule unat_ulong_range)+

section \<open>Settings that survive the file\<close>

text \<open>The parser uses the settings of the file object, not its old contents.\<close>

lemma decode_field_line_settings: "decode_field_line (f\<lparr>sections := x\<rparr>) = decode_field_line f"
  by (intro ext, cases f) (simp only: decode_field_line_def IniFile.simps)

lemma decode_line_settings: "decode_line (f\<lparr>sections := x\<rparr>) = decode_line f"
  by (simp add: fun_eq_iff decode_line_def decode_field_line_settings eraseComments_def Let_def)

lemma decode_content_settings: "decode_content s (f\<lparr>sections := x\<rparr>) = decode_content s f"
  by (simp add: decode_content_lines decode_line_settings)

lemma wf_section:
  assumes "wf_IniFile f"
  shows "ordered (map_val [] sec (sections f))"
    "list_all (\<lambda>(k, v). field_name_ok f k \<and> value_ok v) (map_val [] sec (sections f))"
proof -
  have "section_ok f (sec, fs)" if "map_of (sections f) sec = Some fs" for fs
    using assms that by (auto simp: wf_IniFile_def list_all_iff dest: map_of_SomeD)
  then show "ordered (map_val [] sec (sections f))"
    "list_all (\<lambda>(k, v). field_name_ok f k \<and> value_ok v) (map_val [] sec (sections f))"
    by (auto simp: map_val_def section_ok_def split: option.splits)
qed

lemma set_map_put: "set (map_put k v m) \<subseteq> insert (k, v) (set m)"
  by (induction k v m rule: map_put.induct) auto

lemma ini_field_assign:
  assumes "wf_IniFile f"
  shows "ini_field sec key (ini_assign sec key v f) = v"
  using assms wf_section(1) [OF assms, of sec]
  by (simp add: ini_field_def ini_assign_def map_val_def map_of_map_put wf_IniFile_def)

lemma wf_ini_assign:
  assumes f: "wf_IniFile f" and sec: "section_name_ok sec" and key: "field_name_ok f key" and v: "value_ok v"
  shows "wf_IniFile (ini_assign sec key v f)"
proof -
  let ?fs = "map_val [] sec (sections f)"
  note fs = wf_section [OF f, of sec]
  have "section_ok f (sec, map_put key v ?fs)"
    using fs sec key v set_map_put [of key v ?fs] by (auto simp: section_ok_def ordered_map_put list_all_iff)
  then have "list_all (section_ok f) (map_put sec (map_put key v ?fs) (sections f))"
    using f set_map_put [of sec "map_put key v ?fs" "sections f"] by (auto simp: wf_IniFile_def list_all_iff)
  moreover have "plain_syntax (ini_assign sec key v f)" "section_ok (ini_assign sec key v f) = section_ok f"
    using f by (auto simp: wf_IniFile_def plain_syntax_def ini_assign_def section_ok_def field_name_ok_def)
  ultimately show ?thesis
    using f by (simp add: wf_IniFile_def ordered_map_put ini_assign_def)
qed

text \<open>
  The contract of a field type: its decoder inverts its encoder, and the encoder writes one
  clean value.
\<close>

locale field_codec =
  fixes enc :: "'a \<Rightarrow> string" and dec :: "string \<Rightarrow> 'a result"
  assumes dec_enc: "dec (enc v) = Inr v"
    and enc_ok: "value_ok (enc v)"
begin

lemma survives:
  assumes "wf_IniFile f" "section_name_ok sec" "field_name_ok f key"
  shows "\<exists>s g. IniFile_encode (ini_assign sec key (enc v) f) = Some s \<and> decode_content s f = Inr g \<and>
     dec (ini_field sec key g) = Inr v"
proof -
  let ?g = "ini_assign sec key (enc v) f"
  from encode_decode [OF wf_ini_assign [OF assms enc_ok]] obtain s where
    s: "IniFile_encode ?g = Some s" "decode_content s ?g = Inr ?g" by blast
  moreover have "decode_content s f = decode_content s ?g" by (simp add: ini_assign_def decode_content_settings)
  ultimately show ?thesis using dec_enc ini_field_assign [OF assms(1)] by auto
qed

end

lemma decode_true: "decode_bool ''true'' = Inr True"
  by code_simp

lemma decode_false: "decode_bool ''false'' = Inr False"
  by code_simp

interpretation bool_field: field_codec encode_bool decode_bool
  by unfold_locales
    (simp_all add: decode_true decode_false encode_bool_def value_ok_def trimmed_def is_space_def)

interpretation short_field: field_codec encode_short decode_short
  by unfold_locales
    (simp_all add: encode_short_def decode_short_def value_ok_print_signed)

interpretation ushort_field: field_codec encode_ushort decode_ushort
  by unfold_locales
    (simp_all add: encode_ushort_def decode_ushort_def value_ok_to_string)

interpretation int_field: field_codec encode_int decode_int
  by unfold_locales
    (simp_all add: encode_int_def decode_int_def value_ok_print_signed)

interpretation uint_field: field_codec encode_uint decode_uint
  by unfold_locales
    (simp_all add: encode_uint_def decode_uint_def value_ok_to_string)

interpretation long_field: field_codec encode_long decode_long
  by unfold_locales
    (simp_all add: encode_long_def decode_long_def value_ok_print_signed)

interpretation ulong_field: field_codec encode_ulong decode_ulong
  by unfold_locales
    (simp_all add: encode_ulong_def decode_ulong_def value_ok_to_string)

end
