(* ===== verification/Configuration.thy ===== *)
theory Configuration
  imports Ini_Round_Trip Transition_System
begin

text \<open>
  The configuration object of the programs (\<^verbatim>\<open>config/config.hpp\<close>, \<^verbatim>\<open>config/config.cpp\<close>): the
  constructor with its sanity tests, \<^verbatim>\<open>hasKey\<close> and the typed getters, all of which insert what
  they look up, and the lock-free creation of the singleton by concurrent callers of
  \<^verbatim>\<open>initialize\<close> and \<^verbatim>\<open>getInstance\<close> as a transition system. The lemmas show that the values a
  program reads never change, that every caller that returns gets the one object, and that a failed
  construction blocks every later caller.
\<close>

section \<open>Names\<close>

definition DEFAULT_CONFIG_FILE :: string where "DEFAULT_CONFIG_FILE = ''config.ini''"
definition SECTION_BASIC :: string where "SECTION_BASIC = ''Basic''"
definition SECTION_SECURITY :: string where "SECTION_SECURITY = ''Security''"
definition LOCAL_PRIVATE_KEY :: string where "LOCAL_PRIVATE_KEY = ''private_key''"

section \<open>Access\<close>

text \<open>
  \<^verbatim>\<open>hasKey\<close> subscripts the file with the section name, and \<^verbatim>\<open>get\<close> subscripts the section with
  the key too: a missing section or field is inserted, empty.
\<close>

definition hasKey :: "string \<Rightarrow> string \<Rightarrow> IniFile \<Rightarrow> IniFile \<times> bool" where
  "hasKey section key f =
     (let f' = f\<lparr>sections := map_sub [] section (sections f)\<rparr>
      in (f', map_of (map_val [] section (sections f')) key \<noteq> None))"

definition Config_get :: "(string \<Rightarrow> 'a result) \<Rightarrow> string \<Rightarrow> string \<Rightarrow> IniFile \<Rightarrow> IniFile \<times> 'a result" where
  "Config_get as section key f =
     (let f' = ini_touch section key f in (f', as (ini_field section key f')))"

definition getInt16 :: "string \<Rightarrow> string \<Rightarrow> IniFile \<Rightarrow> IniFile \<times> 16 word result" where
  "getInt16 = Config_get decode_short"

definition getInt32 :: "string \<Rightarrow> string \<Rightarrow> IniFile \<Rightarrow> IniFile \<times> 32 word result" where
  "getInt32 = Config_get decode_int"

definition getInt64 :: "string \<Rightarrow> string \<Rightarrow> IniFile \<Rightarrow> IniFile \<times> 64 word result" where
  "getInt64 = Config_get decode_long"

definition getUInt16 :: "string \<Rightarrow> string \<Rightarrow> IniFile \<Rightarrow> IniFile \<times> 16 word result" where
  "getUInt16 = Config_get decode_ushort"

definition getUInt32 :: "string \<Rightarrow> string \<Rightarrow> IniFile \<Rightarrow> IniFile \<times> 32 word result" where
  "getUInt32 = Config_get decode_uint"

definition getUInt64 :: "string \<Rightarrow> string \<Rightarrow> IniFile \<Rightarrow> IniFile \<times> 64 word result" where
  "getUInt64 = Config_get decode_ulong"

definition getString :: "string \<Rightarrow> string \<Rightarrow> IniFile \<Rightarrow> IniFile \<times> string result" where
  "getString = Config_get decode_string"

definition getBool :: "string \<Rightarrow> string \<Rightarrow> IniFile \<Rightarrow> IniFile \<times> bool result" where
  "getBool = Config_get decode_bool"

definition getChar :: "string \<Rightarrow> string \<Rightarrow> IniFile \<Rightarrow> IniFile \<times> char result" where
  "getChar = Config_get decode_char"

section \<open>Construction\<close>

definition Config :: "string option \<Rightarrow> IniFile result" where
  "Config contents =
     bindR (IniFile_load contents (setMultiLineValues True default_IniFile)) (\<lambda>f.
       if map_of (sections f) SECTION_BASIC = None
       then Inl (Exn Logic_error (''Configuration file error: Required section ['' @ SECTION_BASIC @ ''] not found''))
       else if map_of (sections f) SECTION_SECURITY = None
       then Inl (Exn Logic_error (''Configuration file error: Required section ['' @ SECTION_SECURITY @ ''] not found''))
       else let (f', found) = hasKey SECTION_SECURITY LOCAL_PRIVATE_KEY f
            in if \<not> found
               then Inl (Exn Logic_error (''Configuration file error: Required key '' @ LOCAL_PRIVATE_KEY @ '' not found''))
               else Inr f')"

section \<open>The singleton\<close>

text \<open>
  A thread inside \<^verbatim>\<open>initialize(fname)\<close> or \<^verbatim>\<open>getInstance()\<close>; the flag tells whether the call of
  \<^verbatim>\<open>initialize\<close> came from \<^verbatim>\<open>getInstance\<close>, to whose loop it returns. The atomic steps are the
  compare-and-exchange, the construction and assignment of the instance, the store of the
  flag, and each load of it.
\<close>

datatype init_flag = STATE_UNINITIALIZED | STATE_INITIALIZING | STATE_INITIALIZED

datatype config_thread =
    Get_loop \<comment> \<open>the loop test of \<^verbatim>\<open>getInstance\<close>\<close>
  | Exchange bool string \<comment> \<open>about to compare and exchange the flag\<close>
  | Constructing bool string
  | Publishing bool \<comment> \<open>the instance is assigned, the flag not yet stored\<close>
  | Waiting bool \<comment> \<open>the loop at the end of \<^verbatim>\<open>initialize\<close>\<close>
  | Initialized
  | Has_instance IniFile
  | Raised cpp_error

record config_state =
  singleton_initialized_flag :: init_flag
  config_instance :: "IniFile option"
  config_threads :: "nat \<Rightarrow> config_thread"

definition set_thread :: "nat \<Rightarrow> config_thread \<Rightarrow> config_state \<Rightarrow> config_state" where
  "set_thread t th s = s\<lparr>config_threads := (config_threads s)(t := th)\<rparr>"

definition config_advance :: "(string \<Rightarrow> string option) \<Rightarrow> nat \<Rightarrow> config_state \<Rightarrow> config_state" where
  "config_advance files t s = (case config_threads s t of
       Get_loop \<Rightarrow>
         if singleton_initialized_flag s \<noteq> STATE_INITIALIZED
         then set_thread t (Exchange True DEFAULT_CONFIG_FILE) s
         else (case config_instance s of
                 None \<Rightarrow> set_thread t (Raised UB) s
               | Some c \<Rightarrow> set_thread t (Has_instance c) s)
     | Exchange from_get fname \<Rightarrow>
         if singleton_initialized_flag s = STATE_UNINITIALIZED
         then set_thread t (Constructing from_get fname) (s\<lparr>singleton_initialized_flag := STATE_INITIALIZING\<rparr>)
         else set_thread t (Waiting from_get) s
     | Constructing from_get fname \<Rightarrow>
         (case Config (files fname) of
            Inl e \<Rightarrow> set_thread t (Raised e) s
          | Inr c \<Rightarrow> set_thread t (Publishing from_get) (s\<lparr>config_instance := Some c\<rparr>))
     | Publishing from_get \<Rightarrow>
         set_thread t (Waiting from_get) (s\<lparr>singleton_initialized_flag := STATE_INITIALIZED\<rparr>)
     | Waiting from_get \<Rightarrow>
         if singleton_initialized_flag s \<noteq> STATE_INITIALIZED then s
         else set_thread t (if from_get then Get_loop else Initialized) s
     | _ \<Rightarrow> s)"

inductive config_step :: "(string \<Rightarrow> string option) \<Rightarrow> config_state \<Rightarrow> nat \<Rightarrow> config_state \<Rightarrow> bool" for files where
  advance: "config_step files s t (config_advance files t s)"

inductive_simps config_step_iff: "config_step files s t s'"

lemma config_path_fold: "path (config_step files) s ts (fold (config_advance files) ts s)"
  by (induction ts arbitrary: s) (auto simp: config_step_iff)

text \<open>At the start every thread is about to call one of the two functions.\<close>

definition config_start :: "config_state \<Rightarrow> bool" where
  "config_start s \<longleftrightarrow> singleton_initialized_flag s = STATE_UNINITIALIZED \<and> config_instance s = None \<and>
     (\<forall>t. config_threads s t = Get_loop \<or> (\<exists>fname. config_threads s t = Exchange False fname))"

section \<open>The values read never change\<close>

text \<open>The uses a program makes of the object.\<close>

datatype config_access = Asked string string | Read string string

definition config_use :: "config_access \<Rightarrow> IniFile \<Rightarrow> IniFile" where
  "config_use a f = (case a of
       Asked section key \<Rightarrow> fst (hasKey section key f)
     | Read section key \<Rightarrow> fst (getString section key f))"

definition ordered_IniFile :: "IniFile \<Rightarrow> bool" where
  "ordered_IniFile f \<longleftrightarrow> ordered (sections f) \<and> list_all (ordered \<circ> snd) (sections f)"

lemma ordered_section: "ordered_IniFile f \<Longrightarrow> ordered (map_val [] sec (sections f))"
  by (auto simp: ordered_IniFile_def map_val_def list_all_iff dest!: map_of_SomeD split: option.splits)

lemma ini_field_touch:
  assumes "ordered_IniFile f"
  shows "ini_field sec key (ini_touch s k f) = ini_field sec key f"
  using assms ordered_section [OF assms, of s]
  by (auto simp: ini_field_def ini_touch_def map_val_def map_of_map_put map_of_map_sub ordered_IniFile_def
      split: option.splits)

lemma ini_field_hasKey:
  assumes "ordered_IniFile f"
  shows "ini_field sec key (fst (hasKey s k f)) = ini_field sec key f"
  using assms by (auto simp: ini_field_def hasKey_def map_val_def map_of_map_sub ordered_IniFile_def Let_def
      split: option.splits)

lemma ordered_touch: "ordered_IniFile f \<Longrightarrow> ordered_IniFile (ini_touch s k f)"
  using set_map_put [of s "map_sub [] k (map_val [] s (sections f))" "sections f"] ordered_section [of f s]
  by (auto simp: ini_touch_def ordered_IniFile_def ordered_map_put ordered_map_sub list_all_iff)

lemma ordered_hasKey: "ordered_IniFile f \<Longrightarrow> ordered_IniFile (fst (hasKey s k f))"
  using set_map_put [of s "[]" "sections f"]
  by (auto simp: hasKey_def Let_def ordered_IniFile_def ordered_map_sub map_sub_def list_all_iff ordered_map_put
      split: option.splits)

lemma config_use_keeps:
  assumes "ordered_IniFile f"
  shows "ordered_IniFile (config_use a f)" "ini_field sec key (config_use a f) = ini_field sec key f"
  using assms by (cases a; simp add: config_use_def ordered_hasKey ini_field_hasKey getString_def Config_get_def
      Let_def ordered_touch ini_field_touch)+

lemma config_uses_keep:
  "ordered_IniFile f \<Longrightarrow> ordered_IniFile (fold config_use as f) \<and>
     ini_field sec key (fold config_use as f) = ini_field sec key f"
  by (induction as arbitrary: f) (simp_all add: config_use_keeps)

lemma Config_get_value:
  "ordered_IniFile f \<Longrightarrow> snd (Config_get as sec key f) = as (ini_field sec key f)"
  by (simp add: Config_get_def Let_def ini_field_touch)

text \<open>The parser and the constructor build ordered maps.\<close>

lemma decode_line_ordered:
  assumes "decode_line f l cur = Inr cur'" "ordered_IniFile (g\<lparr>sections := cur_sections cur\<rparr>)"
  shows "ordered_IniFile (g\<lparr>sections := cur_sections cur'\<rparr>)"
proof -
  have put: "ordered_IniFile (g\<lparr>sections := cur_sections (put_field sec k v c)\<rparr>)"
    if "ordered_IniFile (g\<lparr>sections := cur_sections c\<rparr>)" for sec k v c
    using that ordered_section [OF that, of sec]
      set_map_put [of sec "map_put k v (map_val [] sec (cur_sections c))" "cur_sections c"]
    by (auto simp: put_field_def ordered_IniFile_def ordered_map_put list_all_iff)
  have sub: "ordered_IniFile (g\<lparr>sections := map_sub [] n ss\<rparr>)" if "ordered_IniFile (g\<lparr>sections := ss\<rparr>)" for n ss
    using that set_map_put [of n "[]" ss]
    by (auto simp: ordered_IniFile_def ordered_map_sub map_sub_def ordered_map_put list_all_iff split: option.splits)
  show ?thesis
    using assms by (auto simp: decode_line_def decode_section_line_def decode_field_line_def Let_def sub put
        split: if_splits option.splits)
qed

lemma decode_lines_ordered:
  "foldR (decode_line f) ls cur = Inr cur' \<Longrightarrow> ordered_IniFile (g\<lparr>sections := cur_sections cur\<rparr>) \<Longrightarrow>
     ordered_IniFile (g\<lparr>sections := cur_sections cur'\<rparr>)"
  by (induction ls arbitrary: cur) (auto simp: bindR_Inr_iff dest: decode_line_ordered)

lemma IniFile_load_Some: "IniFile_load (Some s) f = decode_content s f"
  by (simp add: IniFile_load_def decode_content_def)

lemma IniFile_load_None: "IniFile_load None f = Inr (f\<lparr>sections := []\<rparr>)"
  by (simp add: IniFile_load_def IniFile_decode_def decode_loop.simps initial_cursor_def)

lemma IniFile_load_ordered: "IniFile_load contents f = Inr g \<Longrightarrow> ordered_IniFile g"
proof (cases contents)
  case (Some s)
  moreover assume "IniFile_load contents f = Inr g"
  ultimately show ?thesis
    by (auto simp: IniFile_load_Some decode_content_lines bindR_Inr_iff initial_cursor_def
        ordered_IniFile_def dest!: decode_lines_ordered [where g = f])
qed (auto simp: IniFile_load_None ordered_IniFile_def)

lemma Config_ordered: "Config contents = Inr f \<Longrightarrow> ordered_IniFile f"
  by (auto simp: Config_def bindR_Inr_iff case_prod_beta Let_def intro: ordered_hasKey IniFile_load_ordered
      split: if_splits)

lemma decode_content_ordered: "decode_content s f = Inr g \<Longrightarrow> ordered_IniFile g"
  using IniFile_load_ordered [of "Some s"] by (simp add: IniFile_load_Some)

text \<open>A setting written with its encoder is what the matching getter reads from the saved file.\<close>

context field_codec
begin

lemma getter_survives:
  assumes "wf_IniFile f" "section_name_ok sec" "field_name_ok f key"
  shows "\<exists>s g. IniFile_encode (ini_assign sec key (enc v) f) = Some s \<and> decode_content s f = Inr g \<and>
     snd (Config_get dec sec key g) = Inr v"
  using survives [OF assms, of v] decode_content_ordered Config_get_value by metis

end

lemma hasKey_present:
  "map_of (sections f) sec = Some fs \<Longrightarrow> hasKey sec key f = (f, map_of fs key \<noteq> None)"
  by (simp add: hasKey_def map_sub_def map_val_def)

lemma Config_Inr_iff:
  "Config contents = Inr f \<longleftrightarrow>
     IniFile_load contents (setMultiLineValues True default_IniFile) = Inr f \<and>
     map_of (sections f) SECTION_BASIC \<noteq> None \<and>
     (\<exists>fs. map_of (sections f) SECTION_SECURITY = Some fs \<and> map_of fs LOCAL_PRIVATE_KEY \<noteq> None)"
  by (auto simp: Config_def bindR_Inr_iff hasKey_present split: if_splits)

lemma Config_no_file:
  "Config None = Inl (Exn Logic_error (''Configuration file error: Required section ['' @ SECTION_BASIC @ ''] not found''))"
  by (simp add: Config_def IniFile_load_None)

lemma hasKey_after_touch:
  assumes "ordered_IniFile f"
  shows "snd (hasKey sec key (ini_touch sec key f))"
  using assms ordered_section [OF assms, of sec]
  by (auto simp: hasKey_def ini_touch_def Let_def map_sub_def map_val_def map_of_map_put ordered_IniFile_def
      map_of_map_sub split: option.splits)

lemma ini_field_absent:
  assumes "ordered_IniFile f" "\<not> snd (hasKey sec key f)"
  shows "ini_field sec key f = []"
  using assms by (auto simp: hasKey_def Let_def ini_field_def map_val_def map_of_map_sub ordered_IniFile_def
      split: option.splits)

lemma strToULong_empty: "strToULong [] = Some 0"
  by (simp add: octal_never_decides c_str_def strtoul_def strto_def split_sign_def)

lemma strToLong_empty: "strToLong [] = Some 0"
  by (simp add: octal_never_decides c_str_def strtol_def strto_def split_sign_def)

text \<open>Reading and constructing raise exceptions of the standard library only.\<close>

lemma decode_line_no_UB: "decode_line f l cur \<noteq> Inl UB"
  by (auto simp: decode_line_def decode_section_line_def decode_field_line_def ini_error_def Let_def
      split: option.splits)

lemma decode_lines_no_UB: "foldR (decode_line f) ls cur \<noteq> Inl UB"
  by (induction ls arbitrary: cur) (auto simp: bindR_Inl_iff decode_line_no_UB)

lemma Config_no_UB: "Config contents \<noteq> Inl UB"
  using decode_lines_no_UB
  by (cases contents) (auto simp: Config_def bindR_Inl_iff IniFile_load_None IniFile_load_Some decode_content_lines
      case_prod_beta Let_def split: if_splits)

section \<open>One object for every caller\<close>

definition builder :: "config_thread \<Rightarrow> bool" where
  "builder th \<longleftrightarrow> (case th of Constructing _ _ \<Rightarrow> True | Publishing _ \<Rightarrow> True | _ \<Rightarrow> False)"

text \<open>
  What each thread relies on, what the shared variables promise, and that at most one thread
  builds.
\<close>

definition thread_ok :: "(string \<Rightarrow> string option) \<Rightarrow> init_flag \<Rightarrow> IniFile option \<Rightarrow> config_thread \<Rightarrow> bool" where
  "thread_ok files flag inst th = (case th of
       Constructing _ _ \<Rightarrow> flag = STATE_INITIALIZING
     | Publishing _ \<Rightarrow> flag = STATE_INITIALIZING \<and> inst \<noteq> None
     | Initialized \<Rightarrow> flag = STATE_INITIALIZED
     | Has_instance c \<Rightarrow> flag = STATE_INITIALIZED \<and> inst = Some c
     | Raised e \<Rightarrow> (\<exists>fname. Config (files fname) = Inl e)
     | _ \<Rightarrow> True)"

definition shared_ok :: "(string \<Rightarrow> string option) \<Rightarrow> init_flag \<Rightarrow> IniFile option \<Rightarrow> bool" where
  "shared_ok files flag inst \<longleftrightarrow>
     (flag = STATE_INITIALIZED \<longrightarrow> inst \<noteq> None) \<and> (flag = STATE_UNINITIALIZED \<longrightarrow> inst = None) \<and>
     (\<forall>c. inst = Some c \<longrightarrow> (\<exists>fname. Config (files fname) = Inr c))"

definition config_inv :: "(string \<Rightarrow> string option) \<Rightarrow> config_state \<Rightarrow> bool" where
  "config_inv files s \<longleftrightarrow>
     shared_ok files (singleton_initialized_flag s) (config_instance s) \<and>
     (\<forall>t u. builder (config_threads s t) \<longrightarrow> builder (config_threads s u) \<longrightarrow> t = u) \<and>
     (\<forall>t. thread_ok files (singleton_initialized_flag s) (config_instance s) (config_threads s t))"

lemma config_inv_start: "config_start s \<Longrightarrow> config_inv files s"
proof -
  assume "config_start s"
  then have th: "config_threads s t = Get_loop \<or> (\<exists>fname. config_threads s t = Exchange False fname)"
    and s: "singleton_initialized_flag s = STATE_UNINITIALIZED" "config_instance s = None" for t
    by (auto simp: config_start_def)
  have "\<not> builder (config_threads s t)" "thread_ok files f i (config_threads s t)" for t f i
    using th [of t] by (auto simp: builder_def thread_ok_def)
  then show ?thesis using s by (simp add: config_inv_def shared_ok_def)
qed

text \<open>A thread that neither builds nor has returned relies on nothing.\<close>

lemma thread_ok_quiet:
  "thread_ok files flag inst th \<Longrightarrow> \<not> builder th \<Longrightarrow> flag \<noteq> STATE_INITIALIZED \<Longrightarrow> thread_ok files flag' inst' th"
  by (cases th) (auto simp: thread_ok_def builder_def)

lemma config_inv_set_thread:
  assumes "config_inv files s" "\<not> builder th"
    and "thread_ok files (singleton_initialized_flag s) (config_instance s) th"
  shows "config_inv files (set_thread t th s)"
  using assms by (auto simp: config_inv_def set_thread_def)

text \<open>The only thread that may build changes the shared variables.\<close>

lemma config_inv_change:
  assumes inv: "config_inv files s" and flag: "singleton_initialized_flag s \<noteq> STATE_INITIALIZED"
    and others: "\<And>u. u \<noteq> t \<Longrightarrow> \<not> builder (config_threads s u)"
    and "thread_ok files flag' inst' th" "shared_ok files flag' inst'"
  shows "config_inv files (set_thread t th (s\<lparr>singleton_initialized_flag := flag', config_instance := inst'\<rparr>))"
proof -
  have "thread_ok files flag' inst' (config_threads s u)" if "u \<noteq> t" for u
    by (rule thread_ok_quiet [where inst = "config_instance s", OF _ others [OF that] flag])
      (use inv in \<open>simp add: config_inv_def\<close>)
  with assms(4) have "\<forall>u. thread_ok files flag' inst' (((config_threads s)(t := th)) u)" by simp
  moreover have "\<forall>u v. builder (((config_threads s)(t := th)) u) \<longrightarrow>
      builder (((config_threads s)(t := th)) v) \<longrightarrow> u = v"
    using others by (metis fun_upd_other)
  ultimately show ?thesis
    unfolding config_inv_def set_thread_def using assms(5) by (simp del: fun_upd_apply)
qed

lemma config_inv_builder:
  assumes "config_inv files s" "builder (config_threads s t)"
  shows "singleton_initialized_flag s = STATE_INITIALIZING" "u \<noteq> t \<Longrightarrow> \<not> builder (config_threads s u)"
proof -
  have "thread_ok files (singleton_initialized_flag s) (config_instance s) (config_threads s t)"
    using assms by (simp add: config_inv_def)
  then show "singleton_initialized_flag s = STATE_INITIALIZING"
    using assms(2) by (cases "config_threads s t") (auto simp: thread_ok_def builder_def)
  show "u \<noteq> t \<Longrightarrow> \<not> builder (config_threads s u)"
    using assms by (auto simp: config_inv_def)
qed

lemma config_inv_advance:
  assumes inv: "config_inv files s"
  shows "config_inv files (config_advance files t s)"
proof (cases "config_threads s t")
  case Get_loop
  have "shared_ok files (singleton_initialized_flag s) (config_instance s)" using inv by (simp add: config_inv_def)
  with Get_loop show ?thesis
    by (auto simp: config_advance_def builder_def thread_ok_def shared_ok_def
        intro!: config_inv_set_thread inv split: option.splits)
next
  case (Exchange b fname)
  show ?thesis
  proof (cases "singleton_initialized_flag s = STATE_UNINITIALIZED")
    case True
    have others: "\<not> builder (config_threads s u)" for u using config_inv_builder(1) [OF inv, of u] True by auto
    have "shared_ok files STATE_INITIALIZING (config_instance s)"
      using inv True by (simp add: config_inv_def shared_ok_def)
    with config_inv_change [where t = t and flag' = STATE_INITIALIZING and inst' = "config_instance s"
        and th = "Constructing b fname", OF inv _ others] True
    show ?thesis by (simp add: Exchange config_advance_def thread_ok_def)
  next
    case False
    then show ?thesis
      by (simp add: Exchange config_advance_def config_inv_set_thread [OF inv] builder_def thread_ok_def)
  qed
next
  case (Constructing b fname)
  then have th: "builder (config_threads s t)" by (simp add: builder_def)
  note now = config_inv_builder [OF inv th]
  show ?thesis
  proof (cases "Config (files fname)")
    case (Inl e)
    then show ?thesis
      by (auto simp: Constructing config_advance_def builder_def thread_ok_def intro!: config_inv_set_thread inv)
  next
    case (Inr c)
    then have "shared_ok files STATE_INITIALIZING (Some c)" by (auto simp: shared_ok_def)
    with config_inv_change [where t = t and flag' = STATE_INITIALIZING and inst' = "Some c"
        and th = "Publishing b", OF inv _ now(2)] now(1)
    have "config_inv files (set_thread t (Publishing b)
        (s\<lparr>singleton_initialized_flag := STATE_INITIALIZING, config_instance := Some c\<rparr>))"
      by (simp add: thread_ok_def)
    moreover have "s\<lparr>singleton_initialized_flag := STATE_INITIALIZING, config_instance := Some c\<rparr>
        = s\<lparr>config_instance := Some c\<rparr>" using now(1) by (cases s) simp
    ultimately show ?thesis using Inr by (simp add: Constructing config_advance_def)
  qed
next
  case (Publishing b)
  then have th: "builder (config_threads s t)" by (simp add: builder_def)
  note now = config_inv_builder [OF inv th]
  have "thread_ok files (singleton_initialized_flag s) (config_instance s) (Publishing b)"
    using inv Publishing by (metis config_inv_def)
  then have "shared_ok files STATE_INITIALIZED (config_instance s)"
    using inv by (auto simp: config_inv_def shared_ok_def thread_ok_def)
  with config_inv_change [where t = t and flag' = STATE_INITIALIZED and inst' = "config_instance s" and th = "Waiting b",
      OF inv _ now(2)] now
  show ?thesis by (simp add: Publishing config_advance_def thread_ok_def)
next
  case (Waiting b)
  then show ?thesis
    by (auto simp: config_advance_def builder_def thread_ok_def intro!: config_inv_set_thread inv)
qed (use inv in \<open>simp_all add: config_advance_def\<close>)

interpretation config_object: invariant config_start "config_step files" "config_inv files"
  by unfold_locales (auto simp: config_step_iff intro: config_inv_start config_inv_advance)

text \<open>
  The files the callers name, the default one for a caller of \<^verbatim>\<open>getInstance\<close>, and the fact that
  no other file is ever read: the object comes from one of them, and so does every exception.
\<close>

definition named_files :: "config_state \<Rightarrow> string set" where
  "named_files s = {fname. \<exists>t. config_threads s t = Exchange False fname \<or>
     config_threads s t = Get_loop \<and> fname = DEFAULT_CONFIG_FILE}"

definition thread_named :: "(string \<Rightarrow> string option) \<Rightarrow> string set \<Rightarrow> config_thread \<Rightarrow> bool" where
  "thread_named files F th = (case th of
       Get_loop \<Rightarrow> DEFAULT_CONFIG_FILE \<in> F
     | Exchange from_get fname \<Rightarrow> fname \<in> F \<and> (from_get \<longrightarrow> DEFAULT_CONFIG_FILE \<in> F)
     | Constructing from_get fname \<Rightarrow> fname \<in> F \<and> (from_get \<longrightarrow> DEFAULT_CONFIG_FILE \<in> F)
     | Publishing from_get \<Rightarrow> from_get \<longrightarrow> DEFAULT_CONFIG_FILE \<in> F
     | Waiting from_get \<Rightarrow> from_get \<longrightarrow> DEFAULT_CONFIG_FILE \<in> F
     | Raised e \<Rightarrow> e = UB \<or> (\<exists>fname\<in>F. Config (files fname) = Inl e)
     | _ \<Rightarrow> True)"

definition uses_named :: "(string \<Rightarrow> string option) \<Rightarrow> string set \<Rightarrow> config_state \<Rightarrow> bool" where
  "uses_named files F s \<longleftrightarrow> (\<forall>t. thread_named files F (config_threads s t)) \<and>
     (\<forall>c. config_instance s = Some c \<longrightarrow> (\<exists>fname\<in>F. Config (files fname) = Inr c))"

lemma uses_named_start: "config_start s \<Longrightarrow> uses_named files (named_files s) s"
  unfolding uses_named_def
proof (intro conjI allI impI)
  fix t
  assume "config_start s"
  then have "config_threads s t = Get_loop \<or> (\<exists>fname. config_threads s t = Exchange False fname)"
    by (simp add: config_start_def)
  then show "thread_named files (named_files s) (config_threads s t)"
    by (auto simp: thread_named_def named_files_def)
qed (simp add: config_start_def)

interpretation config_names: invariant "uses_named files F" "config_step files" "uses_named files F" for files F
proof unfold_locales
  fix s t s'
  assume named: "uses_named files F s" and "config_step files s t s'"
  then have s': "s' = config_advance files t s" by (simp add: config_step_iff)
  have "thread_named files F (config_threads s t)" using named by (simp add: uses_named_def)
  then show "uses_named files F s'"
    using named unfolding s' by (cases "config_threads s t")
      (auto simp: uses_named_def thread_named_def [of _ _ "config_threads s t"] config_advance_def set_thread_def
        thread_named_def split: option.split sum.split)
qed

text \<open>
  After a constructor has thrown, nobody builds and the flag stays where it is: no caller gets
  past the waiting loop.
\<close>

definition construction_failed :: "config_state \<Rightarrow> bool" where
  "construction_failed s \<longleftrightarrow>
     singleton_initialized_flag s = STATE_INITIALIZING \<and> (\<forall>t. \<not> builder (config_threads s t)) \<and>
     (\<forall>t c. config_threads s t \<noteq> Has_instance c) \<and> (\<forall>t. config_threads s t \<noteq> Initialized)"

interpretation config_failed: invariant construction_failed "config_step files" construction_failed
proof unfold_locales
  fix s t s'
  assume failed: "construction_failed s" and "config_step files s t s'"
  then have s': "s' = config_advance files t s" by (simp add: config_step_iff)
  from failed have "\<not> builder (config_threads s t)" by (simp add: construction_failed_def)
  then show "construction_failed s'"
    using failed unfolding s' by (cases "config_threads s t")
      (auto simp: construction_failed_def config_advance_def set_thread_def builder_def)
qed

lemma raised_failed:
  assumes inv: "config_inv files s" and "config_threads s t = Constructing b fname" "Config (files fname) = Inl e"
  shows "construction_failed (config_advance files t s)"
proof -
  have th: "builder (config_threads s t)" using assms by (simp add: builder_def)
  note now = config_inv_builder [OF inv th]
  have ok: "thread_ok files STATE_INITIALIZING (config_instance s) (config_threads s u)" for u
    using inv now by (simp add: config_inv_def)
  have "config_threads s u \<noteq> Has_instance c" "config_threads s u \<noteq> Initialized" for u c
    using ok [of u] by (auto simp: thread_ok_def)
  with now assms show ?thesis
    by (auto simp: construction_failed_def config_advance_def set_thread_def builder_def [of "Raised e"])
qed

text \<open>When the construction succeeds, a waiting caller returns after three steps of others and itself.\<close>

lemma builder_finishes:
  assumes "config_threads s t = Constructing b fname" "Config (files fname) = Inr c"
    and "config_threads s u = Waiting True" "u \<noteq> t"
  shows "\<exists>s'. path (config_step files) s [t, t, u, u] s' \<and> config_threads s' u = Has_instance c"
  using assms by (auto simp: config_step_iff config_advance_def set_thread_def)

end
