(* ===== verification/Config_Properties.thy ===== *)
theory Config_Properties
  imports Configuration
begin

text \<open>
  The claims about INI files and the configuration object, each with a concrete instance where
  it has hypotheses.
\<close>

section \<open>Files\<close>

definition sample_ini :: IniFile where
  "sample_ini = (setMultiLineValues True default_IniFile)
     \<lparr>sections := [(''Basic'', [(''client_id'', ''3''), (''note'', ''#1; b'')]),
                   (''Security'', [(''private_key'', ''k'' @ [newline] @ ''x = y'')])]\<rparr>"

lemma sample_ini_wf: "wf_IniFile sample_ini"
  by code_simp

text \<open>
  C25: A well-formed INI file object (sorted sections and fields, clean names, values whose
  continuation lines are not blank and do not start with a bracket) is written by
  \<open>IniFileBase::encode\<close> without running forever, and \<open>IniFileBase::decode\<close> reads the written
  text back to the same object, comment characters in names and values and multi-line values
  included.
\<close>

theorem ini_round_trip:
  assumes "wf_IniFile f"
  shows "\<exists>s. IniFile_encode f = Some s \<and> decode_content s f = Inr f"
  using assms by (rule encode_decode)

theorem ini_round_trip_witness:
  "wf_IniFile sample_ini \<and> (\<exists>s. IniFile_encode sample_ini = Some s \<and> decode_content s sample_ini = Inr sample_ini)"
  using ini_round_trip [OF sample_ini_wf] sample_ini_wf by simp

text \<open>
  C26: A setting stored with \<open>IniField::operator=\<close> in a well-formed file object is what the
  matching getter of \<open>Config\<close> returns after the file has been written and read again, for
  every value of every integer type and of bool.
\<close>

theorem settings_survive:
  assumes "wf_IniFile f" "section_name_ok sec" "field_name_ok f key"
  shows "(\<exists>s g. IniFile_encode (ini_assign sec key (encode_bool b) f) = Some s \<and> decode_content s f = Inr g \<and>
            snd (getBool sec key g) = Inr b) \<and>
         (\<exists>s g. IniFile_encode (ini_assign sec key (encode_short i16) f) = Some s \<and> decode_content s f = Inr g \<and>
            snd (getInt16 sec key g) = Inr i16) \<and>
         (\<exists>s g. IniFile_encode (ini_assign sec key (encode_int i32) f) = Some s \<and> decode_content s f = Inr g \<and>
            snd (getInt32 sec key g) = Inr i32) \<and>
         (\<exists>s g. IniFile_encode (ini_assign sec key (encode_long i64) f) = Some s \<and> decode_content s f = Inr g \<and>
            snd (getInt64 sec key g) = Inr i64) \<and>
         (\<exists>s g. IniFile_encode (ini_assign sec key (encode_ushort u16) f) = Some s \<and> decode_content s f = Inr g \<and>
            snd (getUInt16 sec key g) = Inr u16) \<and>
         (\<exists>s g. IniFile_encode (ini_assign sec key (encode_uint u32) f) = Some s \<and> decode_content s f = Inr g \<and>
            snd (getUInt32 sec key g) = Inr u32) \<and>
         (\<exists>s g. IniFile_encode (ini_assign sec key (encode_ulong u64) f) = Some s \<and> decode_content s f = Inr g \<and>
            snd (getUInt64 sec key g) = Inr u64)"
  unfolding getBool_def getInt16_def getInt32_def getInt64_def getUInt16_def getUInt32_def getUInt64_def
  by (intro conjI bool_field.getter_survives short_field.getter_survives int_field.getter_survives
      long_field.getter_survives ushort_field.getter_survives uint_field.getter_survives
      ulong_field.getter_survives assms)

lemma sample_names_ok: "section_name_ok ''Security''" "field_name_ok sample_ini ''timeout''"
  by code_simp+

theorem settings_survive_witness:
  "\<exists>s g. IniFile_encode (ini_assign ''Security'' ''timeout'' (encode_int (- 5)) sample_ini) = Some s \<and>
     decode_content s sample_ini = Inr g \<and> snd (getInt32 ''Security'' ''timeout'' g) = Inr (- 5)"
  using settings_survive [OF sample_ini_wf sample_names_ok, of _ _ "- 5"] by blast

section \<open>The configuration object\<close>

text \<open>
  The \<open>Config\<close> constructor succeeds exactly when the file parses and has the sections
  Basic and Security and a private key, and then the object is the parsed file; an
  unreadable file is reported as a missing section.
\<close>

lemma config_construction_exact:
  "(Config contents = Inr f \<longleftrightarrow>
     IniFile_load contents (setMultiLineValues True default_IniFile) = Inr f \<and>
     map_of (sections f) ''Basic'' \<noteq> None \<and>
     (\<exists>fs. map_of (sections f) ''Security'' = Some fs \<and> map_of fs ''private_key'' \<noteq> None)) \<and>
   Config None = Inl (Exn Logic_error ''Configuration file error: Required section [Basic] not found'')"
  using Config_Inr_iff Config_no_file
  by (simp add: SECTION_BASIC_def SECTION_SECURITY_def LOCAL_PRIVATE_KEY_def)

text \<open>
  C29: Whatever a program asks of or reads from its configuration object, each getter goes on
  returning the same value, although \<open>hasKey\<close> and the getters insert missing sections and
  fields; a numeric setting that is missing reads as zero, and reading it makes \<open>hasKey\<close> report
  the key as present from then on.
\<close>

theorem config_values_stable:
  assumes "Config contents = Inr f"
  shows "snd (Config_get as sec key (fold config_use uses f)) = snd (Config_get as sec key f) \<and>
    (snd (hasKey sec key f) \<or>
       snd (getUInt16 sec key f) = Inr 0 \<and> snd (getUInt32 sec key f) = Inr 0 \<and> snd (getInt32 sec key f) = Inr 0) \<and>
    snd (hasKey sec key (fst (getInt32 sec key f)))"
proof (intro conjI)
  note ord = Config_ordered [OF assms]
  with config_uses_keep [OF ord, of uses sec key]
  show "snd (Config_get as sec key (fold config_use uses f)) = snd (Config_get as sec key f)"
    by (simp add: Config_get_value)
  show "snd (hasKey sec key f) \<or>
      snd (getUInt16 sec key f) = Inr 0 \<and> snd (getUInt32 sec key f) = Inr 0 \<and> snd (getInt32 sec key f) = Inr 0"
    using ini_field_absent [OF ord, of sec key]
    by (auto simp: getUInt16_def getUInt32_def getInt32_def Config_get_value [OF ord] decode_ushort_def
        decode_uint_def decode_int_def strToULong_empty strToLong_empty)
  show "snd (hasKey sec key (fst (getInt32 sec key f)))"
    using hasKey_after_touch [OF ord, of sec key] by (simp add: getInt32_def Config_get_def Let_def)
qed

definition small_config :: string where
  "small_config = ''[Basic]'' @ [newline] @ ''[Security]'' @ [newline] @ ''private_key=k''"

lemma small_config_loads: "\<exists>f. Config (Some small_config) = Inr f"
proof -
  have "is_ok (Config (Some small_config))" by code_simp
  then show ?thesis by (simp add: is_ok_iff)
qed

theorem config_values_stable_witness:
  "\<exists>f. Config (Some small_config) = Inr f \<and> \<not> snd (hasKey ''Basic'' ''port'' f) \<and>
     snd (getUInt16 ''Basic'' ''port'' f) = Inr 0 \<and> snd (hasKey ''Basic'' ''port'' (fst (getInt32 ''Basic'' ''port'' f)))"
proof -
  obtain f where f: "Config (Some small_config) = Inr f" using small_config_loads by blast
  have "(case Config (Some small_config) of Inr f \<Rightarrow> \<not> snd (hasKey ''Basic'' ''port'' f) | _ \<Rightarrow> False)"
    by code_simp
  with f have "\<not> snd (hasKey ''Basic'' ''port'' f)" by simp
  with config_values_stable [OF f] f show ?thesis by blast
qed

text \<open>
  C27: However the threads of a program that call \<open>Config::initialize\<close> and
  \<open>Config::getInstance\<close> interleave, at every moment: no caller dereferences an unset instance (also
  when a constructor threw); a caller that ends with an exception ends with the one the constructor
  raised on a file some caller named; and a caller of \<open>getInstance\<close> that returns gets the one shared
  object, which the constructor made from a file some caller named (the default file for
  \<open>getInstance\<close>). So all callers that return get the same object.
\<close>

theorem config_singleton:
  assumes "config_start s0" "path (config_step files) s0 ts s"
  shows "config_threads s t \<noteq> Raised UB \<and>
    (\<forall>e. config_threads s t = Raised e \<longrightarrow> (\<exists>fname \<in> named_files s0. Config (files fname) = Inl e)) \<and>
    (\<forall>c. config_threads s t = Has_instance c \<longrightarrow>
       config_instance s = Some c \<and> (\<exists>fname \<in> named_files s0. Config (files fname) = Inr c) \<and>
       (\<forall>u d. config_threads s u = Has_instance d \<longrightarrow> d = c))"
proof -
  have "config_inv files s"
    using assms by (intro config_object.inv_path [OF assms(2)] config_inv_start)
  then have ok: "thread_ok files (singleton_initialized_flag s) (config_instance s) (config_threads s w)" for w
    by (simp add: config_inv_def)
  have named: "uses_named files (named_files s0) s"
    using config_names.inv_path [OF assms(2) uses_named_start [OF assms(1)]] .
  then have nm: "thread_named files (named_files s0) (config_threads s t)" by (simp add: uses_named_def)
  have ub: "config_threads s t \<noteq> Raised UB" using ok [of t] Config_no_UB by (auto simp: thread_ok_def)
  have inst: "config_threads s w = Has_instance c \<Longrightarrow> config_instance s = Some c" for w c
    using ok [of w] by (simp add: thread_ok_def)
  have "config_threads s t = Raised e \<Longrightarrow> \<exists>fname \<in> named_files s0. Config (files fname) = Inl e" for e
    using ub nm by (auto simp: thread_named_def)
  moreover have "config_threads s t = Has_instance c \<Longrightarrow> config_threads s u = Has_instance d \<Longrightarrow> d = c" for c u d
    using inst [of t c] inst [of u d] by simp
  moreover have "config_instance s = Some c \<Longrightarrow> \<exists>fname \<in> named_files s0. Config (files fname) = Inr c" for c
    using named by (simp add: uses_named_def)
  ultimately show ?thesis using ub inst by blast
qed

definition two_callers :: config_state where
  "two_callers = \<lparr>singleton_initialized_flag = STATE_UNINITIALIZED, config_instance = None,
     config_threads = (\<lambda>_. Get_loop)\<rparr>"

lemma two_callers_start: "config_start two_callers"
  by (simp add: config_start_def two_callers_def)

lemma two_callers_run:
  assumes "Config (files DEFAULT_CONFIG_FILE) = Inr c"
  shows "\<exists>s. path (config_step files) two_callers [0, 1, 0, 1, 0, 0, 1, 0, 1, 0] s \<and>
     config_threads s 0 = Has_instance c \<and> config_threads s 1 = Has_instance c"
  by (rule exI, rule conjI, rule config_path_fold)
    (simp add: assms config_advance_def set_thread_def two_callers_def)

theorem config_singleton_witness:
  "\<exists>s c. path (config_step (\<lambda>_. Some small_config)) two_callers [0, 1, 0, 1, 0, 0, 1, 0, 1, 0] s \<and>
     config_threads s 0 = Has_instance c \<and> config_threads s 1 = Has_instance c \<and> config_instance s = Some c \<and>
     (\<exists>fname \<in> named_files two_callers. Config (Some small_config) = Inr c)"
proof -
  obtain c where c: "Config (Some small_config) = Inr c" using small_config_loads by blast
  obtain s where s: "path (config_step (\<lambda>_. Some small_config)) two_callers [0, 1, 0, 1, 0, 0, 1, 0, 1, 0] s"
    "config_threads s 0 = Has_instance c" "config_threads s 1 = Has_instance c"
    using two_callers_run [of "\<lambda>_. Some small_config"] c by blast
  from config_singleton [OF two_callers_start s(1), of 0] s show ?thesis by blast
qed

text \<open>
  C28: When the constructor throws inside \<open>Config::initialize\<close>, no call of \<open>initialize\<close> or
  \<open>getInstance\<close> by any thread ever returns afterwards: the flag stays at INITIALIZING and the
  callers spin.
\<close>

theorem failed_config_blocks:
  assumes "reachable config_start (config_step files) s"
    and "config_threads s t = Constructing from_get fname" "Config (files fname) = Inl e"
    and "path (config_step files) (config_advance files t s) ts s'"
  shows "config_threads s' u \<noteq> Initialized \<and> config_threads s' u \<noteq> Has_instance c"
proof -
  have "construction_failed (config_advance files t s)"
    using raised_failed [OF config_object.inv_reachable [OF assms(1)] assms(2,3)] .
  with assms(4) have "construction_failed s'" by (rule config_failed.inv_path)
  then show ?thesis by (simp add: construction_failed_def)
qed

theorem failed_config_blocks_witness:
  "\<exists>s s'. reachable config_start (config_step (\<lambda>_. None)) s \<and>
     config_threads s 0 = Constructing True DEFAULT_CONFIG_FILE \<and>
     path (config_step (\<lambda>_. None)) (config_advance (\<lambda>_. None) 0 s) [1, 1, 1] s' \<and>
     config_threads s' 1 = Waiting True \<and> config_threads s' 1 \<noteq> Initialized"
proof -
  obtain s where s: "path (config_step (\<lambda>_. None)) two_callers [0, 0] s"
    and th: "config_threads s 0 = Constructing True DEFAULT_CONFIG_FILE" "config_threads s 1 = Get_loop"
      "singleton_initialized_flag s = STATE_INITIALIZING"
    by (simp add: config_step_iff config_advance_def set_thread_def two_callers_def)
  have r: "reachable config_start (config_step (\<lambda>_. None)) s"
    using s two_callers_start unfolding reachable_def by blast
  have "\<exists>s'. path (config_step (\<lambda>_. None)) (config_advance (\<lambda>_. None) 0 s) [1, 1, 1] s' \<and>
      config_threads s' 1 = Waiting True"
    using th by (simp add: config_step_iff config_advance_def set_thread_def Config_no_file)
  then obtain s' where s': "path (config_step (\<lambda>_. None)) (config_advance (\<lambda>_. None) 0 s) [1, 1, 1] s'"
    "config_threads s' 1 = Waiting True" by blast
  from failed_config_blocks [OF r th(1) _ s'(1), of _ 1] r th s' show ?thesis
    using Config_no_file by blast
qed

end
