(* ===== verification/Fault_Settings.thy ===== *)
theory Fault_Settings
  imports Configuration Fault_Tracker
begin

text \<open>
  How the age limit of fault records is configured: \<^verbatim>\<open>CheckinService::setupFaultTracking\<close> and
  \<^verbatim>\<open>startFaultCleanupThread\<close> (\<^verbatim>\<open>checkin_service.cpp\<close>), and \<^verbatim>\<open>FaultTracker::initializeConfig\<close>
  (\<^verbatim>\<open>faulty_clients.hpp\<close>), which catches what the former lets through. Limits are in hours.
\<close>

definition setupFaultTracking :: "IniFile \<Rightarrow> IniFile \<times> int result" where
  "setupFaultTracking f =
     (let (f', found) = hasKey SECTION_BASIC ''fault_cleanup_hours'' f
      in if found
         then (let (f'', r) = getInt32 SECTION_BASIC ''fault_cleanup_hours'' f'
               in (f'', bindR r (\<lambda>h. Inr (sint h))))
         else (f', Inr 24))"

definition initializeConfig :: "IniFile \<Rightarrow> int \<Rightarrow> IniFile \<times> int result" where
  "initializeConfig f cleanup_threshold =
     (let (f', found) = hasKey ''FaultTracking'' ''cleanup_hours'' f
      in if found
         then (let (f'', r) = getInt32 ''FaultTracking'' ''cleanup_hours'' f'
               in (f'', case r of Inr h \<Rightarrow> Inr (sint h) | Inl (Exn _ _) \<Rightarrow> Inr 24 | Inl e \<Rightarrow> Inl e))
         else (f', Inr cleanup_threshold))"

text \<open>The passes of the clean-up thread, at the times the clock shows.\<close>

primrec faultCleanupThread :: "int \<Rightarrow> int list \<Rightarrow> client_map \<Rightarrow> client_map result" where
  "faultCleanupThread cleanup_threshold [] m = Inr m"
| "faultCleanupThread cleanup_threshold (now # later) m =
     bindR (clearOldRecords now cleanup_threshold m) (faultCleanupThread cleanup_threshold later)"

lemma faultCleanupThread_Nil: "faultCleanupThread h nows [] = Inr []"
  by (induction nows) simp_all

lemma faultCleanupThread_filter:
  "\<bar>h\<bar> \<le> 2562047 \<Longrightarrow> faultCleanupThread h nows m =
     Inr (filter (\<lambda>(c, r). \<forall>now \<in> set nows. now - lastReportTime r \<le> h * ns_per_hour) m)"
proof (induction nows arbitrary: m)
  case (Cons now nows)
  then show ?case by (simp add: clearOldRecords_eq_filter) (auto intro: filter_cong)
qed simp

lemma faultCleanupThread_eq:
  "faultCleanupThread h nows m =
     (if nows = [] \<or> m = [] \<or> \<bar>h\<bar> \<le> 2562047
      then Inr (filter (\<lambda>(c, r). \<forall>now \<in> set nows. now - lastReportTime r \<le> h * ns_per_hour) m) else Inl UB)"
proof (cases "\<bar>h\<bar> \<le> 2562047")
  case True
  then show ?thesis by (simp add: faultCleanupThread_filter)
next
  case False
  then show ?thesis by (cases nows) (auto simp: faultCleanupThread_Nil clearOldRecords_eq_filter)
qed

lemma setupFaultTracking_value:
  assumes "ordered_IniFile f"
  shows "snd (setupFaultTracking f) =
     (if snd (hasKey SECTION_BASIC ''fault_cleanup_hours'' f)
      then bindR (decode_int (ini_field SECTION_BASIC ''fault_cleanup_hours'' f)) (\<lambda>h. Inr (sint h))
      else Inr 24)"
  using Config_get_value [OF ordered_hasKey [OF assms], of decode_int SECTION_BASIC "''fault_cleanup_hours''"
      SECTION_BASIC "''fault_cleanup_hours''"] ini_field_hasKey [OF assms, of SECTION_BASIC "''fault_cleanup_hours''"]
  by (simp add: setupFaultTracking_def getInt32_def case_prod_beta Let_def)

end
