(* ===== verification/Envelope_Encryption.thy ===== *)
theory Envelope_Encryption
  imports Openssl_Wrapper
begin

text \<open>
  Key files and envelope encryption (\<^verbatim>\<open>openssl/envelope_key.cpp\<close>,
  \<^verbatim>\<open>openssl/envelope_encryption.cpp\<close>): the in-memory and private-key variants of the PEM
  functions, the cipher table, and \<^verbatim>\<open>EnvelopeEncryptor\<close> and \<^verbatim>\<open>EnvelopeDecryptor\<close> with the output
  buffer \<^verbatim>\<open>make_encrypted_message\<close> fills at offsets it computes. OpenSSL's cipher calls are
  the fields of a record. The lemmas show the layout of a sealed message for a padding cipher,
  that the documented use of the decryptor inverts it, and that the final assertion fails for
  every cipher of block size one.
\<close>

section \<open>OpenSSL's ciphers\<close>

datatype CipherAlgorithm =
    AES128_CBC | AES128_CFB | AES128_CTR | AES256_CBC | AES256_CFB | AES256_CTR
  | AES128_CCM | AES128_GCM | AES256_CCM | AES256_GCM

datatype evp_cipher =
    EVP_aes_128_cbc | EVP_aes_128_cfb | EVP_aes_128_ctr | EVP_aes_128_ccm | EVP_aes_128_gcm
  | EVP_aes_256_cbc | EVP_aes_256_cfb | EVP_aes_256_ctr | EVP_aes_256_ccm | EVP_aes_256_gcm

text \<open>
  \<open>'x\<close> is the type of \<^verbatim>\<open>EVP_CIPHER_CTX\<close> objects. \<open>seal_init\<close> gives its status, the context,
  the encrypted session key and the IV it writes; the update and final calls give their status,
  the context and the bytes they write, and take the length as the \<^verbatim>\<open>int\<close> it is passed as.
\<close>

record ('k, 'x) evp_lib =
  pem_read_private :: "string \<Rightarrow> 'k option"
  cipher_iv_length :: "evp_cipher \<Rightarrow> nat"
  cipher_block_size :: "evp_cipher \<Rightarrow> nat"
  cipher_ctx_new :: 'x
  cipher_ctx_reset :: "'x \<Rightarrow> int \<times> 'x"
  seal_init :: "evp_cipher \<Rightarrow> 'k \<Rightarrow> 'x \<Rightarrow> int \<times> 'x \<times> byte list \<times> byte list"
  seal_update :: "int \<Rightarrow> byte list \<Rightarrow> 'x \<Rightarrow> int \<times> 'x \<times> byte list"
  seal_final :: "'x \<Rightarrow> int \<times> 'x \<times> byte list"
  open_init :: "evp_cipher \<Rightarrow> byte list \<Rightarrow> byte list \<Rightarrow> 'k \<Rightarrow> 'x \<Rightarrow> int \<times> 'x"
  open_update :: "int \<Rightarrow> byte list \<Rightarrow> 'x \<Rightarrow> int \<times> 'x \<times> byte list"
  open_final :: "'x \<Rightarrow> int \<times> 'x \<times> byte list"

section \<open>Keys in memory and private keys\<close>

definition get_max_size :: "('j, 'k, 'c) libs \<Rightarrow> 'k \<Rightarrow> int" where
  "get_max_size L key = pkey_size L key"

definition from_pem_private :: "('j, 'k, 'c) libs \<Rightarrow> ('k, 'x) evp_lib \<Rightarrow> file_system \<Rightarrow> string \<Rightarrow> 'k result" where
  "from_pem_private L E fs pem_file_name = (case fs (resolve_path pem_file_name) of
       Inl e \<Rightarrow> Inl (file_open_error e pem_file_name)
     | Inr contents \<Rightarrow> (case pem_read_private E contents of
           None \<Rightarrow> Inl (openssl_error L ''Load private key'')
         | Some private_key \<Rightarrow> Inr private_key))"

definition from_pem_private_bytes :: "('j, 'k, 'c) libs \<Rightarrow> ('k, 'x) evp_lib \<Rightarrow> string \<Rightarrow> 'k result" where
  "from_pem_private_bytes L E byte_buffer = (case pem_read_private E byte_buffer of
       None \<Rightarrow> Inl (openssl_error L ''Load private key'')
     | Some private_key \<Rightarrow> Inr private_key)"

definition from_pem_public_bytes :: "('j, 'k, 'c) libs \<Rightarrow> string \<Rightarrow> 'k result" where
  "from_pem_public_bytes L byte_buffer = (case pem_read L byte_buffer of
       None \<Rightarrow> Inl (openssl_error L ''Load public key'')
     | Some public_key \<Rightarrow> Inr public_key)"

lemma from_pem_public_bytes_to_pem:
  "pem_law L \<Longrightarrow> to_pem_public_string L k = Inr s \<Longrightarrow> from_pem_public_bytes L s = Inr k"
  by (auto simp: to_pem_public_string_def from_pem_public_bytes_def pem_law_def split: option.splits)

section \<open>Encryptor\<close>

definition get_cipher_type_ptr :: "CipherAlgorithm \<Rightarrow> evp_cipher" where
  "get_cipher_type_ptr algorithm_type = (case algorithm_type of
       AES128_CBC \<Rightarrow> EVP_aes_128_cbc
     | AES128_CFB \<Rightarrow> EVP_aes_128_cfb
     | AES128_CTR \<Rightarrow> EVP_aes_128_ctr
     | AES128_CCM \<Rightarrow> EVP_aes_128_ccm
     | AES128_GCM \<Rightarrow> EVP_aes_128_gcm
     | AES256_CBC \<Rightarrow> EVP_aes_256_cbc
     | AES256_CFB \<Rightarrow> EVP_aes_256_cfb
     | AES256_CTR \<Rightarrow> EVP_aes_256_ctr
     | AES256_CCM \<Rightarrow> EVP_aes_256_ccm
     | AES256_GCM \<Rightarrow> EVP_aes_256_gcm)"

record ('k, 'x) envelope_encryptor =
  ee_public_key :: 'k
  ee_cipher_type :: CipherAlgorithm
  ee_cipher_context :: 'x

definition EnvelopeEncryptor :: "('k, 'x) evp_lib \<Rightarrow> 'k \<Rightarrow> CipherAlgorithm \<Rightarrow> ('k, 'x) envelope_encryptor" where
  "EnvelopeEncryptor E target_public_key algorithm_type =
     \<lparr>ee_public_key = target_public_key, ee_cipher_type = algorithm_type, ee_cipher_context = cipher_ctx_new E\<rparr>"

definition ee_IV_size :: "('k, 'x) evp_lib \<Rightarrow> ('k, 'x) envelope_encryptor \<Rightarrow> nat" where
  "ee_IV_size E e = cipher_iv_length E (get_cipher_type_ptr (ee_cipher_type e))"

definition ee_encrypted_key_size :: "('j, 'k, 'c) libs \<Rightarrow> ('k, 'x) envelope_encryptor \<Rightarrow> int" where
  "ee_encrypted_key_size L e = get_max_size L (ee_public_key e)"

definition get_cipher_block_size :: "('k, 'x) evp_lib \<Rightarrow> ('k, 'x) envelope_encryptor \<Rightarrow> nat" where
  "get_cipher_block_size E e = cipher_block_size E (get_cipher_type_ptr (ee_cipher_type e))"

definition compute_output_buffer_size :: "('k, 'x) evp_lib \<Rightarrow> ('k, 'x) envelope_encryptor \<Rightarrow> nat \<Rightarrow> nat" where
  "compute_output_buffer_size E e input_buffer_size =
     (let block_size = get_cipher_block_size E e
      in (input_buffer_size div block_size) * block_size + block_size)"

text \<open>
  A call that writes through a pointer into the message buffer: bytes beyond its end are
  undefined behaviour.
\<close>

definition write_at :: "nat \<Rightarrow> byte list \<Rightarrow> byte list \<Rightarrow> byte list result" where
  "write_at off bs buffer =
     (if length buffer < off + length bs then Inl UB
      else Inr (take off buffer @ bs @ drop (off + length bs) buffer))"

text \<open>\<^verbatim>\<open>init\<close>, with the two buffers as offsets into the message.\<close>

definition ee_init ::
  "('j, 'k, 'c) libs \<Rightarrow> ('k, 'x) evp_lib \<Rightarrow> nat \<Rightarrow> nat \<Rightarrow> ('k, 'x) envelope_encryptor \<times> byte list
     \<Rightarrow> (('k, 'x) envelope_encryptor \<times> byte list) result" where
  "ee_init L E key_off iv_off = (\<lambda>(e, buffer).
     (case cipher_ctx_reset E (ee_cipher_context e) of (status, ctx) \<Rightarrow>
        if status \<noteq> 1 then Inl (openssl_error L ''EVP_CIPHER_CTX_reset'')
        else (case seal_init E (get_cipher_type_ptr (ee_cipher_type e)) (ee_public_key e) ctx of
          (status, ctx', encrypted_key, iv) \<Rightarrow>
            if status = 0 then Inl (openssl_error L ''EVP_SealInit'')
            else bindR (write_at key_off encrypted_key buffer) (\<lambda>buffer'.
                 bindR (write_at iv_off iv buffer') (\<lambda>buffer''.
                   if int (length encrypted_key) \<noteq> ee_encrypted_key_size L e then Inl Abort
                   else Inr (e\<lparr>ee_cipher_context := ctx'\<rparr>, buffer''))))))"

definition as_c_int :: "nat \<Rightarrow> int" where
  "as_c_int n = sint (of_nat n :: 32 word)"

definition encrypt_bytes ::
  "('j, 'k, 'c) libs \<Rightarrow> ('k, 'x) evp_lib \<Rightarrow> byte list \<Rightarrow> nat \<Rightarrow> ('k, 'x) envelope_encryptor \<times> byte list
     \<Rightarrow> (nat \<times> ('k, 'x) envelope_encryptor \<times> byte list) result" where
  "encrypt_bytes L E input_bytes off = (\<lambda>(e, buffer).
     (case seal_update E (as_c_int (length input_bytes)) input_bytes (ee_cipher_context e) of (status, ctx, out) \<Rightarrow>
        if status \<noteq> 1 then Inl (openssl_error L ''EVP_SealUpdate'')
        else bindR (write_at off out buffer) (\<lambda>buffer'.
          Inr (length out, e\<lparr>ee_cipher_context := ctx\<rparr>, buffer'))))"

definition ee_finalize ::
  "('j, 'k, 'c) libs \<Rightarrow> ('k, 'x) evp_lib \<Rightarrow> nat \<Rightarrow> ('k, 'x) envelope_encryptor \<times> byte list
     \<Rightarrow> (nat \<times> ('k, 'x) envelope_encryptor \<times> byte list) result" where
  "ee_finalize L E off = (\<lambda>(e, buffer).
     (case seal_final E (ee_cipher_context e) of (status, ctx, out) \<Rightarrow>
        if status \<noteq> 1 then Inl (openssl_error L ''EVP_SealFinal'')
        else bindR (write_at off out buffer) (\<lambda>buffer'.
          Inr (length out, e\<lparr>ee_cipher_context := ctx\<rparr>, buffer'))))"

definition make_encrypted_message ::
  "('j, 'k, 'c) libs \<Rightarrow> ('k, 'x) evp_lib \<Rightarrow> byte list \<Rightarrow> ('k, 'x) envelope_encryptor \<Rightarrow> byte list result" where
  "make_encrypted_message L E input_bytes e =
     (let key_size = nat (ee_encrypted_key_size L e);
          total_output_size = key_size + ee_IV_size E e + compute_output_buffer_size E e (length input_bytes)
      in bindR (ee_init L E 0 key_size (e, replicate total_output_size 0)) (\<lambda>st.
         let bytes_written = ee_IV_size E e + key_size
         in bindR (encrypt_bytes L E input_bytes bytes_written st) (\<lambda>(n, st').
            bindR (ee_finalize L E (bytes_written + n) st') (\<lambda>(m, _, output_buffer).
              if bytes_written + n + m \<noteq> total_output_size then Inl Abort
              else Inr output_buffer))))"

section \<open>Decryptor\<close>

record ('k, 'x) envelope_decryptor =
  ed_private_key :: 'k
  ed_cipher_type :: CipherAlgorithm
  ed_cipher_context :: 'x

definition EnvelopeDecryptor :: "('k, 'x) evp_lib \<Rightarrow> 'k \<Rightarrow> CipherAlgorithm \<Rightarrow> ('k, 'x) envelope_decryptor" where
  "EnvelopeDecryptor E private_key algorithm_type =
     \<lparr>ed_private_key = private_key, ed_cipher_type = algorithm_type, ed_cipher_context = cipher_ctx_new E\<rparr>"

definition ed_IV_size :: "('k, 'x) evp_lib \<Rightarrow> ('k, 'x) envelope_decryptor \<Rightarrow> nat" where
  "ed_IV_size E d = cipher_iv_length E (get_cipher_type_ptr (ed_cipher_type d))"

definition ed_encrypted_key_size :: "('j, 'k, 'c) libs \<Rightarrow> ('k, 'x) envelope_decryptor \<Rightarrow> int" where
  "ed_encrypted_key_size L d = get_max_size L (ed_private_key d)"

text \<open>The key and IV buffers are read up to their expected sizes; shorter ones are read past their end.\<close>

definition ed_init ::
  "('j, 'k, 'c) libs \<Rightarrow> ('k, 'x) evp_lib \<Rightarrow> byte list \<Rightarrow> byte list \<Rightarrow> ('k, 'x) envelope_decryptor
     \<Rightarrow> ('k, 'x) envelope_decryptor result" where
  "ed_init L E encrypted_key_buffer iv_buffer d =
     (case cipher_ctx_reset E (ed_cipher_context d) of (status, ctx) \<Rightarrow>
        if status \<noteq> 1 then Inl (openssl_error L ''EVP_CIPHER_CTX_reset'')
        else let key_size = nat (ed_encrypted_key_size L d); iv_size = ed_IV_size E d
             in if length encrypted_key_buffer < key_size \<or> length iv_buffer < iv_size then Inl UB
                else (case open_init E (get_cipher_type_ptr (ed_cipher_type d)) (take key_size encrypted_key_buffer)
                        (take iv_size iv_buffer) (ed_private_key d) ctx of (status, ctx') \<Rightarrow>
                  if status = 0 then Inl (openssl_error L ''EVP_SealInit'')
                  else Inr (d\<lparr>ed_cipher_context := ctx'\<rparr>)))"

definition decrypt_bytes ::
  "('j, 'k, 'c) libs \<Rightarrow> ('k, 'x) evp_lib \<Rightarrow> byte list \<Rightarrow> ('k, 'x) envelope_decryptor
     \<Rightarrow> (('k, 'x) envelope_decryptor \<times> byte list) result" where
  "decrypt_bytes L E input_bytes d =
     (case open_update E (as_c_int (length input_bytes)) input_bytes (ed_cipher_context d) of (status, ctx, out) \<Rightarrow>
        if status \<noteq> 1 then Inl (openssl_error L ''EVP_OpenUpdate'')
        else Inr (d\<lparr>ed_cipher_context := ctx\<rparr>, out))"

definition ed_finalize ::
  "('j, 'k, 'c) libs \<Rightarrow> ('k, 'x) evp_lib \<Rightarrow> ('k, 'x) envelope_decryptor \<Rightarrow> (('k, 'x) envelope_decryptor \<times> byte list) result" where
  "ed_finalize L E d =
     (case open_final E (ed_cipher_context d) of (status, ctx, out) \<Rightarrow>
        if status \<noteq> 1 then Inl (openssl_error L ''EVP_OpenFinal'')
        else Inr (d\<lparr>ed_cipher_context := ctx\<rparr>, out))"

text \<open>
  The use the headers document: the parts of a sealed message, in order, given to a decryptor
  one after the other.
\<close>

definition open_message ::
  "('j, 'k, 'c) libs \<Rightarrow> ('k, 'x) evp_lib \<Rightarrow> byte list \<Rightarrow> ('k, 'x) envelope_decryptor \<Rightarrow> byte list result" where
  "open_message L E msg d =
     (let key_size = nat (ed_encrypted_key_size L d); iv_size = ed_IV_size E d
      in bindR (ed_init L E (take key_size msg) (take iv_size (drop key_size msg)) d) (\<lambda>d'.
         bindR (decrypt_bytes L E (drop (key_size + iv_size) msg) d') (\<lambda>(d'', a).
         bindR (ed_finalize L E d'') (\<lambda>(_, b). Inr (a @ b)))))"

section \<open>What the wrapper relies on\<close>

text \<open>
  The documented behaviour of sealing with a cipher under a key: the calls succeed, the
  encrypted key has the maximal size of the public key and the IV the cipher's length, and the
  bytes of an update and the final call add up to whole blocks with one to a full block of
  padding, or to the input for a cipher of block size one. The lengths of one call fit an
  \<^verbatim>\<open>int\<close>.
\<close>

definition sealed_size :: "nat \<Rightarrow> nat \<Rightarrow> nat" where
  "sealed_size block n = (if block = 1 then n else (n div block + 1) * block)"

definition seal_law :: "('j, 'k, 'c) libs \<Rightarrow> ('k, 'x) evp_lib \<Rightarrow> evp_cipher \<Rightarrow> 'k \<Rightarrow> bool" where
  "seal_law L E c k \<longleftrightarrow>
     0 < cipher_block_size E c \<and> 0 \<le> pkey_size L k \<and>
     (\<forall>x. fst (cipher_ctx_reset E x) = 1) \<and>
     (\<forall>x ctx ek iv status. seal_init E c k x = (status, ctx, ek, iv) \<longrightarrow>
        status \<noteq> 0 \<and> int (length ek) = pkey_size L k \<and> length iv = cipher_iv_length E c \<and>
        (\<forall>bs. int (length bs) < 2 ^ 31 \<longrightarrow>
           (\<exists>ctx' a ctx'' b. seal_update E (int (length bs)) bs ctx = (1, ctx', a) \<and>
              seal_final E ctx' = (1, ctx'', b) \<and>
              length a + length b = sealed_size (cipher_block_size E c) (length bs))))"

text \<open>The pieces of the sealed message, in the terms of the library's calls.\<close>

definition seal_parts :: "('k, 'x) evp_lib \<Rightarrow> evp_cipher \<Rightarrow> 'k \<Rightarrow> byte list \<Rightarrow> byte list \<times> byte list \<times> byte list" where
  "seal_parts E c k bs =
     (let (_, ctx, ek, iv) = seal_init E c k (snd (cipher_ctx_reset E (cipher_ctx_new E)));
          (_, ctx', a) = seal_update E (int (length bs)) bs ctx;
          (_, _, b) = seal_final E ctx'
      in (ek, iv, a @ b))"

text \<open>Opening with the matching key gives the sealed bytes back.\<close>

definition open_law :: "('k, 'x) evp_lib \<Rightarrow> evp_cipher \<Rightarrow> 'k \<Rightarrow> 'k \<Rightarrow> bool" where
  "open_law E c pub priv \<longleftrightarrow>
     (\<forall>bs ek iv ct. seal_parts E c pub bs = (ek, iv, ct) \<longrightarrow> int (length ct) < 2 ^ 31 \<longrightarrow>
        (\<exists>status ctx ctx' a ctx'' b.
           open_init E c ek iv priv (snd (cipher_ctx_reset E (cipher_ctx_new E))) = (status, ctx) \<and> status \<noteq> 0 \<and>
           open_update E (int (length ct)) ct ctx = (1, ctx', a) \<and> open_final E ctx' = (1, ctx'', b) \<and> a @ b = bs))"

section \<open>The layout of a sealed message\<close>

lemma as_c_int_small: "int n < 2 ^ 31 \<Longrightarrow> as_c_int n = int n"
  by (simp add: as_c_int_def signed_of_nat signed_take_bit_int_eq_self)

text \<open>Writing right behind what is already there.\<close>

lemma write_at_end:
  "off = length xs \<Longrightarrow> length bs \<le> n \<Longrightarrow>
     write_at off bs (xs @ replicate n 0) = Inr (xs @ bs @ replicate (n - length bs) 0)"
  by (simp add: write_at_def)

lemma compute_output_buffer_size_eq:
  "compute_output_buffer_size E e n = (n div get_cipher_block_size E e + 1) * get_cipher_block_size E e"
  by (simp add: compute_output_buffer_size_def Let_def)

lemma sealed_size_fits: "0 < b \<Longrightarrow> sealed_size b n \<le> (n div b + 1) * b"
  by (simp add: sealed_size_def)

lemma seal_parts_cases:
  assumes law: "seal_law L E c k" and small: "int (length bs) < 2 ^ 31"
    and parts: "seal_parts E c k bs = (ek, iv, ct)"
  obtains x status ctx ctx' a ctx'' b where
    "cipher_ctx_reset E (cipher_ctx_new E) = (1, x)"
    "seal_init E c k x = (status, ctx, ek, iv)" "status \<noteq> 0"
    "seal_update E (int (length bs)) bs ctx = (1, ctx', a)" "seal_final E ctx' = (1, ctx'', b)"
    "pkey_size L k = int (length ek)" "cipher_iv_length E c = length iv"
    "length a + length b = sealed_size (cipher_block_size E c) (length bs)" "ct = a @ b"
proof -
  obtain s x where x: "cipher_ctx_reset E (cipher_ctx_new E) = (s, x)" by fastforce
  obtain status ctx ek' iv' where i: "seal_init E c k x = (status, ctx, ek', iv')" by (metis prod.exhaust)
  have s: "s = 1" using law x unfolding seal_law_def by (metis fst_conv)
  have init: "status \<noteq> 0 \<and> int (length ek') = pkey_size L k \<and> length iv' = cipher_iv_length E c"
    using law i unfolding seal_law_def by blast
  obtain ctx' a ctx'' b where u: "seal_update E (int (length bs)) bs ctx = (1, ctx', a)"
    "seal_final E ctx' = (1, ctx'', b)"
    "length a + length b = sealed_size (cipher_block_size E c) (length bs)"
    using law small i unfolding seal_law_def by metis
  have "ek = ek'" "iv = iv'" "ct = a @ b" using parts by (simp_all add: seal_parts_def x i u)
  with x s i init u show thesis by (intro that [of x status ctx ctx' a ctx'' b]) simp_all
qed

text \<open>The steps of sealing on the buffer, given what the library returns.\<close>

lemma ee_init_layout:
  assumes "cipher_ctx_reset E (ee_cipher_context e) = (1, x)"
    and "seal_init E (get_cipher_type_ptr (ee_cipher_type e)) (ee_public_key e) x = (status, ctx, ek, iv)" "status \<noteq> 0"
    and "ee_encrypted_key_size L e = int (length ek)"
  shows "ee_init L E 0 (length ek) (e, replicate (length ek + length iv + n) 0) =
     Inr (e\<lparr>ee_cipher_context := ctx\<rparr>, (ek @ iv) @ replicate n 0)"
proof -
  have "write_at 0 ek (replicate (length ek + length iv + n) 0) = Inr (ek @ replicate (length iv + n) 0)"
    using write_at_end [of 0 "[]" ek "length ek + length iv + n"] by (simp add: add.assoc)
  moreover have "write_at (length ek) iv (ek @ replicate (length iv + n) 0) = Inr ((ek @ iv) @ replicate n 0)"
    by (simp add: write_at_end)
  ultimately show ?thesis using assms by (simp add: ee_init_def)
qed

lemma encrypt_bytes_layout:
  assumes "seal_update E (int (length bs)) bs (ee_cipher_context e) = (1, ctx, a)" "int (length bs) < 2 ^ 31"
    and "off = length xs" "length a \<le> n"
  shows "encrypt_bytes L E bs off (e, xs @ replicate n 0) =
     Inr (length a, e\<lparr>ee_cipher_context := ctx\<rparr>, (xs @ a) @ replicate (n - length a) 0)"
  using assms by (simp add: encrypt_bytes_def as_c_int_small write_at_end)

lemma ee_finalize_layout:
  assumes "seal_final E (ee_cipher_context e) = (1, ctx, b)" "off = length xs" "length b \<le> n"
  shows "ee_finalize L E off (e, xs @ replicate n 0) =
     Inr (length b, e\<lparr>ee_cipher_context := ctx\<rparr>, (xs @ b) @ replicate (n - length b) 0)"
  using assms by (simp add: ee_finalize_def write_at_end)

lemma make_encrypted_message_layout:
  assumes law: "seal_law L E (get_cipher_type_ptr alg) k" and small: "int (length bs) < 2 ^ 31"
    and parts: "seal_parts E (get_cipher_type_ptr alg) k bs = (ek, iv, ct)"
  shows "make_encrypted_message L E bs (EnvelopeEncryptor E k alg) =
     (if cipher_block_size E (get_cipher_type_ptr alg) = 1 then Inl Abort else Inr (ek @ iv @ ct))"
proof -
  let ?c = "get_cipher_type_ptr alg" and ?e = "EnvelopeEncryptor E k alg"
  let ?C = "compute_output_buffer_size E ?e (length bs)"
  obtain x status ctx ctx' a ctx'' b where lib:
    "cipher_ctx_reset E (cipher_ctx_new E) = (1, x)"
    "seal_init E ?c k x = (status, ctx, ek, iv)" "status \<noteq> 0"
    "seal_update E (int (length bs)) bs ctx = (1, ctx', a)" "seal_final E ctx' = (1, ctx'', b)"
    "pkey_size L k = int (length ek)" "cipher_iv_length E ?c = length iv"
    "length a + length b = sealed_size (cipher_block_size E ?c) (length bs)" and ct: "ct = a @ b"
    by (rule seal_parts_cases [OF law small parts])
  have pos: "0 < cipher_block_size E ?c" using law by (simp add: seal_law_def)
  have C: "?C = (length bs div cipher_block_size E ?c + 1) * cipher_block_size E ?c"
    by (simp add: compute_output_buffer_size_eq get_cipher_block_size_def EnvelopeEncryptor_def)
  have fit: "length a + length b \<le> ?C" using lib(8) sealed_size_fits [OF pos] C by simp
  have sizes: "ee_encrypted_key_size L ?e = int (length ek)" "ee_IV_size E ?e = length iv"
    using lib by (simp_all add: ee_encrypted_key_size_def get_max_size_def ee_IV_size_def EnvelopeEncryptor_def)
  have init: "ee_init L E 0 (length ek) (?e, replicate (length ek + length iv + ?C) 0) =
      Inr (?e\<lparr>ee_cipher_context := ctx\<rparr>, (ek @ iv) @ replicate ?C 0)"
    using lib sizes by (intro ee_init_layout) (simp_all add: EnvelopeEncryptor_def)
  have update: "encrypt_bytes L E bs (length iv + length ek) (?e\<lparr>ee_cipher_context := ctx\<rparr>, (ek @ iv) @ replicate ?C 0) =
      Inr (length a, ?e\<lparr>ee_cipher_context := ctx, ee_cipher_context := ctx'\<rparr>, ((ek @ iv) @ a) @ replicate (?C - length a) 0)"
    using lib fit small by (intro encrypt_bytes_layout) simp_all
  have final: "ee_finalize L E (length iv + length ek + length a)
        (?e\<lparr>ee_cipher_context := ctx, ee_cipher_context := ctx'\<rparr>, ((ek @ iv) @ a) @ replicate (?C - length a) 0) =
      Inr (length b, ?e\<lparr>ee_cipher_context := ctx, ee_cipher_context := ctx', ee_cipher_context := ctx''\<rparr>,
           (((ek @ iv) @ a) @ b) @ replicate (?C - length a - length b) 0)"
    using lib fit by (intro ee_finalize_layout) simp_all
  have whole: "length a + length b = ?C \<longleftrightarrow> cipher_block_size E ?c \<noteq> 1"
    unfolding lib(8) C by (simp add: sealed_size_def)
  have "make_encrypted_message L E bs ?e =
      (if length a + length b \<noteq> ?C then Inl Abort
       else Inr ((((ek @ iv) @ a) @ b) @ replicate (?C - length a - length b) 0))"
    unfolding make_encrypted_message_def Let_def sizes nat_int init update final bindR.simps prod.case by simp
  then show ?thesis unfolding whole ct using whole by auto
qed

lemma open_sealed:
  assumes "seal_law L E (get_cipher_type_ptr alg) pub" "open_law E (get_cipher_type_ptr alg) pub priv"
    and parts: "seal_parts E (get_cipher_type_ptr alg) pub bs = (ek, iv, ct)"
    and "int (length bs) < 2 ^ 31" "int (length ct) < 2 ^ 31"
    and "pkey_size L priv = pkey_size L pub"
  shows "open_message L E (ek @ iv @ ct) (EnvelopeDecryptor E priv alg) = Inr bs"
proof -
  let ?c = "get_cipher_type_ptr alg" and ?d = "EnvelopeDecryptor E priv alg"
  obtain x where x: "cipher_ctx_reset E (cipher_ctx_new E) = (1, x)"
    and sizes: "pkey_size L pub = int (length ek)" "cipher_iv_length E ?c = length iv"
    by (rule seal_parts_cases [OF assms(1,4) parts])
  obtain status ctx ctx' a ctx'' b where o: "open_init E ?c ek iv priv x = (status, ctx)" "status \<noteq> 0"
    "open_update E (int (length ct)) ct ctx = (1, ctx', a)" "open_final E ctx' = (1, ctx'', b)" "a @ b = bs"
    using assms x unfolding open_law_def by (metis snd_conv)
  have d: "nat (ed_encrypted_key_size L ?d) = length ek" "ed_IV_size E ?d = length iv"
    using sizes assms by (simp_all add: ed_encrypted_key_size_def get_max_size_def ed_IV_size_def EnvelopeDecryptor_def)
  have "ed_init L E ek iv ?d = Inr (?d\<lparr>ed_cipher_context := ctx\<rparr>)"
    using o x d by (simp add: ed_init_def EnvelopeDecryptor_def)
  then show ?thesis
    using o d as_c_int_small [OF assms(5)] by (simp add: open_message_def decrypt_bytes_def ed_finalize_def)
qed

end
