(* ===== verification/Console.thy ===== *)
theory Console
  imports Cpp_Std
begin

text \<open>
  The standard streams of the programs: what is left of the input with its state, and the text
  written to the two output streams. The reads are those the programs use.
\<close>

record console =
  con_in :: istream
  con_out :: string
  con_err :: string

definition print_line :: "string \<Rightarrow> console \<Rightarrow> console" where
  "print_line s c = c\<lparr>con_out := con_out c @ s @ [newline]\<rparr>"

definition read_line :: "string \<Rightarrow> console \<Rightarrow> string \<times> console" where
  "read_line old c = (case getline_into newline (con_in c) old of (l, st, _) \<Rightarrow> (l, c\<lparr>con_in := st\<rparr>))"

text \<open>
  \<^verbatim>\<open>std::cin >> word\<close>: leading white space is skipped; at the end of the input nothing is
  assigned.
\<close>

definition extract_word :: "string \<Rightarrow> console \<Rightarrow> string \<times> console" where
  "extract_word old c =
     (let s = dropWhile is_space (rest (con_in c)); r = dropWhile (\<lambda>x. \<not> is_space x) s
      in if \<not> good (con_in c) then (old, c)
         else if s = [] then (old, c\<lparr>con_in := \<lparr>rest = [], good = False\<rparr>\<rparr>)
         else (takeWhile (\<lambda>x. \<not> is_space x) s, c\<lparr>con_in := \<lparr>rest = r, good = r \<noteq> []\<rparr>\<rparr>))"

text \<open>
  \<^verbatim>\<open>std::cin >> number\<close> for an uninitialised 32-bit variable: \<open>None\<close> is an indeterminate value,
  left there when the input has ended. Text that is no number stores zero, a number that does
  not fit stores the maximum, and a minus sign negates.
\<close>

definition extract_number :: "console \<Rightarrow> u32 option \<times> console" where
  "extract_number c =
     (let s = dropWhile is_space (rest (con_in c)); (neg, t) = split_sign s;
          ds = takeWhile is_digit t; r = dropWhile is_digit t; n = digits_value ds
      in if \<not> good (con_in c) then (None, c)
         else if s = [] then (None, c\<lparr>con_in := \<lparr>rest = [], good = False\<rparr>\<rparr>)
         else if ds = [] then (Some 0, c\<lparr>con_in := \<lparr>rest = r, good = False\<rparr>\<rparr>)
         else if 2 ^ 32 \<le> n then (Some (- 1), c\<lparr>con_in := \<lparr>rest = r, good = False\<rparr>\<rparr>)
         else (Some (if neg then - of_nat n else of_nat n), c\<lparr>con_in := \<lparr>rest = r, good = r \<noteq> []\<rparr>\<rparr>))"

end
