(* ===== verification/Warning_Log.thy ===== *)
theory Warning_Log
  imports External_Libs
begin

text \<open>
  The cache of warnings and the server that answers queries about it: the log sink
  (\<^verbatim>\<open>warning_sink.hpp\<close>), the logging singleton (\<^verbatim>\<open>log_utils.cpp\<close>) and the line protocol of
  \<^verbatim>\<open>warning_query_server.cpp\<close> with the chain of asynchronous reads and writes of a session.
  The logger spdlog makes filters messages by its level and hands them to the sink later, from a
  queue; formatting is a parameter. Under the locks of the sink each operation is one step. The
  lemmas show that cache and queue are the lists the operations describe, and that a session
  answers the complete lines it received, in order, however they arrived.
\<close>

section \<open>The sink\<close>

datatype log_level =
  Level_trace | Level_debug | Level_info | Level_warn | Level_err | Level_critical | Level_off

fun level_rank :: "log_level \<Rightarrow> nat" where
  "level_rank Level_trace = 0"
| "level_rank Level_debug = 1"
| "level_rank Level_info = 2"
| "level_rank Level_warn = 3"
| "level_rank Level_err = 4"
| "level_rank Level_critical = 5"
| "level_rank Level_off = 6"

record log_msg =
  msg_level :: log_level
  msg_payload :: string

type_synonym WarningCacheSink = "string list" \<comment> \<open>the member \<^verbatim>\<open>warnings\<close>\<close>

definition get_warnings_snapshot :: "WarningCacheSink \<Rightarrow> string list" where
  "get_warnings_snapshot warnings = warnings"

definition WarningCacheSink_clear :: "WarningCacheSink \<Rightarrow> WarningCacheSink" where
  "WarningCacheSink_clear warnings = []"

definition remove_warning_at :: "nat \<Rightarrow> WarningCacheSink \<Rightarrow> WarningCacheSink \<times> bool" where
  "remove_warning_at index warnings =
     (if length warnings \<le> index then (warnings, False)
      else (take index warnings @ drop (index + 1) warnings, True))"

definition sink_it :: "(log_msg \<Rightarrow> string) \<Rightarrow> log_msg \<Rightarrow> WarningCacheSink \<Rightarrow> WarningCacheSink" where
  "sink_it format msg warnings =
     (if msg_level msg = Level_warn then warnings @ [format msg] else warnings)"

section \<open>The logging singleton\<close>

record LogUtils =
  default_logger_name :: string
  warning_sink :: "WarningCacheSink option"

definition LogUtils_initialize :: "LogUtils option \<Rightarrow> LogUtils" where
  "LogUtils_initialize inst = (case inst of
       None \<Rightarrow> \<lparr>default_logger_name = [], warning_sink = None\<rparr>
     | Some u \<Rightarrow> u)"

text \<open>
  The asynchronous logger: the level set on it, whether the warning sink is one of its sinks, and the
  messages in the queue of the thread pool. The queue blocks when it is full, so it loses nothing. The
  file and console sinks belong to spdlog. Each program creates one logger; what spdlog does when a
  second one is registered under the same name (it throws) is not modelled.
\<close>

record async_logger =
  logger_level :: log_level
  logger_cached :: bool
  logger_queue :: "log_msg list"

definition make_default_logger :: "string \<Rightarrow> log_level \<Rightarrow> bool \<Rightarrow> LogUtils \<Rightarrow> LogUtils \<times> async_logger" where
  "make_default_logger logger_name log_level enable_warning_cache u =
     (u\<lparr>default_logger_name := logger_name,
        warning_sink := (if enable_warning_cache then Some [] else warning_sink u)\<rparr>,
      \<lparr>logger_level = log_level, logger_cached = enable_warning_cache, logger_queue = []\<rparr>)"

definition create_default_logger ::
  "string \<Rightarrow> log_level \<Rightarrow> bool \<Rightarrow> LogUtils option \<Rightarrow> LogUtils option \<times> async_logger" where
  "create_default_logger logger_name log_level enable_warning_cache inst =
     (case make_default_logger logger_name log_level enable_warning_cache (LogUtils_initialize inst) of
        (u, logger) \<Rightarrow> (Some u, logger))"

definition get_default_logger_name :: "LogUtils option \<Rightarrow> LogUtils option \<times> string" where
  "get_default_logger_name inst =
     (let u = LogUtils_initialize inst in (Some u, default_logger_name u))"

definition clear_warning_cache :: "LogUtils option \<Rightarrow> LogUtils option" where
  "clear_warning_cache inst =
     (let u = LogUtils_initialize inst
      in Some (u\<lparr>warning_sink := map_option WarningCacheSink_clear (warning_sink u)\<rparr>))"

definition remove_warning_at_index :: "nat \<Rightarrow> LogUtils option \<Rightarrow> LogUtils option \<times> bool" where
  "remove_warning_at_index index inst =
     (let u = LogUtils_initialize inst
      in case warning_sink u of
           None \<Rightarrow> (Some u, False)
         | Some w \<Rightarrow> (let (w', removed) = remove_warning_at index w
                     in (Some (u\<lparr>warning_sink := Some w'\<rparr>), removed)))"

definition get_warning_cache_snapshot :: "LogUtils option \<Rightarrow> LogUtils option \<times> string list" where
  "get_warning_cache_snapshot inst =
     (let u = LogUtils_initialize inst
      in (Some u, case warning_sink u of None \<Rightarrow> [] | Some w \<Rightarrow> get_warnings_snapshot w))"

text \<open>
  A log call puts the message into the queue when its level reaches that of the logger; the thread of
  the pool takes the messages out in order and hands each to the sinks, to the warning sink when it is
  one of them.
\<close>

definition should_log :: "log_level \<Rightarrow> log_level \<Rightarrow> bool" where
  "should_log logger_lvl msg_lvl \<longleftrightarrow> level_rank logger_lvl \<le> level_rank msg_lvl"

definition log_message :: "log_msg \<Rightarrow> async_logger \<Rightarrow> async_logger" where
  "log_message msg logger =
     (if should_log (logger_level logger) (msg_level msg)
      then logger\<lparr>logger_queue := logger_queue logger @ [msg]\<rparr> else logger)"

definition deliver_log :: "(log_msg \<Rightarrow> string) \<Rightarrow> log_msg \<Rightarrow> LogUtils option \<Rightarrow> LogUtils option" where
  "deliver_log format msg inst =
     map_option (\<lambda>u. u\<lparr>warning_sink := map_option (sink_it format msg) (warning_sink u)\<rparr>) inst"

definition deliver_next ::
  "(log_msg \<Rightarrow> string) \<Rightarrow> LogUtils option \<times> async_logger \<Rightarrow> LogUtils option \<times> async_logger" where
  "deliver_next format = (\<lambda>(inst, logger). case logger_queue logger of
       [] \<Rightarrow> (inst, logger)
     | msg # queue \<Rightarrow>
         (if logger_cached logger then deliver_log format msg inst else inst, logger\<lparr>logger_queue := queue\<rparr>))"

section \<open>Commands\<close>

definition remove_prefix :: string where
  "remove_prefix = ''remove_warning ''"

definition bad_index_response :: string where
  \<open>bad_index_response = ''{"error": "invalid index format"}''\<close>

definition unknown_command_response :: string where
  \<open>unknown_command_response = ''{"error": "unknown command"}''\<close>

text \<open>The body of the removal is in a \<^verbatim>\<open>try\<close> block that catches every exception.\<close>

definition remove_command ::
  "('j, 'k, 'c) libs \<Rightarrow> string \<Rightarrow> LogUtils option \<Rightarrow> LogUtils option \<times> string result" where
  "remove_command L index_str inst = (case stoul index_str of
       Inl _ \<Rightarrow> (inst, Inr bad_index_response)
     | Inr index \<Rightarrow>
         (let (inst', success) = remove_warning_at_index index inst;
              j = (if success
                   then j_object L [(''status'', j_string L ''removed''), (''index'', j_uint L (of_nat index))]
                   else j_object L [(''error'', j_string L ''invalid index'')])
          in (inst', case j_dump L j of
                       Inl (Exn _ _) \<Rightarrow> Inr bad_index_response
                     | r \<Rightarrow> r)))"

definition answer_command ::
  "('j, 'k, 'c) libs \<Rightarrow> string \<Rightarrow> LogUtils option \<Rightarrow> LogUtils option \<times> string result" where
  "answer_command L command inst =
     (if command = ''get_warnings'' then
        (let (inst', warnings) = get_warning_cache_snapshot inst
         in (inst', j_dump L (j_object L [(''warnings'', j_strings L warnings)])))
      else if command = ''clear_warnings'' then
        (clear_warning_cache inst, j_dump L (j_object L [(''status'', j_string L ''ok'')]))
      else if take (length remove_prefix) command = remove_prefix then
        remove_command L (drop (length remove_prefix) command) inst
      else (inst, Inr unknown_command_response))"

section \<open>Sessions\<close>

text \<open>
  A session has either a read outstanding, which completes as soon as its buffer holds a line
  break, or a response being written, whose completion starts the next read. The bytes of a
  response are those it had when the write was started.
\<close>

record session =
  buffered :: string
  reading :: bool
  writing :: "string option"
  written_out :: string

definition new_session :: session where
  "new_session = \<lparr>buffered = [], reading = True, writing = None, written_out = []\<rparr>"

type_synonym query_state = "LogUtils option \<times> session"

definition complete_read :: "('j, 'k, 'c) libs \<Rightarrow> query_state \<Rightarrow> query_state result" where
  "complete_read L = (\<lambda>(inst, ss).
     if \<not> reading ss then Inr (inst, ss)
     else if newline \<notin> set (buffered ss) then Inr (inst, ss)
     else case getline newline (buffered ss) of
       None \<Rightarrow> Inr (inst, ss)
     | Some (command, left) \<Rightarrow>
         (case answer_command L command inst of
            (_, Inl e) \<Rightarrow> Inl e
          | (inst', Inr response_body) \<Rightarrow>
              Inr (inst', ss\<lparr>buffered := left, reading := False, writing := Some (response_body @ [newline])\<rparr>)))"

definition on_data :: "('j, 'k, 'c) libs \<Rightarrow> string \<Rightarrow> query_state \<Rightarrow> query_state result" where
  "on_data L chunk = (\<lambda>(inst, ss). complete_read L (inst, ss\<lparr>buffered := buffered ss @ chunk\<rparr>))"

definition on_written :: "('j, 'k, 'c) libs \<Rightarrow> query_state \<Rightarrow> query_state result" where
  "on_written L = (\<lambda>(inst, ss). case writing ss of
       None \<Rightarrow> Inr (inst, ss)
     | Some response \<Rightarrow>
         complete_read L (inst, ss\<lparr>writing := None, written_out := written_out ss @ response, reading := True\<rparr>))"

text \<open>A failed read or write starts nothing further.\<close>

definition on_session_error :: "query_state \<Rightarrow> query_state" where
  "on_session_error = (\<lambda>(inst, ss). (inst, ss\<lparr>reading := False, writing := None\<rparr>))"

text \<open>Every outstanding write completes, and the reads it starts, until the session waits for data.\<close>

lemma complete_read_shrinks:
  assumes "complete_read L (inst, ss) = Inr (inst', ss')" "writing ss = None" "writing ss' \<noteq> None"
  shows "length (buffered ss') < length (buffered ss)"
  using assms by (auto simp: complete_read_def dest: getline_shrinks split: if_splits option.splits prod.splits sum.splits)

lemma complete_read_le:
  "complete_read L (inst, ss) = Inr (inst', ss') \<Longrightarrow> length (buffered ss') \<le> length (buffered ss)"
  by (auto simp: complete_read_def dest: getline_shrinks split: if_splits option.splits prod.splits sum.splits)

function settle :: "('j, 'k, 'c) libs \<Rightarrow> query_state \<Rightarrow> query_state result" where
  "settle L st = (if writing (snd st) = None then Inr st
                  else case on_written L st of Inl e \<Rightarrow> Inl e | Inr st' \<Rightarrow> settle L st')"
  by pat_completeness auto
termination
proof (relation "measure (\<lambda>(L, st). length (buffered (snd st)) + (if writing (snd st) = None then 0 else 1))")
  fix L :: "('j, 'k, 'c) libs" and st st' :: query_state
  assume w: "writing (snd st) \<noteq> None" and "on_written L st = Inr st'"
  then obtain ss0 where "complete_read L (fst st, ss0) = Inr (fst st', snd st')" "writing ss0 = None"
      "buffered ss0 = buffered (snd st)"
    by (force simp: on_written_def case_prod_beta split: option.splits)
  then show "((L, st'), (L, st)) \<in> measure (\<lambda>(L, st). length (buffered (snd st)) + (if writing (snd st) = None then 0 else 1))"
    using w complete_read_shrinks [of L "fst st" ss0 "fst st'" "snd st'"] complete_read_le [of L "fst st" ss0 "fst st'" "snd st'"]
    by auto
qed simp

declare settle.simps [simp del]

definition serve_chunk :: "('j, 'k, 'c) libs \<Rightarrow> string \<Rightarrow> query_state \<Rightarrow> query_state result" where
  "serve_chunk L chunk st = bindR (on_data L chunk st) (settle L)"

section \<open>The server's accept loop\<close>

text \<open>
  The acceptor and the sessions opened so far; \<^verbatim>\<open>handle_accept\<close> opens a session on success and
  posts the next accept in any case.
\<close>

record query_server =
  accept_posted :: bool
  sessions :: "session list"

definition start_accept :: "query_server \<Rightarrow> query_server" where
  "start_accept q = q\<lparr>accept_posted := True\<rparr>"

definition handle_session :: "query_server \<Rightarrow> query_server" where
  "handle_session q = q\<lparr>sessions := sessions q @ [new_session]\<rparr>"

definition query_handle_accept :: "bool \<Rightarrow> query_server \<Rightarrow> query_server" where
  "query_handle_accept err q =
     start_accept (if \<not> err then handle_session (q\<lparr>accept_posted := False\<rparr>) else q\<lparr>accept_posted := False\<rparr>)"

section \<open>The contract of the cache\<close>

text \<open>
  What a user of the log relies on, in terms of two lists: the messages that wait in the queue and
  the cached warnings.
\<close>

datatype cache_op = Logged log_msg | Delivered | Cleared | Removed nat

definition cached_as :: "(log_msg \<Rightarrow> string) \<Rightarrow> log_msg \<Rightarrow> string list" where
  "cached_as format msg = (if msg_level msg = Level_warn then [format msg] else [])"

fun cache_effect ::
  "(log_msg \<Rightarrow> string) \<Rightarrow> log_level \<Rightarrow> cache_op \<Rightarrow> log_msg list \<times> string list \<Rightarrow> log_msg list \<times> string list" where
  "cache_effect format level (Logged msg) (queue, ws) =
     (if should_log level (msg_level msg) then queue @ [msg] else queue, ws)"
| "cache_effect format level Delivered (queue, ws) =
     (case queue of [] \<Rightarrow> (queue, ws) | msg # queue' \<Rightarrow> (queue', ws @ cached_as format msg))"
| "cache_effect format level Cleared (queue, ws) = (queue, [])"
| "cache_effect format level (Removed i) (queue, ws) = (queue, take i ws @ drop (Suc i) ws)"

locale warning_cache =
  fixes enabled :: "'s \<Rightarrow> bool"
    and level :: "'s \<Rightarrow> log_level"
    and contents :: "'s \<Rightarrow> log_msg list \<times> string list"
    and note_msg :: "log_msg \<Rightarrow> 's \<Rightarrow> 's"
    and hand_over :: "'s \<Rightarrow> 's"
    and forget :: "'s \<Rightarrow> 's"
    and forget_at :: "nat \<Rightarrow> 's \<Rightarrow> 's \<times> bool"
    and format :: "log_msg \<Rightarrow> string"
  assumes enabled_note: "enabled s \<Longrightarrow> enabled (note_msg m s) \<and> level (note_msg m s) = level s"
    and enabled_hand_over: "enabled s \<Longrightarrow> enabled (hand_over s) \<and> level (hand_over s) = level s"
    and enabled_forget: "enabled s \<Longrightarrow> enabled (forget s) \<and> level (forget s) = level s"
    and enabled_forget_at: "enabled s \<Longrightarrow> enabled (fst (forget_at i s)) \<and> level (fst (forget_at i s)) = level s"
    and contents_note: "enabled s \<Longrightarrow> contents (note_msg m s) = cache_effect format (level s) (Logged m) (contents s)"
    and contents_hand_over: "enabled s \<Longrightarrow> contents (hand_over s) = cache_effect format (level s) Delivered (contents s)"
    and contents_forget: "enabled s \<Longrightarrow> contents (forget s) = cache_effect format (level s) Cleared (contents s)"
    and contents_forget_at:
      "enabled s \<Longrightarrow> contents (fst (forget_at i s)) = cache_effect format (level s) (Removed i) (contents s)"
    and forget_at_success: "enabled s \<Longrightarrow> snd (forget_at i s) \<longleftrightarrow> i < length (snd (contents s))"
begin

fun perform :: "cache_op \<Rightarrow> 's \<Rightarrow> 's" where
  "perform (Logged m) s = note_msg m s"
| "perform Delivered s = hand_over s"
| "perform Cleared s = forget s"
| "perform (Removed i) s = fst (forget_at i s)"

lemma enabled_perform: "enabled s \<Longrightarrow> enabled (perform op s) \<and> level (perform op s) = level s"
  by (cases op) (auto simp: enabled_note enabled_hand_over enabled_forget enabled_forget_at)

lemma contents_perform: "enabled s \<Longrightarrow> contents (perform op s) = cache_effect format (level s) op (contents s)"
  by (cases op) (auto simp: contents_note contents_hand_over contents_forget contents_forget_at)

lemma run:
  "enabled s \<Longrightarrow> enabled (fold perform ops s) \<and> level (fold perform ops s) = level s \<and>
     contents (fold perform ops s) = fold (cache_effect format (level s)) ops (contents s)"
  by (induction ops arbitrary: s) (simp_all add: enabled_perform contents_perform)

end

definition cache_enabled :: "LogUtils option \<Rightarrow> bool" where
  "cache_enabled inst = (case inst of None \<Rightarrow> False | Some u \<Rightarrow> warning_sink u \<noteq> None)"

lemma cache_enabledE:
  assumes "cache_enabled inst"
  obtains u w where "inst = Some u" "warning_sink u = Some w"
  using assms by (auto simp: cache_enabled_def split: option.splits)

definition log_enabled :: "LogUtils option \<times> async_logger \<Rightarrow> bool" where
  "log_enabled = (\<lambda>(inst, logger). cache_enabled inst \<and> logger_cached logger)"

definition log_contents :: "LogUtils option \<times> async_logger \<Rightarrow> log_msg list \<times> string list" where
  "log_contents = (\<lambda>(inst, logger). (logger_queue logger, snd (get_warning_cache_snapshot inst)))"

lemmas cache_op_defs = cache_enabled_def get_warning_cache_snapshot_def deliver_log_def clear_warning_cache_def
  remove_warning_at_index_def LogUtils_initialize_def get_warnings_snapshot_def sink_it_def remove_warning_at_def
  WarningCacheSink_clear_def

lemma log_enabledE:
  assumes "log_enabled s"
  obtains u w logger where "s = (Some u, logger)" "warning_sink u = Some w" "logger_cached logger"
  using assms cache_enabledE by (cases s) (auto simp: log_enabled_def)

interpretation log_cache: warning_cache log_enabled "\<lambda>(inst, logger). logger_level logger" log_contents
  "\<lambda>m (inst, logger). (inst, log_message m logger)" "deliver_next format"
  "\<lambda>(inst, logger). (clear_warning_cache inst, logger)"
  "\<lambda>i (inst, logger). ((fst (remove_warning_at_index i inst), logger), snd (remove_warning_at_index i inst))" format
  by unfold_locales
    (erule log_enabledE; auto simp: log_enabled_def log_contents_def log_message_def deliver_next_def cached_as_def
      cache_op_defs split: list.splits)+

definition cache_step ::
  "(log_msg \<Rightarrow> string) \<Rightarrow> cache_op \<Rightarrow> LogUtils option \<times> async_logger \<Rightarrow> LogUtils option \<times> async_logger" where
  "cache_step format op = (\<lambda>(inst, logger). case op of
       Logged m \<Rightarrow> (inst, log_message m logger)
     | Delivered \<Rightarrow> deliver_next format (inst, logger)
     | Cleared \<Rightarrow> (clear_warning_cache inst, logger)
     | Removed i \<Rightarrow> (fst (remove_warning_at_index i inst), logger))"

lemma cache_step_perform: "cache_step format = log_cache.perform format"
proof (intro ext)
  fix op s
  show "cache_step format op s = log_cache.perform format op s"
    by (cases op; cases s) (simp_all add: cache_step_def)
qed

lemma log_created: "log_enabled (create_default_logger name level True inst)"
  "log_contents (create_default_logger name level True inst) = ([], [])"
  "logger_level (snd (create_default_logger name level True inst)) = level"
  by (simp_all add: create_default_logger_def make_default_logger_def log_enabled_def log_contents_def cache_op_defs)

lemma cache_run:
  assumes "log_enabled s"
  shows "log_enabled (fold (cache_step format) ops s)"
    "log_contents (fold (cache_step format) ops s) = fold (cache_effect format (logger_level (snd s))) ops (log_contents s)"
    "logger_level (snd (fold (cache_step format) ops s)) = logger_level (snd s)"
  using log_cache.run [OF assms, where ops = ops and format = format] by (simp_all add: cache_step_perform case_prod_beta)

text \<open>
  Nothing is lost or reordered: of the warnings logged, all when the level lets warnings pass and none
  otherwise, the delivered ones are in the cache and the others in the queue.
\<close>

fun logged_msgs :: "cache_op list \<Rightarrow> log_msg list" where
  "logged_msgs [] = []"
| "logged_msgs (Logged m # ops) = m # logged_msgs ops"
| "logged_msgs (op # ops) = logged_msgs ops"

definition warnings_of :: "(log_msg \<Rightarrow> string) \<Rightarrow> log_msg list \<Rightarrow> string list" where
  "warnings_of format ms = map format (filter (\<lambda>m. msg_level m = Level_warn) ms)"

lemma warnings_of_simps [simp]:
  "warnings_of format [] = []" "warnings_of format (m # ms) = cached_as format m @ warnings_of format ms"
  "warnings_of format (ms @ ms') = warnings_of format ms @ warnings_of format ms'"
  by (simp_all add: warnings_of_def cached_as_def)

lemma log_kept:
  "set ops \<subseteq> range Logged \<union> {Delivered} \<Longrightarrow> fold (cache_effect format level) ops (queue, ws) = (queue', ws') \<Longrightarrow>
     ws' @ warnings_of format queue' =
       ws @ warnings_of format queue @ (if should_log level Level_warn then warnings_of format (logged_msgs ops) else [])"
proof (induction ops arbitrary: queue ws)
  case (Cons op ops)
  then show ?case by (cases op) (auto simp: cached_as_def split: list.splits)
qed simp

section \<open>What a session answers\<close>

definition answer_line ::
  "('j, 'k, 'c) libs \<Rightarrow> string \<Rightarrow> LogUtils option \<times> string \<Rightarrow> (LogUtils option \<times> string) result" where
  "answer_line L command = (\<lambda>(inst, out). case answer_command L command inst of
       (_, Inl e) \<Rightarrow> Inl e
     | (inst', Inr response) \<Rightarrow> Inr (inst', out @ response @ [newline]))"

definition waiting_session :: "string \<Rightarrow> string \<Rightarrow> session" where
  "waiting_session b out = \<lparr>buffered = b, reading = True, writing = None, written_out = out\<rparr>"

lemma settle_waiting: "settle L (inst, waiting_session b out) = Inr (inst, waiting_session b out)"
  by (simp add: settle.simps waiting_session_def)

lemma serve_buffer:
  "bindR (complete_read L (inst, waiting_session b out)) (settle L) =
     bindR (foldR (answer_line L) (butlast (pieces newline b)) (inst, out))
       (\<lambda>(inst', out'). Inr (inst', waiting_session (last (pieces newline b)) out'))"
proof (induction b arbitrary: inst out rule: length_induct)
  case (1 b)
  show ?case
  proof (cases "newline \<in> set b")
    case False
    then show ?thesis by (simp add: complete_read_def waiting_session_def settle.simps)
  next
    case True
    then obtain l r where b: "b = l @ newline # r" and l: "newline \<notin> set l" by (meson split_list_first)
    show ?thesis
    proof (cases "answer_command L l inst")
      case (Pair inst' res)
      show ?thesis
      proof (cases res)
        case (Inl e)
        with Pair b l show ?thesis by (simp add: complete_read_def waiting_session_def answer_line_def)
      next
        case (Inr response)
        let ?st = "(inst', \<lparr>buffered = r, reading = False, writing = Some (response @ [newline]), written_out = out\<rparr>)"
        have "complete_read L (inst, waiting_session b out) = Inr ?st"
          using Pair Inr b l by (simp add: complete_read_def waiting_session_def)
        moreover have "settle L ?st
            = bindR (complete_read L (inst', waiting_session r (out @ response @ [newline]))) (settle L)"
          by (subst settle.simps, cases "complete_read L (inst', waiting_session r (out @ response @ [newline]))")
            (simp_all add: on_written_def waiting_session_def)
        moreover have "answer_line L l (inst, out) = Inr (inst', out @ response @ [newline])"
          using Pair Inr by (simp add: answer_line_def)
        ultimately show ?thesis
          using "1.IH" [rule_format, of r] b l by simp
      qed
    qed
  qed
qed

lemma serve_chunk_waiting:
  "serve_chunk L chunk (inst, waiting_session b out) =
     bindR (foldR (answer_line L) (butlast (pieces newline (b @ chunk))) (inst, out))
       (\<lambda>(inst', out'). Inr (inst', waiting_session (last (pieces newline (b @ chunk))) out'))"
  using serve_buffer [of L inst "b @ chunk" out] by (simp add: serve_chunk_def on_data_def waiting_session_def)

lemma serve_chunks:
  "newline \<notin> set b \<Longrightarrow>
   foldR (serve_chunk L) chunks (inst, waiting_session b out) =
     bindR (foldR (answer_line L) (butlast (pieces newline (b @ concat chunks))) (inst, out))
       (\<lambda>(inst', out'). Inr (inst', waiting_session (last (pieces newline (b @ concat chunks))) out'))"
proof (induction chunks arbitrary: b inst out)
  case (Cons c cs)
  let ?p = "pieces newline (b @ c)"
  have split: "pieces newline (b @ c @ concat cs) = butlast ?p @ pieces newline (last ?p @ concat cs)"
    using pieces_append_any [of newline "b @ c" "concat cs"] by simp
  show ?case
  proof (cases "foldR (answer_line L) (butlast ?p) (inst, out)")
    case (Inl e)
    then show ?thesis by (simp add: serve_chunk_waiting split foldR_append butlast_append)
  next
    case (Inr st)
    obtain inst' out' where st: "st = (inst', out')" by fastforce
    with Inr Cons.IH [of "last ?p" inst' out'] show ?thesis
      by (simp add: serve_chunk_waiting split foldR_append butlast_append)
  qed
qed simp

end
