(* ===== verification/Service_Settings.thy ===== *)
theory Service_Settings
  imports Fault_Settings Envelope_Encryption Voter_ID_Service Pollbook_Client Console Warning_Log
begin

text \<open>
  Where the services and the clients get their settings from: the names of the keys
  (\<^verbatim>\<open>config.cpp\<close>), the constructors of \<^verbatim>\<open>CheckinService\<close>, \<^verbatim>\<open>VoterIDService\<close> and
  \<^verbatim>\<open>PollbookClient\<close> with every read of the configuration object in the order of the code, and
  the settings the handlers read later. Every read inserts what it looks for, so the object
  is threaded through. The lemmas show that a constructor behaves as if it read each setting
  straight from the parsed file.
\<close>

section \<open>Names\<close>

definition CLIENT_ID :: string where "CLIENT_ID = ''client_id''"
definition ID_SERVICE_HOST :: string where "ID_SERVICE_HOST = ''id_service_host''"
definition ID_SERVICE_PORT :: string where "ID_SERVICE_PORT = ''id_service_port''"
definition CHECKIN_SERVICE_HOST :: string where "CHECKIN_SERVICE_HOST = ''checkin_service_host''"
definition CHECKIN_SERVICE_PORT :: string where "CHECKIN_SERVICE_PORT = ''checkin_service_port''"
definition VOTER_LIST_FILE :: string where "VOTER_LIST_FILE = ''voter_list_file''"
definition TRUSTED_CLIENTS_FILE :: string where "TRUSTED_CLIENTS_FILE = ''trusted_clients_file''"
definition LOG_LEVEL :: string where "LOG_LEVEL = ''log_level''"
definition ID_SERVICE_PUBLIC_KEY :: string where "ID_SERVICE_PUBLIC_KEY = ''id_service_public_key''"
definition CLIENT_KEYS_FOLDER :: string where "CLIENT_KEYS_FOLDER = ''client_keys_folder''"
definition CLIENT_KEY_FILE_PREFIX :: string where "CLIENT_KEY_FILE_PREFIX = ''client_key_file_prefix''"
definition REQUEST_FRESHNESS_INTERVAL :: string where "REQUEST_FRESHNESS_INTERVAL = ''request_freshness_interval''"
definition CHECKIN_SERVICE_CERT :: string where "CHECKIN_SERVICE_CERT = ''checkin_service_cert''"
definition ID_SERVICE_CERT :: string where "ID_SERVICE_CERT = ''id_service_cert''"
definition LOCAL_CERT :: string where "LOCAL_CERT = ''local_cert''"
definition CA_CERT :: string where "CA_CERT = ''ca_cert''"
definition TIMEOUT_INTERVAL :: string where "TIMEOUT_INTERVAL = ''timeout_interval''"

section \<open>Programs over the configuration object\<close>

type_synonym 'a config_program = "IniFile \<Rightarrow> IniFile \<times> 'a result"

definition bindC :: "'a config_program \<Rightarrow> ('a \<Rightarrow> 'b config_program) \<Rightarrow> 'b config_program" where
  "bindC m k f = (case m f of (f', Inl e) \<Rightarrow> (f', Inl e) | (f', Inr x) \<Rightarrow> k x f')"

definition liftC :: "'a result \<Rightarrow> 'a config_program" where
  "liftC r f = (f, r)"

section \<open>The check-in service\<close>

text \<open>
  \<open>world\<close> is what the constructors find outside: text files by path, key files, the names in
  the key folder, the error of listening on a port, and what asio and OpenSSL make of the files
  of a TLS context: \<^verbatim>\<open>use_certificate_chain_file\<close>, \<^verbatim>\<open>use_private_key_file\<close> (which compares the key with
  the certificate) and \<^verbatim>\<open>load_verify_file\<close> throw, \<^verbatim>\<open>SSL_use_certificate_file\<close> and
  \<^verbatim>\<open>SSL_use_PrivateKey_file\<close> return a flag. \<open>log_level_of\<close> is spdlog's
  \<^verbatim>\<open>level::from_str\<close>.
\<close>

record world =
  text_files :: "string \<Rightarrow> string option"
  pem_files :: file_system
  folder_names :: "string \<Rightarrow> string list result"
  listen :: "16 word \<Rightarrow> unit result"
  tls_chain :: "string \<Rightarrow> unit result"
  tls_key :: "string \<Rightarrow> string \<Rightarrow> unit result"
  tls_authority :: "string \<Rightarrow> unit result"
  ssl_certificate :: "string \<Rightarrow> bool"
  ssl_private_key :: "string \<Rightarrow> string \<Rightarrow> bool"
  old_tickets :: "string option"
  stack_garbage :: u32
  log_level_of :: "string \<Rightarrow> log_level"

text \<open>
  The context of the check-in service. The callback that is set hands on what the
  verification of the chain decided, so it changes nothing.
\<close>

definition configure_ssl_context :: "world \<Rightarrow> string \<Rightarrow> string \<Rightarrow> string \<Rightarrow> unit result" where
  "configure_ssl_context w cert_file key_file ca_file =
     bindR (tls_chain w cert_file) (\<lambda>_.
     bindR (tls_key w cert_file key_file) (\<lambda>_.
     tls_authority w ca_file))"

text \<open>The three files are named in the configuration.\<close>

definition with_tls_files :: "string \<Rightarrow> (string \<Rightarrow> string \<Rightarrow> string \<Rightarrow> 'a result) \<Rightarrow> 'a config_program" where
  "with_tls_files cert_key configure =
     bindC (getString SECTION_SECURITY cert_key) (\<lambda>cert_file.
     bindC (getString SECTION_SECURITY LOCAL_PRIVATE_KEY) (\<lambda>key_file.
     bindC (getString SECTION_SECURITY CA_CERT) (\<lambda>ca_file.
     liftC (configure cert_file key_file ca_file))))"

text \<open>
  The settings the handlers read on every request, as the records the handlers take. A number
  that does not decode raises in the handler that reads it; the records stand for
  configurations whose numbers decode and hold zero for one that does not.
\<close>

definition number_setting :: "(string \<Rightarrow> string \<Rightarrow> ('a :: zero) config_program) \<Rightarrow> string \<Rightarrow> string \<Rightarrow> IniFile \<Rightarrow> 'a" where
  "number_setting getter section key f = (case snd (getter section key f) of Inr x \<Rightarrow> x | Inl _ \<Rightarrow> 0)"

definition string_setting :: "string \<Rightarrow> string \<Rightarrow> IniFile \<Rightarrow> string" where
  "string_setting section key f = (case snd (getString section key f) of Inr s \<Rightarrow> s | Inl _ \<Rightarrow> [])"

definition checkin_settings :: "world \<Rightarrow> IniFile \<Rightarrow> checkin_config" where
  "checkin_settings w f =
     \<lparr>request_freshness_interval = number_setting getUInt32 SECTION_SECURITY REQUEST_FRESHNESS_INTERVAL f,
      timeout_interval = number_setting getInt32 SECTION_SECURITY TIMEOUT_INTERVAL f,
      client_keys_folder = string_setting SECTION_SECURITY CLIENT_KEYS_FOLDER f,
      client_key_file_prefix = string_setting SECTION_SECURITY CLIENT_KEY_FILE_PREFIX f,
      voter_list_path = string_setting SECTION_BASIC VOTER_LIST_FILE f,
      voter_list_file = text_files w (string_setting SECTION_BASIC VOTER_LIST_FILE f),
      trusted_clients_path = string_setting SECTION_BASIC TRUSTED_CLIENTS_FILE f,
      trusted_clients_file = text_files w (string_setting SECTION_BASIC TRUSTED_CLIENTS_FILE f)\<rparr>"

text \<open>
  The constructor: listening port, the two keys, fault tracking (the tracker's own constructor
  reads its setting too, before the explicit call), the files, the TLS context. The prefix of
  key files is read for each file found.
\<close>

definition load_keys_configured ::
  "('j, 'k, 'c) libs \<Rightarrow> world \<Rightarrow> 'k checkin_service \<Rightarrow> 'k checkin_service config_program" where
  "load_keys_configured L w s =
     bindC (getString SECTION_SECURITY CLIENT_KEYS_FOLDER) (\<lambda>folder.
     bindC (liftC (folder_names w folder)) (\<lambda>names.
     bindC (if names = [] then liftC (Inr []) else getString SECTION_SECURITY CLIENT_KEY_FILE_PREFIX) (\<lambda>prefix f.
       (f, bindR (load_client_public_keys L
                    ((checkin_settings w f)\<lparr>client_keys_folder := folder, client_key_file_prefix := prefix\<rparr>) names s)
             (\<lambda>(s', _). Inr s')))))"

definition CheckinService_construct ::
  "('j, 'k, 'c) libs \<Rightarrow> ('k, 'x) evp_lib \<Rightarrow> world \<Rightarrow> ('k checkin_service \<times> 16 word \<times> int) config_program" where
  "CheckinService_construct L E w =
     bindC (getUInt16 SECTION_BASIC CHECKIN_SERVICE_PORT) (\<lambda>port.
     bindC (liftC (listen w port)) (\<lambda>_.
     bindC (getString SECTION_SECURITY ID_SERVICE_PUBLIC_KEY) (\<lambda>id_key_file.
     bindC (liftC (from_pem_public L (pem_files w) id_key_file)) (\<lambda>id_key.
     bindC (getString SECTION_SECURITY LOCAL_PRIVATE_KEY) (\<lambda>own_key_file.
     bindC (liftC (from_pem_private L E (pem_files w) own_key_file)) (\<lambda>own_key.
     bindC setupFaultTracking (\<lambda>cleanup_threshold.
     bindC (\<lambda>f. initializeConfig f 24) (\<lambda>tracker_threshold.
     bindC (\<lambda>f. initializeConfig f tracker_threshold) (\<lambda>_.
     bindC (getString SECTION_BASIC VOTER_LIST_FILE) (\<lambda>roll.
     bindC (liftC (load_voter_list roll (text_files w roll) Map.empty)) (\<lambda>tbl.
     bindC (getString SECTION_BASIC TRUSTED_CLIENTS_FILE) (\<lambda>trusted_path.
     bindC (liftC (load_trusted_clients trusted_path (text_files w trusted_path))) (\<lambda>trusted.
     bindC (getString SECTION_BASIC VOTER_LIST_FILE) (\<lambda>pin_roll.
     bindC (load_keys_configured L w
              ((blank_service id_key own_key (stack_garbage w) (old_tickets w) (pem_files w))
                 \<lparr>voter_status_table := tbl, trusted_clients := trusted,
                  pin_to_voter_id := load_pin_mappings (text_files w pin_roll) Map.empty\<rparr>)) (\<lambda>s.
     bindC (with_tls_files CHECKIN_SERVICE_CERT (configure_ssl_context w)) (\<lambda>_.
     liftC (Inr (s, port, cleanup_threshold))))))))))))))))))"

section \<open>The ID service\<close>

definition id_configure_ssl_context :: "world \<Rightarrow> string \<Rightarrow> string \<Rightarrow> string \<Rightarrow> unit result" where
  "id_configure_ssl_context w cert_file key_file ca_file =
     bindR (tls_chain w cert_file) (\<lambda>_.
     bindR (tls_key w cert_file key_file) (\<lambda>_.
     tls_authority w ca_file))"

definition id_settings :: "world \<Rightarrow> IniFile \<Rightarrow> id_config" where
  "id_settings w f =
     \<lparr>ic_freshness_interval = number_setting getUInt32 SECTION_SECURITY REQUEST_FRESHNESS_INTERVAL f,
      ic_client_keys_folder = string_setting SECTION_SECURITY CLIENT_KEYS_FOLDER f,
      ic_client_key_file_prefix = string_setting SECTION_SECURITY CLIENT_KEY_FILE_PREFIX f,
      ic_voter_list_file = text_files w (string_setting SECTION_BASIC VOTER_LIST_FILE f)\<rparr>"

definition id_load_keys_configured ::
  "('j, 'k, 'c) libs \<Rightarrow> world \<Rightarrow> 'k id_service \<Rightarrow> 'k id_service config_program" where
  "id_load_keys_configured L w s =
     bindC (getString SECTION_SECURITY CLIENT_KEYS_FOLDER) (\<lambda>folder.
     bindC (liftC (folder_names w folder)) (\<lambda>names.
     bindC (if names = [] then liftC (Inr []) else getString SECTION_SECURITY CLIENT_KEY_FILE_PREFIX) (\<lambda>prefix f.
       (f, bindR (id_load_client_public_keys L
                    ((id_settings w f)\<lparr>ic_client_keys_folder := folder, ic_client_key_file_prefix := prefix\<rparr>) names s)
             (\<lambda>(s', _). Inr s')))))"

definition VoterIDService_construct ::
  "('j, 'k, 'c) libs \<Rightarrow> ('k, 'x) evp_lib \<Rightarrow> world \<Rightarrow> ('k id_service \<times> 16 word) config_program" where
  "VoterIDService_construct L E w =
     bindC (getUInt16 SECTION_BASIC ID_SERVICE_PORT) (\<lambda>port.
     bindC (liftC (listen w port)) (\<lambda>_.
     bindC (getString SECTION_SECURITY LOCAL_PRIVATE_KEY) (\<lambda>own_key_file.
     bindC (liftC (from_pem_private L E (pem_files w) own_key_file)) (\<lambda>own_key.
     bindC (id_load_keys_configured L w (id_blank own_key (pem_files w))) (\<lambda>s.
     bindC (getString SECTION_BASIC VOTER_LIST_FILE) (\<lambda>roll.
     bindC (\<lambda>f. (f, Inr (load_voter_data_from_csv ((id_settings w f)\<lparr>ic_voter_list_file := text_files w roll\<rparr>) s))) (\<lambda>s'.
     bindC (with_tls_files ID_SERVICE_CERT (id_configure_ssl_context w)) (\<lambda>_.
     liftC (Inr (s', port))))))))))"

section \<open>The clients\<close>

definition client_settings :: "IniFile \<Rightarrow> client_config" where
  "client_settings f = \<lparr>cc_client_id = number_setting getUInt32 SECTION_BASIC CLIENT_ID f\<rparr>"

text \<open>A certificate or key that the client cannot use is reported on the console only.\<close>

definition client_configure_ssl_context :: "world \<Rightarrow> string \<Rightarrow> string \<Rightarrow> string \<Rightarrow> console \<Rightarrow> console result" where
  "client_configure_ssl_context w cert_file key_file ca_file c =
     bindR (tls_authority w ca_file) (\<lambda>_.
       (let c1 = (if ssl_certificate w cert_file then c else print_line ''Error in cert'' c)
        in Inr (if ssl_private_key w cert_file key_file then c1 else print_line ''Error in Pkey'' c1)))"

text \<open>
  The constructor configures the context of each of the two connections. \<^verbatim>\<open>connect\<close> reads host
  and port as strings; \<open>peer\<close> is the certificate a server at that address presents.
\<close>

definition PollbookClient_construct ::
  "('j, 'k, 'c) libs \<Rightarrow> ('k, 'x) evp_lib \<Rightarrow> world \<Rightarrow> console \<Rightarrow> ('k pollbook_client \<times> console) config_program" where
  "PollbookClient_construct L E w c =
     bindC (getString SECTION_SECURITY LOCAL_PRIVATE_KEY) (\<lambda>own_key_file.
     bindC (liftC (from_pem_private L E (pem_files w) own_key_file)) (\<lambda>own_key.
     bindC (with_tls_files LOCAL_CERT (\<lambda>cert_file key_file ca_file. client_configure_ssl_context w cert_file key_file ca_file c)) (\<lambda>c1.
     bindC (with_tls_files LOCAL_CERT (\<lambda>cert_file key_file ca_file. client_configure_ssl_context w cert_file key_file ca_file c1)) (\<lambda>c2.
     liftC (Inr (PollbookClient own_key (pem_files w), c2))))))"

definition outcome_result :: "'k client_outcome \<Rightarrow> 'k pollbook_client result" where
  "outcome_result r = (case r of (s, None) \<Rightarrow> Inr s | (s, Some e) \<Rightarrow> Inl e)"

definition connect_checkin_configured ::
  "('j, 'k, 'c) libs \<Rightarrow> string option \<Rightarrow> io_input \<Rightarrow> (string \<Rightarrow> string \<Rightarrow> 'k certificate option result)
     \<Rightarrow> 'k pollbook_client \<Rightarrow> 'k pollbook_client config_program" where
  "connect_checkin_configured L dir_error io peer s =
     bindC (getString SECTION_BASIC CHECKIN_SERVICE_HOST) (\<lambda>host.
     bindC (getString SECTION_BASIC CHECKIN_SERVICE_PORT) (\<lambda>port.
     liftC (outcome_result (connect_checkin_server L dir_error io (peer host port) s))))"

definition connect_configured ::
  "('j, 'k, 'c) libs \<Rightarrow> string option \<Rightarrow> io_input \<Rightarrow> (string \<Rightarrow> string \<Rightarrow> 'k certificate option result)
     \<Rightarrow> 'k pollbook_client \<Rightarrow> 'k pollbook_client config_program" where
  "connect_configured L dir_error io peer s =
     bindC (connect_checkin_configured L dir_error io peer s) (\<lambda>s1.
     bindC (getString SECTION_BASIC ID_SERVICE_HOST) (\<lambda>host.
     bindC (getString SECTION_BASIC ID_SERVICE_PORT) (\<lambda>port.
     liftC (outcome_result (connect_id_server L dir_error io (peer host port) s1)))))"

section \<open>Reading the settings of the parsed file\<close>

lemma hasKey_iff:
  "ordered_IniFile f \<Longrightarrow> snd (hasKey sec key f) \<longleftrightarrow> map_of (map_val [] sec (sections f)) key \<noteq> None"
  by (auto simp: hasKey_def Let_def map_val_def map_of_map_sub ordered_IniFile_def split: option.splits)

lemma hasKey_touch:
  assumes "ordered_IniFile f"
  shows "snd (hasKey sec key (ini_touch s k f)) \<longleftrightarrow> snd (hasKey sec key f) \<or> (s, k) = (sec, key)"
proof -
  have "map_val [] sec (sections (ini_touch s k f)) =
      (if s = sec then map_sub [] k (map_val [] sec (sections f)) else map_val [] sec (sections f))"
    using assms by (auto simp: ini_touch_def map_val_def map_of_map_put ordered_IniFile_def)
  then show ?thesis
    using assms ordered_section [OF assms, of sec] by (auto simp: hasKey_iff ordered_touch map_of_map_sub)
qed

lemma Config_get_parts:
  assumes "ordered_IniFile f"
  shows "ordered_IniFile (fst (Config_get as s k f))"
    "ini_field sec key (fst (Config_get as s k f)) = ini_field sec key f"
    "snd (hasKey sec key (fst (Config_get as s k f))) \<longleftrightarrow> snd (hasKey sec key f) \<or> (s, k) = (sec, key)"
    "snd (Config_get as s k f) = as (ini_field s k f)"
  using assms by (simp_all add: Config_get_def Let_def ordered_touch ini_field_touch hasKey_touch)

lemma getter_parts:
  assumes "ordered_IniFile f"
  shows "ordered_IniFile (fst (getString s k f))" "ini_field sec key (fst (getString s k f)) = ini_field sec key f"
    "snd (hasKey sec key (fst (getString s k f))) \<longleftrightarrow> snd (hasKey sec key f) \<or> (s, k) = (sec, key)"
    "ordered_IniFile (fst (getUInt16 s k f))" "ini_field sec key (fst (getUInt16 s k f)) = ini_field sec key f"
    "snd (hasKey sec key (fst (getUInt16 s k f))) \<longleftrightarrow> snd (hasKey sec key f) \<or> (s, k) = (sec, key)"
    "snd (getString s k f) = Inr (ini_field s k f)"
    "snd (getUInt16 s k f) = decode_ushort (ini_field s k f)"
    "snd (getUInt32 s k f) = decode_uint (ini_field s k f)"
    "snd (getInt32 s k f) = decode_int (ini_field s k f)"
  using assms by (simp_all add: getString_def getUInt16_def getUInt32_def getInt32_def Config_get_parts decode_string_def)

lemma hasKey_parts:
  assumes "ordered_IniFile f"
  shows "ordered_IniFile (fst (hasKey s k f))" "ini_field sec key (fst (hasKey s k f)) = ini_field sec key f"
  using assms by (simp_all add: ordered_hasKey ini_field_hasKey)

lemma snd_bindC: "snd (bindC m c f) = bindR (snd (m f)) (\<lambda>x. snd (c x (fst (m f))))"
  by (auto simp: bindC_def split: prod.splits sum.splits)

lemma fst_bindC: "snd (m f) = Inr x \<Longrightarrow> fst (bindC m c f) = fst (c x (fst (m f)))"
  by (auto simp: bindC_def split: prod.splits sum.splits)

lemma bindC_Inr: "bindC m c f = (g, Inr y) \<Longrightarrow> \<exists>x. snd (m f) = Inr x \<and> c x (fst (m f)) = (g, Inr y)"
  by (auto simp: bindC_def split: prod.splits sum.splits)

lemma liftC_parts [simp]: "fst (liftC r f) = f" "snd (liftC r f) = r"
  by (simp_all add: liftC_def)

lemma setting_values:
  assumes "ordered_IniFile f"
  shows "string_setting s k f = ini_field s k f"
    "number_setting getUInt32 s k f = (case decode_uint (ini_field s k f) of Inr x \<Rightarrow> x | Inl _ \<Rightarrow> 0)"
    "number_setting getInt32 s k f = (case decode_int (ini_field s k f) of Inr x \<Rightarrow> x | Inl _ \<Rightarrow> 0)"
  using assms by (simp_all add: string_setting_def number_setting_def getter_parts)

text \<open>Objects that hold the same values give the same settings.\<close>

lemma same_settings:
  assumes "ordered_IniFile f" "ordered_IniFile g" "\<And>s k. ini_field s k g = ini_field s k f"
  shows "checkin_settings w g = checkin_settings w f" "id_settings w g = id_settings w f"
    "client_settings g = client_settings f"
  using assms by (simp_all add: checkin_settings_def id_settings_def client_settings_def setting_values)

lemma tracking_parts:
  assumes "ordered_IniFile f"
  shows "ordered_IniFile (fst (setupFaultTracking f))"
    "ini_field sec key (fst (setupFaultTracking f)) = ini_field sec key f"
    "ordered_IniFile (fst (initializeConfig f h))"
    "ini_field sec key (fst (initializeConfig f h)) = ini_field sec key f"
  using assms
  by (auto simp: setupFaultTracking_def initializeConfig_def Let_def case_prod_beta getInt32_def Config_get_parts hasKey_parts)

lemma decode_int_raises: "decode_int s = Inl e \<Longrightarrow> \<exists>x what. e = Exn x what"
  by (auto simp: decode_int_def split: option.splits if_splits)

lemma initializeConfig_returns: "\<exists>h'. snd (initializeConfig f h) = Inr h'"
proof -
  have "snd (getInt32 s k g) = Inl e \<Longrightarrow> \<exists>x what. e = Exn x what" for s k g e
    by (auto simp: getInt32_def Config_get_def Let_def dest: decode_int_raises)
  then show ?thesis
    by (auto simp: initializeConfig_def Let_def case_prod_beta split: sum.splits cpp_error.splits dest: sym)
qed

section \<open>The constructors\<close>

lemmas config_parts = getter_parts tracking_parts hasKey_parts snd_bindC fst_bindC

lemma tls_files_parts:
  assumes "ordered_IniFile f"
  shows "snd (with_tls_files c configure f) = configure (ini_field SECTION_SECURITY c f)
      (ini_field SECTION_SECURITY LOCAL_PRIVATE_KEY f) (ini_field SECTION_SECURITY CA_CERT f)"
    "ordered_IniFile (fst (with_tls_files c configure f))"
    "ini_field s k (fst (with_tls_files c configure f)) = ini_field s k f"
  using assms by (simp_all add: with_tls_files_def config_parts)

lemma load_no_keys: "load_client_public_keys L cfg [] s = Inr (s, True)" "id_load_client_public_keys L icfg [] is = Inr (is, True)"
  by (simp_all add: load_client_public_keys_def id_load_client_public_keys_def)

lemma load_keys_parts:
  assumes "ordered_IniFile f"
  shows "snd (load_keys_configured L w s f) = bindR (folder_names w (ini_field SECTION_SECURITY CLIENT_KEYS_FOLDER f))
      (\<lambda>names. bindR (load_client_public_keys L (checkin_settings w f) names s) (\<lambda>(s', _). Inr s'))"
    "ordered_IniFile (fst (load_keys_configured L w s f))"
    "ini_field sec key (fst (load_keys_configured L w s f)) = ini_field sec key f"
proof -
  have cfg: "(checkin_settings w g)\<lparr>client_keys_folder := ini_field SECTION_SECURITY CLIENT_KEYS_FOLDER f,
      client_key_file_prefix := ini_field SECTION_SECURITY CLIENT_KEY_FILE_PREFIX f\<rparr> = checkin_settings w f"
    if "ordered_IniFile g" "\<And>s k. ini_field s k g = ini_field s k f" for g
    using same_settings(1) [OF assms that] assms by (simp add: checkin_settings_def setting_values)
  show "snd (load_keys_configured L w s f) = bindR (folder_names w (ini_field SECTION_SECURITY CLIENT_KEYS_FOLDER f))
      (\<lambda>names. bindR (load_client_public_keys L (checkin_settings w f) names s) (\<lambda>(s', _). Inr s'))"
  proof (cases "folder_names w (ini_field SECTION_SECURITY CLIENT_KEYS_FOLDER f)")
    case (Inr names)
    then show ?thesis
      using assms by (cases names) (simp_all add: load_keys_configured_def config_parts cfg load_no_keys)
  qed (simp add: load_keys_configured_def config_parts assms)
  show "ordered_IniFile (fst (load_keys_configured L w s f))"
    "ini_field sec key (fst (load_keys_configured L w s f)) = ini_field sec key f"
    using assms by (auto simp: load_keys_configured_def bindC_def liftC_def getter_parts split: sum.splits prod.splits
        dest!: arg_cong [where f = fst])
qed

lemma setupFaultTracking_hours:
  assumes "ordered_IniFile f" "ordered_IniFile g"
    and "\<And>s k. ini_field s k g = ini_field s k f"
    and "snd (hasKey SECTION_BASIC ''fault_cleanup_hours'' g) = snd (hasKey SECTION_BASIC ''fault_cleanup_hours'' f)"
  shows "snd (setupFaultTracking g) = snd (setupFaultTracking f)"
  using assms by (simp add: setupFaultTracking_value)

text \<open>What the constructor does, with each setting read from the parsed file.\<close>

lemma CheckinService_construct_exact:
  assumes "ordered_IniFile f"
  shows "snd (CheckinService_construct L E w f) = Inr (s, port, hours) \<longleftrightarrow>
     decode_ushort (ini_field SECTION_BASIC CHECKIN_SERVICE_PORT f) = Inr port \<and> listen w port = Inr () \<and>
     snd (setupFaultTracking f) = Inr hours \<and>
     (\<exists>id_key own_key names.
        from_pem_public L (pem_files w) (ini_field SECTION_SECURITY ID_SERVICE_PUBLIC_KEY f) = Inr id_key \<and>
        from_pem_private L E (pem_files w) (ini_field SECTION_SECURITY LOCAL_PRIVATE_KEY f) = Inr own_key \<and>
        folder_names w (ini_field SECTION_SECURITY CLIENT_KEYS_FOLDER f) = Inr names \<and>
        CheckinService L (checkin_settings w f) names
          (blank_service id_key own_key (stack_garbage w) (old_tickets w) (pem_files w)) = Inr s) \<and>
     configure_ssl_context w (ini_field SECTION_SECURITY CHECKIN_SERVICE_CERT f)
       (ini_field SECTION_SECURITY LOCAL_PRIVATE_KEY f) (ini_field SECTION_SECURITY CA_CERT f) = Inr ()"
proof -
  let ?g = "fst (getString SECTION_SECURITY LOCAL_PRIVATE_KEY (fst (getString SECTION_SECURITY ID_SERVICE_PUBLIC_KEY
      (fst (getUInt16 SECTION_BASIC CHECKIN_SERVICE_PORT f)))))"
  have hours: "snd (setupFaultTracking ?g) = snd (setupFaultTracking f)"
    using assms by (intro setupFaultTracking_hours)
      (simp_all add: getter_parts CHECKIN_SERVICE_PORT_def SECTION_BASIC_def SECTION_SECURITY_def)
  obtain h1 where h1: "snd (initializeConfig (fst (setupFaultTracking ?g)) 24) = Inr h1"
    using initializeConfig_returns by blast
  obtain h2 where h2: "snd (initializeConfig (fst (initializeConfig (fst (setupFaultTracking ?g)) 24)) h1) = Inr h2"
    using initializeConfig_returns by blast
  show ?thesis
    using assms h1 h2
    by (auto simp: CheckinService_construct_def config_parts hours bindR_Inr_iff load_keys_parts tls_files_parts
        CheckinService_def blank_service_def checkin_settings_def setting_values case_prod_beta)
qed

lemma id_load_keys_parts:
  assumes "ordered_IniFile f"
  shows "snd (id_load_keys_configured L w s f) = bindR (folder_names w (ini_field SECTION_SECURITY CLIENT_KEYS_FOLDER f))
      (\<lambda>names. bindR (id_load_client_public_keys L (id_settings w f) names s) (\<lambda>(s', _). Inr s'))"
    "ordered_IniFile (fst (id_load_keys_configured L w s f))"
    "ini_field sec key (fst (id_load_keys_configured L w s f)) = ini_field sec key f"
proof -
  have cfg: "(id_settings w g)\<lparr>ic_client_keys_folder := ini_field SECTION_SECURITY CLIENT_KEYS_FOLDER f,
      ic_client_key_file_prefix := ini_field SECTION_SECURITY CLIENT_KEY_FILE_PREFIX f\<rparr> = id_settings w f"
    if "ordered_IniFile g" "\<And>s k. ini_field s k g = ini_field s k f" for g
    using same_settings(2) [OF assms that] assms by (simp add: id_settings_def setting_values)
  show "snd (id_load_keys_configured L w s f) = bindR (folder_names w (ini_field SECTION_SECURITY CLIENT_KEYS_FOLDER f))
      (\<lambda>names. bindR (id_load_client_public_keys L (id_settings w f) names s) (\<lambda>(s', _). Inr s'))"
  proof (cases "folder_names w (ini_field SECTION_SECURITY CLIENT_KEYS_FOLDER f)")
    case (Inr names)
    then show ?thesis
      using assms by (cases names) (simp_all add: id_load_keys_configured_def config_parts cfg load_no_keys)
  qed (simp add: id_load_keys_configured_def config_parts assms)
  show "ordered_IniFile (fst (id_load_keys_configured L w s f))"
    "ini_field sec key (fst (id_load_keys_configured L w s f)) = ini_field sec key f"
    using assms by (auto simp: id_load_keys_configured_def bindC_def liftC_def getter_parts split: sum.splits prod.splits
        dest!: arg_cong [where f = fst])
qed

lemma VoterIDService_construct_exact:
  assumes "ordered_IniFile f"
  shows "snd (VoterIDService_construct L E w f) = Inr (s, port) \<longleftrightarrow>
     decode_ushort (ini_field SECTION_BASIC ID_SERVICE_PORT f) = Inr port \<and> listen w port = Inr () \<and>
     (\<exists>own_key names.
        from_pem_private L E (pem_files w) (ini_field SECTION_SECURITY LOCAL_PRIVATE_KEY f) = Inr own_key \<and>
        folder_names w (ini_field SECTION_SECURITY CLIENT_KEYS_FOLDER f) = Inr names \<and>
        VoterIDService L (id_settings w f) names (id_blank own_key (pem_files w)) = Inr s) \<and>
     id_configure_ssl_context w (ini_field SECTION_SECURITY ID_SERVICE_CERT f)
       (ini_field SECTION_SECURITY LOCAL_PRIVATE_KEY f) (ini_field SECTION_SECURITY CA_CERT f) = Inr ()"
  using assms
  by (auto simp: VoterIDService_construct_def config_parts bindR_Inr_iff id_load_keys_parts tls_files_parts
      VoterIDService_def case_prod_beta id_settings_def setting_values)

lemma PollbookClient_construct_exact:
  assumes "ordered_IniFile f"
  shows "snd (PollbookClient_construct L E w c f) = Inr (s, c') \<longleftrightarrow>
     (\<exists>own_key. from_pem_private L E (pem_files w) (ini_field SECTION_SECURITY LOCAL_PRIVATE_KEY f) = Inr own_key \<and>
        s = PollbookClient own_key (pem_files w)) \<and>
     (let configure = client_configure_ssl_context w (ini_field SECTION_SECURITY LOCAL_CERT f)
            (ini_field SECTION_SECURITY LOCAL_PRIVATE_KEY f) (ini_field SECTION_SECURITY CA_CERT f)
      in bindR (configure c) configure = Inr c')"
  using assms
  by (auto simp: PollbookClient_construct_def config_parts bindR_Inr_iff tls_files_parts Let_def)

lemma PollbookClient_construct_parts:
  assumes "ordered_IniFile f" "snd (PollbookClient_construct L E w c f) = Inr r"
  shows "ordered_IniFile (fst (PollbookClient_construct L E w c f))"
    "ini_field sec key (fst (PollbookClient_construct L E w c f)) = ini_field sec key f"
  using assms
  by (auto simp: PollbookClient_construct_def config_parts bindR_Inr_iff tls_files_parts)

text \<open>The addresses a client connects to are those of the parsed file.\<close>

lemma connect_configured_exact:
  assumes "ordered_IniFile f"
  shows "snd (connect_configured L dir_error io peer s f) = outcome_result (connect L dir_error io
      (peer (ini_field SECTION_BASIC CHECKIN_SERVICE_HOST f) (ini_field SECTION_BASIC CHECKIN_SERVICE_PORT f))
      (peer (ini_field SECTION_BASIC ID_SERVICE_HOST f) (ini_field SECTION_BASIC ID_SERVICE_PORT f)) s)"
  using assms
  by (cases "connect_checkin_server L dir_error io
      (peer (ini_field SECTION_BASIC CHECKIN_SERVICE_HOST f) (ini_field SECTION_BASIC CHECKIN_SERVICE_PORT f)) s")
    (auto simp: connect_configured_def connect_checkin_configured_def connect_def outcome_result_def config_parts
      split: option.splits)

lemma connect_checkin_configured_exact:
  assumes "ordered_IniFile f"
  shows "snd (connect_checkin_configured L dir_error io peer s f) = outcome_result (connect_checkin_server L dir_error io
      (peer (ini_field SECTION_BASIC CHECKIN_SERVICE_HOST f) (ini_field SECTION_BASIC CHECKIN_SERVICE_PORT f)) s)"
  using assms by (simp add: connect_checkin_configured_def config_parts)

end
