(* ===== verification/Service_Threads.thy ===== *)
theory Service_Threads
  imports Fault_Settings Console Transition_System
begin

text \<open>
  The threads beside the event loops: the listener of the fault tracker
  (\<^verbatim>\<open>FaultTracker::startNetworkListener\<close>, \<^verbatim>\<open>stopNetworkListener\<close> in \<^verbatim>\<open>faulty_clients.hpp\<close>) and the
  threads the check-in service owns, with its destructor and the end of \<^verbatim>\<open>apps/server.cpp\<close>. The
  lemmas show that the listener, once started, serves nobody, and that destroying the service
  ends the process.
\<close>

section \<open>The fault tracker object\<close>

text \<open>
  The object is a function-local static: its storage is zero before the constructor runs, which
  does not mention \<^verbatim>\<open>running\<close>.
\<close>

record fault_tracker =
  ft_clients :: client_map
  ft_cleanup_threshold :: int
  ft_running :: bool
  ft_thread :: bool \<comment> \<open>\<^verbatim>\<open>network_thread\<close> is not null\<close>

definition FaultTracker :: "IniFile \<Rightarrow> IniFile \<times> fault_tracker result" where
  "FaultTracker f =
     (let (f', r) = initializeConfig f 24
      in (f', bindR r (\<lambda>h. Inr \<lparr>ft_clients = [], ft_cleanup_threshold = h, ft_running = False, ft_thread = False\<rparr>)))"

text \<open>
  One accepted connection: the error of accepting, the bytes of the read up to a line break or
  its error, and the error of writing the response.
\<close>

record fault_connection =
  fc_accept_error :: "string option"
  fc_data :: "string + string"
  fc_write_error :: "string option"

datatype listener_end = Not_started | Loop_left | Accepting | Error_logged string | Crashed cpp_error

fun network_listener ::
  "('j, 'k, 'c) libs \<Rightarrow> fault_connection list \<Rightarrow> fault_tracker \<Rightarrow> fault_tracker \<times> string list \<times> listener_end" where
  "network_listener L [] t = (t, [], if ft_running t then Accepting else Loop_left)"
| "network_listener L (c # cs) t =
     (if \<not> ft_running t then (t, [], Loop_left)
      else case fc_accept_error c of
        Some m \<Rightarrow> (t, [], Error_logged m)
      | None \<Rightarrow>
          (case fc_data c of
             Inl m \<Rightarrow> (t, [], Error_logged m)
           | Inr data \<Rightarrow>
               (case handleCommand L data (ft_clients t) of
                  (m', Inl (Exn _ what)) \<Rightarrow> (t\<lparr>ft_clients := m'\<rparr>, [], Error_logged what)
                | (m', Inl e) \<Rightarrow> (t\<lparr>ft_clients := m'\<rparr>, [], Crashed e)
                | (m', Inr response) \<Rightarrow>
                    (case fc_write_error c of
                       Some m \<Rightarrow> (t\<lparr>ft_clients := m'\<rparr>, [], Error_logged m)
                     | None \<Rightarrow>
                         (case network_listener L cs (t\<lparr>ft_clients := m'\<rparr>) of
                            (t', out, e) \<Rightarrow> (t', (response @ [newline]) # out, e))))))"

text \<open>\<open>bind_error\<close> is the error of opening the port.\<close>

definition startNetworkListener ::
  "('j, 'k, 'c) libs \<Rightarrow> string option \<Rightarrow> fault_connection list \<Rightarrow> fault_tracker
     \<Rightarrow> fault_tracker \<times> string list \<times> listener_end" where
  "startNetworkListener L bind_error conns t =
     (if ft_thread t then (t, [], Not_started)
      else case bind_error of
        Some m \<Rightarrow> (t\<lparr>ft_thread := True\<rparr>, [], Error_logged m)
      | None \<Rightarrow> network_listener L conns (t\<lparr>ft_thread := True\<rparr>))"

text \<open>The thread has ended by the time \<^verbatim>\<open>join\<close> returns; the pointer to it stays.\<close>

definition stopNetworkListener :: "fault_tracker \<Rightarrow> fault_tracker" where
  "stopNetworkListener t = t\<lparr>ft_running := False\<rparr>"

section \<open>The listener serves nobody\<close>

text \<open>Everything the program can do with the tracker.\<close>

datatype tracker_op =
    Report int u32 string
  | Clear u32
  | Expire int int
  | Start "string option" "fault_connection list"
  | Stop
  | Reconfigure int

definition tracker_step :: "('j, 'k, 'c) libs \<Rightarrow> fault_tracker \<Rightarrow> tracker_op \<Rightarrow> fault_tracker \<Rightarrow> bool" where
  "tracker_step L t op t' \<longleftrightarrow> (case op of
       Report now c d \<Rightarrow> t' = t\<lparr>ft_clients := reportFault now c d (ft_clients t)\<rparr>
     | Clear c \<Rightarrow> t' = t\<lparr>ft_clients := clearClient c (ft_clients t)\<rparr>
     | Expire now h \<Rightarrow> (\<exists>m. clearOldRecords now h (ft_clients t) = Inr m \<and> t' = t\<lparr>ft_clients := m\<rparr>)
     | Start bind_error conns \<Rightarrow> t' = fst (startNetworkListener L bind_error conns t)
     | Stop \<Rightarrow> t' = stopNetworkListener t
     | Reconfigure h \<Rightarrow> t' = t\<lparr>ft_cleanup_threshold := h\<rparr>)"

definition tracker_start :: "fault_tracker \<Rightarrow> bool" where
  "tracker_start t \<longleftrightarrow> (\<exists>f. snd (FaultTracker f) = Inr t)"

lemma network_listener_stopped: "\<not> ft_running t \<Longrightarrow> network_listener L conns t = (t, [], Loop_left)"
  by (cases conns) simp_all

interpretation idle_tracker: invariant tracker_start "tracker_step L" "\<lambda>t. \<not> ft_running t"
proof
  fix s l s'
  assume "\<not> ft_running s" "tracker_step L s l s'"
  then show "\<not> ft_running s'"
    by (cases l) (auto simp: tracker_step_def startNetworkListener_def stopNetworkListener_def network_listener_stopped
        split: option.splits)
qed (auto simp: tracker_start_def FaultTracker_def case_prod_beta Let_def bindR_Inr_iff)

lemma listener_serves_nobody:
  "reachable tracker_start (tracker_step L) t \<Longrightarrow> fst (snd (startNetworkListener L bind_error conns t)) = []"
  using idle_tracker.inv_reachable [of L t]
  by (auto simp: startNetworkListener_def network_listener_stopped split: option.splits)

text \<open>With the flag set it would answer each command with one line.\<close>

lemma network_listener_answers:
  assumes "ft_running t" "handleCommand L data (ft_clients t) = (m', Inr response)"
  shows "network_listener L [\<lparr>fc_accept_error = None, fc_data = Inr data, fc_write_error = None\<rparr>] t =
     (t\<lparr>ft_clients := m'\<rparr>, [response @ [newline]], Accepting)"
  using assms by simp

section \<open>The threads of the check-in service\<close>

text \<open>
  The flag \<^verbatim>\<open>running\<close>, whether the clean-up thread exists, and whether \<^verbatim>\<open>network_thread\<close>, which is
  default-constructed, can be joined.
\<close>

record service_threads =
  st_running :: bool
  st_cleanup :: bool
  st_network_joinable :: bool

definition constructed_threads :: service_threads where
  "constructed_threads = \<lparr>st_running = True, st_cleanup = False, st_network_joinable = False\<rparr>"

definition startFaultCleanupThread :: "service_threads \<Rightarrow> service_threads" where
  "startFaultCleanupThread t = t\<lparr>st_cleanup := True\<rparr>"

text \<open>
  The destructor joins the clean-up thread if there is one and then \<^verbatim>\<open>network_thread\<close>; joining a
  thread that is not joinable throws, and a destructor that throws ends the process.
\<close>

definition CheckinService_destroy :: "service_threads \<Rightarrow> service_threads result" where
  "CheckinService_destroy t =
     (let t1 = t\<lparr>st_running := False\<rparr>; t2 = (if st_cleanup t1 then t1\<lparr>st_cleanup := False\<rparr> else t1)
      in if st_network_joinable t2 then Inr (t2\<lparr>st_network_joinable := False\<rparr>) else Inl Abort)"

text \<open>The end of \<^verbatim>\<open>main\<close>, when \<^verbatim>\<open>run\<close> has returned.\<close>

definition server_finish :: "service_threads \<Rightarrow> console \<Rightarrow> console \<times> cpp_error option" where
  "server_finish t c =
     (let c1 = print_line ''Server started'' c
      in case CheckinService_destroy t of Inl e \<Rightarrow> (c1, Some e) | Inr _ \<Rightarrow> (c1, None))"

lemma server_finish_aborts: "snd (server_finish (startFaultCleanupThread constructed_threads) c) = Some Abort"
  by (simp add: server_finish_def CheckinService_destroy_def startFaultCleanupThread_def constructed_threads_def)

end
