(* ===== verification/Applications.thy ===== *)
theory Applications
  imports Service_Settings Warning_Log Service_Threads
begin

text \<open>
  The programs (\<^verbatim>\<open>apps/server.cpp\<close>, \<^verbatim>\<open>apps/id_server.cpp\<close>, \<^verbatim>\<open>apps/client.cpp\<close>,
  \<^verbatim>\<open>apps/secure_client.cpp\<close>): choice of the configuration file, configuration, logger, the service
  or client object, and for the clients the dialogue on the console up to the line that shows
  the result. A program ends by returning from \<^verbatim>\<open>main\<close>, by an exception that nobody catches, or
  it waits.
\<close>

section \<open>Starting up\<close>

text \<open>\<open>argv\<close> is the list of arguments after the program's name.\<close>

definition config_file_of :: "string \<Rightarrow> string list \<Rightarrow> string" where
  "config_file_of default_file argv = (case argv of [] \<Rightarrow> default_file | a # _ \<Rightarrow> a)"

text \<open>The level the file names, \<^verbatim>\<open>debug\<close> when it does not name one.\<close>

definition log_level_setting :: "world \<Rightarrow> log_level config_program" where
  "log_level_setting w f =
     (let (f', found) = hasKey SECTION_BASIC LOG_LEVEL f
      in if found
         then (let (f'', r) = getString SECTION_BASIC LOG_LEVEL f' in (f'', bindR r (\<lambda>name. Inr (log_level_of w name))))
         else (f', Inr Level_debug))"

definition configured :: "world \<Rightarrow> string \<Rightarrow> string list \<Rightarrow> (IniFile \<times> log_level) result" where
  "configured w default_file argv =
     bindR (Config (text_files w (config_file_of default_file argv))) (\<lambda>f.
     case log_level_setting w f of (f', level) \<Rightarrow> bindR level (\<lambda>l. Inr (f', l)))"

section \<open>The servers\<close>

record 'k running_server =
  rs_service :: "'k checkin_service"
  rs_port :: "16 word"
  rs_cleanup_hours :: int
  rs_config :: IniFile
  rs_log :: "LogUtils option \<times> async_logger"
  rs_queries :: query_server
  rs_threads :: service_threads

text \<open>
  \<^verbatim>\<open>main\<close> of the check-in server up to the event loop of \<^verbatim>\<open>CheckinService::run\<close>, which listens for
  warning clients too and logs its own port.
\<close>

definition server_main ::
  "('j, 'k, 'c) libs \<Rightarrow> ('k, 'x) evp_lib \<Rightarrow> world \<Rightarrow> string list \<Rightarrow> 'k running_server result" where
  "server_main L E w argv =
     bindR (configured w ''server_config.ini'' argv) (\<lambda>(f, level).
     case CheckinService_construct L E w f of
       (f', Inl e) \<Rightarrow> Inl e
     | (f', Inr (s, port, hours)) \<Rightarrow>
         (case getUInt16 SECTION_BASIC CHECKIN_SERVICE_PORT f' of (f'', logged_port) \<Rightarrow>
            bindR logged_port (\<lambda>_.
            bindR (listen w 9000) (\<lambda>_.
            Inr \<lparr>rs_service = run s, rs_port = port, rs_cleanup_hours = hours, rs_config = f'',
                 rs_log = create_default_logger ''server_log'' level True None,
                 rs_queries = start_accept \<lparr>accept_posted = False, sessions = []\<rparr>,
                 rs_threads = startFaultCleanupThread constructed_threads\<rparr>))))"

record 'k running_id_server =
  ri_service :: "'k id_service"
  ri_port :: "16 word"
  ri_config :: IniFile
  ri_log :: "LogUtils option \<times> async_logger"

definition id_server_main ::
  "('j, 'k, 'c) libs \<Rightarrow> ('k, 'x) evp_lib \<Rightarrow> world \<Rightarrow> string list \<Rightarrow> 'k running_id_server result" where
  "id_server_main L E w argv =
     bindR (configured w ''id_server_config.ini'' argv) (\<lambda>(f, level).
     case VoterIDService_construct L E w f of
       (f', Inl e) \<Rightarrow> Inl e
     | (f', Inr (s, port)) \<Rightarrow>
         (case getUInt16 SECTION_BASIC ID_SERVICE_PORT f' of (f'', logged_port) \<Rightarrow>
            bindR logged_port (\<lambda>_.
            Inr \<lparr>ri_service = id_run s, ri_port = port, ri_config = f'',
                 ri_log = create_default_logger ''id_server_log'' level True None\<rparr>)))"

text \<open>When the event loop of the server returns, the process is ended by the destructor of the service.\<close>

lemma server_main_finish:
  assumes "server_main L E w argv = Inr r"
  shows "server_finish (rs_threads r) c = (print_line ''Server started'' c, Some Abort)"
proof -
  obtain f level where "configured w ''server_config.ini'' argv = Inr (f, level)"
    using assms by (auto simp: server_main_def bindR_Inr_iff)
  then have "rs_threads r = startFaultCleanupThread constructed_threads"
    using assms by (cases "CheckinService_construct L E w f"; cases "snd (CheckinService_construct L E w f)")
      (auto simp: server_main_def bindR_Inr_iff case_prod_beta)
  then show ?thesis using server_finish_aborts [of c] by (simp add: server_finish_def Let_def split: sum.splits)
qed

section \<open>The clients\<close>

text \<open>
  How a client program ends: with the value of its local variable \<^verbatim>\<open>result\<close>, about which it has printed
  one line before it returns 0 (the line of a success does not mention the secret), still waiting, or
  by an exception. A program also yields what it printed and the messages it sent.
\<close>

datatype program_end = Shown checkin_result | Waiting_for_result | Terminated cpp_error

type_synonym program_result = "console \<times> (server \<times> string) list \<times> program_end"

definition bytes_sent_to :: "server \<Rightarrow> (server \<times> string) list \<Rightarrow> string" where
  "bytes_sent_to srv ms = concat (map snd (filter (\<lambda>m. fst m = srv) ms))"

text \<open>
  \<^verbatim>\<open>result_future.get()\<close>: the network thread handles completions until the promise has a value. An
  exception of a handler ends the process. The client object is returned with the value.
\<close>

fun await_result ::
  "('j, 'k, 'c) libs \<Rightarrow> client_config \<Rightarrow> 'k pollbook_client \<Rightarrow> (io_input \<times> client_op \<times> completion) list
     \<Rightarrow> 'k pollbook_client \<times> checkin_result option result" where
  "await_result L cfg s [] = (s, Inr (pc_promise s))"
| "await_result L cfg s ((io, op, c) # cs) = (case pc_promise s of
       Some r \<Rightarrow> (s, Inr (Some r))
     | None \<Rightarrow> (case complete L cfg io op c s of
           None \<Rightarrow> await_result L cfg s cs
         | Some (s', None) \<Rightarrow> await_result L cfg s' cs
         | Some (s', Some e) \<Rightarrow> (s', Inl e)))"

definition show_result ::
  "string \<Rightarrow> string \<Rightarrow> checkin_result option result \<Rightarrow> console \<Rightarrow> console \<times> program_end" where
  "show_result ok_text bad_text r c = (case r of
       Inl e \<Rightarrow> (c, Terminated e)
     | Inr None \<Rightarrow> (c, Waiting_for_result)
     | Inr (Some result) \<Rightarrow>
         (print_line (if success result then ok_text else bad_text @ failure_reason result) c, Shown result))"

text \<open>The dummy picture of the voter's ID.\<close>

definition voter_id_image :: "byte list" where
  "voter_id_image = [0x1a, 0x1b, 0x1c, 0x1d, 0x2a, 0x2b, 0x2c, 0x2d, 0xff, 0xff, 0xff, 0xff, 0x1, 0x1, 0x1, 0x1,
                     0x1a, 0x1b, 0x1c, 0x1d, 0x2a, 0x2b, 0x2c, 0x2d]"

text \<open>
  The dialogue of the poll book: three lines and a number. The client number of the
  configuration is read by \<^verbatim>\<open>check_in_voter\<close>.
\<close>

definition client_dialogue ::
  "('j, 'k, 'c) libs \<Rightarrow> IniFile \<Rightarrow> io_input \<Rightarrow> (io_input \<times> client_op \<times> completion) list \<Rightarrow> 'k pollbook_client
     \<Rightarrow> console \<Rightarrow> program_result" where
  "client_dialogue L f io network client c =
     (let (last_name, c) = read_line [] (print_line ''Enter the voter's last name'' c);
          (first_name, c) = read_line [] (print_line ''Enter the voter's first name'' c);
          (middle_name, c) = read_line [] (print_line ''Enter the voter's middle name'' c);
          (voter_unique_id, c) = extract_number (print_line ''Enter the voter's unique ID number'' c);
          c = print_line ''Sending a check-in request...'' c
      in case voter_unique_id of
           None \<Rightarrow> (c, pc_sent client, Terminated UB)
         | Some v \<Rightarrow>
             (case snd (getUInt32 SECTION_BASIC CLIENT_ID f) of
                Inl e \<Rightarrow> (c, pc_sent client, Terminated e)
              | Inr _ \<Rightarrow>
                  (case check_in_voter_id L (client_settings f) io first_name middle_name last_name v voter_id_image client of
                     (client', Some e) \<Rightarrow> (c, pc_sent client', Terminated e)
                   | (client', None) \<Rightarrow>
                       (case await_result L (client_settings f) client' network of
                          (client'', r) \<Rightarrow>
                            (case show_result ''Check-in succeeded!'' ''Check-in failed! Reason: '' r
                                    (print_line ''Awaiting the result...'' c) of
                               (c', end_state) \<Rightarrow> (c', pc_sent client'', end_state))))))"

definition client_main ::
  "('j, 'k, 'c) libs \<Rightarrow> ('k, 'x) evp_lib \<Rightarrow> world \<Rightarrow> string option \<Rightarrow> io_input
     \<Rightarrow> (string \<Rightarrow> string \<Rightarrow> 'k certificate option result) \<Rightarrow> (io_input \<times> client_op \<times> completion) list \<Rightarrow> string list
     \<Rightarrow> console \<Rightarrow> program_result" where
  "client_main L E w dir_error io peer network argv c = (case configured w ''client_config.ini'' argv of
       Inl e \<Rightarrow> (c, [], Terminated e)
     | Inr (f, level) \<Rightarrow>
         (case PollbookClient_construct L E w c f of
            (_, Inl e) \<Rightarrow> (c, [], Terminated e)
          | (f1, Inr (client, c1)) \<Rightarrow>
              (case connect_configured L dir_error io peer client f1 of
                 (_, Inl e) \<Rightarrow> (c1, [], Terminated e)
               | (f2, Inr client') \<Rightarrow>
                   client_dialogue L f2 io network client' (print_line ''Connected to checkin server and ID server'' c1))))"

text \<open>The trusted device connects to the check-in server only.\<close>

definition secure_dialogue ::
  "('j, 'k, 'c) libs \<Rightarrow> IniFile \<Rightarrow> io_input \<Rightarrow> (io_input \<times> client_op \<times> completion) list \<Rightarrow> 'k pollbook_client
     \<Rightarrow> console \<Rightarrow> program_result" where
  "secure_dialogue L f io network client c =
     (let (ticket, c) = extract_word [] (print_line ''Enter ticket for client'' c);
          (pin, c) = extract_number (print_line ''Enter your pin'' c);
          c = print_line ''Sending a check-in request...'' c
      in case pin of
           None \<Rightarrow> (c, pc_sent client, Terminated UB)
         | Some p \<Rightarrow>
             (case snd (getUInt32 SECTION_BASIC CLIENT_ID f) of
                Inl e \<Rightarrow> (c, pc_sent client, Terminated e)
              | Inr _ \<Rightarrow>
                  (case verify_ticket L (client_settings f) io ticket p client of
                     (client', Some e) \<Rightarrow> (c, pc_sent client', Terminated e)
                   | (client', None) \<Rightarrow>
                       (case await_result L (client_settings f) client' network of
                          (client'', r) \<Rightarrow>
                            (case show_result ''Ticket verification succeeded!'' ''Ticket verification failed! Reason: '' r c of
                               (c', end_state) \<Rightarrow> (c', pc_sent client'', end_state))))))"

definition secure_client_main ::
  "('j, 'k, 'c) libs \<Rightarrow> ('k, 'x) evp_lib \<Rightarrow> world \<Rightarrow> string option \<Rightarrow> io_input
     \<Rightarrow> (string \<Rightarrow> string \<Rightarrow> 'k certificate option result) \<Rightarrow> (io_input \<times> client_op \<times> completion) list \<Rightarrow> string list
     \<Rightarrow> console \<Rightarrow> program_result" where
  "secure_client_main L E w dir_error io peer network argv c = (case configured w ''client_config.ini'' argv of
       Inl e \<Rightarrow> (c, [], Terminated e)
     | Inr (f, level) \<Rightarrow>
         (case PollbookClient_construct L E w c f of
            (_, Inl e) \<Rightarrow> (c, [], Terminated e)
          | (f1, Inr (client, c1)) \<Rightarrow>
              (case connect_checkin_configured L dir_error io peer client f1 of
                 (_, Inl e) \<Rightarrow> (c1, [], Terminated e)
               | (f2, Inr client') \<Rightarrow> secure_dialogue L f2 io network client' c1)))"

section \<open>Waiting for the result\<close>

text \<open>The operations of a ticket verification, as opposed to those of a check-in.\<close>

definition ticket_op :: "client_op \<Rightarrow> bool" where
  "ticket_op op \<longleftrightarrow> op \<in> {Write_ticket_request, Read_ticket_response}"

lemma ticket_op_simps [simp]:
  "ticket_op Write_ticket_request" "ticket_op Read_ticket_response" "\<not> ticket_op Write_id_request"
  "\<not> ticket_op Read_id_response" "\<not> ticket_op Write_checkin_request" "\<not> ticket_op Read_response_size"
  "\<not> ticket_op (Read_checkin_response buf)"
  by (simp_all add: ticket_op_def)

lemma set_promise_frame [simp]:
  "set_promise r s = (s', e) \<Longrightarrow> pc_checkin_verifier s' = pc_checkin_verifier s \<and> pc_ops s' = pc_ops s"
  by (auto simp: set_promise_def split: option.splits)

lemma client_updates [simp]:
  "pc_checkin_verifier (enqueue op s) = pc_checkin_verifier s" "pc_ops (enqueue op s) = pc_ops s @ [op]"
  "pc_promise (enqueue op s) = pc_promise s"
  "pc_checkin_verifier (transmit srv m s) = pc_checkin_verifier s"
  by (simp_all add: enqueue_def transmit_def)

lemma run_completion_frame:
  assumes "run_completion L cfg io op c s = Some (s', e)"
  shows "pc_checkin_verifier s' = pc_checkin_verifier s"
    "op' \<in> set (pc_ops s') \<Longrightarrow> op' \<in> set (pc_ops s) \<or> ticket_op op' = ticket_op op"
  using assms
  by (cases "(L, cfg, io, op, c, s)" rule: run_completion.cases;
      force simp: on_id_request_written_def on_id_response_def handle_id_response_def start_checkin_request_write_def
        on_checkin_request_written_def on_response_size_def start_checkin_response_read_def on_checkin_response_def
        handle_checkin_response_def on_ticket_request_written_def on_ticket_response_def start_message_read_def
        split: sum.splits option.splits if_splits cpp_error.splits prod.splits dest!: set_promise_frame)+

text \<open>
  An approval among what the network delivered: a response read from the check-in server that
  decodes, approves, and carries a signature of its body that \<open>key\<close> verifies.
\<close>

definition checkin_approval ::
  "('j, 'k, 'c) libs \<Rightarrow> 'k \<Rightarrow> (io_input \<times> client_op \<times> completion) list \<Rightarrow> bool" where
  "checkin_approval L key network \<longleftrightarrow> (\<exists>io buf bytes resp.
     (io, Read_checkin_response buf, Got (Inr bytes)) \<in> set network \<and>
     bindR (j_parse L (first_line (buf @ bytes))) (CheckinResponse_FromJson L) = Inr resp \<and> pb_approved (pr_body resp) \<and>
     bindR (j_dump L (CheckinResponse_Body_ToJson L (pr_body resp)))
       (\<lambda>str. verify_string L key str (pr_checkin_service_signature resp)) = Inr True)"

definition ticket_approval ::
  "('j, 'k, 'c) libs \<Rightarrow> 'k \<Rightarrow> string \<Rightarrow> (io_input \<times> client_op \<times> completion) list \<Rightarrow> bool" where
  "ticket_approval L key secret network \<longleftrightarrow> (\<exists>io line resp.
     (io, Read_ticket_response, Got (Inr line)) \<in> set network \<and>
     bindR (j_parse L line) (TicketResponse_FromJson L) = Inr resp \<and> rb_approved (rr_body resp) \<and>
     rb_secret (rr_body resp) = secret \<and>
     bindR (j_dump L (TicketResponse_Body_ToJson L (rr_body resp))) (\<lambda>str. verify_string L key str (rr_signature resp)) = Inr True)"

definition server_approval ::
  "('j, 'k, 'c) libs \<Rightarrow> bool \<Rightarrow> 'k \<Rightarrow> string \<Rightarrow> (io_input \<times> client_op \<times> completion) list \<Rightarrow> bool" where
  "server_approval L ticket key secret network \<longleftrightarrow>
     (if ticket then ticket_approval L key secret network else checkin_approval L key network)"

lemma server_approval_mono: "server_approval L ticket key secret cs \<Longrightarrow> server_approval L ticket key secret (c # cs)"
  by (fastforce simp: server_approval_def ticket_approval_def checkin_approval_def)

lemma run_completion_approval:
  assumes "run_completion L cfg io op c s = Some (s', e)" "pc_promise s = None" "pc_promise s' = Some res" "success res"
  shows "\<exists>key. pc_checkin_verifier s = Some key \<and> server_approval L (ticket_op op) key (failure_reason res) [(io, op, c)]"
proof -
  note quiet = quiet_before_success(1-4) [OF assms(2-4)] quiet_before_success(5-7) [OF assms(2-4), where L = L]
  consider (checkin) buf bytes where "op = Read_checkin_response buf" "c = Got (Inr bytes)"
      "on_checkin_response L (Inr (first_line (buf @ bytes))) s = (s', e)"
    | (ticket) line where "op = Read_ticket_response" "c = Got (Inr line)" "on_ticket_response L (Inr line) s = (s', e)"
    using assms(1) quiet
    by (cases "(L, cfg, io, op, c, s)" rule: run_completion.cases) (auto split: sum.splits, metis sum.exhaust)
  then show ?thesis
  proof cases
    case checkin
    then show ?thesis
      using checkin_success_signed [OF checkin(3) assms(2-4)] by (auto simp: server_approval_def checkin_approval_def)
  next
    case ticket
    then show ?thesis
      using ticket_success_signed [OF ticket(3) assms(2-4)] by (auto simp: server_approval_def ticket_approval_def)
  qed
qed

lemma await_result_approval:
  assumes "one_request s" "\<forall>op \<in> set (pc_ops s). ticket_op op = ticket" "pc_promise s = None"
    and "snd (await_result L cfg s cs) = Inr (Some r)" "success r"
  shows "\<exists>key. pc_checkin_verifier s = Some key \<and> server_approval L ticket key (failure_reason r) cs"
  using assms
proof (induction L cfg s cs rule: await_result.induct)
  case (2 L cfg s io op c cs)
  show ?case
  proof (cases "complete L cfg io op c s")
    case None
    then show ?thesis using 2 server_approval_mono by auto
  next
    case (Some out)
    then obtain s' where s': "complete L cfg io op c s = Some (s', None)" "snd (await_result L cfg s' cs) = Inr (Some r)"
      using "2.prems"(3,4) by (cases out) (auto split: option.splits)
    then have op: "op \<in> set (pc_ops s)"
      and run: "run_completion L cfg io op c (s\<lparr>pc_ops := remove1 op (pc_ops s)\<rparr>) = Some (s', None)"
      by (auto simp: complete_def split: if_splits)
    have ops: "pc_ops s = [op]"
      using "2.prems"(1,3) op by (auto simp: one_request_iff)
    have tk: "ticket_op op = ticket" using "2.prems"(2) op by simp
    have ver: "pc_checkin_verifier s' = pc_checkin_verifier s"
      and fam: "\<forall>op' \<in> set (pc_ops s'). ticket_op op' = ticket"
      using run_completion_frame [OF run] ops tk by auto
    show ?thesis
    proof (cases "pc_promise s'")
      case None
      then show ?thesis
        using "2.IH"(2) [OF "2.prems"(3) s'(1) refl refl] complete_rank(1) [OF "2.prems"(1) s'(1)] fam s'(2) "2.prems"(5) ver
          server_approval_mono by metis
    next
      case (Some r')
      then have "r' = r" using s'(2) by (cases cs) auto
      then have "\<exists>key. pc_checkin_verifier s = Some key \<and> server_approval L ticket key (failure_reason r) [(io, op, c)]"
        using run_completion_approval [OF run _ Some] "2.prems"(3,5) tk by simp
      then show ?thesis by (fastforce simp: server_approval_def ticket_approval_def checkin_approval_def)
    qed
  qed
qed auto

section \<open>Connecting\<close>

text \<open>
  After connecting the client verifies with the key of the certificate the check-in server
  presented: the key is written to a file and read back.
\<close>

lemma handshake_verifier:
  assumes "pem_law L" "make_handshake L dir_error io peer is_id s = (s', None)"
  obtains cert key where "peer = Inr (Some cert)" "cert_public_key cert = Some key"
    "pc_checkin_verifier s' = (if is_id then pc_checkin_verifier s else Some key)" "pc_ops s' = pc_ops s"
proof -
  from assms(2) obtain cert key s1 where c: "peer = Inr (Some cert)" "cert_public_key cert = Some key"
    "write_pubkey_pem L dir_error io key (server_key_path is_id) s = (s1, None)"
    "(case from_pem_public L (pc_key_files s1) (server_key_path is_id) of
        Inl e \<Rightarrow> (s1, Some e)
      | Inr key \<Rightarrow> (if is_id then s1\<lparr>pc_id_verifier := Some key\<rparr> else s1\<lparr>pc_checkin_verifier := Some key\<rparr>, None)) = (s', None)"
    by (auto simp: make_handshake_def split: sum.splits option.splits prod.splits)
  from c(3) obtain fs' where w: "to_pem_public L (fopen_w io) key (server_key_path is_id) (pc_key_files s) = (fs', Inr ())"
    "s1 = s\<lparr>pc_key_files := fs'\<rparr>"
    by (auto simp: write_pubkey_pem_def Let_def split: option.splits sum.splits prod.splits)
  have "from_pem_public L (pc_key_files s1) (server_key_path is_id) = Inr key"
    using from_pem_public_to_pem_public [OF assms(1) w(1) refl] w(2) by simp
  with c w(2) show thesis by (intro that [OF c(1,2)]) auto
qed

lemma connect_checkin_verifier:
  assumes "pem_law L" "connect_checkin_server L dir_error io peer s = (s', None)"
  obtains cert key where "peer = Inr (Some cert)" "cert_public_key cert = Some key"
    "pc_checkin_verifier s' = Some key" "pc_ops s' = pc_ops s"
proof -
  from assms(2) obtain s1 where s1: "make_handshake L dir_error io peer False s = (s1, None)"
    "s' = s1\<lparr>pc_checkin_connected := True\<rparr>"
    by (auto simp: connect_checkin_server_def split: prod.splits option.splits)
  show thesis
    by (rule handshake_verifier [OF assms(1) s1(1)]) (use s1(2) that in simp)
qed

lemma connect_verifier:
  assumes "pem_law L" "connect L dir_error io checkin_peer id_peer s = (s', None)"
  obtains cert key where "checkin_peer = Inr (Some cert)" "cert_public_key cert = Some key"
    "pc_checkin_verifier s' = Some key" "pc_ops s' = pc_ops s"
proof -
  from assms(2) obtain s1 where s1: "connect_checkin_server L dir_error io checkin_peer s = (s1, None)"
    "connect_id_server L dir_error io id_peer s1 = (s', None)"
    by (auto simp: connect_def split: prod.splits option.splits)
  then obtain s2 where s2: "make_handshake L dir_error io id_peer True s1 = (s2, None)"
    "pc_checkin_verifier s' = pc_checkin_verifier s2" "pc_ops s' = pc_ops s2"
    by (auto simp: connect_id_server_def split: prod.splits option.splits)
  show thesis
    using connect_checkin_verifier [OF assms(1) s1(1)] handshake_verifier [OF assms(1) s2(1)] s2(2,3) that by metis
qed

lemma log_level_parts:
  assumes "ordered_IniFile f"
  shows "ordered_IniFile (fst (log_level_setting w f))" "ini_field s k (fst (log_level_setting w f)) = ini_field s k f"
    "\<exists>l. snd (log_level_setting w f) = Inr l"
  using assms by (auto simp: log_level_setting_def case_prod_beta Let_def config_parts)

lemma configured_parts:
  assumes "configured w d argv = Inr (g, l)"
  obtains f where "Config (text_files w (config_file_of d argv)) = Inr f" "ordered_IniFile f" "g = fst (log_level_setting w f)"
    "ordered_IniFile g" "\<And>s k. ini_field s k g = ini_field s k f" "snd (log_level_setting w f) = Inr l"
proof -
  from assms obtain f where f: "Config (text_files w (config_file_of d argv)) = Inr f"
    and l: "log_level_setting w f = (g, Inr l)"
    by (auto simp: configured_def bindR_Inr_iff case_prod_beta prod_eq_iff)
  from Config_ordered [OF f] have o: "ordered_IniFile f" .
  show thesis
    using that [OF f o] log_level_parts(1,2) [OF o, where w = w] l by simp
qed

section \<open>What the clients show\<close>

lemma show_result_Shown:
  assumes "show_result ok bad r c = (c', Shown res)"
  shows "r = Inr (Some res)" "success res \<Longrightarrow> con_out c' = con_out c @ ok @ [newline]"
  using assms by (auto simp: show_result_def print_line_def split: sum.splits option.splits)

lemma client_dialogue_Shown:
  assumes "client_dialogue L f io network client c = (c', ms, Shown res)" "success res" "pc_ops client = []"
  obtains key where "pc_checkin_verifier client = Some key" "checkin_approval L key network"
    "\<exists>before. con_out c' = before @ ''Check-in succeeded!'' @ [newline]"
proof -
  from assms(1) obtain first_name middle_name last_name v client' c1 where
    ci: "check_in_voter_id L (client_settings f) io first_name middle_name last_name v voter_id_image client = (client', None)"
    and sh: "show_result ''Check-in succeeded!'' ''Check-in failed! Reason: ''
        (snd (await_result L (client_settings f) client' network)) c1 = (c', Shown res)"
    by (auto simp: client_dialogue_def Let_def split: prod.splits option.splits sum.splits)
  have out: "\<exists>before. con_out c' = before @ ''Check-in succeeded!'' @ [newline]"
    using show_result_Shown(2) [OF sh assms(2)] by blast
  have start: "one_request client'" "pc_promise client' = None" "\<forall>op \<in> set (pc_ops client'). ticket_op op = False"
    "pc_checkin_verifier client' = pc_checkin_verifier client"
    using ci assms(3) check_in_voter_starts(1) [of L "client_settings f" io first_name middle_name last_name _ client client']
    by (auto simp: check_in_voter_id_def check_in_voter_def start_id_request_write_def split: if_splits sum.splits)
  show thesis
    using await_result_approval [OF start(1,3,2) show_result_Shown(1) [OF sh] assms(2)] start(4) out that
    by (auto simp: server_approval_def)
qed

lemma secure_dialogue_Shown:
  assumes "secure_dialogue L f io network client c = (c', ms, Shown res)" "success res" "pc_ops client = []"
  obtains key where "pc_checkin_verifier client = Some key" "ticket_approval L key (failure_reason res) network"
    "\<exists>before. con_out c' = before @ ''Ticket verification succeeded!'' @ [newline]"
proof -
  from assms(1) obtain ticket p client' c1 where
    ci: "verify_ticket L (client_settings f) io ticket p client = (client', None)"
    and sh: "show_result ''Ticket verification succeeded!'' ''Ticket verification failed! Reason: ''
        (snd (await_result L (client_settings f) client' network)) c1 = (c', Shown res)"
    by (auto simp: secure_dialogue_def Let_def split: prod.splits option.splits sum.splits)
  have out: "\<exists>before. con_out c' = before @ ''Ticket verification succeeded!'' @ [newline]"
    using show_result_Shown(2) [OF sh assms(2)] by blast
  have start: "one_request client'" "pc_promise client' = None" "\<forall>op \<in> set (pc_ops client'). ticket_op op = True"
    "pc_checkin_verifier client' = pc_checkin_verifier client"
    using ci assms(3) verify_ticket_starts(1) [of L "client_settings f" io ticket p client client']
    by (auto simp: verify_ticket_def Let_def split: if_splits sum.splits)
  show thesis
    using await_result_approval [OF start(1,3,2) show_result_Shown(1) [OF sh] assms(2)] start(4) out that
    by (auto simp: server_approval_def)
qed

text \<open>From the configuration file to the line on the console.\<close>

lemma client_main_Shown:
  assumes "pem_law L" "client_main L E w dir_error io peer network argv c = (c', ms, Shown res)" "success res"
  obtains f cert key where "Config (text_files w (config_file_of ''client_config.ini'' argv)) = Inr f"
    "peer (ini_field SECTION_BASIC CHECKIN_SERVICE_HOST f) (ini_field SECTION_BASIC CHECKIN_SERVICE_PORT f) = Inr (Some cert)"
    "cert_public_key cert = Some key" "checkin_approval L key network"
    "\<exists>before. con_out c' = before @ ''Check-in succeeded!'' @ [newline]"
proof -
  from assms(2) obtain g l g1 s0 c1 h client c2 where cfg: "configured w ''client_config.ini'' argv = Inr (g, l)"
    and con: "PollbookClient_construct L E w c g = (g1, Inr (s0, c1))" "connect_configured L dir_error io peer s0 g1 = (h, Inr client)"
    and dia: "client_dialogue L h io network client c2 = (c', ms, Shown res)"
    by (auto simp: client_main_def split: sum.splits prod.splits)
  obtain f where f: "Config (text_files w (config_file_of ''client_config.ini'' argv)) = Inr f" "ordered_IniFile g"
    "\<And>s k. ini_field s k g = ini_field s k f"
    by (rule configured_parts [OF cfg]) blast
  from con have s0: "snd (PollbookClient_construct L E w c g) = Inr (s0, c1)"
    and co: "snd (connect_configured L dir_error io peer s0 (fst (PollbookClient_construct L E w c g))) = Inr client"
    by simp_all
  note parts = PollbookClient_construct_parts [OF f(2) s0]
  from co have "connect L dir_error io
      (peer (ini_field SECTION_BASIC CHECKIN_SERVICE_HOST f) (ini_field SECTION_BASIC CHECKIN_SERVICE_PORT f))
      (peer (ini_field SECTION_BASIC ID_SERVICE_HOST f) (ini_field SECTION_BASIC ID_SERVICE_PORT f)) s0 = (client, None)"
    by (auto simp: connect_configured_exact [OF parts(1)] parts(2) f(3) outcome_result_def split: prod.splits option.splits)
  then obtain cert key where k: "peer (ini_field SECTION_BASIC CHECKIN_SERVICE_HOST f)
      (ini_field SECTION_BASIC CHECKIN_SERVICE_PORT f) = Inr (Some cert)" "cert_public_key cert = Some key"
    "pc_checkin_verifier client = Some key" "pc_ops client = pc_ops s0"
    using connect_verifier [OF assms(1)] by metis
  have "pc_ops client = []"
    using s0 k(4) by (auto simp: PollbookClient_construct_exact [OF f(2)] PollbookClient_def)
  from client_dialogue_Shown [OF dia assms(3) this] k f(1) show thesis using that by (metis option.inject)
qed

lemma secure_client_main_Shown:
  assumes "pem_law L" "secure_client_main L E w dir_error io peer network argv c = (c', ms, Shown res)" "success res"
  obtains f cert key where "Config (text_files w (config_file_of ''client_config.ini'' argv)) = Inr f"
    "peer (ini_field SECTION_BASIC CHECKIN_SERVICE_HOST f) (ini_field SECTION_BASIC CHECKIN_SERVICE_PORT f) = Inr (Some cert)"
    "cert_public_key cert = Some key" "ticket_approval L key (failure_reason res) network"
    "\<exists>before. con_out c' = before @ ''Ticket verification succeeded!'' @ [newline]"
proof -
  from assms(2) obtain g l g1 s0 c1 h client where cfg: "configured w ''client_config.ini'' argv = Inr (g, l)"
    and con: "PollbookClient_construct L E w c g = (g1, Inr (s0, c1))"
      "connect_checkin_configured L dir_error io peer s0 g1 = (h, Inr client)"
    and dia: "secure_dialogue L h io network client c1 = (c', ms, Shown res)"
    by (auto simp: secure_client_main_def split: sum.splits prod.splits)
  obtain f where f: "Config (text_files w (config_file_of ''client_config.ini'' argv)) = Inr f" "ordered_IniFile g"
    "\<And>s k. ini_field s k g = ini_field s k f"
    by (rule configured_parts [OF cfg]) blast
  from con have s0: "snd (PollbookClient_construct L E w c g) = Inr (s0, c1)"
    and co: "snd (connect_checkin_configured L dir_error io peer s0 (fst (PollbookClient_construct L E w c g))) = Inr client"
    by simp_all
  note parts = PollbookClient_construct_parts [OF f(2) s0]
  from co have "connect_checkin_server L dir_error io
      (peer (ini_field SECTION_BASIC CHECKIN_SERVICE_HOST f) (ini_field SECTION_BASIC CHECKIN_SERVICE_PORT f)) s0 = (client, None)"
    by (auto simp: connect_checkin_configured_exact [OF parts(1)] parts(2) f(3) outcome_result_def split: prod.splits option.splits)
  then obtain cert key where k: "peer (ini_field SECTION_BASIC CHECKIN_SERVICE_HOST f)
      (ini_field SECTION_BASIC CHECKIN_SERVICE_PORT f) = Inr (Some cert)" "cert_public_key cert = Some key"
    "pc_checkin_verifier client = Some key" "pc_ops client = pc_ops s0"
    using connect_checkin_verifier [OF assms(1)] by metis
  have "pc_ops client = []"
    using s0 k(4) by (auto simp: PollbookClient_construct_exact [OF f(2)] PollbookClient_def)
  from secure_dialogue_Shown [OF dia assms(3) this] k f(1) show thesis using that by (metis option.inject)
qed

end
