(* ===== verification/Warning_Client.thy ===== *)
theory Warning_Client
  imports Warning_Log Console
begin

text \<open>
  The console client of the warning query server (\<^verbatim>\<open>apps/warning_cache_client.cpp\<close>): the command
  loop and \<^verbatim>\<open>send_command\<close>, over a socket that is a parameter, and the composition with a session
  of the server. The lemmas show that the client prints the server's answers, in order, also
  while the server logs further warnings between the commands.
\<close>

section \<open>The client\<close>

text \<open>
  A connection: resolving and connecting, writing, reading up to a delimiter with a buffer of
  the call (\<open>None\<close>: the call never returns), and shutting down.
\<close>

datatype read_status = Read_ok | Read_eof | Read_failed string

record 's asio_socket =
  sk_connect :: "string \<Rightarrow> string \<Rightarrow> 's result"
  sk_write :: "string \<Rightarrow> 's \<Rightarrow> 's result"
  sk_read_until :: "char \<Rightarrow> 's \<Rightarrow> (string \<times> read_status \<times> 's) option"
  sk_shutdown :: "'s \<Rightarrow> 's result"

datatype repl_end = Repl_closed | Repl_raised cpp_error | Repl_waits

text \<open>
  The command with its line break is written; the first line of what was read is the response.
  The read buffer is local to the call, so what it holds beyond that line is lost.
\<close>

definition send_command :: "'s asio_socket \<Rightarrow> string \<Rightarrow> 's \<times> console \<Rightarrow> repl_end + 's \<times> console" where
  "send_command A cmd = (\<lambda>(socket, c). case sk_write A (cmd @ [newline]) socket of
       Inl e \<Rightarrow> Inl (Repl_raised e)
     | Inr socket1 \<Rightarrow>
         (case sk_read_until A newline socket1 of
            None \<Rightarrow> Inl Repl_waits
          | Some (buf, ec, socket2) \<Rightarrow>
              (case ec of
                 Read_failed m \<Rightarrow> Inl (Repl_raised (Exn System_error m))
               | _ \<Rightarrow> Inr (socket2, print_line (''Server: '' @ (case getline newline buf of None \<Rightarrow> [] | Some (l, _) \<Rightarrow> l)) c))))"

text \<open>The command an input line stands for.\<close>

definition repl_command :: "string \<Rightarrow> string option" where
  "repl_command line =
     (if line = ''get'' then Some ''get_warnings''
      else if line = ''clear'' then Some ''clear_warnings''
      else if take (length remove_prefix) line = remove_prefix then Some line
      else None)"

definition prompt :: "console \<Rightarrow> console" where
  "prompt c = c\<lparr>con_out := con_out c @ ''> ''\<rparr>"

definition left_to_read :: "console \<Rightarrow> nat" where
  "left_to_read c = length (rest (con_in c)) + (if good (con_in c) then 1 else 0)"

lemma getline_into_shrinks:
  assumes "getline_into d st old = (l, st', True)"
  shows "length (rest st') + (if good st' then 1 else 0) < length (rest st) + (if good st then 1 else (0 :: nat))"
proof -
  have "length (takeWhile (\<lambda>c. c \<noteq> d) (rest st)) + length (dropWhile (\<lambda>c. c \<noteq> d) (rest st)) = length (rest st)"
    by (metis length_append takeWhile_dropWhile_id)
  moreover have "dropWhile (\<lambda>c. c \<noteq> d) (rest st) = [] \<longleftrightarrow> d \<notin> set (rest st)" by auto
  ultimately show ?thesis
    using assms by (cases "dropWhile (\<lambda>c. c \<noteq> d) (rest st)") (auto simp: getline_into_def Let_def split: if_splits)
qed

lemma send_command_in: "send_command A cmd (socket, c) = Inr (socket', c') \<Longrightarrow> con_in c' = con_in c"
  by (auto simp: send_command_def print_line_def split: sum.splits option.splits read_status.splits)

function repl_loop :: "'s asio_socket \<Rightarrow> 's \<Rightarrow> console \<Rightarrow> console \<times> (repl_end + 's)" where
  "repl_loop A socket c = (case getline_into newline (con_in (prompt c)) [] of
       (line, st, False) \<Rightarrow> ((prompt c)\<lparr>con_in := st\<rparr>, Inr socket)
     | (line, st, True) \<Rightarrow>
         (let c1 = (prompt c)\<lparr>con_in := st\<rparr>
          in if line = ''exit'' then (c1, Inr socket)
             else case repl_command line of
                    None \<Rightarrow> repl_loop A socket (print_line ''Unknown command.'' c1)
                  | Some cmd \<Rightarrow> (case send_command A cmd (socket, c1) of
                      Inl e \<Rightarrow> (c1, Inl e)
                    | Inr (socket', c2) \<Rightarrow> repl_loop A socket' c2)))"
  by pat_completeness auto
termination
  by (relation "measure (\<lambda>(A, socket, c). left_to_read c)")
    (auto simp: left_to_read_def prompt_def print_line_def dest!: getline_into_shrinks [OF sym] send_command_in
      split: if_splits)

declare repl_loop.simps [simp del]

definition repl_greeting :: string where
  "repl_greeting = ''Connected to log query server. Type 'get', 'clear', or 'exit'.''"

text \<open>\<^verbatim>\<open>main\<close>: every \<^verbatim>\<open>std::exception\<close> is reported on the error stream.\<close>

definition report_repl_error :: "cpp_error \<Rightarrow> console \<Rightarrow> console \<times> repl_end" where
  "report_repl_error e c = (case e of
       Exn x what \<Rightarrow> (c\<lparr>con_err := con_err c @ ''REPL client error: '' @ what @ [newline]\<rparr>, Repl_closed)
     | e \<Rightarrow> (c, Repl_raised e))"

definition repl_main :: "'s asio_socket \<Rightarrow> console \<Rightarrow> console \<times> repl_end" where
  "repl_main A c = (case sk_connect A ''127.0.0.1'' ''9000'' of
       Inl e \<Rightarrow> report_repl_error e c
     | Inr socket \<Rightarrow>
         (case repl_loop A socket (print_line repl_greeting c) of
            (c1, Inl (Repl_raised e)) \<Rightarrow> report_repl_error e c1
          | (c1, Inl e) \<Rightarrow> (c1, e)
          | (c1, Inr socket') \<Rightarrow>
              (case sk_shutdown A socket' of
                 Inl e \<Rightarrow> report_repl_error e c1
               | Inr _ \<Rightarrow> (c1, Repl_closed))))"

section \<open>A server that answers lines\<close>

text \<open>
  What the console shows for a list of input lines when \<open>ask\<close> answers the commands; \<open>None\<close> when a
  command gets no answer.
\<close>

fun repl_text :: "(string \<Rightarrow> 's \<Rightarrow> ('s \<times> string) option) \<Rightarrow> string list \<Rightarrow> 's \<Rightarrow> (string \<times> 's) option" where
  "repl_text ask [] s = Some (''> '', s)"
| "repl_text ask (line # ls) s =
     (if line = ''exit'' then Some (''> '', s)
      else case repl_command line of
             None \<Rightarrow> map_option (\<lambda>(t, s'). (''> Unknown command.'' @ [newline] @ t, s')) (repl_text ask ls s)
           | Some cmd \<Rightarrow>
               (case ask cmd s of
                  None \<Rightarrow> None
                | Some (s1, response) \<Rightarrow>
                    map_option (\<lambda>(t, s'). (''> Server: '' @ response @ [newline] @ t, s')) (repl_text ask ls s1)))"

lemma repl_command_line:
  "newline \<notin> set line \<Longrightarrow> repl_command line = Some cmd \<Longrightarrow> newline \<notin> set cmd"
  by (auto simp: repl_command_def split: if_splits)

text \<open>
  The interface the client relies on: in a good state a written command line makes its answer
  readable, followed by a line break and nothing else, and leads to a good state again.
\<close>

locale answering_socket =
  fixes A :: "'s asio_socket" and quiet :: "'s \<Rightarrow> bool" and ask :: "string \<Rightarrow> 's \<Rightarrow> ('s \<times> string) option"
  assumes answered: "quiet s \<Longrightarrow> newline \<notin> set cmd \<Longrightarrow> ask cmd s = Some (s', response) \<Longrightarrow>
      \<exists>s1. sk_write A (cmd @ [newline]) s = Inr s1 \<and>
           sk_read_until A newline s1 = Some (response @ [newline], Read_ok, s')"
    and one_line: "quiet s \<Longrightarrow> newline \<notin> set cmd \<Longrightarrow> ask cmd s = Some (s', response) \<Longrightarrow> newline \<notin> set response"
    and stays_quiet: "quiet s \<Longrightarrow> newline \<notin> set cmd \<Longrightarrow> ask cmd s = Some (s', response) \<Longrightarrow> quiet s'"
begin

lemma send_command_shows:
  assumes "quiet s" "newline \<notin> set cmd" "ask cmd s = Some (s', response)"
  shows "send_command A cmd (s, c) = Inr (s', print_line (''Server: '' @ response) c)"
proof -
  obtain s1 where "sk_write A (cmd @ [newline]) s = Inr s1"
    "sk_read_until A newline s1 = Some (response @ [newline], Read_ok, s')"
    using answered [OF assms] by blast
  moreover have "getline newline (response @ [newline]) = Some (response, [])"
    using getline_append [OF one_line [OF assms], of "[]"] by simp
  ultimately show ?thesis by (simp add: send_command_def)
qed

lemma repl_loop_shows:
  assumes "quiet s" "con_in c = \<lparr>rest = input, good = ok\<rparr>" "ok \<or> input = []"
    and "repl_text ask (getlines newline input) s = Some (t, s')"
  shows "\<exists>c'. repl_loop A s c = (c', Inr s') \<and> con_out c' = con_out c @ t \<and> con_err c' = con_err c"
  using assms
proof (induction input arbitrary: s c ok t rule: length_induct)
  case (1 input)
  show ?case
  proof (cases "ok \<and> input \<noteq> []")
    case False
    with "1.prems" show ?thesis by (auto simp: repl_loop.simps prompt_def getline_into_def)
  next
    case True
    then obtain line left where g: "getline newline input = Some (line, left)"
      by (simp add: getline_def)
    have lines: "getlines newline input = line # getlines newline left" by (simp add: getlines.simps [of newline input] g)
    have free: "newline \<notin> set line" and shorter: "length left < length input"
      using g by (auto dest: getline_delim_free getline_shrinks)
    let ?ok = "newline \<in> set input"
    have ok': "?ok \<or> left = []"
      using g dropWhile_neq_Nil [of newline input] by (cases ?ok) (auto simp: getline_def split: if_splits)
    have into: "getline_into newline (con_in (prompt c)) [] = (line, \<lparr>rest = left, good = ?ok\<rparr>, True)"
      using True "1.prems"(2) g getline_into_eq_getline [of newline input "[]"] by (simp add: prompt_def open_string_def)
    let ?c = "(prompt c)\<lparr>con_in := \<lparr>rest = left, good = ?ok\<rparr>\<rparr>"
    have loop: "repl_loop A s c = (if line = ''exit'' then (?c, Inr s) else case repl_command line of
        None \<Rightarrow> repl_loop A s (print_line ''Unknown command.'' ?c)
      | Some cmd \<Rightarrow> (case send_command A cmd (s, ?c) of
          Inl e \<Rightarrow> (?c, Inl e) | Inr (socket', c2) \<Rightarrow> repl_loop A socket' c2))"
      by (subst repl_loop.simps) (simp add: into Let_def)
    show ?thesis
    proof (cases "line = ''exit''")
      case True
      with "1.prems"(4) lines loop show ?thesis by (simp add: prompt_def)
    next
      case other: False
      show ?thesis
      proof (cases "repl_command line")
        case None
        obtain t1 where t1: "repl_text ask (getlines newline left) s = Some (t1, s')"
          "t = ''> Unknown command.'' @ [newline] @ t1"
          using "1.prems"(4) lines other None by auto
        let ?c2 = "print_line ''Unknown command.'' ?c"
        have "\<exists>c'. repl_loop A s ?c2 = (c', Inr s') \<and> con_out c' = con_out ?c2 @ t1 \<and> con_err c' = con_err ?c2"
          by (rule "1.IH" [rule_format, OF shorter "1.prems"(1) _ ok' t1(1)]) (simp add: print_line_def)
        with None other t1(2) loop show ?thesis by (auto simp: print_line_def prompt_def)
      next
        case (Some cmd)
        obtain s1 response t1 where a: "ask cmd s = Some (s1, response)"
          "repl_text ask (getlines newline left) s1 = Some (t1, s')" "t = ''> Server: '' @ response @ [newline] @ t1"
          using "1.prems"(4) lines other Some by (auto split: option.splits)
        note cmd = repl_command_line [OF free Some]
        let ?c2 = "print_line (''Server: '' @ response) ?c"
        have "\<exists>c'. repl_loop A s1 ?c2 = (c', Inr s') \<and> con_out c' = con_out ?c2 @ t1 \<and> con_err c' = con_err ?c2"
          by (rule "1.IH" [rule_format, OF shorter stays_quiet [OF "1.prems"(1) cmd a(1)] _ ok' a(2)])
            (simp add: print_line_def)
        with Some other a(3) loop show ?thesis
          by (auto simp: send_command_shows [OF "1.prems"(1) cmd a(1)] print_line_def prompt_def)
      qed
    qed
  qed
qed

end

section \<open>A session of the query server\<close>

text \<open>
  The other end of the connection: the server's log, logger and session, how many of the bytes it
  wrote the client has taken, what happens to the log before each further command (messages logged,
  messages handed to the sinks, the commands of other sessions), and whether the server has ended by an
  exception. A read of the client takes everything up to the delimiter and up to
  \<open>overread\<close> further bytes that have arrived.
\<close>

record query_link =
  ql_log :: "LogUtils option \<times> async_logger"
  ql_session :: session
  ql_taken :: nat
  ql_logged :: "cache_op list list"
  ql_down :: bool

definition next_logged :: "'a list list \<Rightarrow> 'a list" where
  "next_logged batches = (case batches of [] \<Rightarrow> [] | b # _ \<Rightarrow> b)"

definition log_now :: "(log_msg \<Rightarrow> string) \<Rightarrow> query_link \<Rightarrow> LogUtils option \<times> async_logger" where
  "log_now format q = fold (cache_step format) (next_logged (ql_logged q)) (ql_log q)"

definition query_write :: "('j, 'k, 'c) libs \<Rightarrow> (log_msg \<Rightarrow> string) \<Rightarrow> string \<Rightarrow> query_link \<Rightarrow> query_link result" where
  "query_write L format bytes q =
     (if ql_down q then Inl (Exn System_error ''write: Broken pipe'')
      else case serve_chunk L bytes (fst (log_now format q), ql_session q) of
        Inl e \<Rightarrow> Inr (q\<lparr>ql_logged := tl (ql_logged q), ql_down := True\<rparr>)
      | Inr (inst, ss) \<Rightarrow>
          Inr (q\<lparr>ql_log := (inst, snd (log_now format q)), ql_session := ss, ql_logged := tl (ql_logged q)\<rparr>))"

definition query_read :: "nat \<Rightarrow> char \<Rightarrow> query_link \<Rightarrow> (string \<times> read_status \<times> query_link) option" where
  "query_read overread d q =
     (let available = drop (ql_taken q) (written_out (ql_session q));
          buf = take (length (takeWhile (\<lambda>c. c \<noteq> d) available) + 1 + overread) available
      in if d \<in> set available then Some (buf, Read_ok, q\<lparr>ql_taken := ql_taken q + length buf\<rparr>)
         else if ql_down q then Some (available, Read_eof, q\<lparr>ql_taken := ql_taken q + length available\<rparr>)
         else None)"

definition query_socket ::
  "('j, 'k, 'c) libs \<Rightarrow> (log_msg \<Rightarrow> string) \<Rightarrow> nat \<Rightarrow> query_link \<Rightarrow> query_link asio_socket" where
  "query_socket L format overread q0 =
     \<lparr>sk_connect = (\<lambda>host port. if port = ''9000'' then Inr q0 else Inl (Exn System_error ''connect: Connection refused'')),
      sk_write = query_write L format, sk_read_until = query_read overread, sk_shutdown = Inr\<rparr>"

text \<open>A link at rest: the session waits with an empty buffer, and the client has read everything.\<close>

definition query_quiet :: "('j, 'k, 'c) libs \<Rightarrow> query_link \<Rightarrow> bool" where
  "query_quiet L q \<longleftrightarrow> json_text_laws L \<and> \<not> ql_down q \<and>
     (\<exists>out. ql_session q = waiting_session [] out \<and> ql_taken q = length out)"

definition query_ask ::
  "('j, 'k, 'c) libs \<Rightarrow> (log_msg \<Rightarrow> string) \<Rightarrow> string \<Rightarrow> query_link \<Rightarrow> (query_link \<times> string) option" where
  "query_ask L format cmd q = (case answer_command L cmd (fst (log_now format q)) of
       (_, Inl e) \<Rightarrow> None
     | (inst, Inr response) \<Rightarrow>
         Some (q\<lparr>ql_log := (inst, snd (log_now format q)),
                 ql_session := waiting_session [] (written_out (ql_session q) @ response @ [newline]),
                 ql_logged := tl (ql_logged q), ql_taken := ql_taken q + length response + 1\<rparr>, response))"

lemma answer_one_line:
  assumes "json_text_laws L" "answer_command L cmd inst = (inst', Inr response)"
  shows "newline \<notin> set response"
proof -
  have "newline \<notin> set bad_index_response" "newline \<notin> set unknown_command_response"
    by (auto simp: bad_index_response_def unknown_command_response_def)
  with assms show ?thesis
    by (auto simp: answer_command_def remove_command_def json_text_laws_def case_prod_beta Let_def
        split: if_splits sum.splits cpp_error.splits)
qed

interpretation query_session: answering_socket "query_socket L format overread q0" "query_quiet L" "query_ask L format"
proof
  fix q cmd q' response
  assume q: "query_quiet L q" and cmd: "newline \<notin> set cmd" and ask: "query_ask L format cmd q = Some (q', response)"
  from q obtain out where out: "ql_session q = waiting_session [] out" "ql_taken q = length out" "json_text_laws L"
    "\<not> ql_down q" by (auto simp: query_quiet_def)
  from ask obtain inst where a: "answer_command L cmd (fst (log_now format q)) = (inst, Inr response)"
    and q': "q' = q\<lparr>ql_log := (inst, snd (log_now format q)), ql_session := waiting_session [] (out @ response @ [newline]),
        ql_logged := tl (ql_logged q), ql_taken := length out + length response + 1\<rparr>"
    using out by (auto simp: query_ask_def waiting_session_def split: prod.splits sum.splits)
  show free: "newline \<notin> set response" by (rule answer_one_line [OF out(3) a])
  show "query_quiet L q'"
    using q' out by (auto simp: query_quiet_def intro!: exI [of _ "out @ response @ [newline]"])
  have "pieces newline (cmd @ [newline]) = [cmd, []]" using pieces_append [OF cmd, of "[]"] by simp
  then have "serve_chunk L (cmd @ [newline]) (fst (log_now format q), ql_session q) =
      Inr (inst, waiting_session [] (out @ response @ [newline]))"
    using serve_chunk_waiting [of L "cmd @ [newline]" "fst (log_now format q)" "[]" out] a
    by (simp add: out(1) answer_line_def)
  then have w: "query_write L format (cmd @ [newline]) q =
      Inr (q\<lparr>ql_log := (inst, snd (log_now format q)), ql_session := waiting_session [] (out @ response @ [newline]),
        ql_logged := tl (ql_logged q)\<rparr>)"
    using out(4) by (simp add: query_write_def)
  moreover have "query_read overread newline
      (q\<lparr>ql_log := (inst, snd (log_now format q)), ql_session := waiting_session [] (out @ response @ [newline]),
        ql_logged := tl (ql_logged q)\<rparr>) =
      Some (response @ [newline], Read_ok, q')"
    using free out(2) q' by (simp add: query_read_def waiting_session_def Let_def)
  ultimately show "\<exists>s1. sk_write (query_socket L format overread q0) (cmd @ [newline]) q = Inr s1 \<and>
      sk_read_until (query_socket L format overread q0) newline s1 = Some (response @ [newline], Read_ok, q')"
    by (simp add: query_socket_def)
qed

section \<open>Down to the list of warnings\<close>

text \<open>
  The answers in terms of the queued messages, the list of cached warnings, and what still happens to
  the log before each command.
\<close>

definition cache_answer ::
  "('j, 'k, 'c) libs \<Rightarrow> string \<Rightarrow> string list \<Rightarrow> string list \<times> string result" where
  "cache_answer L cmd ws =
     (if cmd = ''get_warnings'' then (ws, j_dump L (j_object L [(''warnings'', j_strings L ws)]))
      else if cmd = ''clear_warnings'' then ([], j_dump L (j_object L [(''status'', j_string L ''ok'')]))
      else case stoul (drop (length remove_prefix) cmd) of
        Inl _ \<Rightarrow> (ws, Inr bad_index_response)
      | Inr i \<Rightarrow>
          (take i ws @ drop (Suc i) ws,
           case j_dump L (if i < length ws
               then j_object L [(''status'', j_string L ''removed''), (''index'', j_uint L (of_nat i))]
               else j_object L [(''error'', j_string L ''invalid index'')]) of
             Inl (Exn _ _) \<Rightarrow> Inr bad_index_response
           | r \<Rightarrow> r))"

type_synonym cache_view = "(log_msg list \<times> string list) \<times> cache_op list list"

definition cache_ask ::
  "('j, 'k, 'c) libs \<Rightarrow> (log_msg \<Rightarrow> string) \<Rightarrow> log_level \<Rightarrow> string \<Rightarrow> cache_view \<Rightarrow> (cache_view \<times> string) option" where
  "cache_ask L format level cmd = (\<lambda>(state, batches).
     case fold (cache_effect format level) (next_logged batches) state of
       (queue, ws) \<Rightarrow> (case cache_answer L cmd ws of
            (_, Inl e) \<Rightarrow> None
          | (ws', Inr response) \<Rightarrow> Some (((queue, ws'), tl batches), response)))"

definition cache_of :: "query_link \<Rightarrow> cache_view" where
  "cache_of q = (log_contents (ql_log q), ql_logged q)"

lemma answer_command_cache:
  assumes "cache_enabled inst" "cmd \<in> {''get_warnings'', ''clear_warnings''} \<or> take (length remove_prefix) cmd = remove_prefix"
  shows "cache_enabled (fst (answer_command L cmd inst))"
    "snd (get_warning_cache_snapshot (fst (answer_command L cmd inst))) = fst (cache_answer L cmd (snd (get_warning_cache_snapshot inst)))"
    "snd (answer_command L cmd inst) = snd (cache_answer L cmd (snd (get_warning_cache_snapshot inst)))"
proof -
  obtain u ws where u: "inst = Some u" "warning_sink u = Some ws" using assms(1) by (rule cache_enabledE)
  have snap: "snd (get_warning_cache_snapshot inst) = ws" by (simp add: u cache_op_defs)
  show "cache_enabled (fst (answer_command L cmd inst))"
    "snd (get_warning_cache_snapshot (fst (answer_command L cmd inst))) = fst (cache_answer L cmd (snd (get_warning_cache_snapshot inst)))"
    "snd (answer_command L cmd inst) = snd (cache_answer L cmd (snd (get_warning_cache_snapshot inst)))"
    using assms(2) unfolding snap
    by (auto simp: u answer_command_def cache_answer_def remove_command_def cache_op_defs case_prod_beta Let_def
        split: sum.splits)
qed

lemma repl_command_known:
  "repl_command line = Some cmd \<Longrightarrow>
     cmd \<in> {''get_warnings'', ''clear_warnings''} \<or> take (length remove_prefix) cmd = remove_prefix"
  by (auto simp: repl_command_def split: if_splits)

lemma log_contents_pair:
  "log_contents (inst, logger) = (logger_queue logger, snd (get_warning_cache_snapshot inst))"
  by (simp add: log_contents_def)

lemma query_ask_cache:
  assumes "log_enabled (ql_log q)" "repl_command line = Some cmd"
  shows "cache_ask L format (logger_level (snd (ql_log q))) cmd (cache_of q) =
      map_option (\<lambda>(q', r). (cache_of q', r)) (query_ask L format cmd q)"
    "query_ask L format cmd q = Some (q', r) \<Longrightarrow>
       log_enabled (ql_log q') \<and> logger_level (snd (ql_log q')) = logger_level (snd (ql_log q))"
proof -
  obtain inst logger where i: "log_now format q = (inst, logger)" by fastforce
  note now = cache_run [OF assms(1), of format "next_logged (ql_logged q)", folded log_now_def, unfolded i]
  have en: "cache_enabled inst" "logger_cached logger" using now(1) by (simp_all add: log_enabled_def)
  have ct: "fold (cache_effect format (logger_level (snd (ql_log q)))) (next_logged (ql_logged q)) (log_contents (ql_log q)) =
      (logger_queue logger, snd (get_warning_cache_snapshot inst))"
    using now(2) by (simp add: log_contents_def)
  note ans = answer_command_cache [OF en(1) repl_command_known [OF assms(2)], of L]
  show "cache_ask L format (logger_level (snd (ql_log q))) cmd (cache_of q) =
      map_option (\<lambda>(q', r). (cache_of q', r)) (query_ask L format cmd q)"
    using ans(2,3)
    by (auto simp: cache_ask_def query_ask_def cache_of_def i ct log_contents_pair prod_eq_iff split: sum.splits prod.splits)
  show "query_ask L format cmd q = Some (q', r) \<Longrightarrow>
      log_enabled (ql_log q') \<and> logger_level (snd (ql_log q')) = logger_level (snd (ql_log q))"
    using ans(1) en(2) now(3) by (auto simp: query_ask_def i log_enabled_def split: sum.splits prod.splits)
qed

lemma repl_text_cache:
  "log_enabled (ql_log q) \<Longrightarrow>
     repl_text (cache_ask L format (logger_level (snd (ql_log q)))) ls (cache_of q) =
       map_option (\<lambda>(t, q'). (t, cache_of q')) (repl_text (query_ask L format) ls q)"
proof (induction ls arbitrary: q)
  case (Cons line ls)
  show ?case
  proof (cases "repl_command line")
    case None
    with Cons show ?thesis by (auto simp: option.map_comp comp_def case_prod_beta)
  next
    case (Some cmd)
    note q = query_ask_cache [OF Cons.prems Some, of L format]
    show ?thesis
    proof (cases "query_ask L format cmd q")
      case None
      with Some q(1) show ?thesis by simp
    next
      case (Some out)
      then obtain q' r where out: "query_ask L format cmd q = Some (q', r)" by (cases out) simp
      show ?thesis
        using \<open>repl_command line = Some cmd\<close> q(1) out Cons.IH [of q'] q(2) [OF out]
        by (auto simp: option.map_comp comp_def case_prod_beta)
    qed
  qed
qed simp

text \<open>A link whose server has just created its logger; the batches are what then happens to the log.\<close>

definition fresh_link :: "string \<Rightarrow> log_level \<Rightarrow> cache_op list list \<Rightarrow> query_link" where
  "fresh_link name level batches = \<lparr>ql_log = create_default_logger name level True None, ql_session = new_session, ql_taken = 0,
     ql_logged = batches, ql_down = False\<rparr>"

lemma repl_main_shows:
  assumes "json_text_laws L"
    and "repl_text (cache_ask L format level) (getlines newline input) (([], []), batches) = Some (t, fin)"
  shows "\<exists>c. repl_main (query_socket L format overread (fresh_link name level batches))
      \<lparr>con_in = open_string input, con_out = [], con_err = []\<rparr> = (c, Repl_closed) \<and>
    con_out c = repl_greeting @ [newline] @ t \<and> con_err c = []"
proof -
  let ?q = "fresh_link name level batches" and ?c = "print_line repl_greeting
      \<lparr>con_in = open_string input, con_out = [], con_err = []\<rparr>"
  have q: "cache_of ?q = (([], []), batches)" "log_enabled (ql_log ?q)" "logger_level (snd (ql_log ?q)) = level"
    by (simp_all add: fresh_link_def cache_of_def log_created)
  have quiet: "query_quiet L ?q"
    using assms(1) by (simp add: query_quiet_def fresh_link_def new_session_def waiting_session_def)
  obtain q' where "repl_text (query_ask L format) (getlines newline input) ?q = Some (t, q')"
    using repl_text_cache [OF q(2), of L format "getlines newline input"] assms(2) q(1,3)
    by (cases "repl_text (query_ask L format) (getlines newline input) ?q") auto
  moreover have "con_in ?c = \<lparr>rest = input, good = True\<rparr>" by (simp add: print_line_def open_string_def)
  ultimately obtain c' where "repl_loop (query_socket L format overread ?q) ?q ?c = (c', Inr q')"
      "con_out c' = con_out ?c @ t" "con_err c' = con_err ?c"
    using query_session.repl_loop_shows [OF quiet _ disjI1 [OF TrueI], where c = ?c] by blast
  then show ?thesis
    by (simp add: repl_main_def query_socket_def print_line_def)
qed

end
