(* ===== verification/Ini_Variants.thy ===== *)
theory Ini_Variants
  imports Configuration
begin

text \<open>
  The rest of the INI library (\<^verbatim>\<open>config/inifile-cpp/inicpp.h\<close>): the constructors that set the
  syntax or read at once, \<^verbatim>\<open>save\<close>, the conversions of unsigned and C-style characters, and the
  order of the case-insensitive variants. The lemmas show that a saved file is what the
  constructors and the configuration object read back, and that the case-insensitive order is
  a strict weak order, as \<^verbatim>\<open>std::map\<close> requires.
\<close>

section \<open>Constructors\<close>

definition IniFileBase_chars :: "char \<Rightarrow> char \<Rightarrow> IniFile" where
  "IniFileBase_chars sep comment = default_IniFile\<lparr>fieldSep := sep, commentPrefixes := [[comment]]\<rparr>"

definition IniFileBase_prefixes :: "char \<Rightarrow> string list \<Rightarrow> IniFile" where
  "IniFileBase_prefixes sep prefixes = default_IniFile\<lparr>fieldSep := sep, commentPrefixes := prefixes\<rparr>"

text \<open>The constructors from a file name and from a stream; a file is its text, if it can be opened.\<close>

definition IniFileBase_file :: "string option \<Rightarrow> IniFile result" where
  "IniFileBase_file contents = IniFile_load contents default_IniFile"

definition IniFileBase_stream :: "istream \<Rightarrow> IniFile result" where
  "IniFileBase_stream st = IniFile_decode st default_IniFile"

definition IniFileBase_file_prefixes :: "string option \<Rightarrow> char \<Rightarrow> string list \<Rightarrow> IniFile result" where
  "IniFileBase_file_prefixes contents sep prefixes = IniFile_load contents (IniFileBase_prefixes sep prefixes)"

definition IniFileBase_stream_prefixes :: "istream \<Rightarrow> char \<Rightarrow> string list \<Rightarrow> IniFile result" where
  "IniFileBase_stream_prefixes st sep prefixes = IniFile_decode st (IniFileBase_prefixes sep prefixes)"

section \<open>Saving\<close>

text \<open>\<^verbatim>\<open>encode()\<close> collects the text in a string; \<open>None\<close> is a loop of the writer that does not end.\<close>

definition IniFile_encode_string :: "IniFile \<Rightarrow> string option" where
  "IniFile_encode_string f = IniFile_encode f"

text \<open>\<^verbatim>\<open>save\<close>: when the file cannot be opened for writing, the text is lost silently.\<close>

definition IniFile_save ::
  "(string \<Rightarrow> bool) \<Rightarrow> string \<Rightarrow> IniFile \<Rightarrow> (string \<Rightarrow> string option) \<Rightarrow> (string \<Rightarrow> string option) option" where
  "IniFile_save writable fileName f files =
     map_option (\<lambda>s. if writable (c_str fileName) then files(c_str fileName \<mapsto> s) else files) (IniFile_encode f)"

lemma load_encoded:
  assumes "wf_IniFile f" "g = f\<lparr>sections := sections g\<rparr>"
  shows "\<exists>s. IniFile_encode f = Some s \<and> IniFile_load (Some s) g = Inr f"
proof -
  obtain s where s: "IniFile_encode f = Some s" "decode_content s f = Inr f" using encode_decode [OF assms(1)] by blast
  have "decode_content s g = decode_content s f" by (subst assms(2)) (rule decode_content_settings)
  with s show ?thesis by (simp add: IniFile_load_Some)
qed

text \<open>What was saved is what the constructor with the same syntax reads.\<close>

lemma save_construct:
  assumes "wf_IniFile f" "writable (c_str fileName)" "IniFileBase_prefixes (fieldSep f) (commentPrefixes f) = f\<lparr>sections := []\<rparr>"
  shows "\<exists>files'. IniFile_save writable fileName f files = Some files' \<and>
     IniFileBase_file_prefixes (files' (c_str fileName)) (fieldSep f) (commentPrefixes f) = Inr f"
proof -
  obtain s where "IniFile_encode f = Some s" "IniFile_load (Some s) (f\<lparr>sections := []\<rparr>) = Inr f"
    using load_encoded [OF assms(1), of "f\<lparr>sections := []\<rparr>"] by auto
  with assms(2,3) show ?thesis by (simp add: IniFile_save_def IniFileBase_file_prefixes_def)
qed

text \<open>A saved file with the required settings is what the configuration object is built from.\<close>

lemma save_configure:
  assumes "wf_IniFile f" "f\<lparr>sections := []\<rparr> = setMultiLineValues True default_IniFile" "writable (c_str fileName)"
    and "map_of (sections f) SECTION_BASIC \<noteq> None" "map_of (sections f) SECTION_SECURITY = Some fs"
    and "map_of fs LOCAL_PRIVATE_KEY \<noteq> None"
  shows "\<exists>files'. IniFile_save writable fileName f files = Some files' \<and> Config (files' (c_str fileName)) = Inr f"
proof -
  obtain s where "IniFile_encode f = Some s" "IniFile_load (Some s) (f\<lparr>sections := []\<rparr>) = Inr f"
    using load_encoded [OF assms(1), of "f\<lparr>sections := []\<rparr>"] by auto
  with assms(2-6) show ?thesis by (simp add: IniFile_save_def Config_Inr_iff)
qed

section \<open>Further conversions\<close>

text \<open>\<^verbatim>\<open>IniField::as\<close> applies the decoder of the wanted type.\<close>

definition IniField_as :: "(string \<Rightarrow> 'a result) \<Rightarrow> IniField \<Rightarrow> 'a result" where
  "IniField_as decode value = decode value"

definition decode_uchar :: "string \<Rightarrow> byte result" where
  "decode_uchar value = (case value of [] \<Rightarrow> Inl Abort | c # _ \<Rightarrow> Inr (of_nat (of_char c)))"

definition encode_uchar :: "byte \<Rightarrow> string" where
  "encode_uchar value = [char_of (unat value)]"

text \<open>
  A C string is stored up to its terminator; the pointer a decoder hands out sees the field up
  to its first zero byte.
\<close>

definition encode_cstring :: "string \<Rightarrow> string" where
  "encode_cstring value = c_str value"

definition decode_cstring :: "string \<Rightarrow> string result" where
  "decode_cstring value = Inr (c_str value)"

lemma uchar_round_trip: "decode_uchar (encode_uchar b) = Inr b"
  using unat_byte_less [of b] by (simp add: decode_uchar_def encode_uchar_def)

lemma cstring_round_trip: "decode_cstring (encode_cstring s) = Inr (c_str s)"
  by (simp add: decode_cstring_def encode_cstring_def c_str_def)

section \<open>Case-insensitive keys\<close>

text \<open>\<^verbatim>\<open>::tolower\<close> is undefined on the negative values of a signed \<^verbatim>\<open>char\<close>, \<^verbatim>\<open>EOF\<close> apart.\<close>

definition StringInsensitiveLess :: "string \<Rightarrow> string \<Rightarrow> bool result" where
  "StringInsensitiveLess lhs rhs =
     (if list_ex (\<lambda>c. 128 \<le> (of_char c :: nat) \<and> (of_char c :: nat) < 255) (lhs @ rhs) then Inl UB
      else Inr (map tolower lhs < map tolower rhs))"

definition plain_key :: "string \<Rightarrow> bool" where
  "plain_key s \<longleftrightarrow> \<not> list_ex (\<lambda>c. 128 \<le> (of_char c :: nat) \<and> (of_char c :: nat) < 255) s"

lemma insensitive_less: "plain_key a \<Longrightarrow> plain_key b \<Longrightarrow> StringInsensitiveLess a b = Inr (map tolower a < map tolower b)"
  by (auto simp: StringInsensitiveLess_def plain_key_def)

lemma insensitive_strict_weak:
  assumes "plain_key a" "plain_key b" "plain_key c"
  shows "StringInsensitiveLess a a = Inr False"
    "StringInsensitiveLess a b = Inr True \<Longrightarrow> StringInsensitiveLess b c = Inr True \<Longrightarrow> StringInsensitiveLess a c = Inr True"
    "StringInsensitiveLess a b = Inr False \<Longrightarrow> StringInsensitiveLess b a = Inr False \<longleftrightarrow> map tolower a = map tolower b"
  using assms by (auto simp: insensitive_less)

end
