(* ===== verification/Key_Ownership.thy ===== *)
theory Key_Ownership
  imports Transition_System
begin

text \<open>
  Ownership of OpenSSL keys by \<^verbatim>\<open>EnvelopeKey\<close> objects (\<^verbatim>\<open>openssl/envelope_key.hpp\<close>,
  \<^verbatim>\<open>openssl/envelope_key.cpp\<close>, \<^verbatim>\<open>openssl/pointers.hpp\<close>): constructors, assignments, the
  destructor and the conversions, over an explicit store of the live objects and libcrypto's
  heap of reference-counted keys. Using a dead object or a freed key is undefined behaviour.
  The lemmas show that every count is the number of owners, and that no operation on live,
  non-empty objects is undefined.
\<close>

section \<open>Keys of libcrypto\<close>

text \<open>
  \<open>pkey_refs\<close> reads the reference count of a key, zero for an address where no key lives.
  \<open>pkey_obtain\<close> is a call that hands out a reference to the caller, from a PEM text or from a
  certificate (\<^verbatim>\<open>PEM_read_...\<close>, \<^verbatim>\<open>X509_get_pubkey\<close>), or \<^verbatim>\<open>NULL\<close>.
\<close>

record ('h, 'p) pkey_lib =
  pkey_refs :: "'h \<Rightarrow> 'p \<Rightarrow> nat"
  pkey_up_ref :: "'p \<Rightarrow> 'h \<Rightarrow> 'h"
  pkey_free :: "'p \<Rightarrow> 'h \<Rightarrow> 'h"
  pkey_obtain :: "string \<Rightarrow> 'h \<Rightarrow> 'p option \<times> 'h"

text \<open>
  The documented counting. It speaks of counts that fit the library's counter.
\<close>

definition pkey_laws :: "('h, 'p) pkey_lib \<Rightarrow> bool" where
  "pkey_laws K \<longleftrightarrow>
     (\<forall>p h. 0 < pkey_refs K h p \<longrightarrow> pkey_refs K (pkey_up_ref K p h) = (pkey_refs K h)(p := pkey_refs K h p + 1)) \<and>
     (\<forall>p h. 0 < pkey_refs K h p \<longrightarrow> pkey_refs K (pkey_free K p h) = (pkey_refs K h)(p := pkey_refs K h p - 1)) \<and>
     (\<forall>src h. case pkey_obtain K src h of
        (None, h') \<Rightarrow> pkey_refs K h' = pkey_refs K h
      | (Some p, h') \<Rightarrow> pkey_refs K h' = (pkey_refs K h)(p := pkey_refs K h p + 1))"

text \<open>
  A call with a pointer: the key must be alive. \<^verbatim>\<open>EVP_PKEY_free\<close> accepts \<^verbatim>\<open>NULL\<close>,
  \<^verbatim>\<open>EVP_PKEY_up_ref\<close> does not.
\<close>

definition EVP_PKEY_up_ref :: "('h, 'p) pkey_lib \<Rightarrow> 'p option \<Rightarrow> 'h \<Rightarrow> 'h result" where
  "EVP_PKEY_up_ref K ptr h = (case ptr of
       None \<Rightarrow> Inl UB
     | Some p \<Rightarrow> if pkey_refs K h p = 0 then Inl UB else Inr (pkey_up_ref K p h))"

definition DeleterFor_EVP_PKEY :: "('h, 'p) pkey_lib \<Rightarrow> 'p option \<Rightarrow> 'h \<Rightarrow> 'h result" where
  "DeleterFor_EVP_PKEY K ptr h = (case ptr of
       None \<Rightarrow> Inr h
     | Some p \<Rightarrow> if pkey_refs K h p = 0 then Inl UB else Inr (pkey_free K p h))"

section \<open>The objects\<close>

text \<open>
  The live \<^verbatim>\<open>EnvelopeKey\<close> objects by address, each with the pointer its \<^verbatim>\<open>unique_ptr\<close> holds.
\<close>

record ('h, 'p) key_store =
  key_objects :: "nat \<rightharpoonup> 'p option"
  pkey_heap :: 'h

definition set_key :: "nat \<Rightarrow> 'p option \<Rightarrow> ('h, 'p) key_store \<Rightarrow> ('h, 'p) key_store" where
  "set_key a ptr st = st\<lparr>key_objects := (key_objects st)(a \<mapsto> ptr)\<rparr>"

definition key_get :: "nat \<Rightarrow> ('h, 'p) key_store \<Rightarrow> 'p option result" where
  "key_get a st = (case key_objects st a of None \<Rightarrow> Inl UB | Some ptr \<Rightarrow> Inr ptr)"

definition in_heap :: "('h \<Rightarrow> 'h result) \<Rightarrow> ('h, 'p) key_store \<Rightarrow> ('h, 'p) key_store result" where
  "in_heap f st = bindR (f (pkey_heap st)) (\<lambda>h. Inr (st\<lparr>pkey_heap := h\<rparr>))"

text \<open>\<^verbatim>\<open>unique_ptr::reset\<close> stores the new pointer, then deletes the old one if there was one.\<close>

definition key_reset :: "('h, 'p) pkey_lib \<Rightarrow> nat \<Rightarrow> 'p option \<Rightarrow> ('h, 'p) key_store \<Rightarrow> ('h, 'p) key_store result" where
  "key_reset K a ptr st =
     bindR (key_get a st) (\<lambda>old. in_heap (DeleterFor_EVP_PKEY K old) (set_key a ptr st))"

text \<open>An object is constructed in storage that holds no live object.\<close>

definition construct_at :: "nat \<Rightarrow> 'p option \<Rightarrow> ('h, 'p) key_store \<Rightarrow> ('h, 'p) key_store result" where
  "construct_at a ptr st = (if key_objects st a \<noteq> None then Inl UB else Inr (set_key a ptr st))"

definition EnvelopeKey :: "('h, 'p) pkey_lib \<Rightarrow> nat \<Rightarrow> string \<Rightarrow> ('h, 'p) key_store \<Rightarrow> ('h, 'p) key_store result" where
  "EnvelopeKey K a src st =
     (let (pkey, h) = pkey_obtain K src (pkey_heap st) in construct_at a pkey (st\<lparr>pkey_heap := h\<rparr>))"

definition EnvelopeKey_copy :: "('h, 'p) pkey_lib \<Rightarrow> nat \<Rightarrow> nat \<Rightarrow> ('h, 'p) key_store \<Rightarrow> ('h, 'p) key_store result" where
  "EnvelopeKey_copy K a other st =
     bindR (key_get other st) (\<lambda>ptr.
     bindR (construct_at a ptr st) (in_heap (EVP_PKEY_up_ref K ptr)))"

definition EnvelopeKey_move :: "nat \<Rightarrow> nat \<Rightarrow> ('h, 'p) key_store \<Rightarrow> ('h, 'p) key_store result" where
  "EnvelopeKey_move a other st =
     bindR (key_get other st) (\<lambda>ptr.
     bindR (construct_at a ptr st) (\<lambda>st'. Inr (set_key other None st')))"

definition EnvelopeKey_assign :: "('h, 'p) pkey_lib \<Rightarrow> nat \<Rightarrow> nat \<Rightarrow> ('h, 'p) key_store \<Rightarrow> ('h, 'p) key_store result" where
  "EnvelopeKey_assign K a other st =
     (if other = a then bindR (key_get a st) (\<lambda>_. Inr st)
      else bindR (key_get other st) (\<lambda>ptr.
           bindR (key_reset K a ptr st) (\<lambda>st'.
           bindR (key_get a st') (\<lambda>key. in_heap (EVP_PKEY_up_ref K key) st'))))"

text \<open>\<^verbatim>\<open>unique_ptr\<close>'s move assignment releases the source and resets the target.\<close>

definition EnvelopeKey_move_assign ::
  "('h, 'p) pkey_lib \<Rightarrow> nat \<Rightarrow> nat \<Rightarrow> ('h, 'p) key_store \<Rightarrow> ('h, 'p) key_store result" where
  "EnvelopeKey_move_assign K a other st =
     bindR (key_get other st) (\<lambda>ptr. key_reset K a ptr (set_key other None st))"

definition EnvelopeKey_destroy :: "('h, 'p) pkey_lib \<Rightarrow> nat \<Rightarrow> ('h, 'p) key_store \<Rightarrow> ('h, 'p) key_store result" where
  "EnvelopeKey_destroy K a st =
     bindR (key_get a st) (\<lambda>ptr.
       in_heap (DeleterFor_EVP_PKEY K ptr) (st\<lparr>key_objects := (key_objects st)(a := None)\<rparr>))"

text \<open>The conversion to a pointer, for a call that reads the key, and the conversion to \<^verbatim>\<open>bool\<close>.\<close>

definition EnvelopeKey_pointer :: "('h, 'p) pkey_lib \<Rightarrow> nat \<Rightarrow> ('h, 'p) key_store \<Rightarrow> 'p option result" where
  "EnvelopeKey_pointer K a st =
     bindR (key_get a st) (\<lambda>ptr. case ptr of
       None \<Rightarrow> Inr None
     | Some p \<Rightarrow> if pkey_refs K (pkey_heap st) p = 0 then Inl UB else Inr (Some p))"

definition EnvelopeKey_bool :: "nat \<Rightarrow> ('h, 'p) key_store \<Rightarrow> bool result" where
  "EnvelopeKey_bool a st = bindR (key_get a st) (\<lambda>ptr. Inr (ptr \<noteq> None))"

section \<open>Programs over keys\<close>

datatype key_op =
    Obtain nat string
  | Copy nat nat
  | Move nat nat
  | Assign nat nat
  | Move_assign nat nat
  | Destroy nat

fun key_run :: "('h, 'p) pkey_lib \<Rightarrow> key_op \<Rightarrow> ('h, 'p) key_store \<Rightarrow> ('h, 'p) key_store result" where
  "key_run K (Obtain a src) = EnvelopeKey K a src"
| "key_run K (Copy a other) = EnvelopeKey_copy K a other"
| "key_run K (Move a other) = EnvelopeKey_move a other"
| "key_run K (Assign a other) = EnvelopeKey_assign K a other"
| "key_run K (Move_assign a other) = EnvelopeKey_move_assign K a other"
| "key_run K (Destroy a) = EnvelopeKey_destroy K a"

inductive key_step :: "('h, 'p) pkey_lib \<Rightarrow> ('h, 'p) key_store \<Rightarrow> key_op \<Rightarrow> ('h, 'p) key_store \<Rightarrow> bool" for K where
  run: "key_run K op st = Inr st' \<Longrightarrow> key_step K st op st'"

inductive_simps key_step_iff: "key_step K st op st'"

lemma key_path_iff: "path (key_step K) st ops st' \<longleftrightarrow> foldR (key_run K) ops st = Inr st'"
  by (induction ops arbitrary: st) (auto simp: key_step_iff bindR_Inr_iff)

text \<open>
  The rules of use: objects are constructed in free storage, used while they live, and an
  empty object is neither copied nor assigned from (moving from it is allowed).
\<close>

definition alive :: "nat \<Rightarrow> ('h, 'p) key_store \<Rightarrow> bool" where
  "alive a st \<longleftrightarrow> key_objects st a \<noteq> None"

definition holds_key :: "nat \<Rightarrow> ('h, 'p) key_store \<Rightarrow> bool" where
  "holds_key a st \<longleftrightarrow> (\<exists>p. key_objects st a = Some (Some p))"

fun proper_use :: "key_op \<Rightarrow> ('h, 'p) key_store \<Rightarrow> bool" where
  "proper_use (Obtain a src) st \<longleftrightarrow> \<not> alive a st"
| "proper_use (Copy a other) st \<longleftrightarrow> \<not> alive a st \<and> holds_key other st"
| "proper_use (Move a other) st \<longleftrightarrow> \<not> alive a st \<and> alive other st"
| "proper_use (Assign a other) st \<longleftrightarrow> alive a st \<and> (other = a \<or> holds_key other st)"
| "proper_use (Move_assign a other) st \<longleftrightarrow> alive a st \<and> alive other st"
| "proper_use (Destroy a) st \<longleftrightarrow> alive a st"

section \<open>Counts are owners\<close>

definition owners :: "'p \<Rightarrow> (nat \<rightharpoonup> 'p option) \<Rightarrow> nat set" where
  "owners p objs = {a. objs a = Some (Some p)}"

text \<open>
  \<open>ext\<close> counts the references held elsewhere, by certificates or by other code.
\<close>

definition ownership :: "('h, 'p) pkey_lib \<Rightarrow> ('p \<Rightarrow> nat) \<Rightarrow> ('h, 'p) key_store \<Rightarrow> bool" where
  "ownership K ext st \<longleftrightarrow> finite (dom (key_objects st)) \<and>
     (\<forall>p. pkey_refs K (pkey_heap st) p = ext p + card (owners p (key_objects st)))"

lemma owners_finite [simp]: "finite (dom objs) \<Longrightarrow> finite (owners p objs)"
  by (rule finite_subset [of _ "dom objs"]) (auto simp: owners_def)

lemma owners_upd:
  "owners p (objs(a := v)) = (if v = Some (Some p) then insert a (owners p objs) else owners p objs - {a})"
  by (auto simp: owners_def)

lemma mem_owners [simp]: "a \<in> owners p objs \<longleftrightarrow> objs a = Some (Some p)"
  by (simp add: owners_def)

lemma card_owners_upd:
  assumes "finite (dom objs)"
  shows "card (owners p (objs(a := v))) + (if objs a = Some (Some p) then 1 else 0) =
     card (owners p objs) + (if v = Some (Some p) then 1 else 0)"
proof -
  have "card (owners p objs) = Suc (card (owners p objs - {a}))" if "objs a = Some (Some p)"
    using that assms by (intro card.remove) simp_all
  then show ?thesis
    using assms by (auto simp: owners_upd insert_absorb)
qed

lemma owner_counted:
  assumes "ownership K ext st" "key_objects st a = Some (Some p)"
  shows "0 < pkey_refs K (pkey_heap st) p"
proof -
  have "0 < card (owners p (key_objects st))"
    using assms by (auto simp: ownership_def card_gt_0_iff)
  then show ?thesis using assms(1) by (simp add: ownership_def)
qed

text \<open>How a change of one or of two objects, with the matching change of the counts, keeps them exact.\<close>

abbreviation points :: "'p option option \<Rightarrow> 'p \<Rightarrow> nat" where
  "points v p \<equiv> (if v = Some (Some p) then 1 else 0)"

lemma ownership_change:
  assumes "ownership K ext st" "key_objects st' = (key_objects st)(a := v)"
    and "\<And>p. pkey_refs K (pkey_heap st') p + points (key_objects st a) p = pkey_refs K (pkey_heap st) p + points v p"
  shows "ownership K ext st'"
proof -
  have fin: "finite (dom (key_objects st))" using assms(1) by (simp add: ownership_def)
  have "pkey_refs K (pkey_heap st') p = ext p + card (owners p (key_objects st'))" for p
    using assms(1) assms(3) [of p] card_owners_upd [OF fin, of p a v] assms(2) by (simp add: ownership_def)
  then show ?thesis using fin assms(2) by (simp add: ownership_def)
qed

lemma ownership_hand_over:
  assumes "ownership K ext st" "key_objects st other = Some ptr" "a \<noteq> other"
    and "key_objects st' = (key_objects st)(other \<mapsto> None, a \<mapsto> ptr)"
    and "\<And>p. pkey_refs K (pkey_heap st') p + points (key_objects st a) p = pkey_refs K (pkey_heap st) p"
  shows "ownership K ext st'"
proof -
  have fin: "finite (dom (key_objects st))" using assms(1) by (simp add: ownership_def)
  have "pkey_refs K (pkey_heap st') p = ext p + card (owners p (key_objects st'))" for p
    using assms(1) assms(5) [of p] card_owners_upd [OF fin, of p other "Some None"] assms(2-4)
      card_owners_upd [of "(key_objects st)(other \<mapsto> None)" p a "Some ptr"] fin
    by (simp add: ownership_def)
  then show ?thesis using fin assms(4) by (simp add: ownership_def)
qed

lemma pkey_law_counts:
  assumes "pkey_laws K" "0 < pkey_refs K h p"
  shows "pkey_refs K (pkey_up_ref K p h) q = pkey_refs K h q + (if q = p then 1 else 0)"
    and "pkey_refs K (pkey_free K p h) q = pkey_refs K h q - (if q = p then 1 else 0)"
  using assms by (auto simp: pkey_laws_def)

lemma pkey_law_obtain:
  assumes "pkey_laws K" "pkey_obtain K src h = (ptr, h')"
  shows "pkey_refs K h' p = pkey_refs K h p + points (Some ptr) p"
proof -
  have "case pkey_obtain K src h of (None, h') \<Rightarrow> pkey_refs K h' = pkey_refs K h
     | (Some p, h') \<Rightarrow> pkey_refs K h' = (pkey_refs K h)(p := pkey_refs K h p + 1)"
    using assms(1) [unfolded pkey_laws_def, THEN conjunct2, THEN conjunct2] by (elim allE)
  then show ?thesis using assms(2) by (cases ptr) auto
qed

text \<open>Deleting the pointer of an owner, and adding a reference for one.\<close>

lemma delete_owned:
  assumes "pkey_laws K" "ownership K ext st" "key_objects st a = Some ptr"
  obtains h where "DeleterFor_EVP_PKEY K ptr (pkey_heap st) = Inr h"
    "\<And>p. pkey_refs K h p + points (Some ptr) p = pkey_refs K (pkey_heap st) p"
proof (cases ptr)
  case None
  then show thesis using that [of "pkey_heap st"] by (simp add: DeleterFor_EVP_PKEY_def)
next
  case (Some q)
  then have "0 < pkey_refs K (pkey_heap st) q" using owner_counted [OF assms(2)] assms(3) by simp
  with Some show thesis
    using that [of "pkey_free K q (pkey_heap st)"] pkey_law_counts(2) [OF assms(1)]
    by (auto simp: DeleterFor_EVP_PKEY_def)
qed

text \<open>The outcome of an operation: exact counts after a proper use, undefined after any other.\<close>

definition use_outcome ::
  "('h, 'p) pkey_lib \<Rightarrow> ('p \<Rightarrow> nat) \<Rightarrow> bool \<Rightarrow> ('h, 'p) key_store result \<Rightarrow> bool" where
  "use_outcome K ext proper r \<longleftrightarrow> (case r of Inl e \<Rightarrow> \<not> proper \<and> e = UB | Inr st' \<Rightarrow> proper \<and> ownership K ext st')"

lemmas key_defs = construct_at_def key_get_def set_key_def in_heap_def alive_def holds_key_def use_outcome_def

lemma obtain_use:
  assumes "pkey_laws K" "ownership K ext st"
  shows "use_outcome K ext (proper_use (Obtain a src) st) (EnvelopeKey K a src st)"
proof (cases "pkey_obtain K src (pkey_heap st)")
  case (Pair pkey h)
  then show ?thesis
    using pkey_law_obtain [OF assms(1) Pair]
    by (auto simp: EnvelopeKey_def key_defs intro!: ownership_change [OF assms(2), of _ a "Some pkey"])
qed

lemma copy_use:
  assumes "pkey_laws K" "ownership K ext st"
  shows "use_outcome K ext (proper_use (Copy a other) st) (EnvelopeKey_copy K a other st)"
proof (cases "holds_key other st \<and> \<not> alive a st")
  case True
  then obtain p where p: "key_objects st other = Some (Some p)" "key_objects st a = None" by (auto simp: key_defs)
  with owner_counted [OF assms(2)] have pos: "0 < pkey_refs K (pkey_heap st) p" by blast
  then show ?thesis
    using p by (auto simp: EnvelopeKey_copy_def EVP_PKEY_up_ref_def key_defs pkey_law_counts [OF assms(1)]
        intro!: ownership_change [OF assms(2), of _ a "Some (Some p)"])
qed (auto simp: EnvelopeKey_copy_def EVP_PKEY_up_ref_def key_defs split: option.splits)

lemma move_use:
  assumes "pkey_laws K" "ownership K ext st"
  shows "use_outcome K ext (proper_use (Move a other) st) (EnvelopeKey_move a other st)"
proof (cases "alive other st \<and> \<not> alive a st")
  case True
  then obtain ptr where p: "key_objects st other = Some ptr" "key_objects st a = None" by (auto simp: key_defs)
  then have "a \<noteq> other" by auto
  with p show ?thesis
    by (auto simp: EnvelopeKey_move_def key_defs fun_upd_twist intro!: ownership_hand_over [OF assms(2), of other ptr a])
qed (auto simp: EnvelopeKey_move_def key_defs split: option.splits)

lemma assign_use:
  assumes "pkey_laws K" "ownership K ext st"
  shows "use_outcome K ext (proper_use (Assign a other) st) (EnvelopeKey_assign K a other st)"
proof (cases "alive a st \<and> alive other st \<and> other \<noteq> a")
  case True
  then obtain old ptr where o: "key_objects st a = Some old" "key_objects st other = Some ptr" by (auto simp: key_defs)
  obtain h where h: "DeleterFor_EVP_PKEY K old (pkey_heap st) = Inr h"
    "\<And>p. pkey_refs K h p + points (Some old) p = pkey_refs K (pkey_heap st) p"
    using delete_owned [OF assms o(1)] by blast
  show ?thesis
  proof (cases ptr)
    case None
    with o h True show ?thesis by (auto simp: EnvelopeKey_assign_def key_reset_def EVP_PKEY_up_ref_def key_defs)
  next
    case (Some p)
    have "card (owners p (key_objects st)) \<ge> card ({other} \<union> (if old = Some p then {a} else {}))"
      using o Some assms(2) by (intro card_mono) (auto simp: ownership_def)
    then have pos: "0 < pkey_refs K h p"
      using h(2) [of p] assms(2) True by (auto simp: ownership_def split: if_splits)
    then show ?thesis
      using o h True Some
      by (auto simp: EnvelopeKey_assign_def key_reset_def EVP_PKEY_up_ref_def key_defs pkey_law_counts [OF assms(1)]
          intro!: ownership_change [OF assms(2), of _ a "Some (Some p)"])
  qed
qed (use assms in \<open>auto simp: EnvelopeKey_assign_def key_reset_def key_defs split: option.splits\<close>)

lemma move_assign_use:
  assumes "pkey_laws K" "ownership K ext st"
  shows "use_outcome K ext (proper_use (Move_assign a other) st) (EnvelopeKey_move_assign K a other st)"
proof (cases "alive a st \<and> alive other st")
  case True
  then obtain old ptr where o: "key_objects st a = Some old" "key_objects st other = Some ptr" by (auto simp: key_defs)
  obtain h where h: "DeleterFor_EVP_PKEY K old (pkey_heap st) = Inr h"
    "\<And>p. pkey_refs K h p + points (Some old) p = pkey_refs K (pkey_heap st) p"
    using delete_owned [OF assms o(1)] by blast
  show ?thesis
  proof (cases "a = other")
    case True
    with o assms(2) show ?thesis
      by (auto simp: EnvelopeKey_move_assign_def key_reset_def DeleterFor_EVP_PKEY_def key_defs fun_upd_idem)
  next
    case False
    with o h show ?thesis
      by (auto simp: EnvelopeKey_move_assign_def key_reset_def key_defs intro!: ownership_hand_over [OF assms(2), of other ptr a])
  qed
qed (auto simp: EnvelopeKey_move_assign_def key_reset_def key_defs split: option.splits)

lemma destroy_use:
  assumes "pkey_laws K" "ownership K ext st"
  shows "use_outcome K ext (proper_use (Destroy a) st) (EnvelopeKey_destroy K a st)"
proof (cases "key_objects st a")
  case (Some ptr)
  obtain h where "DeleterFor_EVP_PKEY K ptr (pkey_heap st) = Inr h"
    "\<And>p. pkey_refs K h p + points (Some ptr) p = pkey_refs K (pkey_heap st) p"
    using delete_owned [OF assms Some] by blast
  with Some show ?thesis
    by (auto simp: EnvelopeKey_destroy_def key_defs intro!: ownership_change [OF assms(2), of _ a None])
qed (simp add: EnvelopeKey_destroy_def key_defs)

lemma key_run_use:
  assumes "pkey_laws K" "ownership K ext st"
  shows "use_outcome K ext (proper_use op st) (key_run K op st)"
  using obtain_use [OF assms] copy_use [OF assms] move_use [OF assms] assign_use [OF assms]
    move_assign_use [OF assms] destroy_use [OF assms]
  by (cases op) (simp_all del: proper_use.simps)

definition key_start :: "('h, 'p) pkey_lib \<Rightarrow> ('p \<Rightarrow> nat) \<Rightarrow> ('h, 'p) key_store \<Rightarrow> bool" where
  "key_start K ext st \<longleftrightarrow> pkey_laws K \<and> key_objects st = Map.empty \<and> pkey_refs K (pkey_heap st) = ext"

interpretation key_owners: invariant "key_start K ext" "key_step K" "\<lambda>st. pkey_laws K \<and> ownership K ext st"
proof
  fix s l s'
  assume "pkey_laws K \<and> ownership K ext s" "key_step K s l s'"
  then show "pkey_laws K \<and> ownership K ext s'"
    using key_run_use [of K ext s l] by (auto simp: key_step_iff use_outcome_def)
qed (auto simp: key_start_def ownership_def owners_def)

lemma ownership_pointer:
  "ownership K ext st \<Longrightarrow> alive a st \<Longrightarrow> \<exists>ptr. EnvelopeKey_pointer K a st = Inr ptr \<and> key_objects st a = Some ptr"
  using owner_counted [of K ext st a]
  by (auto simp: EnvelopeKey_pointer_def key_get_def alive_def split: option.splits)

end
