(* ===== verification/Support_Properties.thy ===== *)
theory Support_Properties
  imports Warning_Log Envelope_Encryption Fault_Settings Sample_Libs
begin

text \<open>
  The claims about the warning cache and its query server, about envelope encryption, and about
  the age limit of fault records.
\<close>

section \<open>Warnings\<close>

text \<open>
  C30: After the logger was created with a level and with the warning cache enabled, and after any
  sequence of log calls, deliveries of queued messages to the sinks, clearings and removals, the answer
  to a \<open>get_warnings\<close> query is the text of the JSON array of the list these operations describe, or
  the exception that producing this text raises. As long as nothing is cleared or removed, that list
  followed by the warnings still in the queue is all the warnings logged, formatted and in order, if
  the level lets warnings pass, and empty if it does not; messages of other levels never appear.
\<close>

theorem warning_cache_refined:
  assumes "fold (cache_effect format level) ops ([], []) = (queue, ws)"
  shows "snd (answer_command L ''get_warnings''
        (fst (fold (cache_step format) ops (create_default_logger name level True inst)))) =
      j_dump L (j_object L [(''warnings'', j_strings L ws)]) \<and>
    logger_queue (snd (fold (cache_step format) ops (create_default_logger name level True inst))) = queue \<and>
    (set ops \<subseteq> range Logged \<union> {Delivered} \<longrightarrow> ws @ warnings_of format queue =
       (if should_log level Level_warn then map format (filter (\<lambda>m. msg_level m = Level_warn) (logged_msgs ops)) else []))"
proof -
  let ?s = "fold (cache_step format) ops (create_default_logger name level True inst)"
  have "log_contents ?s = (queue, ws)"
    using cache_run(2) [OF log_created(1), of format ops name level inst] assms by (simp add: log_created)
  then have "logger_queue (snd ?s) = queue" "snd (get_warning_cache_snapshot (fst ?s)) = ws"
    by (simp_all add: log_contents_def case_prod_beta)
  then show ?thesis
    using log_kept [OF _ assms] by (simp add: answer_command_def case_prod_beta Let_def warnings_of_def)
qed

text \<open>
  Two warnings around an informational message, the first of them delivered, at the level debug and at
  the level err.
\<close>

definition sample_log_ops :: "cache_op list" where
  "sample_log_ops = [Logged \<lparr>msg_level = Level_warn, msg_payload = ''v''\<rparr>, Logged \<lparr>msg_level = Level_info, msg_payload = ''i''\<rparr>,
     Delivered, Logged \<lparr>msg_level = Level_warn, msg_payload = ''w''\<rparr>, Delivered]"

theorem warning_cache_refined_witness:
  "snd (answer_command sample_libs ''get_warnings''
      (fst (fold (cache_step msg_payload) sample_log_ops (create_default_logger ''server_log'' Level_debug True None)))) =
     j_dump sample_libs (j_object sample_libs [(''warnings'', j_strings sample_libs [''v''])]) \<and>
   logger_queue (snd (fold (cache_step msg_payload) sample_log_ops (create_default_logger ''server_log'' Level_debug True None))) =
     [\<lparr>msg_level = Level_warn, msg_payload = ''w''\<rparr>] \<and>
   snd (answer_command sample_libs ''get_warnings''
      (fst (fold (cache_step msg_payload) sample_log_ops (create_default_logger ''server_log'' Level_err True None)))) =
     j_dump sample_libs (j_object sample_libs [(''warnings'', j_strings sample_libs [])])"
proof -
  have debug: "fold (cache_effect msg_payload Level_debug) sample_log_ops ([], []) =
      ([\<lparr>msg_level = Level_warn, msg_payload = ''w''\<rparr>], [''v''])"
    and err: "fold (cache_effect msg_payload Level_err) sample_log_ops ([], []) = ([], [])"
    by (simp_all add: sample_log_ops_def should_log_def cached_as_def)
  show ?thesis
    using warning_cache_refined [OF debug, of sample_libs "''server_log''" None]
      warning_cache_refined [OF err, of sample_libs "''server_log''" None] by blast
qed

text \<open>
  A session of the warning query server that receives its bytes in any chunks executes
  exactly the complete lines of the whole byte stream, in order, answers each with one line,
  and keeps the incomplete rest; how the stream was cut does not matter.
\<close>

lemma warning_session_chunks:
  "foldR (serve_chunk L) chunks (inst, new_session) =
     bindR (foldR (answer_line L) (butlast (pieces newline (concat chunks))) (inst, []))
       (\<lambda>(inst', out). Inr (inst', new_session\<lparr>buffered := last (pieces newline (concat chunks)), written_out := out\<rparr>))"
  using serve_chunks [of "[]" L chunks inst "[]"] by (simp add: new_session_def waiting_session_def)

section \<open>Envelope encryption\<close>

lemma padded_message_opens:
  assumes "seal_law L E (get_cipher_type_ptr alg) pub"
    and "pkey_size L priv = pkey_size L pub"
    and "cipher_block_size E (get_cipher_type_ptr alg) \<noteq> 1"
    and "int ((length bs div cipher_block_size E (get_cipher_type_ptr alg) + 1) * cipher_block_size E (get_cipher_type_ptr alg)) < 2 ^ 31"
  shows "\<exists>msg. make_encrypted_message L E bs (EnvelopeEncryptor E pub alg) = Inr msg \<and>
     int (length msg) = pkey_size L pub + int (cipher_iv_length E (get_cipher_type_ptr alg))
       + int (compute_output_buffer_size E (EnvelopeEncryptor E pub alg) (length bs)) \<and>
     (open_law E (get_cipher_type_ptr alg) pub priv \<longrightarrow> open_message L E msg (EnvelopeDecryptor E priv alg) = Inr bs)"
proof -
  let ?c = "get_cipher_type_ptr alg"
  let ?n = "(length bs div cipher_block_size E ?c + 1) * cipher_block_size E ?c"
  have pos: "0 < cipher_block_size E ?c" using assms(1) by (simp add: seal_law_def)
  have le: "length bs \<le> ?n" using dividend_less_div_times [OF pos, of "length bs"] by (simp add: mult.commute)
  then have small: "int (length bs) < 2 ^ 31" using assms(4) by linarith
  obtain ek iv ct where parts: "seal_parts E ?c pub bs = (ek, iv, ct)" by (metis prod.exhaust)
  have len: "length ct = ?n" "pkey_size L pub = int (length ek)" "cipher_iv_length E ?c = length iv"
    by (rule seal_parts_cases [OF assms(1) small parts], use assms(3) in \<open>simp add: sealed_size_def\<close>)+
  have "make_encrypted_message L E bs (EnvelopeEncryptor E pub alg) = Inr (ek @ iv @ ct)"
    using make_encrypted_message_layout [OF assms(1) small parts] assms(3) by simp
  moreover have "open_message L E (ek @ iv @ ct) (EnvelopeDecryptor E priv alg) = Inr bs"
    if "open_law E ?c pub priv"
    using open_sealed [OF assms(1) that parts small _ assms(2)] len assms(4) by simp
  ultimately show ?thesis
    using len by (simp add: compute_output_buffer_size_eq get_cipher_block_size_def EnvelopeEncryptor_def)
qed

text \<open>
  A library whose ciphers leave the text readable: with blocks of 16 bytes the padding of the CBC
  choices, the number of added bytes in each of them; with blocks of one byte, a cipher that seals and,
  like GCM without a tag, refuses to open.
\<close>

definition sample_pad :: "byte list \<Rightarrow> byte list" where
  "sample_pad bs = bs @ replicate (16 - length bs mod 16) (of_nat (16 - length bs mod 16))"

definition sample_unpad :: "byte list \<Rightarrow> byte list" where
  "sample_unpad bs = take (length bs - unat (last bs)) bs"

definition sample_evp :: "nat \<Rightarrow> (nat, byte list) evp_lib" where
  "sample_evp block = \<lparr>
     pem_read_private = (\<lambda>s. None), cipher_iv_length = (\<lambda>_. 1), cipher_block_size = (\<lambda>_. block),
     cipher_ctx_new = [], cipher_ctx_reset = (\<lambda>_. (1, [])),
     seal_init = (\<lambda>_ _ _. (1, [], [7, 7], [5])), seal_update = (\<lambda>_ bs _. (1, bs, [])),
     seal_final = (\<lambda>x. (1, x, if block = 1 then x else sample_pad x)),
     open_init = (\<lambda>_ _ _ _ _. (2, [])), open_update = (\<lambda>_ bs _. (1, bs, [])),
     open_final = (\<lambda>x. if block = 1 then (0, x, []) else (1, x, sample_unpad x))\<rparr>"

lemma sample_unpad_pad: "sample_unpad (sample_pad bs) = bs"
proof -
  have "unat (of_nat n :: byte) = n" if "n \<le> 16" for n
    using that by (simp add: unsigned_of_nat take_bit_nat_eq_self)
  then have "unat (of_nat (16 - length bs mod 16) :: byte) = 16 - length bs mod 16" by (simp only: diff_le_self)
  moreover have "16 - length bs mod 16 \<noteq> 0" using mod_less_divisor [of 16 "length bs"] by linarith
  ultimately show ?thesis by (simp add: sample_unpad_def sample_pad_def last_append)
qed

lemma length_sample_pad: "length (sample_pad bs) = (length bs div 16 + 1) * 16"
proof -
  have "length bs + (16 - length bs mod 16) = (length bs div 16 + 1) * 16" by presburger
  then show ?thesis by (simp add: sample_pad_def)
qed

lemma sample_seal_law: "seal_law sample_libs (sample_evp 16) c k" "seal_law sample_libs (sample_evp 1) c k"
  by (simp_all add: seal_law_def sample_evp_def sample_libs_def sealed_size_def length_sample_pad)

lemma sample_open_law: "open_law (sample_evp 16) c k k'" "\<not> open_law (sample_evp 1) c k k'"
  by (simp_all add: open_law_def sample_evp_def seal_parts_def sample_unpad_pad) (auto intro: exI [of _ "[]"])

text \<open>
  C33: With a padding cipher \<open>make_encrypted_message\<close> produces the encrypted key, the IV and the
  ciphertext one after the other, in a buffer of exactly the computed size, and a decryptor with
  the private key that is given these parts recovers the input, if the cipher decrypts what it
  encrypts. With a cipher of block size one that seals (the CFB, CTR, CCM and GCM choices report this
  block size) the computed size is one byte more than the cipher writes, so the assertion at the end
  of \<open>make_encrypted_message\<close> fails for every input and the process aborts, whether or not the cipher
  could be opened again.
\<close>

theorem sealed_message_opens:
  assumes "seal_law L E (get_cipher_type_ptr alg) pub"
    and "pkey_size L priv = pkey_size L pub" "cipher_block_size E (get_cipher_type_ptr alg) = block"
    and "int ((length bs div block + 1) * block) < 2 ^ 31"
  shows "if block = 1 then make_encrypted_message L E bs (EnvelopeEncryptor E pub alg) = Inl Abort
    else \<exists>msg. make_encrypted_message L E bs (EnvelopeEncryptor E pub alg) = Inr msg \<and>
      int (length msg) = pkey_size L pub + int (cipher_iv_length E (get_cipher_type_ptr alg))
        + int (compute_output_buffer_size E (EnvelopeEncryptor E pub alg) (length bs)) \<and>
      (open_law E (get_cipher_type_ptr alg) pub priv \<longrightarrow>
         open_message L E msg (EnvelopeDecryptor E priv alg) = Inr bs)"
proof (cases "block = 1")
  case True
  obtain ek iv ct where parts: "seal_parts E (get_cipher_type_ptr alg) pub bs = (ek, iv, ct)" by (metis prod.exhaust)
  have "int (length bs) < 2 ^ 31" using assms(4) True by simp
  from make_encrypted_message_layout [OF assms(1) this parts] assms(3) True show ?thesis by simp
next
  case False
  then show ?thesis using padded_message_opens [OF assms(1,2)] assms(3,4) by simp
qed

theorem sealed_message_opens_witness:
  "(\<exists>msg. make_encrypted_message sample_libs (sample_evp 16) [1, 2, 3, 4, 5] (EnvelopeEncryptor (sample_evp 16) 3 AES128_CBC) = Inr msg \<and>
      length msg = 19 \<and> open_message sample_libs (sample_evp 16) msg (EnvelopeDecryptor (sample_evp 16) 3 AES128_CBC) = Inr [1, 2, 3, 4, 5]) \<and>
   make_encrypted_message sample_libs (sample_evp 1) [1, 2] (EnvelopeEncryptor (sample_evp 1) 3 AES128_GCM) = Inl Abort"
proof
  have sizes: "pkey_size sample_libs k = 2" "cipher_iv_length (sample_evp b) c = 1" "cipher_block_size (sample_evp b) c = b" for k b c
    by (simp_all add: sample_libs_def sample_evp_def)
  have "compute_output_buffer_size (sample_evp 16) (EnvelopeEncryptor (sample_evp 16) 3 AES128_CBC) (length [1, 2, 3, 4, 5 :: byte]) = 16"
    by (simp add: compute_output_buffer_size_eq get_cipher_block_size_def sizes)
  then show "\<exists>msg. make_encrypted_message sample_libs (sample_evp 16) [1, 2, 3, 4, 5] (EnvelopeEncryptor (sample_evp 16) 3 AES128_CBC) = Inr msg \<and>
      length msg = 19 \<and> open_message sample_libs (sample_evp 16) msg (EnvelopeDecryptor (sample_evp 16) 3 AES128_CBC) = Inr [1, 2, 3, 4, 5]"
    using sealed_message_opens [where L = sample_libs and E = "sample_evp 16" and alg = AES128_CBC and pub = 3
        and priv = 3 and bs = "[1, 2, 3, 4, 5]" and block = 16, OF sample_seal_law(1)] sample_open_law(1)
    by (simp add: sizes)
  show "make_encrypted_message sample_libs (sample_evp 1) [1, 2] (EnvelopeEncryptor (sample_evp 1) 3 AES128_GCM) = Inl Abort"
    using sealed_message_opens [where L = sample_libs and E = "sample_evp 1" and alg = AES128_GCM and pub = 3
        and priv = 3 and bs = "[1, 2]" and block = 1, OF sample_seal_law(2)]
    by (simp add: sizes)
qed

section \<open>Fault records\<close>

text \<open>
  C34: The clean-up thread of the check-in service removes, at each pass, exactly the fault records
  older than the configured number of hours: the integer under \<open>fault_cleanup_hours\<close> in the
  section Basic, or 24 when the key is absent. This holds as long as the number of hours is at most
  2562047 in absolute value; with more, the first pass that meets a record converts it to 64-bit
  nanoseconds out of range, which is undefined.
\<close>

theorem fault_cleanup_configured:
  assumes "Config contents = Inr f" and "snd (setupFaultTracking f) = Inr hours"
  shows "(if snd (hasKey ''Basic'' ''fault_cleanup_hours'' f)
          then \<exists>h. snd (getInt32 ''Basic'' ''fault_cleanup_hours'' f) = Inr h \<and> hours = sint h
          else hours = 24) \<and>
     faultCleanupThread hours nows m =
       (if nows = [] \<or> m = [] \<or> \<bar>hours\<bar> \<le> 2562047
        then Inr (filter (\<lambda>(c, r). \<forall>now \<in> set nows. now - lastReportTime r \<le> hours * ns_per_hour) m)
        else Inl UB)"
  using assms setupFaultTracking_value [OF Config_ordered [OF assms(1)]]
  by (auto simp: faultCleanupThread_eq SECTION_BASIC_def getInt32_def
      Config_get_value [OF Config_ordered [OF assms(1)]] bindR_Inr_iff split: if_splits)

definition cleanup_config :: string where
  "cleanup_config = ''[Basic]'' @ [newline] @ ''fault_cleanup_hours=2'' @ [newline]
     @ ''[Security]'' @ [newline] @ ''private_key=k''"

theorem fault_cleanup_configured_witness:
  "\<exists>f. Config (Some cleanup_config) = Inr f \<and> snd (setupFaultTracking f) = Inr 2 \<and>
     faultCleanupThread 2 [3 * ns_per_hour] [(1, \<lparr>lastReportTime = 0, faultDescriptions = []\<rparr>)] = Inr []"
proof -
  have "(case Config (Some cleanup_config) of Inr f \<Rightarrow> snd (setupFaultTracking f) = Inr 2 | _ \<Rightarrow> False)"
    by code_simp
  then obtain f where f: "Config (Some cleanup_config) = Inr f" "snd (setupFaultTracking f) = Inr 2"
    by (cases "Config (Some cleanup_config)") auto
  then show ?thesis
    using fault_cleanup_configured [OF f, of "[3 * ns_per_hour]" "[(1, \<lparr>lastReportTime = 0, faultDescriptions = []\<rparr>)]"]
    by (simp add: ns_per_hour_def ns_per_s_def)
qed

end
