(* ===== verification/Application_Properties.thy ===== *)
theory Application_Properties
  imports Applications Warning_Client Service_Threads Ini_Variants Key_Ownership Sample_Clients Support_Properties
begin

text \<open>
  The claims about the programs, from the arguments and the configuration file to what they
  print, and about the ownership of keys, each with a concrete instance where it has
  hypotheses.
\<close>

section \<open>The server\<close>







section \<open>The clients\<close>

text \<open>
  C21: the two client programs, from the configuration file to the line on the console. A
  program that shows a success has connected to the address its configuration file gives for
  the check-in service, and the network delivered a response that approves and carries a
  signature of its body under the key of the certificate the server at that address
  presented: a check-in response for the poll book, a ticket response with the secret of the
  result for the trusted device. The success line is the last thing printed.
\<close>

theorem clients_show_signed:
  assumes "pem_law L" "success res"
    and "(if trusted then secure_client_main else client_main) L E w dir_error io peer network argv c = (c', ms, Shown res)"
  shows "\<exists>f cert key before. Config (text_files w (config_file_of ''client_config.ini'' argv)) = Inr f \<and>
    peer (ini_field SECTION_BASIC CHECKIN_SERVICE_HOST f) (ini_field SECTION_BASIC CHECKIN_SERVICE_PORT f) = Inr (Some cert) \<and>
    cert_public_key cert = Some key \<and>
    (if trusted
     then ticket_approval L key (failure_reason res) network \<and>
          con_out c' = before @ ''Ticket verification succeeded!'' @ [newline]
     else checkin_approval L key network \<and> con_out c' = before @ ''Check-in succeeded!'' @ [newline])"
proof (cases trusted)
  case True
  then have "secure_client_main L E w dir_error io peer network argv c = (c', ms, Shown res)" using assms(3) by simp
  from secure_client_main_Shown [OF assms(1) this assms(2)] True show ?thesis by metis
next
  case False
  then have "client_main L E w dir_error io peer network argv c = (c', ms, Shown res)" using assms(3) by simp
  from client_main_Shown [OF assms(1) this assms(2)] False show ?thesis by metis
qed

text \<open>The trusted device of the sample deployment as a program.\<close>

definition sample_client_ini :: IniFile where
  "sample_client_ini = (setMultiLineValues True default_IniFile)
     \<lparr>sections := [(''Basic'', [(''checkin_service_host'', ''h''), (''checkin_service_port'', ''1''), (''client_id'', ''3'')]),
                   (''Security'', [(''private_key'', ''own.pem'')])]\<rparr>"

definition sample_world :: world where
  "sample_world = \<lparr>text_files = (\<lambda>_. IniFile_encode sample_client_ini), pem_files = (\<lambda>_. Inr ''3''),
     folder_names = (\<lambda>_. Inr []), listen = (\<lambda>_. Inr ()), tls_chain = (\<lambda>_. Inr ()), tls_key = (\<lambda>_ _. Inr ()),
     tls_authority = (\<lambda>_. Inr ()), ssl_certificate = (\<lambda>_. True), ssl_private_key = (\<lambda>_ _. True),
     old_tickets = None, stack_garbage = 0, log_level_of = (\<lambda>name. if name = ''warning'' then Level_warn else Level_off)\<rparr>"

definition sample_console :: "string \<Rightarrow> console" where
  "sample_console input = \<lparr>con_in = open_string input, con_out = [], con_err = []\<rparr>"

lemma sample_world_config: "Config (text_files sample_world p) = Inr sample_client_ini"
proof -
  have "wf_IniFile sample_client_ini" by code_simp
  then obtain s where "IniFile_encode sample_client_ini = Some s"
    "IniFile_load (Some s) (setMultiLineValues True default_IniFile) = Inr sample_client_ini"
    using load_encoded [of sample_client_ini "setMultiLineValues True default_IniFile"]
    by (auto simp: sample_client_ini_def)
  then show ?thesis
    by (simp add: Config_Inr_iff sample_world_def)
      (simp add: sample_client_ini_def SECTION_BASIC_def SECTION_SECURITY_def LOCAL_PRIVATE_KEY_def)
qed

lemma sample_client_fields:
  "ini_field SECTION_BASIC CLIENT_ID sample_client_ini = ''3''" "decode_uint ''3'' = Inr 3"
  by code_simp+

text \<open>The program goes on to its dialogue with settings that are those of the file.\<close>

lemma secure_client_main_connected:
  assumes "Config (text_files w (config_file_of ''client_config.ini'' argv)) = Inr f"
    and "from_pem_private L E (pem_files w) (ini_field SECTION_SECURITY LOCAL_PRIVATE_KEY f) = Inr own_key"
    and "\<And>c. client_configure_ssl_context w (ini_field SECTION_SECURITY LOCAL_CERT f)
       (ini_field SECTION_SECURITY LOCAL_PRIVATE_KEY f) (ini_field SECTION_SECURITY CA_CERT f) c = Inr c"
    and "connect_checkin_server L dir_error io
       (peer (ini_field SECTION_BASIC CHECKIN_SERVICE_HOST f) (ini_field SECTION_BASIC CHECKIN_SERVICE_PORT f))
       (PollbookClient own_key (pem_files w)) = (client, None)"
  shows "\<exists>h. ordered_IniFile h \<and> (\<forall>s k. ini_field s k h = ini_field s k f) \<and>
    secure_client_main L E w dir_error io peer network argv c = secure_dialogue L h io network client c"
proof -
  note f = Config_ordered [OF assms(1)]
  obtain l where l: "configured w ''client_config.ini'' argv = Inr (fst (log_level_setting w f), l)"
    using log_level_parts(3) [OF f, where w = w] assms(1) by (auto simp: configured_def case_prod_beta)
  let ?g = "fst (log_level_setting w f)"
  note g = log_level_parts(1,2) [OF f, where w = w]
  have s: "snd (PollbookClient_construct L E w c ?g) = Inr (PollbookClient own_key (pem_files w), c)"
    using assms(2,3) by (simp add: PollbookClient_construct_exact [OF g(1)] g(2))
  note p = PollbookClient_construct_parts [OF g(1) s]
  let ?h = "fst (connect_checkin_configured L dir_error io peer (PollbookClient own_key (pem_files w))
      (fst (PollbookClient_construct L E w c ?g)))"
  have "ordered_IniFile ?h" "\<And>s k. ini_field s k ?h = ini_field s k f"
    using p g(2) by (simp_all add: connect_checkin_configured_def config_parts)
  moreover have "snd (connect_checkin_configured L dir_error io peer (PollbookClient own_key (pem_files w))
      (fst (PollbookClient_construct L E w c ?g))) = Inr client"
    using assms(4) by (simp add: connect_checkin_configured_exact [OF p(1)] p(2) g(2) outcome_result_def)
  ultimately show ?thesis
    using l s by (intro exI [of _ ?h]) (auto simp: secure_client_main_def split: prod.splits sum.splits)
qed

definition sample_connected :: "nat pollbook_client" where
  "sample_connected = (PollbookClient 3 (\<lambda>_. Inr ''3''))
     \<lparr>pc_key_files := (\<lambda>_. Inr ''3'')(resolve_path (server_key_path False) := Inr (to_string 8)),
      pc_checkin_verifier := Some 8, pc_checkin_connected := True\<rparr>"

lemma sample_device_connects:
  "connect_checkin_server sample_libs None (sample_io_at 195) (Inr (sample_cert ''1'' 8)) (PollbookClient 3 (\<lambda>_. Inr ''3'')) =
     (sample_connected, None)"
  using from_pem_public_to_pem_public [OF sample_pem_law, of "\<lambda>_. None" 8 "server_key_path False" "\<lambda>_. Inr ''3''"]
  by (simp add: connect_checkin_server_def make_handshake_def sample_cert_def write_pubkey_pem_def sample_io_at_def
      sample_io_def to_pem_public_def sample_connected_def PollbookClient_def Let_def)
    (simp add: sample_libs_def)

text \<open>The response to the sample ticket request, and the run of the program that receives it.\<close>

definition sample_ticket_answer :: string where
  "sample_ticket_answer = (case ticket_response_text sample_libs 8 (approval sample_cfg sample_ticket_request 7 ''0203'') of
     Inr m \<Rightarrow> m @ [newline] | Inl _ \<Rightarrow> [])"

definition sample_network :: "(io_input \<times> client_op \<times> completion) list" where
  "sample_network = [(sample_io_at 196, Write_ticket_request, Written False),
     (sample_io_at 197, Read_ticket_response, Got (Inr sample_ticket_answer))]"

definition sample_secret :: checkin_result where
  "sample_secret = \<lparr>success = True, failure_reason = ''0203''\<rparr>"

lemma sample_ticket_answered:
  assumes "verify_ticket sample_libs cfg (sample_io_at 195) ticket pin sample_connected = (s, None)"
  shows "\<exists>s'. await_result sample_libs cfg s sample_network = (s', Inr (Some sample_secret))"
proof -
  let ?body = "approval sample_cfg sample_ticket_request 7 ''0203''"
  obtain m where m: "ticket_response_text sample_libs 8 ?body = Inr m"
    by (simp add: ticket_response_text_def sample_dump sample_sign)
  have s: "pc_ops s = [Write_ticket_request]" "pc_promise s = None" "pc_checkin_verifier s = Some 8"
    using assms by (auto simp: verify_ticket_def sample_connected_def PollbookClient_def Let_def enqueue_def transmit_def
        split: sum.splits)
  then show ?thesis
    using client_accepts_ticket_response [OF sample_codec_laws sample_key_pair _ m, of "s\<lparr>pc_ops := []\<rparr>"] m
    by (simp add: sample_network_def complete_def on_ticket_request_written_def enqueue_def sample_ticket_answer_def
        sample_secret_def approval_def ticket_response_body_of_def)
qed

text \<open>The console of the run.\<close>

lemma sample_dialogue:
  assumes "ordered_IniFile h" "\<And>s k. ini_field s k h = ini_field s k sample_client_ini"
  shows "\<exists>c ms. secure_dialogue sample_libs h (sample_io_at 195) sample_network sample_connected (sample_console ''01ab 42 '') =
    (c, ms, Shown sample_secret)"
proof -
  have cfg: "snd (getUInt32 SECTION_BASIC CLIENT_ID h) = Inr 3" "client_settings h = \<lparr>cc_client_id = 3\<rparr>"
    by (simp_all add: client_settings_def setting_values [OF assms(1)] getter_parts [OF assms(1)] assms(2) sample_client_fields)
  have input: "\<And>c. con_in c = open_string ''01ab 42 '' \<Longrightarrow> extract_word [] c = (''01ab'', c\<lparr>con_in := open_string '' 42 ''\<rparr>)"
    "\<And>c. con_in c = open_string '' 42 '' \<Longrightarrow> extract_number c = (Some 42, c\<lparr>con_in := open_string '' ''\<rparr>)"
    by (simp_all add: extract_word_def extract_number_def open_string_def is_space_def
        split_sign_def is_digit_def digits_value_def digit_val_def Let_def)
  obtain s where s: "verify_ticket sample_libs \<lparr>cc_client_id = 3\<rparr> (sample_io_at 195) ''01ab'' 42 sample_connected = (s, None)"
    by (simp add: verify_ticket_def ticket_request_text_def sample_dump sample_sign sample_connected_def Let_def)
  obtain s' where "await_result sample_libs \<lparr>cc_client_id = 3\<rparr> s sample_network = (s', Inr (Some sample_secret))"
    using sample_ticket_answered [OF s] by blast
  then show ?thesis
    using s by (simp add: secure_dialogue_def input cfg print_line_def sample_console_def show_result_def)
qed

theorem clients_show_signed_witness:
  "\<exists>c' ms. secure_client_main sample_libs ((sample_evp 16)\<lparr>pem_read_private := (\<lambda>_. Some 3)\<rparr>) sample_world None (sample_io_at 195)
      (\<lambda>_ _. Inr (sample_cert ''1'' 8)) sample_network [] (sample_console ''01ab 42 '') = (c', ms, Shown sample_secret) \<and>
    ticket_approval sample_libs 8 ''0203'' sample_network \<and>
    (\<exists>before. con_out c' = before @ ''Ticket verification succeeded!'' @ [newline])"
proof -
  let ?E = "(sample_evp 16)\<lparr>pem_read_private := (\<lambda>_. Some (3 :: nat))\<rparr>" and ?peer = "\<lambda>_ _. Inr (sample_cert ''1'' 8)"
  have "from_pem_private sample_libs ?E (pem_files sample_world) p = Inr 3"
    "client_configure_ssl_context sample_world x y z c = Inr c" for p x y z c
    by (simp_all add: from_pem_private_def client_configure_ssl_context_def sample_world_def)
  then obtain h where h: "ordered_IniFile h" "\<forall>s k. ini_field s k h = ini_field s k sample_client_ini"
    "secure_client_main sample_libs ?E sample_world None (sample_io_at 195) ?peer sample_network [] (sample_console ''01ab 42 '') =
       secure_dialogue sample_libs h (sample_io_at 195) sample_network sample_connected (sample_console ''01ab 42 '')"
    using secure_client_main_connected [OF sample_world_config, where L = sample_libs and E = ?E and own_key = 3
        and dir_error = None and io = "sample_io_at 195" and peer = ?peer and client = sample_connected and argv = "[]"
        and network = sample_network and c = "sample_console ''01ab 42 ''"] sample_device_connects
    by (auto simp: sample_world_def)
  with sample_dialogue [of h] obtain c' ms where c': "secure_client_main sample_libs ?E sample_world None (sample_io_at 195) ?peer
      sample_network [] (sample_console ''01ab 42 '') = (c', ms, Shown sample_secret)" by auto
  from clients_show_signed [OF sample_pem_law, where res = sample_secret and trusted = True and E = ?E
      and w = sample_world and dir_error = None and io = "sample_io_at 195" and peer = ?peer and network = sample_network
      and argv = "[]" and c = "sample_console ''01ab 42 ''" and c' = c' and ms = ms] c'
  show ?thesis by (auto simp: sample_secret_def sample_cert_def)
qed

section \<open>The warning client\<close>

text \<open>
  C31: the warning client against the query server of a program that logs. The logger was created with
  some level; before each command the program may log messages, its pool thread may hand queued ones to
  the sinks, and other sessions may clear the cache or remove warnings. As long as the JSON text of
  every answer can be produced (\<open>repl_text\<close> is defined; producing it throws, and ends the server, when a
  cached warning is not UTF-8), the client prints its greeting and then, for each input line in order,
  the answer that the list of cached warnings gives to the command, up to \<^verbatim>\<open>exit\<close> or the end of the
  input, and ends without an error. The list is what the delivered messages of level warning that pass
  the level, the clearings and the removals so far leave of it.
\<close>

theorem repl_shows_answers:
  assumes "json_text_laws L"
    and "repl_text (cache_ask L format level) (getlines newline input) (([], []), batches) = Some (t, fin)"
  shows "\<exists>c. repl_main (query_socket L format overread (fresh_link name level batches))
      \<lparr>con_in = open_string input, con_out = [], con_err = []\<rparr> = (c, Repl_closed) \<and>
    con_out c = repl_greeting @ [newline] @ t \<and> con_err c = []"
  using assms by (rule repl_main_shows)

definition sample_input :: string where
  "sample_input = ''get'' @ [newline] @ ''what'' @ [newline] @ ''remove_warning 0'' @ [newline] @ ''get'' @ [newline]"

text \<open>A warning and an informational message, both delivered; later a warning delivered and one that waits.\<close>

definition sample_logged :: "cache_op list list" where
  "sample_logged = [[Logged \<lparr>msg_level = Level_warn, msg_payload = ''w''\<rparr>, Logged \<lparr>msg_level = Level_info, msg_payload = ''i''\<rparr>,
      Delivered, Delivered], [],
     [Logged \<lparr>msg_level = Level_warn, msg_payload = ''v''\<rparr>, Logged \<lparr>msg_level = Level_warn, msg_payload = ''u''\<rparr>, Delivered]]"

lemma sample_input_lines: "getlines newline sample_input = [''get'', ''what'', ''remove_warning 0'', ''get'']"
  by code_simp

text \<open>What the operator sees: the warning, a complaint, the removal, and the warning delivered since.\<close>

definition sample_shown :: string where
  "sample_shown =
     ''> Server: '' @ show_json (j_object sample_libs [(''warnings'', j_strings sample_libs [''w''])]) @ [newline] @
     ''> Unknown command.'' @ [newline] @
     ''> Server: '' @ show_json (j_object sample_libs [(''status'', j_string sample_libs ''removed''),
        (''index'', j_uint sample_libs 0)]) @ [newline] @
     ''> Server: '' @ show_json (j_object sample_libs [(''warnings'', j_strings sample_libs [''v''])]) @ [newline] @ ''> ''"

lemma sample_repl_text:
  "repl_text (cache_ask sample_libs msg_payload Level_debug) (getlines newline sample_input) (([], []), sample_logged) =
     Some (sample_shown, (([\<lparr>msg_level = Level_warn, msg_payload = ''u''\<rparr>], [''v'']), []))"
  by (simp add: sample_input_lines sample_shown_def repl_command_def remove_prefix_def cache_ask_def cache_answer_def
      sample_dump sample_logged_def next_logged_def stoul_def split_sign_def is_digit_def digits_value_def
      digit_val_def is_space_def should_log_def cached_as_def Let_def)

theorem repl_shows_answers_witness:
  "\<exists>c. repl_main (query_socket sample_libs msg_payload 10 (fresh_link ''server_log'' Level_debug sample_logged))
      (sample_console sample_input) = (c, Repl_closed) \<and>
    con_out c = repl_greeting @ [newline] @ sample_shown \<and> con_err c = []"
  using repl_shows_answers [OF _ sample_repl_text, of 10 "''server_log''"] sample_json_laws
  by (simp add: json_laws_def sample_console_def)

section \<open>Keys\<close>

text \<open>
  C32: the reference counts of OpenSSL keys held in \<^verbatim>\<open>EnvelopeKey\<close> objects. After any sequence of
  constructions, copies, moves, assignments and destructions that has run, starting with no
  object, the count of each key is what other code holds plus the number of live objects that
  hold it, so that a key is freed exactly when its last object goes; each live object can be
  used, and the next operation is defined exactly when it keeps to the rules: free storage for a new
  object, live operands, and no copy of an empty object.
\<close>

theorem key_counts_exact:
  assumes "pkey_laws K" "foldR (key_run K) ops \<lparr>key_objects = Map.empty, pkey_heap = h0\<rparr> = Inr st"
  shows "(\<forall>p. finite {a. key_objects st a = Some (Some p)} \<and>
       pkey_refs K (pkey_heap st) p = pkey_refs K h0 p + card {a. key_objects st a = Some (Some p)}) \<and>
    (key_objects st a \<noteq> None \<longrightarrow> (\<exists>ptr. EnvelopeKey_pointer K a st = Inr ptr)) \<and>
    (is_ok (key_run K op st) \<longleftrightarrow> proper_use op st)"
proof -
  let ?st0 = "\<lparr>key_objects = Map.empty, pkey_heap = h0\<rparr>"
  have "key_start K (pkey_refs K h0) ?st0" "path (key_step K) ?st0 ops st"
    using assms by (simp_all add: key_start_def key_path_iff)
  then have own: "ownership K (pkey_refs K h0) st"
    using key_owners.inv_reachable [of K "pkey_refs K h0" st] by (auto simp: reachable_def)
  then have "finite {a. key_objects st a = Some (Some p)}" for p
    using owners_finite [of "key_objects st" p] by (simp add: ownership_def owners_def)
  with own show ?thesis
    using ownership_pointer [of K "pkey_refs K h0" st a] key_run_use [OF assms(1), of "pkey_refs K h0" st op]
    by (auto simp: ownership_def owners_def alive_def use_outcome_def is_ok_def split: sum.splits)
qed

text \<open>
  The life of a client's key in the check-in service: read from the certificate, copied into the
  map of keys, copied and moved into a verifier that replaces an earlier one, and the local
  object destroyed.
\<close>

definition sample_pkeys :: "(nat \<Rightarrow> nat, nat) pkey_lib" where
  "sample_pkeys = \<lparr>pkey_refs = (\<lambda>h. h), pkey_up_ref = (\<lambda>p h. h(p := h p + 1)), pkey_free = (\<lambda>p h. h(p := h p - 1)),
     pkey_obtain = (\<lambda>src h. if src = [] then (None, h) else (Some (length src), h(length src := h (length src) + 1)))\<rparr>"

lemma sample_pkey_laws: "pkey_laws sample_pkeys"
  by (simp add: pkey_laws_def sample_pkeys_def)

definition sample_key_ops :: "key_op list" where
  "sample_key_ops = [Obtain 0 ''a'', Obtain 1 ''bc'', Copy 2 0, Copy 3 0, Move_assign 1 3, Destroy 3, Destroy 0]"

theorem key_counts_exact_witness:
  "\<exists>st. foldR (key_run sample_pkeys) sample_key_ops \<lparr>key_objects = Map.empty, pkey_heap = (\<lambda>p. if p = 1 then 1 else 0)\<rparr> = Inr st \<and>
     pkey_heap st 1 = 3 \<and> pkey_heap st 2 = 0 \<and> card {a. key_objects st a = Some (Some 1)} = 2 \<and>
     is_ok (key_run sample_pkeys (Copy 0 1) st) \<and> \<not> is_ok (key_run sample_pkeys (Copy 0 3) st)"
proof -
  let ?st0 = "\<lparr>key_objects = Map.empty, pkey_heap = (\<lambda>p. if p = 1 then 1 else 0)\<rparr> :: (nat \<Rightarrow> nat, nat) key_store"
  obtain st where st: "foldR (key_run sample_pkeys) sample_key_ops ?st0 = Inr st"
    "pkey_heap st 1 = 3" "pkey_heap st 2 = 0" "key_objects st = [1 \<mapsto> Some 1, 2 \<mapsto> Some 1]"
    by (auto simp: sample_key_ops_def sample_pkeys_def EnvelopeKey_def EnvelopeKey_copy_def EnvelopeKey_move_assign_def
        EnvelopeKey_destroy_def key_defs key_reset_def EVP_PKEY_up_ref_def DeleterFor_EVP_PKEY_def fun_eq_iff)
  note counts = key_counts_exact [OF sample_pkey_laws st(1)]
  have "pkey_heap st 1 = 1 + card {a. key_objects st a = Some (Some 1)}"
    using counts [THEN conjunct1, rule_format, THEN conjunct2, of 1] by (simp add: sample_pkeys_def)
  moreover have "is_ok (key_run sample_pkeys (Copy 0 1) st)" "\<not> is_ok (key_run sample_pkeys (Copy 0 3) st)"
    unfolding counts [THEN conjunct2, THEN conjunct2] using st(4) by (simp_all add: alive_def holds_key_def)
  ultimately show ?thesis using st by auto
qed

end
