(* ===== verification/Voter_ID_Protocol.thy ===== *)
theory Voter_ID_Protocol
  imports Voter_ID_Service Framing
begin

text \<open>
  The ID service as a transition system: the events of the network, the step relation over the
  handlers (\<^verbatim>\<open>VoterIDService::run\<close>), what every run keeps and adds, delivery of framed requests, and
  how many answers a connection gets. The process ends when an exception leaves a handler.
\<close>

section \<open>The running service\<close>

datatype 'k id_process = Id_running "'k id_service" | Id_ended "'k id_service" cpp_error

fun id_service_of :: "'k id_process \<Rightarrow> 'k id_service" where
  "id_service_of (Id_running s) = s"
| "id_service_of (Id_ended s e) = s"

fun id_process_of :: "'k id_outcome \<Rightarrow> 'k id_process" where
  "id_process_of (s, None) = Id_running s"
| "id_process_of (s, Some e) = Id_ended s e"

lemma id_service_of_process_of [simp]: "id_service_of (id_process_of r) = fst r"
  by (cases r rule: id_process_of.cases) simp_all

datatype 'k id_event =
    Id_accepted endpoint
  | Id_accept_failed
  | Id_handshaken endpoint "'k certificate option"
  | Id_handshake_failed endpoint
  | Id_received endpoint string
  | Id_read_line endpoint
  | Id_read_failed endpoint io_error

inductive id_step ::
  "('j, 'k, 'c) libs \<Rightarrow> id_config \<Rightarrow> 'k id_process \<Rightarrow> io_input \<times> 'k id_event \<Rightarrow> 'k id_process \<Rightarrow> bool"
  for L :: "('j, 'k, 'c) libs" and cfg :: id_config where
  accepted: "is_accept_pending s \<Longrightarrow>
     id_step L cfg (Id_running s) (io, Id_accepted ip) (Id_running (id_handle_accept (Some ip) s))"
| accept_failed: "is_accept_pending s \<Longrightarrow>
     id_step L cfg (Id_running s) (io, Id_accept_failed) (Id_running (id_handle_accept None s))"
| handshaken: "ip \<in> is_handshakes s \<Longrightarrow>
     id_step L cfg (Id_running s) (io, Id_handshaken ip cert)
       (id_process_of (id_on_handshake L cfg io ip cert (s\<lparr>is_handshakes := is_handshakes s - {ip}\<rparr>)))"
| handshake_failed: "ip \<in> is_handshakes s \<Longrightarrow>
     id_step L cfg (Id_running s) (io, Id_handshake_failed ip)
       (Id_running (id_on_handshake_error (s\<lparr>is_handshakes := is_handshakes s - {ip}\<rparr>)))"
| received: "is_pending_reads s ip = Some r \<Longrightarrow> is_buffers s ip = Some b \<Longrightarrow>
     id_step L cfg (Id_running s) (io, Id_received ip bytes)
       (Id_running (s\<lparr>is_buffers := (is_buffers s)(ip \<mapsto> b @ bytes)\<rparr>))"
| read_line: "is_pending_reads s ip = Some r \<Longrightarrow> is_buffers s ip = Some b \<Longrightarrow> newline \<in> set b \<Longrightarrow>
     id_step L cfg (Id_running s) (io, Id_read_line ip) (id_process_of (id_on_read L cfg io ip r (first_line b) s))"
| read_failed: "is_pending_reads s ip = Some r \<Longrightarrow>
     id_step L cfg (Id_running s) (io, Id_read_failed ip err) (Id_running (id_on_read_error ip err s))"

inductive_cases id_step_E: "id_step L cfg p l p'"

fun id_perform ::
  "('j, 'k, 'c) libs \<Rightarrow> id_config \<Rightarrow> 'k id_process \<Rightarrow> io_input \<times> 'k id_event \<Rightarrow> 'k id_process option" where
  "id_perform L cfg (Id_ended s e) l = None"
| "id_perform L cfg (Id_running s) (io, Id_accepted ip) =
     (if is_accept_pending s then Some (Id_running (id_handle_accept (Some ip) s)) else None)"
| "id_perform L cfg (Id_running s) (io, Id_accept_failed) =
     (if is_accept_pending s then Some (Id_running (id_handle_accept None s)) else None)"
| "id_perform L cfg (Id_running s) (io, Id_handshaken ip cert) =
     (if ip \<in> is_handshakes s
      then Some (id_process_of (id_on_handshake L cfg io ip cert (s\<lparr>is_handshakes := is_handshakes s - {ip}\<rparr>))) else None)"
| "id_perform L cfg (Id_running s) (io, Id_handshake_failed ip) =
     (if ip \<in> is_handshakes s
      then Some (Id_running (id_on_handshake_error (s\<lparr>is_handshakes := is_handshakes s - {ip}\<rparr>))) else None)"
| "id_perform L cfg (Id_running s) (io, Id_received ip bytes) = (case (is_pending_reads s ip, is_buffers s ip) of
       (Some _, Some b) \<Rightarrow> Some (Id_running (s\<lparr>is_buffers := (is_buffers s)(ip \<mapsto> b @ bytes)\<rparr>))
     | _ \<Rightarrow> None)"
| "id_perform L cfg (Id_running s) (io, Id_read_line ip) = (case (is_pending_reads s ip, is_buffers s ip) of
       (Some r, Some b) \<Rightarrow>
         if newline \<in> set b then Some (id_process_of (id_on_read L cfg io ip r (first_line b) s)) else None
     | _ \<Rightarrow> None)"
| "id_perform L cfg (Id_running s) (io, Id_read_failed ip err) =
     (if is_pending_reads s ip \<noteq> None then Some (Id_running (id_on_read_error ip err s)) else None)"

lemma id_step_iff_perform: "id_step L cfg p l p' \<longleftrightarrow> id_perform L cfg p l = Some p'"
proof
  show "id_step L cfg p l p' \<Longrightarrow> id_perform L cfg p l = Some p'"
    by (induction rule: id_step.induct) auto
  show "id_perform L cfg p l = Some p' \<Longrightarrow> id_step L cfg p l p'"
    by (cases "(L, cfg, p, l)" rule: id_perform.cases)
      (auto intro: id_step.intros split: if_splits option.splits)
qed

interpretation id_steps: executable_steps "id_step L cfg" "id_perform L cfg"
  by unfold_locales (rule id_step_iff_perform)

definition id_started :: "('j, 'k, 'c) libs \<Rightarrow> id_config \<Rightarrow> 'k id_process \<Rightarrow> bool" where
  "id_started L cfg p \<longleftrightarrow>
     (\<exists>own_key fs names s. VoterIDService L cfg names (id_blank own_key fs) = Inr s \<and> p = Id_running (id_run s))"

section \<open>Delivery of framed requests\<close>

definition id_reading :: "pending_read \<Rightarrow> endpoint \<Rightarrow> string \<Rightarrow> 'k id_service \<Rightarrow> 'k id_service" where
  "id_reading r ip b s =
     s\<lparr>is_buffers := (is_buffers s)(ip \<mapsto> b), is_pending_reads := (is_pending_reads s)(ip \<mapsto> r),
       is_ssl_streams := insert ip (is_ssl_streams s)\<rparr>"

definition id_after_payload :: "endpoint \<Rightarrow> string \<Rightarrow> 'k id_service \<Rightarrow> 'k id_service" where
  "id_after_payload ip tail_bytes s =
     s\<lparr>is_pending_reads := (is_pending_reads s)(ip := None), is_buffers := (is_buffers s)(ip \<mapsto> tail_bytes)\<rparr>"

definition id_dispatch ::
  "('j, 'k, 'c) libs \<Rightarrow> id_config \<Rightarrow> io_input \<Rightarrow> string \<Rightarrow> endpoint \<Rightarrow> 'k id_service \<Rightarrow> 'k id_outcome" where
  "id_dispatch L cfg io line ip s = (case bindR (j_parse L line) (VoterIDRequest_FromJson L) of
       Inl e \<Rightarrow> (s, Some e)
     | Inr request \<Rightarrow> handle_validation_request L cfg io ip request s)"

lemma id_request_valid_after_payload [simp]:
  "id_request_valid L cfg io r v (id_after_payload ip tail_bytes s) = id_request_valid L cfg io r v s"
  by (simp add: id_request_valid_def id_after_payload_def validate_voter_name_def id_client_key_def Let_def
      cong: option.case_cong)

lemma id_read_payload:
  "id_on_read L cfg io ip (Payload_read (length m)) (m @ [newline]) (id_reading r ip (m @ newline # tail_bytes) s) =
     id_dispatch L cfg io (m @ [newline]) ip
       (id_after_payload ip tail_bytes (s\<lparr>is_ssl_streams := insert ip (is_ssl_streams s)\<rparr>))"
proof -
  let ?s1 = "(id_reading r ip (m @ newline # tail_bytes) s)
    \<lparr>is_pending_reads := (is_pending_reads (id_reading r ip (m @ newline # tail_bytes) s))(ip := None)\<rparr>"
  have "id_on_read L cfg io ip (Payload_read (length m)) (m @ [newline]) (id_reading r ip (m @ newline # tail_bytes) s) =
      id_dispatch L cfg io (m @ [newline]) ip (id_consume (length (m @ [newline])) ip ?s1)"
    by (simp add: id_on_read_def id_on_payload_read_def id_dispatch_def Let_def)
  also have "id_consume (length (m @ [newline])) ip ?s1 =
      id_after_payload ip tail_bytes (s\<lparr>is_ssl_streams := insert ip (is_ssl_streams s)\<rparr>)"
    by (cases s) (simp add: id_consume_def id_reading_def id_after_payload_def)
  finally show ?thesis .
qed

interpretation id_frames: framed_reader "id_perform L cfg"
  "\<lambda>b. Id_running (id_reading Size_read ip b s)" "\<lambda>n b. Id_running (id_reading (Payload_read n) ip b s)"
  "\<lambda>m b. id_process_of (id_dispatch L cfg io (m @ [newline]) ip
     (id_after_payload ip b (s\<lparr>is_ssl_streams := insert ip (is_ssl_streams s)\<rparr>)))"
  "\<lambda>c. (io, Id_received ip c)" "(io, Id_read_line ip)"
proof
  fix b c
  show "id_perform L cfg (Id_running (id_reading Size_read ip b s)) (io, Id_received ip c) =
      Some (Id_running (id_reading Size_read ip (b @ c) s))"
    by (simp add: id_reading_def)
next
  fix l r n
  assume "newline \<notin> set l" "stoul (l @ [newline]) = Inr n"
  then show "id_perform L cfg (Id_running (id_reading Size_read ip (l @ newline # r) s)) (io, Id_read_line ip) =
      Some (Id_running (id_reading (Payload_read n) ip r s))"
    by (simp add: id_reading_def first_line_append id_on_read_def id_on_size_read_def id_start_read_def id_consume_def)
next
  fix m r
  assume "newline \<notin> set m"
  with id_read_payload [of L cfg io ip m "Payload_read (length m)" r s]
  show "id_perform L cfg (Id_running (id_reading (Payload_read (length m)) ip (m @ newline # r) s)) (io, Id_read_line ip) =
      Some (id_process_of (id_dispatch L cfg io (m @ [newline]) ip
        (id_after_payload ip r (s\<lparr>is_ssl_streams := insert ip (is_ssl_streams s)\<rparr>))))"
    by (simp add: id_reading_def first_line_append)
qed

lemma id_deliver_frame:
  assumes "is_pending_reads s ip = Some Size_read" "is_buffers s ip = Some []" "ip \<in> is_ssl_streams s"
    and "newline \<notin> set m" "length m < 2 ^ 64" "concat chunks = frame_message m @ tail_bytes"
  shows "run_all (id_perform L cfg) (Id_running s)
      (map (\<lambda>c. (io, Id_received ip c)) chunks @ [(io, Id_read_line ip), (io, Id_read_line ip)]) =
    Some (id_process_of (id_dispatch L cfg io (m @ [newline]) ip (id_after_payload ip tail_bytes s)))"
proof -
  have "id_reading Size_read ip [] s = s" "s\<lparr>is_ssl_streams := insert ip (is_ssl_streams s)\<rparr> = s"
    using assms(1-3) by (simp_all add: id_reading_def insert_absorb fun_upd_idem)
  with id_frames.frame_delivered [OF assms(4-6), of L cfg ip s io] show ?thesis by simp
qed

section \<open>What a run keeps and adds\<close>

text \<open>
  An answer that is justified by what a state holds: it is signed with the service's key, names the
  voter of the ID data under the recorded name, and the request was signed with the key in memory
  for the client it names.
\<close>

definition justified :: "('j, 'k, 'c) libs \<Rightarrow> 'k id_service \<Rightarrow> string \<Rightarrow> bool" where
  "justified L s line \<longleftrightarrow> (\<exists>r v msg key. line = msg @ [newline] \<and> id_reply L (is_signer_key s) r v = Inr msg \<and>
     validate_and_match_id_data (vb_voter_id_data (vr_body r)) = Inr v \<and> v \<noteq> INVALID_VOTER_ID \<and>
     validate_voter_name (vb_first_name (vr_body r)) (vb_middle_name (vr_body r)) (vb_last_name (vr_body r)) v s \<and>
     is_verifiers s (vb_client_id_num (vr_body r)) = Some key \<and>
     bindR (j_dump L (VoterIDRequest_Body_ToJson L (vr_body r)))
       (\<lambda>str. verify_string L key str (vr_client_signature r)) = Inr True)"

text \<open>Keys and records are never replaced, and only justified answers are sent.\<close>

definition id_grows :: "('j, 'k, 'c) libs \<Rightarrow> 'k id_service \<Rightarrow> 'k id_service \<Rightarrow> bool" where
  "id_grows L s s' \<longleftrightarrow> is_signer_key s' = is_signer_key s \<and> is_voter_data s' = is_voter_data s \<and>
     is_verifiers s \<subseteq>\<^sub>m is_verifiers s' \<and> is_public_keys s \<subseteq>\<^sub>m is_public_keys s' \<and>
     (\<exists>new. is_sent s' = is_sent s @ new \<and> (\<forall>(ip, line) \<in> set new. justified L s' line))"

lemma justified_mono:
  assumes "justified L s line" "is_signer_key s' = is_signer_key s" "is_voter_data s' = is_voter_data s"
    and "is_verifiers s \<subseteq>\<^sub>m is_verifiers s'"
  shows "justified L s' line"
proof -
  have names: "validate_voter_name f m l v s' = validate_voter_name f m l v s" for f m l v
    using assms(3) by (simp add: validate_voter_name_def)
  have keys: "is_verifiers s c = Some k \<Longrightarrow> is_verifiers s' c = Some k" for c k
    using assms(4) by (metis domI map_le_def)
  from assms(1) show ?thesis
    unfolding justified_def names assms(2) by (blast intro: keys)
qed

lemma id_grows_refl [simp]: "id_grows L s s"
  by (simp add: id_grows_def)

lemma id_grows_trans [trans]:
  assumes "id_grows L s s'" "id_grows L s' s''"
  shows "id_grows L s s''"
proof -
  obtain new new' where n: "is_sent s' = is_sent s @ new" "\<forall>(ip, line) \<in> set new. justified L s' line"
    "is_sent s'' = is_sent s' @ new'" "\<forall>(ip, line) \<in> set new'. justified L s'' line"
    using assms by (auto simp: id_grows_def)
  then have "\<forall>(ip, line) \<in> set (new @ new'). justified L s'' line"
    using assms(2) by (auto simp: id_grows_def intro: justified_mono)
  with n(1,3) assms show ?thesis
    by (auto simp: id_grows_def intro: map_le_trans intro!: exI [of _ "new @ new'"])
qed

text \<open>Updates of the other members do not matter.\<close>

lemma id_grows_updates [simp]:
  "id_grows L s (s'\<lparr>is_ssl_streams := a1\<rparr>) = id_grows L s s'" "id_grows L s (s'\<lparr>is_buffers := a2\<rparr>) = id_grows L s s'"
  "id_grows L s (s'\<lparr>is_pending_reads := a3\<rparr>) = id_grows L s s'" "id_grows L s (s'\<lparr>is_accept_pending := a4\<rparr>) = id_grows L s s'"
  "id_grows L s (s'\<lparr>is_handshakes := a5\<rparr>) = id_grows L s s'" "id_grows L s (s'\<lparr>is_key_files := a6\<rparr>) = id_grows L s s'"
  "id_grows L (s\<lparr>is_ssl_streams := a1\<rparr>) s' = id_grows L s s'" "id_grows L (s\<lparr>is_buffers := a2\<rparr>) s' = id_grows L s s'"
  "id_grows L (s\<lparr>is_pending_reads := a3\<rparr>) s' = id_grows L s s'" "id_grows L (s\<lparr>is_accept_pending := a4\<rparr>) s' = id_grows L s s'"
  "id_grows L (s\<lparr>is_handshakes := a5\<rparr>) s' = id_grows L s s'"
  by (simp_all add: id_grows_def justified_def validate_voter_name_def)

lemma map_le_emplace: "m \<subseteq>\<^sub>m emplace k v m"
  by (auto simp: emplace_def map_le_def split: option.splits)

lemma id_grows_keys:
  "id_grows L s (s\<lparr>is_verifiers := emplace c k (is_verifiers s)\<rparr>)"
  "is_public_keys s c = None \<Longrightarrow>
     id_grows L s (s\<lparr>is_public_keys := (is_public_keys s)(c \<mapsto> k), is_verifiers := emplace c k (is_verifiers s)\<rparr>)"
  by (auto simp: id_grows_def map_le_emplace map_le_def [of "is_public_keys s"])

lemma id_grows_register_key: "id_register_key L cfg io c k s = Inr s' \<Longrightarrow> id_grows L s s'"
proof (cases "is_public_keys s c")
  case None
  moreover assume "id_register_key L cfg io c k s = Inr s'"
  ultimately show ?thesis
    using id_grows_keys(2) [of s c L k]
    by (auto simp: id_register_key_def id_save_pub_key_def Let_def id_grows_def justified_def validate_voter_name_def)
next
  case (Some old)
  moreover assume "id_register_key L cfg io c k s = Inr s'"
  ultimately show ?thesis
    using id_grows_keys(1) [of L s c k] by (auto simp: id_register_key_def bindR_Inr_iff split: if_splits)
qed

lemma id_start_read_grows [simp]: "id_grows L s (fst (id_start_read r ip s')) = id_grows L s s'"
  by (simp add: id_start_read_def Let_def)

lemma id_grows_handshake: "id_grows L s (fst (id_on_handshake L cfg io ip cert s))"
proof -
  let ?r = "case cert of None \<Rightarrow> Inr s | Some crt \<Rightarrow> bindR (id_get_client_id_from_cert (cert_common_name crt)) (\<lambda>client_id.
    case cert_public_key crt of None \<Rightarrow> Inr s | Some k \<Rightarrow> id_register_key L cfg io client_id k s)"
  show ?thesis
  proof (cases ?r)
    case (Inl e)
    then show ?thesis by (simp add: id_on_handshake_def)
  next
    case (Inr s2)
    then have "id_grows L s s2"
      by (auto simp: bindR_Inr_iff split: option.splits dest: id_grows_register_key)
    then have "id_grows L s (fst (id_start_read Size_read ip (s2\<lparr>is_ssl_streams := insert ip (is_ssl_streams s2)\<rparr>)))"
      by simp
    with Inr show ?thesis
      by (auto simp: id_on_handshake_def id_do_accept_def split_beta split: option.split)
  qed
qed

text \<open>A request only adds its client's key, read from the key folder, and a justified answer.\<close>

lemma id_grows_load_key:
  "id_grows L s (fst (if is_verifiers s c = None then id_load_client_public_key L cfg c s else (s, Inr True)))"
  using id_grows_keys(1) [of L s c]
  by (auto simp: id_load_client_public_key_def split: sum.split cpp_error.split)

lemma check_and_sign_state:
  "fst (check_and_sign L io ip r v s) = s\<lparr>is_sent := is_sent (fst (check_and_sign L io ip r v s))\<rparr>"
  by (auto simp: check_and_sign_def send_verified_id_eq split: sum.split option.split)

lemma id_grows_check_and_sign:
  assumes "validate_and_match_id_data (vb_voter_id_data (vr_body r)) = Inr v" "v \<noteq> INVALID_VOTER_ID"
    and "validate_voter_name (vb_first_name (vr_body r)) (vb_middle_name (vr_body r)) (vb_last_name (vr_body r)) v s"
  shows "id_grows L s (fst (check_and_sign L io ip r v s))"
proof -
  obtain s' e where h: "check_and_sign L io ip r v s = (s', e)" by fastforce
  with check_and_sign_state [of L io ip r v s] have st: "s' = s\<lparr>is_sent := is_sent s'\<rparr>" by simp
  from h have "\<exists>new. is_sent s' = is_sent s @ new \<and> (\<forall>(ip, line) \<in> set new. justified L s line)"
  proof (cases rule: check_and_sign_cases)
    case silent
    then show ?thesis by simp
  next
    case (answered key msg)
    with assms have "justified L s (msg @ [newline])" unfolding justified_def by blast
    with answered(4) show ?thesis by simp
  qed
  then obtain new where new: "is_sent s' = is_sent s @ new" "\<forall>(ip, line) \<in> set new. justified L s line" by blast
  have "justified L s line \<Longrightarrow> justified L (s\<lparr>is_sent := x\<rparr>) line" for line x
    by (erule justified_mono) simp_all
  with new have "id_grows L s (s\<lparr>is_sent := is_sent s @ new\<rparr>)"
    by (auto simp: id_grows_def)
  with h st new(1) show ?thesis by (metis fst_conv)
qed

lemma id_grows_request: "id_grows L s (fst (handle_validation_request L cfg io ip r s))"
proof -
  let ?b = "vr_body r"
  let ?k = "if is_verifiers s (vb_client_id_num ?b) = None then id_load_client_public_key L cfg (vb_client_id_num ?b) s
    else (s, Inr True)"
  have k: "id_grows L s (fst ?k)" by (rule id_grows_load_key)
  then have names: "validate_voter_name f m l v (fst ?k) = validate_voter_name f m l v s" for f m l v
    by (simp add: validate_voter_name_def id_grows_def)
  have "id_grows L s (fst (check_and_sign L io ip r v (fst ?k)))"
    if "validate_and_match_id_data (vb_voter_id_data ?b) = Inr v" "v \<noteq> INVALID_VOTER_ID"
      "validate_voter_name (vb_first_name ?b) (vb_middle_name ?b) (vb_last_name ?b) v s" for v
    by (rule id_grows_trans [OF k id_grows_check_and_sign]) (use that names in simp_all)
  with k show ?thesis
    by (auto simp: handle_validation_request_def Let_def split: sum.split prod.split)
qed

lemma id_grows_read: "id_grows L s (fst (id_on_read L cfg io ip r line s))"
proof -
  let ?s1 = "s\<lparr>is_pending_reads := (is_pending_reads s)(ip := None)\<rparr>"
  have c: "id_grows L s (id_consume n ip ?s1)" for n by (simp add: id_consume_def)
  have "id_grows L s (fst (handle_validation_request L cfg io ip q (id_consume n ip ?s1)))" for n q
    by (rule id_grows_trans [OF c id_grows_request])
  with c show ?thesis
    by (auto simp: id_on_read_def id_on_size_read_def id_on_payload_read_def Let_def
        split: pending_read.split sum.split)
qed

lemma id_step_grows: "id_step L cfg p l p' \<Longrightarrow> id_grows L (id_service_of p) (id_service_of p')"
proof (induction rule: id_step.induct)
  case (handshaken ip s io cert)
  then show ?case
    using id_grows_handshake [of L "s\<lparr>is_handshakes := is_handshakes s - {ip}\<rparr>" cfg io ip cert] by simp
next
  case (read_line s ip r b io)
  then show ?case by (simp add: id_grows_read)
qed (simp_all add: id_handle_accept_def id_on_handshake_error_def id_do_accept_def id_on_read_error_def Let_def)

lemma id_path_grows: "path (id_step L cfg) p ls p' \<Longrightarrow> id_grows L (id_service_of p) (id_service_of p')"
  by (induction rule: path.induct) (auto intro: id_grows_trans dest: id_step_grows)

section \<open>Answers and connections\<close>

text \<open>
  No further read is posted after a request, so the read that is open on a connection is the only one
  that can still bring an answer on it.
\<close>

definition answers_to :: "endpoint \<Rightarrow> 'k id_service \<Rightarrow> nat" where
  "answers_to ip s = length (filter (\<lambda>(a, _). a = ip) (is_sent s))"

definition answers_due :: "endpoint \<Rightarrow> 'k id_service \<Rightarrow> nat" where
  "answers_due ip s = answers_to ip s + (if is_pending_reads s ip = None then 0 else 1)"

fun opens :: "endpoint \<Rightarrow> io_input \<times> 'k id_event \<Rightarrow> bool" where
  "opens ip (io, e) \<longleftrightarrow> (case e of Id_handshaken a cert \<Rightarrow> a = ip | _ \<Rightarrow> False)"

lemma answers_due_updates [simp]:
  "answers_due ip (s\<lparr>is_ssl_streams := a1\<rparr>) = answers_due ip s" "answers_due ip (s\<lparr>is_buffers := a2\<rparr>) = answers_due ip s"
  "answers_due ip (s\<lparr>is_accept_pending := a4\<rparr>) = answers_due ip s" "answers_due ip (s\<lparr>is_handshakes := a5\<rparr>) = answers_due ip s"
  "answers_due ip (s\<lparr>is_key_files := a6\<rparr>) = answers_due ip s" "answers_due ip (s\<lparr>is_verifiers := a7\<rparr>) = answers_due ip s"
  "answers_due ip (s\<lparr>is_public_keys := a8\<rparr>) = answers_due ip s"
  by (simp_all add: answers_due_def answers_to_def)

lemma answers_due_start_read:
  "answers_due ip (fst (id_start_read r a s)) \<le> (if a = ip then answers_to ip s + 1 else answers_due ip s)"
  by (simp add: answers_due_def answers_to_def id_start_read_def Let_def)

lemma answers_due_register_key: "id_register_key L cfg io c k s = Inr s' \<Longrightarrow> answers_due ip s' = answers_due ip s"
  by (auto simp: id_register_key_def id_save_pub_key_def bindR_Inr_iff Let_def split: option.splits if_splits)

lemma answers_due_handshake:
  "answers_due ip (fst (id_on_handshake L cfg io a cert s)) \<le> answers_due ip s + (if a = ip then 1 else 0)"
proof -
  let ?r = "case cert of None \<Rightarrow> Inr s | Some crt \<Rightarrow> bindR (id_get_client_id_from_cert (cert_common_name crt)) (\<lambda>client_id.
    case cert_public_key crt of None \<Rightarrow> Inr s | Some k \<Rightarrow> id_register_key L cfg io client_id k s)"
  show ?thesis
  proof (cases ?r)
    case (Inl e)
    then show ?thesis by (simp add: id_on_handshake_def)
  next
    case (Inr s2)
    let ?s3 = "s2\<lparr>is_ssl_streams := insert a (is_ssl_streams s2)\<rparr>"
    from Inr have "answers_due ip s2 = answers_due ip s"
      by (auto simp: bindR_Inr_iff split: option.splits dest: answers_due_register_key)
    moreover have "answers_due ip (fst (id_start_read Size_read a ?s3)) \<le> answers_due ip s2 + (if a = ip then 1 else 0)"
      using answers_due_start_read [of ip Size_read a ?s3] by (auto simp: answers_due_def answers_to_def split: if_splits)
    ultimately show ?thesis
      using Inr by (auto simp: id_on_handshake_def id_do_accept_def split_beta split: option.split)
  qed
qed

lemma handle_validation_request_pending:
  "is_pending_reads (fst (handle_validation_request L cfg io ip r s)) = is_pending_reads s"
proof -
  have "is_pending_reads (fst (check_and_sign L io ip r v s1)) = is_pending_reads s1" for v s1
    using arg_cong [OF check_and_sign_state [of L io ip r v s1], of is_pending_reads] by simp
  moreover have "is_pending_reads (fst (id_load_client_public_key L cfg c s)) = is_pending_reads s" for c
    by (auto simp: id_load_client_public_key_def split: sum.split cpp_error.split)
  ultimately show ?thesis
    by (auto simp: handle_validation_request_def Let_def split_beta split: sum.split)
qed

lemma answers_due_request:
  "answers_due ip (fst (handle_validation_request L cfg io a r s)) \<le> answers_due ip s + (if a = ip then 1 else 0)"
proof -
  obtain s' e where h: "handle_validation_request L cfg io a r s = (s', e)" by fastforce
  with handle_validation_request_pending [of L cfg io a r s] have "is_pending_reads s' = is_pending_reads s" by simp
  moreover from h have "answers_to ip s' \<le> answers_to ip s + (if a = ip then 1 else 0)"
    by (cases rule: handle_validation_request_cases) (simp_all add: answers_to_def)
  ultimately show ?thesis using h by (simp add: answers_due_def)
qed

lemma answers_due_read:
  assumes "is_pending_reads s a = Some r"
  shows "answers_due ip (fst (id_on_read L cfg io a r line s)) \<le> answers_due ip s"
proof -
  let ?s1 = "s\<lparr>is_pending_reads := (is_pending_reads s)(a := None)\<rparr>"
  let ?bound = "answers_due ip ?s1 + (if a = ip then 1 else 0)"
  have eq: "?bound = answers_due ip s"
    using assms by (auto simp: answers_due_def answers_to_def)
  have c: "answers_due ip (id_consume n a ?s1) = answers_due ip ?s1" for n by (simp add: id_consume_def)
  have "answers_due ip (fst (handle_validation_request L cfg io a q (id_consume n a ?s1))) \<le> ?bound" for q n
    using answers_due_request [of ip L cfg io a q "id_consume n a ?s1"] by (simp add: c)
  moreover have "answers_due ip (fst (id_start_read x a (id_consume n a ?s1))) \<le> ?bound" for x n
    using answers_due_start_read [of ip x a "id_consume n a ?s1"]
    by (auto simp: answers_due_def answers_to_def id_consume_def split: if_splits)
  ultimately have "answers_due ip (fst (id_on_read L cfg io a r line s)) \<le> ?bound"
    using c by (auto simp: id_on_read_def id_on_size_read_def id_on_payload_read_def Let_def
        split: pending_read.split sum.split)
  then show ?thesis by (simp only: eq)
qed

lemma answers_due_step:
  "id_step L cfg p l p' \<Longrightarrow>
     answers_due ip (id_service_of p') \<le> answers_due ip (id_service_of p) + (if opens ip l then 1 else 0)"
proof (induction rule: id_step.induct)
  case (handshaken a s io cert)
  then show ?case
    using answers_due_handshake [of ip L cfg io a cert "s\<lparr>is_handshakes := is_handshakes s - {a}\<rparr>"] by simp
next
  case (read_line s a r b io)
  then show ?case by (simp add: answers_due_read)
next
  case (read_failed s a r io err)
  then show ?case
    by (auto simp: id_on_read_error_def Let_def answers_due_def answers_to_def)
qed (simp_all add: id_handle_accept_def id_on_handshake_error_def id_do_accept_def split: option.split)

lemma answers_due_path:
  "path (id_step L cfg) p ls p' \<Longrightarrow>
     answers_due ip (id_service_of p') \<le> answers_due ip (id_service_of p) + length (filter (opens ip) ls)"
proof (induction rule: path.induct)
  case (path_Cons p l q ls p')
  with answers_due_step [OF path_Cons.hyps(1), of ip] show ?case by (simp split: if_splits)
qed simp

text \<open>A service that has just started has sent nothing and reads nothing.\<close>

lemma id_load_key_entries_idle:
  "id_load_key_entries cfg entries s = Inr (s', b) \<Longrightarrow>
     is_sent s' = is_sent s \<and> is_pending_reads s' = is_pending_reads s \<and> is_signer_key s' = is_signer_key s"
  by (induction cfg entries s rule: id_load_key_entries.induct)
    (fastforce simp: result_simps split: sum.splits cpp_error.splits if_splits option.splits)+

lemma load_voter_records_idle:
  "is_sent (fold load_voter_record ls s) = is_sent s \<and> is_pending_reads (fold load_voter_record ls s) = is_pending_reads s"
  by (induction ls arbitrary: s) (simp_all add: load_voter_record_def Let_def split: sum.split)

lemma load_voter_data_idle:
  "is_sent (load_voter_data_from_csv cfg s) = is_sent s \<and>
   is_pending_reads (load_voter_data_from_csv cfg s) = is_pending_reads s"
  by (simp add: load_voter_data_from_csv_def load_voter_records_idle split: option.split)

lemma id_started_idle:
  assumes "id_started L cfg p"
  shows "is_sent (id_service_of p) = []" "is_pending_reads (id_service_of p) = Map.empty"
proof -
  from assms obtain own_key fs names s s1 b where
    s1: "id_load_client_public_keys L cfg names (id_blank own_key fs) = Inr (s1, b)"
    and s: "s = load_voter_data_from_csv cfg s1" "p = Id_running (id_run s)"
    by (auto simp: id_started_def VoterIDService_def bindR_Inr_iff)
  from s1 have "is_sent s1 = [] \<and> is_pending_reads s1 = Map.empty"
    unfolding id_load_client_public_keys_def by (auto dest!: id_load_key_entries_idle simp: id_blank_def)
  with s show "is_sent (id_service_of p) = []" "is_pending_reads (id_service_of p) = Map.empty"
    by (simp_all add: id_run_def id_do_accept_def load_voter_data_idle)
qed

end
