(* ===== verification/Program_Runs.thy ===== *)
theory Program_Runs
  imports Application_Properties Voter_ID_Protocol
begin

text \<open>
  The pieces of a run of the client programs with the services: what a user types and the programs
  read, the completions the programs wait for, and what each service makes of the message the
  program sent.
\<close>

section \<open>What is typed\<close>

lemma extract_word_typed:
  assumes "con_in c = open_string (word @ newline # r)" "word \<noteq> []" "list_all (\<lambda>x. \<not> is_space x) word"
  shows "extract_word old c = (word, c\<lparr>con_in := open_string (newline # r)\<rparr>)"
proof -
  have "is_space newline" by (simp add: is_space_def)
  moreover have "dropWhile is_space (word @ newline # r) = word @ newline # r"
    using assms(2,3) by (cases word) auto
  moreover have "takeWhile (\<lambda>x. \<not> is_space x) (word @ newline # r) = word"
    "dropWhile (\<lambda>x. \<not> is_space x) (word @ newline # r) = newline # r"
    using assms(3) calculation(1) by (simp_all add: list_all_iff takeWhile_append dropWhile_append)
  ultimately show ?thesis using assms(1,2) by (simp add: extract_word_def open_string_def Let_def)
qed

lemma extract_number_typed:
  assumes "con_in c = open_string (ws @ to_string (unat (n :: u32)) @ [newline])" "list_all is_space ws"
  shows "extract_number c = (Some n, c\<lparr>con_in := open_string [newline]\<rparr>)"
proof -
  let ?t = "to_string (unat n)"
  have nl: "is_space newline" "\<not> is_digit newline" by (simp_all add: is_space_def is_digit_def)
  obtain d ds where d: "?t = d # ds" "is_digit d" using to_string_digits [of "unat n"] by (cases ?t) auto
  have "dropWhile is_space (ws @ ?t @ [newline]) = ?t @ [newline]" "split_sign (?t @ [newline]) = (False, ?t @ [newline])"
    using d assms(2) by (auto simp: list_all_iff dropWhile_append2 digit_not_space split_sign_def is_digit_def)
  moreover have "takeWhile is_digit (?t @ [newline]) = ?t" "dropWhile is_digit (?t @ [newline]) = [newline]"
    using to_string_digits [of "unat n"] nl(2) by (simp_all add: list_all_iff takeWhile_append dropWhile_append)
  moreover have "unat n < 2 ^ 32" using unsigned_less [of n, where 'a = nat] by simp
  ultimately show ?thesis
    using assms(1) by (simp add: extract_number_def open_string_def Let_def)
qed

section \<open>The trusted device\<close>

lemma connect_checkin_keeps:
  assumes "connect_checkin_server L dir_error io peer s = (s', e)"
  shows "pc_signer_key s' = pc_signer_key s" "pc_sent s' = pc_sent s" "e = None \<Longrightarrow> pc_checkin_connected s'"
  using assms
  by (auto simp: connect_checkin_server_def make_handshake_def write_pubkey_pem_def Let_def
      split: sum.splits option.splits prod.splits)

text \<open>The device waits for the two completions of its request.\<close>

lemma device_awaits:
  assumes "verify_ticket L cc io ticket pin client = (client', None)" "pc_ops client = []"
    and "on_ticket_response L (Inr line) (client'\<lparr>pc_ops := []\<rparr>) =
      (client'\<lparr>pc_ops := [], pc_promise := Some r\<rparr>, None)"
  shows "\<exists>s'. await_result L cc client' [(io1, Write_ticket_request, Written False),
      (io2, Read_ticket_response, Got (Inr line))] = (s', Inr (Some r)) \<and> pc_sent s' = pc_sent client'"
proof -
  have "pc_ops client' = [Write_ticket_request]" "pc_promise client' = None"
    using assms(1,2) by (auto simp: verify_ticket_def enqueue_def transmit_def Let_def split: if_splits sum.splits)
  then show ?thesis using assms(3) by (simp add: complete_def on_ticket_request_written_def enqueue_def)
qed

lemma secure_dialogue_typed:
  assumes "ordered_IniFile h" "decode_uint (ini_field SECTION_BASIC CLIENT_ID h) = Inr device_id"
    and "con_in c = open_string (ticket @ newline # to_string (unat pin) @ [newline])"
      "ticket \<noteq> []" "list_all (\<lambda>x. \<not> is_space x) ticket"
    and "verify_ticket L \<lparr>cc_client_id = device_id\<rparr> io ticket pin client = (client', None)"
    and "await_result L \<lparr>cc_client_id = device_id\<rparr> client' network = (s', Inr (Some r))" "success r"
  shows "\<exists>c' before. secure_dialogue L h io network client c = (c', pc_sent s', Shown r) \<and>
    con_out c' = before @ ''Ticket verification succeeded!'' @ [newline]"
proof -
  have cc: "client_settings h = \<lparr>cc_client_id = device_id\<rparr>" "snd (getUInt32 SECTION_BASIC CLIENT_ID h) = Inr device_id"
    using assms(2) by (simp_all add: client_settings_def setting_values [OF assms(1)] getter_parts [OF assms(1)])
  let ?c1 = "print_line ''Enter ticket for client'' c"
  let ?c2 = "print_line ''Enter your pin'' (?c1\<lparr>con_in := open_string (newline # to_string (unat pin) @ [newline])\<rparr>)"
  have "extract_word [] ?c1 = (ticket, ?c1\<lparr>con_in := open_string (newline # to_string (unat pin) @ [newline])\<rparr>)"
    using assms(3-5) by (intro extract_word_typed) (simp_all add: print_line_def)
  moreover have "extract_number ?c2 = (Some pin, ?c2\<lparr>con_in := open_string [newline]\<rparr>)"
    by (intro extract_number_typed [where ws = "[newline]"]) (simp_all add: print_line_def is_space_def)
  ultimately show ?thesis
    using assms(6-) by (auto simp: secure_dialogue_def cc show_result_def print_line_def)
qed

section \<open>The poll book\<close>

lemma read_line_typed:
  assumes "con_in c = open_string (l @ newline # r)" "newline \<notin> set l"
  shows "read_line old c = (l, c\<lparr>con_in := open_string r\<rparr>)"
  using assms by (simp add: read_line_def getline_into_eq_getline open_string_def [of r])

lemma client_dialogue_typed:
  assumes "ordered_IniFile h" "decode_uint (ini_field SECTION_BASIC CLIENT_ID h) = Inr book_id"
    and "con_in c = open_string (last_name @ newline # first_name @ newline # middle_name @ newline #
        to_string (unat v) @ [newline])"
      "newline \<notin> set last_name \<union> set first_name \<union> set middle_name"
    and "check_in_voter_id L \<lparr>cc_client_id = book_id\<rparr> io first_name middle_name last_name v voter_id_image client = (client', None)"
    and "await_result L \<lparr>cc_client_id = book_id\<rparr> client' network = (s', Inr (Some r))" "success r"
  shows "\<exists>c' before. client_dialogue L h io network client c = (c', pc_sent s', Shown r) \<and>
    con_out c' = before @ ''Check-in succeeded!'' @ [newline]"
proof -
  have cc: "client_settings h = \<lparr>cc_client_id = book_id\<rparr>" "snd (getUInt32 SECTION_BASIC CLIENT_ID h) = Inr book_id"
    using assms(2) by (simp_all add: client_settings_def setting_values [OF assms(1)] getter_parts [OF assms(1)])
  let ?v = "to_string (unat v) @ [newline]"
  let ?i1 = "first_name @ newline # middle_name @ newline # ?v" and ?i2 = "middle_name @ newline # ?v"
  let ?c1 = "print_line ''Enter the voter's last name'' c"
  let ?c2 = "print_line ''Enter the voter's first name'' (?c1\<lparr>con_in := open_string ?i1\<rparr>)"
  let ?c3 = "print_line ''Enter the voter's middle name'' (?c2\<lparr>con_in := open_string ?i2\<rparr>)"
  let ?c4 = "print_line ''Enter the voter's unique ID number'' (?c3\<lparr>con_in := open_string ?v\<rparr>)"
  have "read_line [] ?c1 = (last_name, ?c1\<lparr>con_in := open_string ?i1\<rparr>)"
    "read_line [] ?c2 = (first_name, ?c2\<lparr>con_in := open_string ?i2\<rparr>)"
    "read_line [] ?c3 = (middle_name, ?c3\<lparr>con_in := open_string ?v\<rparr>)"
    using assms(3,4) by (simp_all add: read_line_typed print_line_def)
  moreover have "extract_number ?c4 = (Some v, ?c4\<lparr>con_in := open_string [newline]\<rparr>)"
    by (rule extract_number_typed [where ws = "[]"]) (simp_all add: print_line_def)
  ultimately show ?thesis
    using assms(5-) by (auto simp: client_dialogue_def cc show_result_def print_line_def)
qed

text \<open>Connecting to both services gives the client the keys of their certificates.\<close>

lemma handshake_id_verifier:
  assumes "pem_law L" "make_handshake L dir_error io (Inr (Some cert)) True s = (s', None)" "cert_public_key cert = Some key"
  shows "pc_id_verifier s' = Some key"
proof -
  obtain fs r where w: "to_pem_public L (fopen_w io) key (server_key_path True) (pc_key_files s) = (fs, r)" by fastforce
  show ?thesis
  proof (cases r)
    case (Inl e)
    with assms(2,3) w show ?thesis by (auto simp: make_handshake_def write_pubkey_pem_def split: option.splits)
  next
    case (Inr u)
    with assms(2,3) w from_pem_public_to_pem_public [OF assms(1) w [unfolded Inr] refl] show ?thesis
      by (auto simp: make_handshake_def write_pubkey_pem_def split: option.splits)
  qed
qed

lemma connect_keeps:
  assumes "pem_law L" "connect L dir_error io (Inr (Some cert)) (Inr (Some id_cert)) s = (s', None)"
    and "cert_public_key cert = Some key" "cert_public_key id_cert = Some id_key"
  shows "pc_signer_key s' = pc_signer_key s" "pc_sent s' = pc_sent s" "pc_ops s' = pc_ops s"
    "pc_checkin_connected s'" "pc_id_connected s'" "pc_checkin_verifier s' = Some key" "pc_id_verifier s' = Some id_key"
proof -
  from assms(2) obtain s1 s2 where s: "connect_checkin_server L dir_error io (Inr (Some cert)) s = (s1, None)"
    "make_handshake L dir_error io (Inr (Some id_cert)) True s1 = (s2, None)" "s' = s2\<lparr>pc_id_connected := True\<rparr>"
    by (auto simp: connect_def connect_id_server_def split: prod.splits option.splits)
  note k = connect_checkin_keeps [OF s(1)]
  have h: "pc_signer_key s2 = pc_signer_key s1" "pc_sent s2 = pc_sent s1" "pc_checkin_connected s2 = pc_checkin_connected s1"
    using s(2) by (auto simp: make_handshake_def write_pubkey_pem_def Let_def split: sum.splits option.splits prod.splits)
  have v: "pc_checkin_verifier s' = Some key" "pc_ops s' = pc_ops s"
    by (rule connect_verifier [OF assms(1,2)]; use assms(3) in simp)+
  show "pc_signer_key s' = pc_signer_key s" "pc_sent s' = pc_sent s" "pc_ops s' = pc_ops s"
    "pc_checkin_connected s'" "pc_id_connected s'" "pc_checkin_verifier s' = Some key" "pc_id_verifier s' = Some id_key"
    using k h s(3) v assms(3) handshake_id_verifier [OF assms(1) s(2) assms(4)] by simp_all
qed

lemma client_main_connected:
  assumes "Config (text_files w (config_file_of ''client_config.ini'' argv)) = Inr f"
    and "from_pem_private L E (pem_files w) (ini_field SECTION_SECURITY LOCAL_PRIVATE_KEY f) = Inr own_key"
    and "\<And>c. client_configure_ssl_context w (ini_field SECTION_SECURITY LOCAL_CERT f)
       (ini_field SECTION_SECURITY LOCAL_PRIVATE_KEY f) (ini_field SECTION_SECURITY CA_CERT f) c = Inr c"
    and "connect L dir_error io
       (peer (ini_field SECTION_BASIC CHECKIN_SERVICE_HOST f) (ini_field SECTION_BASIC CHECKIN_SERVICE_PORT f))
       (peer (ini_field SECTION_BASIC ID_SERVICE_HOST f) (ini_field SECTION_BASIC ID_SERVICE_PORT f))
       (PollbookClient own_key (pem_files w)) = (client, None)"
  shows "\<exists>h. ordered_IniFile h \<and> (\<forall>s k. ini_field s k h = ini_field s k f) \<and>
    client_main L E w dir_error io peer network argv c =
      client_dialogue L h io network client (print_line ''Connected to checkin server and ID server'' c)"
proof -
  note f = Config_ordered [OF assms(1)]
  obtain l where l: "configured w ''client_config.ini'' argv = Inr (fst (log_level_setting w f), l)"
    using log_level_parts(3) [OF f, where w = w] assms(1) by (auto simp: configured_def case_prod_beta)
  let ?g = "fst (log_level_setting w f)" and ?s0 = "PollbookClient own_key (pem_files w)"
  note g = log_level_parts(1,2) [OF f, where w = w]
  have s: "snd (PollbookClient_construct L E w c ?g) = Inr (?s0, c)"
    using assms(2,3) by (simp add: PollbookClient_construct_exact [OF g(1)] g(2))
  note p = PollbookClient_construct_parts [OF g(1) s]
  let ?g1 = "fst (PollbookClient_construct L E w c ?g)"
  have con: "snd (connect_configured L dir_error io peer ?s0 ?g1) = Inr client"
    using assms(4) by (simp add: connect_configured_exact [OF p(1)] p(2) g(2) outcome_result_def)
  then have "ordered_IniFile (fst (connect_configured L dir_error io peer ?s0 ?g1))"
    "\<And>s k. ini_field s k (fst (connect_configured L dir_error io peer ?s0 ?g1)) = ini_field s k f"
    using p g(2) by (auto simp: connect_configured_def connect_checkin_configured_def config_parts bindR_Inr_iff)
  then show ?thesis
    using l s con by (intro exI [of _ "fst (connect_configured L dir_error io peer ?s0 ?g1)"])
      (auto simp: client_main_def split: prod.splits sum.splits)
qed

lemma extract_size_line: "n < 2 ^ 64 \<Longrightarrow> extract_size (to_string n @ [newline]) = n"
proof -
  assume n: "n < 2 ^ 64"
  obtain d ds where d: "to_string n = d # ds" "is_digit d" using to_string_digits [of n] by (cases "to_string n") auto
  have "split_sign (dropWhile is_space (to_string n @ [newline])) = (False, to_string n @ [newline])"
    using d by (auto simp: digit_not_space split_sign_def is_digit_def)
  moreover have "takeWhile is_digit (to_string n @ [newline]) = to_string n"
    using takeWhile_digits_append [of "to_string n" "[newline]"] by (simp add: to_string_digits is_digit_def)
  ultimately show ?thesis using n by (simp add: extract_size_def Let_def)
qed

text \<open>
  The five completions of a check-in. The reply of the check-in service may be split anywhere after
  its size line.
\<close>

lemma book_awaits:
  assumes "check_in_voter_id L cc io first_name middle_name last_name v data client = (client', None)" "pc_ops client = []"
    and "on_id_response L cc io2 (Inr line) (client'\<lparr>pc_ops := []\<rparr>) = start_checkin_request_write L cc io2 vid (client'\<lparr>pc_ops := []\<rparr>)"
    and "checkin_request_text L (pc_signer_key client) (checkin_body_of cc (now_ms io2) (first_name, middle_name, last_name) vid) = Inr m"
    and "early @ late = reply @ [newline]" "newline \<notin> set reply" "length reply < 2 ^ 63"
    and "\<And>s. pc_promise s = None \<Longrightarrow> pc_checkin_verifier s = pc_checkin_verifier client \<Longrightarrow>
      on_checkin_response L (Inr (reply @ [newline])) s = (s\<lparr>pc_promise := Some r\<rparr>, None)"
  shows "\<exists>s'. await_result L cc client' [(io1, Write_id_request, Written False), (io2, Read_id_response, Got (Inr line)),
      (io3, Write_checkin_request, Written False),
      (io4, Read_response_size, Got (Inr (to_string (length reply) @ newline # early))),
      (io5, Read_checkin_response early, Got (Inr late))] = (s', Inr (Some r)) \<and>
    pc_sent s' = pc_sent client' @ [(Checkin_server, frame_message m)]"
proof -
  have c: "pc_ops client' = [Write_id_request]" "pc_promise client' = None" "pc_signer_key client' = pc_signer_key client"
    "pc_voter_name client' = (first_name, middle_name, last_name)" "pc_checkin_verifier client' = pc_checkin_verifier client"
    using assms(1,2) by (auto simp: check_in_voter_id_def check_in_voter_def start_id_request_write_def enqueue_def transmit_def
        split: if_splits sum.splits)
  have size: "first_line (to_string (length reply) @ newline # early) = to_string (length reply) @ [newline]"
    by (simp add: first_line_append)
  have "extract_size (to_string (length reply) @ [newline]) = length reply"
    using assms(7) by (intro extract_size_line) simp
  moreover have "first_line (early @ late) = reply @ [newline]"
    using assms(5,6) first_line_append [of reply "[]"] by simp
  ultimately show ?thesis
    using c assms(3,4,7,8)
    by (simp add: complete_def on_id_request_written_def start_message_read_def enqueue_def transmit_def
        start_checkin_request_write_def on_checkin_request_written_def on_response_size_def size start_checkin_response_read_def)
qed

text \<open>
  The client library on the side of the poll book: with an ID answer that verifies and an approval of
  the check-in service it fulfils the promise of the call.
\<close>

lemma book_runs:
  fixes L :: "('j, 'k, 'c) libs" and client :: "'k pollbook_client"
  assumes laws: "codec_laws L" and key: "key_pair L service_key service_pub"
    and client: "pc_signer_key client = own_key" "pc_ops client = []" "pc_checkin_connected client" "pc_id_connected client"
      "pc_checkin_verifier client = Some service_pub" "pc_id_verifier client = Some id_pub"
    and id_request: "id_request_text L own_key \<lparr>vb_client_id_num = book_id, vb_timestamp = now_ms io0, vb_last_name = last_name,
        vb_middle_name = middle_name, vb_first_name = first_name, vb_voter_id_data = u32_bytes v @ data\<rparr> = Inr m1"
    and answer: "bindR (j_parse L (answer @ [newline])) (VerifiedVoterID_FromJson L) = Inr vid"
      "bindR (j_dump L (id_statement_json L (vv_presented_id vid) (vv_voter_unique_id vid)))
         (\<lambda>str. verify_string L id_pub str (vv_id_service_signature vid)) = Inr True"
    and request: "checkin_request_text L own_key
        (checkin_body_of \<lparr>cc_client_id = book_id\<rparr> (now_ms io2) (first_name, middle_name, last_name) vid) = Inr m2"
    and response: "approval_response L service_key body = Inr reply" "pb_approved body" "length reply < 2 ^ 63"
      "early @ late = reply @ [newline]"
  shows "\<exists>client' s'. check_in_voter_id L \<lparr>cc_client_id = book_id\<rparr> io0 first_name middle_name last_name v data client = (client', None) \<and>
    await_result L \<lparr>cc_client_id = book_id\<rparr> client' [(io4, Write_id_request, Written False),
      (io2, Read_id_response, Got (Inr (answer @ [newline]))), (io5, Write_checkin_request, Written False),
      (io6, Read_response_size, Got (Inr (to_string (length reply) @ newline # early))),
      (io7, Read_checkin_response early, Got (Inr late))] = (s', Inr (Some \<lparr>success = True, failure_reason = []\<rparr>)) \<and>
    pc_sent s' = pc_sent client @ [(Id_server, frame_message m1), (Checkin_server, frame_message m2)]"
proof -
  let ?cc = "\<lparr>cc_client_id = book_id\<rparr>"
  obtain client' where asks: "check_in_voter_id L ?cc io0 first_name middle_name last_name v data client = (client', None)"
    "pc_id_verifier client' = Some id_pub" "pc_sent client' = pc_sent client @ [(Id_server, frame_message m1)]"
    using id_request client
    by (auto simp: check_in_voter_id_def check_in_voter_def start_id_request_write_def enqueue_def transmit_def)
  have "on_id_response L ?cc io2 (Inr (answer @ [newline])) (client'\<lparr>pc_ops := []\<rparr>) =
      start_checkin_request_write L ?cc io2 vid (client'\<lparr>pc_ops := []\<rparr>)"
    using answer asks(2) by (auto simp: on_id_response_def handle_id_response_def bindR_Inr_iff)
  moreover have "newline \<notin> set reply"
    using response(1) codec_text [OF laws] by (auto simp: approval_response_def bindR_Inr_iff)
  moreover have "on_checkin_response L (Inr (reply @ [newline])) s =
      (s\<lparr>pc_promise := Some \<lparr>success = True, failure_reason = []\<rparr>\<rparr>, None)"
    if "pc_promise s = None" "pc_checkin_verifier s = pc_checkin_verifier client" for s
    using client_accepts_checkin_response [OF laws key _ response(1) that(1)] that(2) client(5) response(2) by simp
  ultimately show ?thesis
    using book_awaits [OF asks(1) client(2) _ _ response(4) _ response(3), of io2 "answer @ [newline]" vid m2] request client(1)
      asks(1,3) by auto
qed

section \<open>What the services make of the messages\<close>

text \<open>The ID service answers the request of a poll book whose key it knows.\<close>

lemma id_exchange:
  fixes L :: "('j, 'k, 'c) libs" and ids :: "'k id_service"
  assumes laws: "codec_laws L" and keys: "key_pair L own_key book_pub"
    and known: "id_client_key L cfg ids (vb_client_id_num body) = Some book_pub"
    and conn: "is_pending_reads ids ip = Some Size_read" "is_buffers ids ip = Some []" "ip \<in> is_ssl_streams ids" "\<not> write_fails io"
    and request: "id_request_text L own_key body = Inr m" "length m < 2 ^ 64" "concat chunks = frame_message m"
      "bindR (j_parse L (m @ [newline])) (VoterIDRequest_FromJson L) = Inr r"
    and voter: "vb_voter_id_data body = u32_bytes v @ data" "v \<noteq> INVALID_VOTER_ID"
      "validate_voter_name (vb_first_name body) (vb_middle_name body) (vb_last_name body) v ids"
    and fresh: "is_stale (ic_freshness_interval cfg) (now_ms io) (vb_timestamp body) = Inr False"
    and answer: "id_reply L (is_signer_key ids) r v = Inr answer"
  shows "valid_voter_id_request r \<and> (\<exists>ids'. run_all (id_perform L cfg) (Id_running ids)
      (map (\<lambda>c. (io, Id_received ip c)) chunks @ [(io, Id_read_line ip), (io, Id_read_line ip)]) = Some (Id_running ids') \<and>
    is_sent ids' = is_sent ids @ [(ip, answer @ [newline])])"
proof -
  have data: "vb_voter_id_data body \<noteq> []" "validate_and_match_id_data (vb_voter_id_data body) = Inr v"
    by (simp_all add: voter(1) validate_and_match_id_data_def) (simp add: u32_bytes_def)
  obtain r' where r': "vr_body r' = body" "valid_voter_id_request r'" "j_dump L (VoterIDRequest_ToJson L r') = Inr m"
    "bindR (j_parse L (m @ [newline])) (VoterIDRequest_FromJson L) = Inr r'"
    "bindR (j_dump L (VoterIDRequest_Body_ToJson L body)) (\<lambda>str. verify_string L book_pub str (vr_client_signature r')) = Inr True"
    by (rule id_request_text_valid [OF laws keys data(1) request(1)])
  then have r: "r' = r" using request(4) by simp
  let ?ids1 = "id_after_payload ip [] ids"
  have same: "is_signer_key ?ids1 = is_signer_key ids" "ip \<in> is_ssl_streams ?ids1" "is_sent ?ids1 = is_sent ids"
    using conn(3) by (simp_all add: id_after_payload_def)
  have "id_request_valid L cfg io r v ids"
    using r'(1,5) data(2) voter(2,3) fresh known r by (simp add: id_request_valid_def Let_def)
  then have valid: "id_request_valid L cfg io r v ?ids1" by simp
  obtain ids' where ids': "handle_validation_request L cfg io ip r ?ids1 = (ids', None)"
    "is_sent ids' = is_sent ids @ [(ip, answer @ [newline])]"
    using handle_validation_request_valid [OF valid answer [folded same(1)] same(2) conn(4)] same(3) by auto
  have "run_all (id_perform L cfg) (Id_running ids)
      (map (\<lambda>c. (io, Id_received ip c)) chunks @ [(io, Id_read_line ip), (io, Id_read_line ip)]) = Some (Id_running ids')"
    using id_deliver_frame [OF conn(1-3), of m chunks "[]" L cfg io] request codec_text [OF laws r'(3)] ids'(1)
    by (simp add: id_dispatch_def)
  with ids'(2) r'(2) r show ?thesis by blast
qed

text \<open>The check-in service accepts the request the poll book builds from the answer.\<close>

lemma checkin_exchange:
  fixes L :: "('j, 'k, 'c) libs" and s :: "'k checkin_service"
  assumes laws: "codec_laws L" and keys: "key_pair L own_key book_pub"
    and conn: "connected ip book_id UntrustedClient book_pub s"
    and vid: "valid_verified_voter_id vid" "bindR (j_dump L (id_statement_json L (vv_presented_id vid) (vv_voter_unique_id vid)))
        (\<lambda>str. verify_string L (id_service_verifier s) str (vv_id_service_signature vid)) = Inr True"
    and request: "checkin_request_text L own_key (checkin_body_of \<lparr>cc_client_id = book_id\<rparr> ts (first_name, middle_name, last_name) vid) = Inr m"
      "length m < 2 ^ 64" "concat chunks = frame_message m"
    and voter: "voter_status_table s (vv_voter_unique_id vid) = Some ELIGIBLE"
    and fresh: "is_stale (request_freshness_interval cfg) (now_ms io) ts = Inr False"
    and random: "generate_secret (rand_ticket io) = Inr ticket" "generate_secret (rand_secret io) = Inr secret"
    and response: "approval_response L (signer_key s) \<lparr>pb_approved = True, pb_requesting_client_id = book_id, pb_timestamp = now_ms io,
        pb_last_name = last_name, pb_first_name = first_name, pb_middle_name = middle_name,
        pb_voter_unique_id = vv_voter_unique_id vid, pb_ticket = ticket\<rparr> = Inr reply"
    and net: "\<not> write_fails io"
  shows "\<exists>s'. perform_all L cfg (Running s) (arrivals io ip chunks @ [(io, Read_line ip), (io, Read_line ip)]) = Some (Running s') \<and>
    voter_status_table s' = (voter_status_table s)(vv_voter_unique_id vid \<mapsto> PENDING) \<and>
    client_tickets_map s' ticket = Some (vv_voter_unique_id vid, secret) \<and> sent s' = sent s @ [(ip, frame_message reply)]"
proof -
  let ?body = "checkin_body_of \<lparr>cc_client_id = book_id\<rparr> ts (first_name, middle_name, last_name) vid"
  have bf: "cb_verified_id_message ?body = vid" "cb_client_id_num ?body = book_id" "cb_voter_unique_id ?body = vv_voter_unique_id vid"
    by (simp_all add: checkin_body_of_def)
  obtain r where r: "cr_body r = ?body" "valid_checkin_request r" "j_dump L (CheckinRequest_ToJson L r) = Inr m"
    "bindR (j_dump L (CheckinRequest_Body_ToJson L ?body)) (\<lambda>str. verify_string L book_pub str (cr_client_signature r)) = Inr True"
    using vid(1) bf(1) by (auto intro: checkin_request_text_valid [OF laws keys _ request(1)])
  have "client_key L cfg s book_id = Some book_pub" using conn by (simp add: connected_def client_key_def)
  then have valid: "request_valid L cfg s r (now_ms io)"
    using r(1,4) vid(2) fresh by (intro client_request_valid [where cc = "\<lparr>cc_client_id = book_id\<rparr>" and vid = vid]) simp_all
  have reply: "approval_response L (signer_key s) (response_for io True r ticket) = Inr reply"
    using response r(1) by (simp add: response_for_def checkin_body_of_def Let_def)
  let ?s0 = "current (cb_client_id_num (cr_body r)) ip s"
  have "voter_status_table ?s0 (cb_voter_unique_id (cr_body r)) = Some ELIGIBLE"
    using voter r(1) bf(3) by (simp add: current_def after_payload_def)
  note f = accepted_state_fields [OF this, where cfg = cfg and io = io and ip = ip and ticket = ticket and secret = secret and reply = reply]
  have "perform_all L cfg (Running s) (arrivals io ip chunks @ [(io, Read_line ip), (io, Read_line ip)]) =
      Some (Running (accepted_state cfg io ip r ticket secret reply ?s0))"
    using conn voter r(1) bf by (intro checkin_phase [OF laws _ r(2,3) request(2,3) valid _ random reply net]) simp_all
  moreover have "voter_status_table ?s0 = voter_status_table s" "sent ?s0 = sent s"
    by (simp_all add: current_def after_payload_def)
  ultimately show ?thesis using f(1,3,5) r(1) bf(3) by (metis fun_upd_same)
qed

end
