(* ===== verification/Voter_ID_Properties.thy ===== *)
theory Voter_ID_Properties
  imports Voter_ID_Protocol Sample_Clients
begin

text \<open>
  The properties of the voter ID service, each with an instance: when a request is answered, what
  an answer stands for in every run, how many answers a connection gets, and the failures.
\<close>

section \<open>Instances\<close>

definition sample_id_cfg :: id_config where
  "sample_id_cfg = \<lparr>ic_freshness_interval = 100, ic_client_keys_folder = ''keys/'', ic_client_key_file_prefix = ''client_'',
     ic_voter_list_file = Some (''UID,Last,First,Middle,Addr,City,State,Zip'' @ [newline] @
                                ''7,Doe,Jane,Q,1 Main,Town,AL,36849'' @ [newline])\<rparr>"

definition sample_id_blank :: "nat id_service" where
  "sample_id_blank = id_blank 9 (\<lambda>_. Inl ENOENT)"

definition sample_id_loaded :: "nat id_service" where
  "sample_id_loaded = sample_id_blank\<lparr>
     is_voter_data := [7 \<mapsto> [''7'', ''Doe'', ''Jane'', ''Q'', ''1 Main'', ''Town'', ''AL'', ''36849'']],
     is_voter_names := [7 \<mapsto> ''Jane Q Doe'']\<rparr>"

definition sample_id_ready :: "nat id_service" where
  "sample_id_ready = sample_id_loaded\<lparr>is_verifiers := [2 \<mapsto> 2], is_public_keys := [2 \<mapsto> 2],
     is_key_files := fst (to_pem_public sample_libs (\<lambda>_. None) 2 (id_key_path sample_id_cfg 2) (\<lambda>_. Inl ENOENT)),
     is_ssl_streams := {pollbook_ip}, is_buffers := [pollbook_ip \<mapsto> []], is_pending_reads := [pollbook_ip \<mapsto> Size_read],
     is_accept_pending := True\<rparr>"

lemma sample_id_ready_simps [simp]:
  "is_verifiers sample_id_ready = [2 \<mapsto> 2]" "is_ssl_streams sample_id_ready = {pollbook_ip}"
  "is_buffers sample_id_ready = [pollbook_ip \<mapsto> []]" "is_pending_reads sample_id_ready = [pollbook_ip \<mapsto> Size_read]"
  "is_signer_key sample_id_ready = 9" "is_sent sample_id_ready = []"
  by (simp_all add: sample_id_ready_def sample_id_loaded_def sample_id_blank_def id_blank_def)

lemma sample_id_starts: "VoterIDService sample_libs sample_id_cfg [] sample_id_blank = Inr sample_id_loaded"
proof -
  have "getline newline (file_text (ic_voter_list_file sample_id_cfg)) =
      Some (''UID,Last,First,Middle,Addr,City,State,Zip'', ''7,Doe,Jane,Q,1 Main,Town,AL,36849'' @ [newline])" by code_simp
  moreover have "getlines newline (''7,Doe,Jane,Q,1 Main,Town,AL,36849'' @ [newline]) = [''7,Doe,Jane,Q,1 Main,Town,AL,36849'']"
    by code_simp
  moreover have "csv_fields ''7,Doe,Jane,Q,1 Main,Town,AL,36849'' =
      [''7'', ''Doe'', ''Jane'', ''Q'', ''1 Main'', ''Town'', ''AL'', ''36849'']" by code_simp
  moreover have "stoul ''7'' = Inr 7" by code_simp
  ultimately show ?thesis
    by (simp add: VoterIDService_def id_load_client_public_keys_def load_voter_data_from_csv_def load_voter_record_def
        sample_id_loaded_def sample_id_blank_def id_blank_def)
qed

lemma sample_matched: "validate_and_match_id_data (vb_voter_id_data (vr_body sample_id_request)) = Inr 7"
proof -
  have "[7, 0, 0, 0] = u32_bytes 7 @ []" by code_simp
  then show ?thesis
    by (simp add: sample_id_request_def Let_def validate_and_match_id_data_def del: append_Nil2)
qed

lemma sample_id_fresh: "is_stale (ic_freshness_interval sample_id_cfg) (now_ms (sample_io 0)) 200 = Inr False"
  by (simp add: sample_id_cfg_def sample_now is_stale_eq)

lemma sample_id_valid: "id_request_valid sample_libs sample_id_cfg (sample_io 0) sample_id_request 7 sample_id_ready"
proof -
  have "validate_voter_name ''Jane'' ''Q'' ''Doe'' 7 sample_id_ready" by code_simp
  moreover have "verify_string sample_libs 2 (show_json (VoterIDRequest_Body_ToJson sample_libs (vr_body sample_id_request)))
      (vr_client_signature sample_id_request) = Inr True"
    by (simp add: sample_verify sample_id_request_def sample_signature_def Let_def)
  moreover have "vr_body sample_id_request = \<lparr>vb_client_id_num = 2, vb_timestamp = 200, vb_last_name = ''Doe'', vb_middle_name = ''Q'',
      vb_first_name = ''Jane'', vb_voter_id_data = [7, 0, 0, 0]\<rparr>" by (simp add: sample_id_request_def Let_def)
  ultimately show ?thesis
    using sample_matched sample_id_fresh
    by (simp add: id_request_valid_def sample_dump Let_def id_client_key_def sample_id_ready_def INVALID_VOTER_ID_def)
qed

text \<open>The poll book connects and sends the request.\<close>

definition sample_id_text :: string where
  "sample_id_text = show_json (VoterIDRequest_ToJson sample_libs sample_id_request)"

definition sample_id_events :: "(io_input \<times> nat id_event) list" where
  "sample_id_events = map (Pair (sample_io 0))
     [Id_accepted pollbook_ip, Id_handshaken pollbook_ip (sample_cert ''2'' 2), Id_received pollbook_ip (frame_message sample_id_text),
      Id_read_line pollbook_ip, Id_read_line pollbook_ip]"

lemma sample_id_started: "id_started sample_libs sample_id_cfg (Id_running (id_run sample_id_loaded))"
  unfolding id_started_def using sample_id_starts [unfolded sample_id_blank_def] by blast

lemma sample_id_text_short: "length sample_id_text < 2 ^ 64"
proof -
  have "json_bound (VoterIDRequest_ToJson sample_libs sample_id_request) < 2 ^ 64"
    by (simp add: VoterIDRequest_ToJson_def VoterIDRequest_Body_ToJson_def j_bytes_def Base64_encode_def j_u32_def
        sample_message_defs Let_def) (simp add: sample_libs_def)
  then show ?thesis unfolding sample_id_text_def by (rule le_less_trans [OF length_show_json(1)])
qed

lemma sample_id_connects:
  "run_all (id_perform sample_libs sample_id_cfg) (Id_running (id_run sample_id_loaded)) (take 2 sample_id_events) =
     Some (Id_running sample_id_ready)"
proof -
  have "id_get_client_id_from_cert (Some ''client 2'') = Inr 2" by code_simp
  then show ?thesis
    by (simp add: sample_id_events_def numeral_2_eq_2 id_run_def id_do_accept_def id_handle_accept_def id_on_handshake_def
        sample_cert_def id_register_key_def id_save_pub_key_def id_start_read_def emplace_def Let_def
        sample_id_ready_def sample_id_loaded_def sample_id_blank_def id_blank_def sample_io_def)
qed

lemma sample_id_delivers:
  "\<exists>s. run_all (id_perform sample_libs sample_id_cfg) (Id_running sample_id_ready) (drop 2 sample_id_events) = Some (Id_running s) \<and>
     is_sent s = [(pollbook_ip, sample_answer @ [newline])]"
proof -
  let ?s = "id_after_payload pollbook_ip [] sample_id_ready"
  have d: "j_dump sample_libs (VoterIDRequest_ToJson sample_libs sample_id_request) = Inr sample_id_text"
    by (simp add: sample_dump sample_id_text_def)
  have "run_all (id_perform sample_libs sample_id_cfg) (Id_running sample_id_ready) (drop 2 sample_id_events) =
      Some (id_process_of (id_dispatch sample_libs sample_id_cfg (sample_io 0) (sample_id_text @ [newline]) pollbook_ip ?s))"
    using id_deliver_frame [of sample_id_ready pollbook_ip sample_id_text "[frame_message sample_id_text]" "[]" sample_libs
        sample_id_cfg "sample_io 0"] sample_id_text_short codec_text [OF sample_codec_laws d]
    by (simp add: sample_id_events_def)
  moreover have "bindR (j_parse sample_libs (sample_id_text @ [newline])) (VoterIDRequest_FromJson sample_libs) = Inr sample_id_request"
    by (rule voter_id_request.wire_round_trip [OF sample_codec_laws sample_presented d])
  moreover have "id_request_valid sample_libs sample_id_cfg (sample_io 0) sample_id_request 7 ?s"
    by (simp add: sample_id_valid)
  then obtain s' where "handle_validation_request sample_libs sample_id_cfg (sample_io 0) pollbook_ip sample_id_request ?s = (s', None)"
    "is_sent s' = is_sent ?s @ [(pollbook_ip, sample_answer @ [newline])]"
    using handle_validation_request_valid [of sample_libs sample_id_cfg "sample_io 0" sample_id_request 7 ?s sample_answer pollbook_ip]
      sample_id_reply sample_io_simps(1) by (auto simp: id_after_payload_def)
  ultimately show ?thesis by (simp add: id_dispatch_def id_after_payload_def)
qed

lemma sample_id_path:
  "\<exists>p. path (id_step sample_libs sample_id_cfg) (Id_running (id_run sample_id_loaded)) sample_id_events p \<and>
     is_sent (id_service_of p) = [(pollbook_ip, sample_answer @ [newline])]"
proof -
  obtain s where "run_all (id_perform sample_libs sample_id_cfg) (Id_running (id_run sample_id_loaded))
      (take 2 sample_id_events @ drop 2 sample_id_events) = Some (Id_running s)"
    "is_sent s = [(pollbook_ip, sample_answer @ [newline])]"
    using sample_id_delivers by (auto simp: run_all_append sample_id_connects simp del: append_take_drop_id)
  then show ?thesis by (auto simp: id_steps.path_iff_run_all)
qed

section \<open>The voter ID service\<close>

text \<open>
  C17: the ID service answers a request exactly when the request is fresh, its ID data matches a voter
  whose recorded name is the presented one, and it is signed with the key of the poll book it names;
  the answer, sent on the same connection, is the signed statement for that request and voter, and
  nothing else is ever sent.
\<close>

theorem id_answer_exact:
  assumes "ip \<in> is_ssl_streams s" "\<not> write_fails io" "id_reply L (is_signer_key s) r v = Inr msg"
    and "validate_and_match_id_data (vb_voter_id_data (vr_body r)) = Inr v"
  shows "is_sent (fst (handle_validation_request L cfg io ip r s)) =
    is_sent s @ (if id_request_valid L cfg io r v s then [(ip, msg @ [newline])] else [])"
proof (cases "id_request_valid L cfg io r v s")
  case True
  from handle_validation_request_valid [OF True assms(3,1,2)] True show ?thesis by auto
next
  case False
  obtain s' e where h: "handle_validation_request L cfg io ip r s = (s', e)" by fastforce
  from h have "is_sent s' = is_sent s"
  proof (cases rule: handle_validation_request_cases)
    case (answered v' msg')
    then have "v' = v" using assms(4) by (simp add: id_request_valid_def Let_def)
    with answered False show ?thesis by simp
  qed
  with False h show ?thesis by simp
qed

theorem id_answer_exact_witness:
  "is_sent (fst (handle_validation_request sample_libs sample_id_cfg (sample_io 0) pollbook_ip sample_id_request sample_id_ready)) =
     [(pollbook_ip, sample_answer @ [newline])]"
proof -
  have "is_signer_key sample_id_ready = 9" "is_sent sample_id_ready = []" "pollbook_ip \<in> is_ssl_streams sample_id_ready"
    by (simp_all add: sample_id_ready_def sample_id_loaded_def sample_id_blank_def id_blank_def)
  moreover note sample_id_reply sample_matched sample_io_simps(1) [of 0] sample_id_valid
  ultimately show ?thesis
    using id_answer_exact [of pollbook_ip sample_id_ready "sample_io 0" sample_libs sample_id_request 7 sample_answer sample_id_cfg]
    by simp
qed

text \<open>
  An answer of the ID service is worth something: whoever decodes the line it sent gets a
  verified ID for exactly the request that was made and the voter its ID data names, and the
  signature on it verifies under the service's public key.
\<close>

lemma id_answer_verifies:
  assumes "codec_laws L" "key_pair L (is_signer_key s) pub" "valid_voter_id_request r"
    and "handle_validation_request L cfg io ip r s = (s', e)" "is_sent s' \<noteq> is_sent s"
  shows "\<exists>v line signature. is_sent s' = is_sent s @ [(ip, line)] \<and>
    validate_and_match_id_data (vb_voter_id_data (vr_body r)) = Inr v \<and>
    bindR (j_parse L line) (VerifiedVoterID_FromJson L) =
      Inr \<lparr>vv_presented_id = r, vv_voter_unique_id = v, vv_id_service_signature = signature\<rparr> \<and>
    bindR (j_dump L (id_statement_json L r v)) (\<lambda>str. verify_string L pub str signature) = Inr True"
  using assms(4)
proof (cases rule: handle_validation_request_cases)
  case silent
  with assms(5) show ?thesis by simp
next
  case (answered v msg)
  then have "validate_and_match_id_data (vb_voter_id_data (vr_body r)) = Inr v" by (simp add: id_request_valid_def Let_def)
  with answered id_reply_decodes [OF assms(1,3,2) answered(2)] show ?thesis by blast
qed

text \<open>
  Once the service has started, the name check accepts a name exactly when there is a record for
  the voter and the three parts agree with its columns up to the case of letters.
\<close>

lemma name_check_exact:
  assumes "VoterIDService L cfg names (id_blank key fs) = Inr s"
  shows "validate_voter_name first_name middle_name last_name v s \<longleftrightarrow>
    (\<exists>data. is_voter_data s v = Some data \<and> map tolower first_name = map tolower (data ! 2) \<and>
       map tolower middle_name = map tolower (data ! 3) \<and> map tolower last_name = map tolower (data ! 1))"
proof -
  have "records_ok s" using assms by (rule records_ok_VoterIDService)
  then show ?thesis
    by (fastforce simp: validate_voter_name_def records_ok_def case_insensitive_equal_iff split: option.splits)
qed

text \<open>Which names a running service accepts for a voter.\<close>

lemma name_check_reachable:
  assumes "reachable (id_started L cfg) (id_step L cfg) p"
    and "validate_voter_name first_name middle_name last_name v (id_service_of p)"
  shows "\<exists>data. is_voter_data (id_service_of p) v = Some data \<and> map tolower first_name = map tolower (data ! 2) \<and>
    map tolower middle_name = map tolower (data ! 3) \<and> map tolower last_name = map tolower (data ! 1)"
proof -
  obtain p0 ls where p0: "id_started L cfg p0" "path (id_step L cfg) p0 ls p"
    using assms(1) by (auto simp: reachable_def)
  then have same: "is_voter_data (id_service_of p) = is_voter_data (id_service_of p0)"
    using id_path_grows [OF p0(2)] by (simp add: id_grows_def)
  from p0(1) obtain own_key fs names s where s: "VoterIDService L cfg names (id_blank own_key fs) = Inr s"
    "id_service_of p0 = id_run s" by (auto simp: id_started_def)
  then have "is_voter_data (id_service_of p) = is_voter_data s" by (simp add: same id_run_def id_do_accept_def)
  moreover from this have "validate_voter_name first_name middle_name last_name v s"
    using assms(2) by (simp add: validate_voter_name_def)
  ultimately show ?thesis using name_check_exact [OF s(1)] by simp
qed

text \<open>
  C18: every answer the ID service has sent in any run is authentic: it is the statement, signed with
  the service's own key, that a request's ID data names a certain voter; the voter is on record
  and the presented names are the recorded ones up to the case of letters; and the request carries
  a signature under the key that the service holds, then and ever since, for the poll book the
  request names.
\<close>

theorem id_answers_authentic:
  assumes "reachable (id_started L cfg) (id_step L cfg) p" "(ip, line) \<in> set (is_sent (id_service_of p))"
  shows "\<exists>r v msg key data. line = msg @ [newline] \<and> id_reply L (is_signer_key (id_service_of p)) r v = Inr msg \<and>
    validate_and_match_id_data (vb_voter_id_data (vr_body r)) = Inr v \<and> v \<noteq> INVALID_VOTER_ID \<and>
    is_voter_data (id_service_of p) v = Some data \<and>
    map tolower (vb_first_name (vr_body r)) = map tolower (data ! 2) \<and>
    map tolower (vb_middle_name (vr_body r)) = map tolower (data ! 3) \<and>
    map tolower (vb_last_name (vr_body r)) = map tolower (data ! 1) \<and>
    is_verifiers (id_service_of p) (vb_client_id_num (vr_body r)) = Some key \<and>
    bindR (j_dump L (VoterIDRequest_Body_ToJson L (vr_body r)))
      (\<lambda>str. verify_string L key str (vr_client_signature r)) = Inr True"
proof -
  obtain p0 ls where p0: "id_started L cfg p0" "path (id_step L cfg) p0 ls p"
    using assms(1) by (auto simp: reachable_def)
  have "justified L (id_service_of p) line"
    using id_path_grows [OF p0(2)] id_started_idle(1) [OF p0(1)] assms(2) by (auto simp: id_grows_def)
  then show ?thesis
    unfolding justified_def using name_check_reachable [OF assms(1)] by metis
qed

theorem id_answers_authentic_witness:
  "\<exists>p msg key data (r :: voter_id_request). reachable (id_started sample_libs sample_id_cfg) (id_step sample_libs sample_id_cfg) p \<and>
     is_sent (id_service_of p) = [(pollbook_ip, msg @ [newline])] \<and> is_voter_data (id_service_of p) 7 = Some data \<and>
     validate_and_match_id_data (vb_voter_id_data (vr_body r)) = Inr 7 \<and>
     map tolower (vb_last_name (vr_body r)) = map tolower (data ! 1) \<and>
     is_verifiers (id_service_of p) (vb_client_id_num (vr_body r)) = Some key"
proof -
  obtain p where pp: "path (id_step sample_libs sample_id_cfg) (Id_running (id_run sample_id_loaded)) sample_id_events p"
    "is_sent (id_service_of p) = [(pollbook_ip, sample_answer @ [newline])]" using sample_id_path by blast
  then have p: "reachable (id_started sample_libs sample_id_cfg) (id_step sample_libs sample_id_cfg) p"
    "is_sent (id_service_of p) = [(pollbook_ip, sample_answer @ [newline])]"
    unfolding reachable_def using sample_id_started by blast+
  from p(2) have "(pollbook_ip, sample_answer @ [newline]) \<in> set (is_sent (id_service_of p))" by simp
  from id_answers_authentic [OF p(1) this] obtain r :: voter_id_request and v key data where r: "validate_and_match_id_data (vb_voter_id_data (vr_body r)) = Inr v"
    "is_voter_data (id_service_of p) v = Some data" "map tolower (vb_last_name (vr_body r)) = map tolower (data ! 1)"
    "is_verifiers (id_service_of p) (vb_client_id_num (vr_body r)) = Some key" by blast
  have "is_voter_data (id_service_of p) = is_voter_data sample_id_loaded"
    using id_path_grows [OF pp(1)] by (simp add: id_grows_def id_run_def id_do_accept_def)
  with r(2) have "v = 7" by (simp add: sample_id_loaded_def sample_id_blank_def id_blank_def split: if_splits)
  with r p show ?thesis by blast
qed

text \<open>
  C19: a connection to the ID service is good for one request: after a request no further read is posted,
  so in any run the number of answers sent to an endpoint is at most the number of TLS
  handshakes completed with it. A client that keeps its connection, as the client library does,
  gets no second answer.
\<close>

theorem id_one_answer:
  assumes "id_started L cfg p0" "path (id_step L cfg) p0 events p"
  shows "length (filter (\<lambda>(a, _). a = ip) (is_sent (id_service_of p))) \<le>
    length (filter (\<lambda>(_, e). case e of Id_handshaken a _ \<Rightarrow> a = ip | _ \<Rightarrow> False) events)"
proof -
  have "answers_due ip (id_service_of p0) = 0"
    using id_started_idle [OF assms(1)] by (simp add: answers_due_def answers_to_def)
  moreover have "filter (\<lambda>(_, e). case e of Id_handshaken a _ \<Rightarrow> a = ip | _ \<Rightarrow> False) events = filter (opens ip) events"
    by (rule filter_cong) auto
  ultimately show ?thesis
    using answers_due_path [OF assms(2), of ip] by (simp add: answers_due_def answers_to_def)
qed

theorem id_one_answer_witness:
  "\<exists>p0 events p. id_started sample_libs sample_id_cfg p0 \<and> path (id_step sample_libs sample_id_cfg) p0 events p \<and>
     length (filter (\<lambda>(a, _). a = pollbook_ip) (is_sent (id_service_of p))) = 1 \<and>
     1 \<le> length (filter (\<lambda>(_, e). case e of Id_handshaken a _ \<Rightarrow> a = pollbook_ip | _ \<Rightarrow> False) events)"
proof -
  obtain p where p: "id_started sample_libs sample_id_cfg (Id_running (id_run sample_id_loaded))"
    "path (id_step sample_libs sample_id_cfg) (Id_running (id_run sample_id_loaded)) sample_id_events p"
    "is_sent (id_service_of p) = [(pollbook_ip, sample_answer @ [newline])]"
    using sample_id_started sample_id_path by blast
  then have "length (filter (\<lambda>(a, _). a = pollbook_ip) (is_sent (id_service_of p))) = 1" by simp
  with p id_one_answer [OF p(1,2), of pollbook_ip] show ?thesis by metis
qed

text \<open>
  C40: two requests that end the ID service as soon as their timestamp is fresh, before anything of
  them has been authenticated: ID data shorter than a voter number is read past its end, and a
  correctly named voter from a client whose key is neither in memory nor on disk raises the
  exception of the missing file.
\<close>

theorem id_service_failures:
  assumes "is_stale (ic_freshness_interval cfg) (now_ms io) (vb_timestamp (vr_body r)) = Inr False"
  shows "(length (vb_voter_id_data (vr_body r)) < 4 \<longrightarrow> handle_validation_request L cfg io ip r s = (s, Some UB)) \<and>
    (validate_and_match_id_data (vb_voter_id_data (vr_body r)) = Inr v \<longrightarrow> v \<noteq> INVALID_VOTER_ID \<longrightarrow>
     validate_voter_name (vb_first_name (vr_body r)) (vb_middle_name (vr_body r)) (vb_last_name (vr_body r)) v s \<longrightarrow>
     is_verifiers s (vb_client_id_num (vr_body r)) = None \<longrightarrow>
     is_key_files s (resolve_path (id_key_path cfg (vb_client_id_num (vr_body r)))) = Inl ENOENT \<longrightarrow>
     (\<exists>what. handle_validation_request L cfg io ip r s = (s, Some (Exn File_not_found what))))"
  using assms
  by (simp add: handle_validation_request_def validate_and_match_id_data_def memcpy_u32_def id_load_client_public_key_def
      from_pem_public_def file_open_error_def file_not_found_def Let_def)

theorem id_service_failures_witness:
  "handle_validation_request sample_libs sample_id_cfg (sample_io 0) pollbook_ip
     (sample_id_request\<lparr>vr_body := (vr_body sample_id_request)\<lparr>vb_voter_id_data := [7]\<rparr>\<rparr>) sample_id_ready =
     (sample_id_ready, Some UB) \<and>
   (\<exists>what. handle_validation_request sample_libs sample_id_cfg (sample_io 0) pollbook_ip sample_id_request sample_id_loaded =
     (sample_id_loaded, Some (Exn File_not_found what)))"
proof
  have b: "vr_body sample_id_request = \<lparr>vb_client_id_num = 2, vb_timestamp = 200, vb_last_name = ''Doe'', vb_middle_name = ''Q'',
      vb_first_name = ''Jane'', vb_voter_id_data = [7, 0, 0, 0]\<rparr>" by (simp add: sample_id_request_def Let_def)
  show "handle_validation_request sample_libs sample_id_cfg (sample_io 0) pollbook_ip
     (sample_id_request\<lparr>vr_body := (vr_body sample_id_request)\<lparr>vb_voter_id_data := [7]\<rparr>\<rparr>) sample_id_ready =
     (sample_id_ready, Some UB)"
    by (rule id_service_failures [THEN conjunct1, rule_format]) (use sample_id_fresh in \<open>simp_all add: b\<close>)
  have n: "validate_voter_name ''Jane'' ''Q'' ''Doe'' 7 sample_id_loaded" by code_simp
  show "\<exists>what. handle_validation_request sample_libs sample_id_cfg (sample_io 0) pollbook_ip sample_id_request sample_id_loaded =
     (sample_id_loaded, Some (Exn File_not_found what))"
    by (rule id_service_failures [THEN conjunct2, rule_format, of _ _ _ 7])
      (use n sample_matched sample_id_fresh in \<open>simp_all add: b INVALID_VOTER_ID_def sample_id_loaded_def sample_id_blank_def id_blank_def\<close>)
qed

text \<open>
  The ID service keeps the keys of its clients: the key saved when a new client connects is the
  key loaded for it from disk later, after a restart for instance, and a client that comes back with
  another key changes neither the stored key nor the file (unless its new key cannot be written
  as PEM text for the log, which ends the process).
\<close>

lemma id_key_survives:
  assumes "pem_law L" "is_public_keys s c = None"
    and "to_pem_public L (fopen_w io) key (id_key_path cfg c) (is_key_files s) = (fs, Inr ())"
    and "\<not> EnvelopeKey_eq L key key'"
  shows "\<exists>s'. id_register_key L cfg io c key s = Inr s' \<and>
    is_public_keys s' c = Some key \<and> from_pem_public L (is_key_files s') (id_key_path cfg c) = Inr key \<and>
    (case id_register_key L cfg io c key' s' of
       Inr s'' \<Rightarrow> s'' = s'
     | Inl e \<Rightarrow> pem_write L key' = None)"
proof -
  have "pem_write L key \<noteq> None" using assms(3) by (auto simp: to_pem_public_def split: option.splits)
  then show ?thesis
    using assms from_pem_public_to_pem_public [OF assms(1,3) refl]
    by (auto simp: id_register_key_def id_save_pub_key_def to_pem_public_string_def Let_def split: option.splits)
qed

end
