(* ===== verification/Program_Properties.thy ===== *)
theory Program_Properties
  imports Program_Runs Voter_ID_Properties
begin

text \<open>
  The properties of the two client programs together with the services they talk to, each with an
  instance: what is typed at the console reaches the services over their event loops, and the
  answers of the services end on the console.
\<close>

section \<open>The trusted device\<close>

text \<open>
  C2: the trusted device as a program, together with the check-in service. A voter types the ticket
  and the PIN into the program, started from a configuration file that gives its number, its key and
  the address of the service. The service that receives exactly the bytes the program wrote to its
  connection, in whatever pieces, checks the pending voter in and sends one reply; and the program
  that receives this reply prints the success as its last line. The result it waited for carries the
  secret issued with the ticket, which \<^verbatim>\<open>main\<close> does not print. Assumed are the laws of the libraries, and
  that the request can be serialised and signed and is shorter than \<open>2 ^ 64\<close> bytes.
\<close>

theorem device_program_confirms:
  fixes L :: "('j, 'k, 'c) libs" and s :: "'k checkin_service" and client :: "'k pollbook_client"
  assumes laws: "codec_laws L" "pem_law L"
    and config: "Config (text_files w (config_file_of ''client_config.ini'' argv)) = Inr f"
      "decode_uint (ini_field SECTION_BASIC CLIENT_ID f) = Inr device_id"
      "from_pem_private L E (pem_files w) (ini_field SECTION_SECURITY LOCAL_PRIVATE_KEY f) = Inr own_key"
      "\<And>c. client_configure_ssl_context w (ini_field SECTION_SECURITY LOCAL_CERT f)
         (ini_field SECTION_SECURITY LOCAL_PRIVATE_KEY f) (ini_field SECTION_SECURITY CA_CERT f) c = Inr c"
    and connects: "peer (ini_field SECTION_BASIC CHECKIN_SERVICE_HOST f) (ini_field SECTION_BASIC CHECKIN_SERVICE_PORT f) =
        Inr (Some cert)" "cert_public_key cert = Some service_pub"
      "connect_checkin_server L dir_error io0 (Inr (Some cert)) (PollbookClient own_key (pem_files w)) = (client, None)"
    and keys: "key_pair L own_key device_pub" "key_pair L (signer_key s) service_pub"
    and typed: "con_in c = open_string (ticket @ newline # to_string (unat pin) @ [newline])"
      "ticket \<noteq> []" "list_all (\<lambda>x. \<not> is_space x) ticket"
    and conn: "connected ip device_id TrustedClient device_pub s"
    and ticket: "client_tickets_map (with_tickets s) ticket = Some (v, secret)"
    and timer: "request_timers s v = Some t" "in_window cfg io1 t" and voter: "voter_status_table s v = Some PENDING"
    and message: "ticket_request_text L own_key \<lparr>tb_client_id = device_id, tb_timestamp = now_ms io0, tb_ticket = ticket,
        tb_pin = pin\<rparr> = Inr m" "length m < 2 ^ 64"
    and pieces: "\<And>bytes. concat (cut_up bytes) = bytes"
    and fresh: "is_stale (request_freshness_interval cfg) (now_ms io1) (now_ms io0) = Inr False"
    and pin: "to_string (unat pin) = info (find_voter (voter_list_file cfg) v) ''pin''"
    and response: "\<And>q. tb_pin (tr_body q) = pin \<Longrightarrow>
        \<exists>reply. ticket_response_text L (signer_key s) (approval cfg q v secret) = Inr reply"
    and net: "\<not> write_fails io1"
  shows "\<exists>s' reply c' written before.
    secure_client_main L E w dir_error io0 peer [(io2, Write_ticket_request, Written False),
      (io3, Read_ticket_response, Got (Inr (reply @ [newline])))] argv c =
      (c', written, Shown \<lparr>success = True, failure_reason = secret\<rparr>) \<and>
    perform_all L cfg (Running s) (arrivals io1 ip (cut_up (bytes_sent_to Checkin_server written)) @
      [(io1, Read_line ip), (io1, Read_line ip)]) = Some (Running s') \<and>
    voter_status_table s' = (voter_status_table s)(v \<mapsto> CHECKED_IN) \<and> sent s' = sent s @ [(ip, reply @ [newline])] \<and>
    con_out c' = before @ ''Ticket verification succeeded!'' @ [newline]"
proof -
  let ?cc = "\<lparr>cc_client_id = device_id\<rparr>"
  obtain key where key: "cert_public_key cert = Some key" "pc_checkin_verifier client = Some service_pub"
    "pc_ops client = pc_ops (PollbookClient own_key (pem_files w))"
    by (rule connect_checkin_verifier [OF laws(2) connects(3)]) (use connects(2) in simp)
  have client: "pc_signer_key client = own_key" "pc_sent client = []" "pc_checkin_connected client"
    "pc_checkin_verifier client = Some service_pub" "pc_ops client = []"
    using connect_checkin_keeps [OF connects(3)] key(2,3) by (simp_all add: PollbookClient_def)
  from message(1) client(1,3) obtain client' where sends: "verify_ticket L ?cc io0 ticket pin client = (client', None)"
    "pc_sent client' = [(Checkin_server, frame_message m)]"
    by (auto simp: verify_ticket_def enqueue_def transmit_def client(2) Let_def)
  have delivery: "length m' < 2 ^ 64 \<and> concat (cut_up (frame_message m)) = frame_message m'"
    if "pc_sent client' = pc_sent client @ [(Checkin_server, frame_message m')]" for m'
    using that message(2) sends(2) frame_message_inj [of m m'] by (simp add: client(2) pieces)
  have conn': "connected ip (cc_client_id ?cc) TrustedClient device_pub s" using conn by simp
  obtain m' s' reply where served:
    "perform_all L cfg (Running s) (arrivals io1 ip (cut_up (frame_message m)) @ [(io1, Read_line ip), (io1, Read_line ip)]) =
       Some (Running s')"
    "voter_status_table s' = (voter_status_table s)(v \<mapsto> CHECKED_IN)" "sent s' = sent s @ [(ip, reply @ [newline])]"
    "on_ticket_response L (Inr (reply @ [newline])) (client'\<lparr>pc_ops := []\<rparr>) =
       (client'\<lparr>pc_ops := [], pc_promise := Some \<lparr>success = True, failure_reason = secret\<rparr>\<rparr>, None)"
    by (rule device_phase [OF laws(1) keys(1) [folded client(1)] keys(2) client(4,3) conn' ticket timer voter sends(1) delivery
          fresh pin response net])
  let ?net = "[(io2, Write_ticket_request, Written False), (io3, Read_ticket_response, Got (Inr (reply @ [newline])))]"
  obtain h where h: "ordered_IniFile h" "\<forall>s k. ini_field s k h = ini_field s k f"
    "secure_client_main L E w dir_error io0 peer ?net argv c = secure_dialogue L h io0 ?net client c"
    using secure_client_main_connected [OF config(1,3,4), where peer = peer and dir_error = dir_error and io = io0 and c = c
        and client = client and network = ?net, unfolded connects(1), OF connects(3)] by blast
  have "decode_uint (ini_field SECTION_BASIC CLIENT_ID h) = Inr device_id" using h(2) config(2) by simp
  moreover obtain fin where fin: "await_result L ?cc client' ?net = (fin, Inr (Some \<lparr>success = True, failure_reason = secret\<rparr>))"
    "pc_sent fin = pc_sent client'"
    using device_awaits [OF sends(1) client(5) served(4), of io2 io3] by blast
  ultimately obtain c' before where "secure_client_main L E w dir_error io0 peer ?net argv c =
      (c', pc_sent client', Shown \<lparr>success = True, failure_reason = secret\<rparr>)"
    "con_out c' = before @ ''Ticket verification succeeded!'' @ [newline]"
    unfolding h(3) using secure_dialogue_typed [OF h(1) _ typed sends(1) fin(1)] by auto
  moreover have "bytes_sent_to Checkin_server (pc_sent client') = frame_message m"
    by (simp add: sends(2) bytes_sent_to_def)
  ultimately show ?thesis using served(1-3) by metis
qed

text \<open>The device of the sample deployment.\<close>

definition sample_typed :: console where
  "sample_typed = sample_console (''01ab'' @ newline # to_string (unat (42 :: u32)) @ [newline])"

lemma sample_ticket_request_text:
  "ticket_request_text sample_libs 3 \<lparr>tb_client_id = 3, tb_timestamp = now_ms (sample_io_at 195), tb_ticket = ''01ab'',
     tb_pin = 42\<rparr> = Inr sample_ticket_text"
  using sample_device_sends
  by (simp add: ticket_request_text_def sample_dump sample_sign sample_ticket_text_def sample_message_defs now_ms_def
      sample_io_at_def)

text \<open>Bytes that arrive in two pieces.\<close>

definition in_pieces :: "string \<Rightarrow> string list" where
  "in_pieces bytes = [take 10 bytes, drop 10 bytes]"

lemma in_pieces: "concat (in_pieces bytes) = bytes"
  by (simp add: in_pieces_def)

theorem device_program_confirms_witness:
  "\<exists>s' reply c' written.
    perform_all sample_libs sample_cfg (Running sample_pending)
      (arrivals (sample_io 1000) device_ip (in_pieces (bytes_sent_to Checkin_server written)) @
      [(sample_io 1000, Read_line device_ip), (sample_io 1000, Read_line device_ip)]) = Some (Running s') \<and>
    voter_status_table s' 7 = Some CHECKED_IN \<and>
    secure_client_main sample_libs ((sample_evp 16)\<lparr>pem_read_private := (\<lambda>_. Some 3)\<rparr>) sample_world None (sample_io_at 195)
      (\<lambda>_ _. Inr (sample_cert ''1'' 8)) [(sample_io_at 196, Write_ticket_request, Written False),
        (sample_io_at 197, Read_ticket_response, Got (Inr (reply @ [newline])))] [] sample_typed =
      (c', written, Shown sample_secret)"
proof -
  let ?E = "(sample_evp 16)\<lparr>pem_read_private := (\<lambda>_. Some (3 :: nat))\<rparr>"
  let ?cert = "\<lparr>cert_common_name = Some (''client '' @ ''1''), cert_public_key = Some (8 :: nat)\<rparr>"
  have cfg: "from_pem_private sample_libs ?E (pem_files sample_world) p = Inr 3"
    "client_configure_ssl_context sample_world x y z c = Inr c" for p x y z c
    by (simp_all add: from_pem_private_def client_configure_ssl_context_def sample_world_def)
  have id: "decode_uint (ini_field SECTION_BASIC CLIENT_ID sample_client_ini) = Inr 3"
    using sample_client_fields by simp
  have con: "connect_checkin_server sample_libs None (sample_io_at 195) (Inr (Some ?cert)) (PollbookClient 3 (pem_files sample_world)) =
      (sample_connected, None)"
    using sample_device_connects by (simp add: sample_cert_def sample_world_def)
  have typed: "con_in sample_typed = open_string (''01ab'' @ newline # to_string (unat (42 :: u32)) @ [newline])"
    "''01ab'' \<noteq> []" "list_all (\<lambda>x. \<not> is_space x) ''01ab''"
    by (simp_all add: sample_typed_def sample_console_def is_space_def)
  have f: "is_stale (request_freshness_interval sample_cfg) (now_ms (sample_io 1000)) (now_ms (sample_io_at 195)) = Inr False"
    by (simp add: sample_cfg_def now_ms_def sample_io_at_def sample_io_def sample_fresh)
  have p: "to_string (unat (42 :: u32)) = info (find_voter (voter_list_file sample_cfg) 7) ''pin''"
    using sample_pin by (simp add: pin_matches_def sample_message_defs)
  have r: "\<exists>reply. ticket_response_text sample_libs (signer_key sample_pending) (approval sample_cfg q 7 ''0203'') = Inr reply" for q
    by (simp add: ticket_response_text_def sample_dump sample_sign)
  have v: "voter_status_table sample_pending 7 = Some PENDING" using sample_pending_voters(1) by (simp add: votes_def)
  have k: "key_pair sample_libs (signer_key sample_pending) 8" "cert_public_key ?cert = Some 8"
    by (simp_all add: sample_signer sample_key_pair)
  obtain s' reply c' written where
    "perform_all sample_libs sample_cfg (Running sample_pending)
       (arrivals (sample_io 1000) device_ip (in_pieces (bytes_sent_to Checkin_server written)) @
       [(sample_io 1000, Read_line device_ip), (sample_io 1000, Read_line device_ip)]) = Some (Running s')"
    "voter_status_table s' = (voter_status_table sample_pending)(7 \<mapsto> CHECKED_IN)"
    "secure_client_main sample_libs ?E sample_world None (sample_io_at 195) (\<lambda>_ _. Inr (Some ?cert))
       [(sample_io_at 196, Write_ticket_request, Written False),
        (sample_io_at 197, Read_ticket_response, Got (Inr (reply @ [newline])))] [] sample_typed =
       (c', written, Shown \<lparr>success = True, failure_reason = ''0203''\<rparr>)"
    using device_program_confirms [where argv = "[]" and peer = "\<lambda>_ _. Inr (Some ?cert)", OF sample_codec_laws sample_pem_law
        sample_world_config id cfg refl k(2) con sample_key_pair k(1) typed sample_pending_device sample_pending_tickets
        sample_pending_voters(2) sample_window v sample_ticket_request_text sample_ticket_text_short in_pieces f p r
        sample_io_simps(1), of "sample_io_at 196" "sample_io_at 197"] by blast
  then show ?thesis unfolding sample_cert_def sample_secret_def by (metis fun_upd_same)
qed

section \<open>The poll book\<close>

text \<open>
  C3: the poll book as a program, together with both services. A clerk types a voter's names and
  number into the program, started from a configuration file that gives its number, its key and the
  addresses of the services. The ID service that receives exactly the bytes the program wrote to it, in
  whatever pieces, answers on the same connection; the check-in service that receives exactly the bytes
  the program wrote to it, in whatever pieces, marks the voter pending, stores the ticket with a fresh
  secret and replies; and the program, which receives these two answers, however the second is split
  after its size line, prints the success as its last line. No other voter changes. Assumed are the laws
  of the libraries, and that the messages can be serialised and signed and are shorter than \<open>2 ^ 64\<close> bytes.
\<close>

theorem book_program_checks_in:
  fixes L :: "('j, 'k, 'c) libs" and s :: "'k checkin_service" and ids :: "'k id_service" and client :: "'k pollbook_client"
  assumes laws: "codec_laws L" "pem_law L"
    and config: "Config (text_files w (config_file_of ''client_config.ini'' argv)) = Inr f"
      "decode_uint (ini_field SECTION_BASIC CLIENT_ID f) = Inr book_id"
      "from_pem_private L E (pem_files w) (ini_field SECTION_SECURITY LOCAL_PRIVATE_KEY f) = Inr own_key"
      "\<And>c. client_configure_ssl_context w (ini_field SECTION_SECURITY LOCAL_CERT f)
         (ini_field SECTION_SECURITY LOCAL_PRIVATE_KEY f) (ini_field SECTION_SECURITY CA_CERT f) c = Inr c"
    and connects: "peer (ini_field SECTION_BASIC CHECKIN_SERVICE_HOST f) (ini_field SECTION_BASIC CHECKIN_SERVICE_PORT f) =
        Inr (Some cert)" "cert_public_key cert = Some service_pub"
      "peer (ini_field SECTION_BASIC ID_SERVICE_HOST f) (ini_field SECTION_BASIC ID_SERVICE_PORT f) = Inr (Some id_cert)"
      "cert_public_key id_cert = Some (id_service_verifier s)"
      "connect L dir_error io0 (Inr (Some cert)) (Inr (Some id_cert)) (PollbookClient own_key (pem_files w)) = (client, None)"
    and keys: "key_pair L own_key book_pub" "key_pair L (signer_key s) service_pub"
      "key_pair L (is_signer_key ids) (id_service_verifier s)"
    and typed: "con_in c = open_string (last_name @ newline # first_name @ newline # middle_name @ newline #
        to_string (unat v) @ [newline])" "newline \<notin> set last_name \<union> set first_name \<union> set middle_name"
    and id_conn: "id_client_key L id_cfg ids book_id = Some book_pub" "is_pending_reads ids ip1 = Some Size_read"
      "is_buffers ids ip1 = Some []" "ip1 \<in> is_ssl_streams ids"
    and recorded: "v \<noteq> INVALID_VOTER_ID" "validate_voter_name first_name middle_name last_name v ids"
    and id_request: "id_request_text L own_key \<lparr>vb_client_id_num = book_id, vb_timestamp = now_ms io0, vb_last_name = last_name,
        vb_middle_name = middle_name, vb_first_name = first_name, vb_voter_id_data = u32_bytes v @ voter_id_image\<rparr> = Inr m1"
      "length m1 < 2 ^ 64"
      "bindR (j_parse L (m1 @ [newline])) (VoterIDRequest_FromJson L) = Inr r1"
    and id_answer: "is_stale (ic_freshness_interval id_cfg) (now_ms io1) (now_ms io0) = Inr False" "\<not> write_fails io1"
      "id_reply L (is_signer_key ids) r1 v = Inr answer"
      "bindR (j_parse L (answer @ [newline])) (VerifiedVoterID_FromJson L) = Inr vid"
    and conn: "connected ip2 book_id UntrustedClient book_pub s" "voter_status_table s v = Some ELIGIBLE"
    and request: "checkin_request_text L own_key
        (checkin_body_of \<lparr>cc_client_id = book_id\<rparr> (now_ms io2) (first_name, middle_name, last_name) vid) = Inr m2"
      "length m2 < 2 ^ 64"
    and pieces: "\<And>bytes. concat (cut_id bytes) = bytes" "\<And>bytes. concat (cut_checkin bytes) = bytes"
    and response: "is_stale (request_freshness_interval cfg) (now_ms io3) (now_ms io2) = Inr False" "\<not> write_fails io3"
      "generate_secret (rand_ticket io3) = Inr ticket" "generate_secret (rand_secret io3) = Inr secret"
      "approval_response L (signer_key s) \<lparr>pb_approved = True, pb_requesting_client_id = book_id, pb_timestamp = now_ms io3,
        pb_last_name = last_name, pb_first_name = first_name, pb_middle_name = middle_name, pb_voter_unique_id = v,
        pb_ticket = ticket\<rparr> = Inr reply" "length reply < 2 ^ 63" "early @ late = reply @ [newline]"
  shows "\<exists>ids' s' c' written before.
    run_all (id_perform L id_cfg) (Id_running ids)
      (map (\<lambda>c. (io1, Id_received ip1 c)) (cut_id (bytes_sent_to Id_server written)) @
       [(io1, Id_read_line ip1), (io1, Id_read_line ip1)]) = Some (Id_running ids') \<and>
    is_sent ids' = is_sent ids @ [(ip1, answer @ [newline])] \<and>
    perform_all L cfg (Running s) (arrivals io3 ip2 (cut_checkin (bytes_sent_to Checkin_server written)) @
      [(io3, Read_line ip2), (io3, Read_line ip2)]) = Some (Running s') \<and>
    voter_status_table s' = (voter_status_table s)(v \<mapsto> PENDING) \<and> client_tickets_map s' ticket = Some (v, secret) \<and>
    sent s' = sent s @ [(ip2, frame_message reply)] \<and>
    client_main L E w dir_error io0 peer [(io4, Write_id_request, Written False),
      (io2, Read_id_response, Got (Inr (answer @ [newline]))), (io5, Write_checkin_request, Written False),
      (io6, Read_response_size, Got (Inr (to_string (length reply) @ newline # early))),
      (io7, Read_checkin_response early, Got (Inr late))] argv c =
      (c', written, Shown \<lparr>success = True, failure_reason = []\<rparr>) \<and>
    con_out c' = before @ ''Check-in succeeded!'' @ [newline]"
proof -
  let ?cc = "\<lparr>cc_client_id = book_id\<rparr>" and ?ok = "\<lparr>success = True, failure_reason = []\<rparr>"
  let ?net = "[(io4, Write_id_request, Written False), (io2, Read_id_response, Got (Inr (answer @ [newline]))),
      (io5, Write_checkin_request, Written False),
      (io6, Read_response_size, Got (Inr (to_string (length reply) @ newline # early))),
      (io7, Read_checkin_response early, Got (Inr late))]"
  obtain ids' where ids': "valid_voter_id_request r1" "run_all (id_perform L id_cfg) (Id_running ids)
      (map (\<lambda>c. (io1, Id_received ip1 c)) (cut_id (frame_message m1)) @ [(io1, Id_read_line ip1), (io1, Id_read_line ip1)]) =
      Some (Id_running ids')"
    "is_sent ids' = is_sent ids @ [(ip1, answer @ [newline])]"
    using id_exchange [OF laws(1) keys(1) _ id_conn(2-4) id_answer(2) id_request(1,2) pieces(1) id_request(3), of id_cfg v
        voter_id_image answer]
      id_conn(1) recorded id_answer(1,3) by auto
  obtain signature where sg: "vid = \<lparr>vv_presented_id = r1, vv_voter_unique_id = v, vv_id_service_signature = signature\<rparr>"
    "signature \<noteq> []" "bindR (j_dump L (id_statement_json L r1 v)) (\<lambda>str. verify_string L (id_service_verifier s) str signature) = Inr True"
    using id_reply_decodes [OF laws(1) ids'(1) keys(3) id_answer(3)] id_answer(4) by auto
  then have vid: "valid_verified_voter_id vid" "vv_voter_unique_id vid = v" "vv_presented_id vid = r1"
    "vv_id_service_signature vid = signature"
    using ids'(1) by (simp_all add: valid_verified_voter_id_def)
  obtain s' where s': "perform_all L cfg (Running s) (arrivals io3 ip2 (cut_checkin (frame_message m2)) @
      [(io3, Read_line ip2), (io3, Read_line ip2)]) = Some (Running s')" "voter_status_table s' = (voter_status_table s)(v \<mapsto> PENDING)"
    "client_tickets_map s' ticket = Some (v, secret)" "sent s' = sent s @ [(ip2, frame_message reply)]"
    using checkin_exchange [OF laws(1) keys(1) conn(1) vid(1) _ request pieces(2) _ response(1,3,4) _ response(2), of reply]
      vid(2-4) sg(3) conn(2) response(5) by auto
  note client = connect_keeps [OF laws(2) connects(5,2,4)]
  obtain client' fin where run: "check_in_voter_id L ?cc io0 first_name middle_name last_name v voter_id_image client = (client', None)"
    "await_result L ?cc client' ?net = (fin, Inr (Some ?ok))"
    and written: "pc_sent fin = [(Id_server, frame_message m1), (Checkin_server, frame_message m2)]"
    using book_runs [OF laws(1) keys(2) _ _ client(4-7) id_request(1) id_answer(4) _ request(1) response(5) _ response(6,7),
        of io4 io5 io6 io7] client(1-3) sg(3) vid(2-4) by (auto simp: PollbookClient_def)
  obtain h where h: "ordered_IniFile h" "\<forall>s k. ini_field s k h = ini_field s k f"
    "client_main L E w dir_error io0 peer ?net argv c =
       client_dialogue L h io0 ?net client (print_line ''Connected to checkin server and ID server'' c)"
    using client_main_connected [OF config(1,3,4), where peer = peer and dir_error = dir_error and io = io0 and c = c
        and client = client and network = ?net, unfolded connects(1,3), OF connects(5)] by blast
  have "decode_uint (ini_field SECTION_BASIC CLIENT_ID h) = Inr book_id" using h(2) config(2) by simp
  from client_dialogue_typed [OF h(1) this _ typed(2) run, of "print_line ''Connected to checkin server and ID server'' c"]
  obtain c' before where "client_main L E w dir_error io0 peer ?net argv c = (c', pc_sent fin, Shown ?ok)"
    "con_out c' = before @ ''Check-in succeeded!'' @ [newline]"
    unfolding h(3) using typed(1) by (auto simp: print_line_def)
  moreover have "bytes_sent_to Id_server (pc_sent fin) = frame_message m1"
    "bytes_sent_to Checkin_server (pc_sent fin) = frame_message m2"
    by (simp_all add: written bytes_sent_to_def)
  ultimately show ?thesis using ids'(2,3) s' by metis
qed

text \<open>The poll book of the sample deployment as a program, and the messages of the exchange.\<close>

definition book_ini :: IniFile where
  "book_ini = (setMultiLineValues True default_IniFile)
     \<lparr>sections := [(''Basic'', [(''checkin_service_host'', ''h''), (''checkin_service_port'', ''1''), (''client_id'', ''2''),
                               (''id_service_host'', ''h''), (''id_service_port'', ''2'')]),
                   (''Security'', [(''private_key'', ''own.pem'')])]\<rparr>"

definition book_world :: world where
  "book_world = sample_world\<lparr>text_files := (\<lambda>_. IniFile_encode book_ini)\<rparr>"

definition book_peer :: "string \<Rightarrow> string \<Rightarrow> nat certificate option result" where
  "book_peer host port = Inr (sample_cert port (if port = ''1'' then 8 else 9))"

definition book_typed :: console where
  "book_typed = sample_console (''doe'' @ newline # ''jane'' @ newline # ''q'' @ newline # to_string (unat (7 :: u32)) @ [newline])"

definition book_id_body :: voter_id_request_body where
  "book_id_body = \<lparr>vb_client_id_num = 2, vb_timestamp = now_ms (sample_io_at 190), vb_last_name = ''doe'', vb_middle_name = ''q'',
     vb_first_name = ''jane'', vb_voter_id_data = u32_bytes 7 @ voter_id_image\<rparr>"

definition book_id_request :: voter_id_request where
  "book_id_request = \<lparr>vr_body = book_id_body,
     vr_client_signature = sample_signature 2 (VoterIDRequest_Body_ToJson sample_libs book_id_body)\<rparr>"

definition book_vid :: verified_voter_id where
  "book_vid = \<lparr>vv_presented_id = book_id_request, vv_voter_unique_id = 7,
     vv_id_service_signature = sample_signature 9 (id_statement_json sample_libs book_id_request 7)\<rparr>"

definition book_request :: checkin_request where
  "book_request = (let body = checkin_body_of \<lparr>cc_client_id = 2\<rparr> (now_ms (sample_io_at 190)) (''jane'', ''q'', ''doe'') book_vid
     in \<lparr>cr_body = body, cr_client_signature = sample_signature 2 (CheckinRequest_Body_ToJson sample_libs body)\<rparr>)"

definition book_response :: checkin_response where
  "book_response = (let body = \<lparr>pb_approved = True, pb_requesting_client_id = 2, pb_timestamp = now_ms (sample_io 0),
       pb_last_name = ''doe'', pb_first_name = ''jane'', pb_middle_name = ''q'', pb_voter_unique_id = 7, pb_ticket = ''01ab''\<rparr>
     in \<lparr>pr_body = body, pr_checkin_service_signature = sample_signature 8 (CheckinResponse_Body_ToJson sample_libs body)\<rparr>)"

lemma book_world_config: "Config (text_files book_world p) = Inr book_ini"
proof -
  have "wf_IniFile book_ini" by code_simp
  then obtain s where "IniFile_encode book_ini = Some s"
    "IniFile_load (Some s) (setMultiLineValues True default_IniFile) = Inr book_ini"
    using load_encoded [of book_ini "setMultiLineValues True default_IniFile"] by (auto simp: book_ini_def)
  then show ?thesis
    by (simp add: Config_Inr_iff book_world_def sample_world_def)
      (simp add: book_ini_def SECTION_BASIC_def SECTION_SECURITY_def LOCAL_PRIVATE_KEY_def)
qed

lemma book_ini_fields:
  "decode_uint (ini_field SECTION_BASIC CLIENT_ID book_ini) = Inr 2"
  "ini_field SECTION_BASIC CHECKIN_SERVICE_PORT book_ini = ''1''" "ini_field SECTION_BASIC ID_SERVICE_PORT book_ini = ''2''"
  by code_simp+

lemma book_connects:
  "\<exists>client. connect sample_libs None (sample_io_at 190) (Inr (sample_cert ''1'' 8)) (Inr (sample_cert ''2'' 9))
     (PollbookClient 2 (pem_files book_world)) = (client, None)"
proof -
  have h: "\<exists>s'. make_handshake sample_libs None (sample_io_at 190) (Inr (sample_cert n k)) is_id s = (s', None)" for n k is_id s
    using from_pem_public_to_pem_public [OF sample_pem_law, of "\<lambda>_. None" k "server_key_path is_id" "pc_key_files s"]
    by (simp add: make_handshake_def sample_cert_def write_pubkey_pem_def sample_io_at_def sample_io_def to_pem_public_def Let_def)
      (simp add: sample_libs_def)
  obtain s1 where s1: "make_handshake sample_libs None (sample_io_at 190) (Inr (sample_cert ''1'' 8)) False
      (PollbookClient 2 (pem_files book_world)) = (s1, None)" using h by blast
  obtain s2 where "make_handshake sample_libs None (sample_io_at 190) (Inr (sample_cert ''2'' 9)) True
      (s1\<lparr>pc_checkin_connected := True\<rparr>) = (s2, None)" using h by blast
  with s1 show ?thesis by (simp add: connect_def connect_checkin_server_def connect_id_server_def)
qed

lemmas book_message_defs = book_id_request_def book_id_body_def book_vid_def book_request_def book_response_def
  sample_signature_def checkin_body_of_def voter_id_image_def

lemma book_bounds:
  "length (show_json (VoterIDRequest_ToJson sample_libs book_id_request)) < 2 ^ 64"
  "length (show_json (CheckinRequest_ToJson sample_libs book_request)) < 2 ^ 64"
  "length (show_json (CheckinResponse_ToJson sample_libs book_response)) < 2 ^ 63"
proof -
  have u: "u32_bytes 7 = [7, 0, 0, 0]" by code_simp
  have n: "now_ms (sample_io_at 190) = 190" "now_ms (sample_io 0) = 200" by (simp_all add: now_ms_def sample_io_at_def sample_io_def)
  have "json_bound (VoterIDRequest_ToJson sample_libs book_id_request) < 2 ^ 64"
    "json_bound (CheckinRequest_ToJson sample_libs book_request) < 2 ^ 64"
    "json_bound (CheckinResponse_ToJson sample_libs book_response) < 2 ^ 63"
    by (simp add: CheckinRequest_ToJson_def CheckinRequest_Body_ToJson_def VerifiedVoterID_ToJson_def CheckinResponse_ToJson_def
        CheckinResponse_Body_ToJson_def VoterIDRequest_ToJson_def VoterIDRequest_Body_ToJson_def j_bytes_def Base64_encode_def
        j_u32_def book_message_defs u n Let_def; simp add: sample_libs_def)+
  then show "length (show_json (VoterIDRequest_ToJson sample_libs book_id_request)) < 2 ^ 64"
    "length (show_json (CheckinRequest_ToJson sample_libs book_request)) < 2 ^ 64"
    "length (show_json (CheckinResponse_ToJson sample_libs book_response)) < 2 ^ 63"
    using length_show_json(1) le_less_trans by blast+
qed

text \<open>The texts on the wire and what the receivers decode.\<close>

definition book_texts :: "string \<times> string \<times> string \<times> string" where
  "book_texts = (show_json (VoterIDRequest_ToJson sample_libs book_id_request),
     show_json (VerifiedVoterID_ToJson sample_libs book_vid), show_json (CheckinRequest_ToJson sample_libs book_request),
     show_json (CheckinResponse_ToJson sample_libs book_response))"

lemma book_texts_built:
  assumes "book_texts = (m1, answer, m2, reply)"
  shows "id_request_text sample_libs 2 \<lparr>vb_client_id_num = 2, vb_timestamp = now_ms (sample_io_at 190), vb_last_name = ''doe'',
      vb_middle_name = ''q'', vb_first_name = ''jane'', vb_voter_id_data = u32_bytes 7 @ voter_id_image\<rparr> = Inr m1"
    "id_reply sample_libs 9 book_id_request 7 = Inr answer"
    "checkin_request_text sample_libs 2
       (checkin_body_of \<lparr>cc_client_id = 2\<rparr> (now_ms (sample_io_at 190)) (''jane'', ''q'', ''doe'') book_vid) = Inr m2"
    "approval_response sample_libs 8 \<lparr>pb_approved = True, pb_requesting_client_id = 2, pb_timestamp = now_ms (sample_io 0),
       pb_last_name = ''doe'', pb_first_name = ''jane'', pb_middle_name = ''q'', pb_voter_unique_id = 7,
       pb_ticket = ''01ab''\<rparr> = Inr reply"
    "length m1 < 2 ^ 64" "length m2 < 2 ^ 64" "length reply < 2 ^ 63"
  using assms book_bounds
  by (simp_all add: book_texts_def id_request_text_def id_reply_def checkin_request_text_def approval_response_def sample_dump
      sample_sign book_id_request_def book_id_body_def book_vid_def book_request_def book_response_def sample_signature_def Let_def)

lemma book_texts_read:
  assumes "book_texts = (m1, answer, m2, reply)"
  shows "bindR (j_parse sample_libs (m1 @ [newline])) (VoterIDRequest_FromJson sample_libs) = Inr book_id_request"
    "bindR (j_parse sample_libs (answer @ [newline])) (VerifiedVoterID_FromJson sample_libs) = Inr book_vid"
proof -
  have r: "valid_voter_id_request book_id_request" "valid_verified_voter_id book_vid"
    by (simp_all add: valid_voter_id_request_def valid_verified_voter_id_def book_message_defs)
  have "j_dump sample_libs (VoterIDRequest_ToJson sample_libs book_id_request) = Inr m1"
    "j_dump sample_libs (VerifiedVoterID_ToJson sample_libs book_vid) = Inr answer"
    using assms by (simp_all add: sample_dump book_texts_def)
  then show "bindR (j_parse sample_libs (m1 @ [newline])) (VoterIDRequest_FromJson sample_libs) = Inr book_id_request"
    "bindR (j_parse sample_libs (answer @ [newline])) (VerifiedVoterID_FromJson sample_libs) = Inr book_vid"
    using voter_id_request.wire_round_trip [OF sample_codec_laws r(1)] verified_voter_id.wire_round_trip [OF sample_codec_laws r(2)]
    by simp_all
qed

theorem book_program_checks_in_witness:
  "\<exists>answer reply s' c' written.
    perform_all sample_libs sample_cfg (Running sample_ready)
      (arrivals (sample_io 0) pollbook_ip (in_pieces (bytes_sent_to Checkin_server written)) @
      [(sample_io 0, Read_line pollbook_ip), (sample_io 0, Read_line pollbook_ip)]) = Some (Running s') \<and>
    voter_status_table s' 7 = Some PENDING \<and>
    client_main sample_libs ((sample_evp 16)\<lparr>pem_read_private := (\<lambda>_. Some 2)\<rparr>) book_world None (sample_io_at 190) book_peer
      [(sample_io_at 191, Write_id_request, Written False),
       (sample_io_at 190, Read_id_response, Got (Inr (answer @ [newline]))),
       (sample_io_at 192, Write_checkin_request, Written False),
       (sample_io_at 193, Read_response_size, Got (Inr (to_string (length reply) @ newline # take 5 (reply @ [newline])))),
       (sample_io_at 194, Read_checkin_response (take 5 (reply @ [newline])), Got (Inr (drop 5 (reply @ [newline]))))] [] book_typed =
      (c', written, Shown \<lparr>success = True, failure_reason = []\<rparr>)"
proof -
  obtain m1 answer m2 reply where texts: "book_texts = (m1, answer, m2, reply)" by (rule prod_cases4)
  note built = book_texts_built [OF texts] and decoded = book_texts_read [OF texts]
  let ?E = "(sample_evp 16)\<lparr>pem_read_private := (\<lambda>_. Some (2 :: nat))\<rparr>"
  let ?cert = "\<lparr>cert_common_name = Some (''client '' @ ''1''), cert_public_key = Some (8 :: nat)\<rparr>"
    and ?id_cert = "\<lparr>cert_common_name = Some (''client '' @ ''2''), cert_public_key = Some (9 :: nat)\<rparr>"
  have cfg: "from_pem_private sample_libs ?E (pem_files book_world) p = Inr 2"
    "client_configure_ssl_context book_world x y z c = Inr c" for p x y z c
    by (simp_all add: from_pem_private_def client_configure_ssl_context_def book_world_def sample_world_def)
  have peer: "book_peer (ini_field SECTION_BASIC CHECKIN_SERVICE_HOST book_ini) (ini_field SECTION_BASIC CHECKIN_SERVICE_PORT book_ini) =
      Inr (Some ?cert)" "cert_public_key ?cert = Some 8"
    "book_peer (ini_field SECTION_BASIC ID_SERVICE_HOST book_ini) (ini_field SECTION_BASIC ID_SERVICE_PORT book_ini) = Inr (Some ?id_cert)"
    "cert_public_key ?id_cert = Some (id_service_verifier sample_ready)"
    by (simp_all add: book_ini_fields book_peer_def sample_cert_def)
  obtain client where con: "connect sample_libs None (sample_io_at 190) (Inr (Some ?cert)) (Inr (Some ?id_cert))
      (PollbookClient 2 (pem_files book_world)) = (client, None)"
    using book_connects by (auto simp: sample_cert_def)
  have k: "key_pair sample_libs (signer_key sample_ready) 8"
    "key_pair sample_libs (is_signer_key sample_id_ready) (id_service_verifier sample_ready)" by (simp_all add: sample_key_pair)
  have typed: "con_in book_typed = open_string (''doe'' @ newline # ''jane'' @ newline # ''q'' @ newline #
      to_string (unat (7 :: u32)) @ [newline])" "newline \<notin> set ''doe'' \<union> set ''jane'' \<union> set ''q''"
    by (simp_all add: book_typed_def sample_console_def)
  have i: "id_client_key sample_libs sample_id_cfg sample_id_ready 2 = Some 2"
    "is_pending_reads sample_id_ready pollbook_ip = Some Size_read" "is_buffers sample_id_ready pollbook_ip = Some []"
    "pollbook_ip \<in> is_ssl_streams sample_id_ready" "7 \<noteq> INVALID_VOTER_ID"
    by (simp_all add: id_client_key_def INVALID_VOTER_ID_def)
  have n: "validate_voter_name ''jane'' ''q'' ''doe'' 7 sample_id_ready" by code_simp
  have f: "is_stale (ic_freshness_interval sample_id_cfg) (now_ms (sample_io 0)) (now_ms (sample_io_at 190)) = Inr False"
    "is_stale (request_freshness_interval sample_cfg) (now_ms (sample_io 0)) (now_ms (sample_io_at 190)) = Inr False"
    by (simp_all add: sample_cfg_def sample_id_cfg_def now_ms_def sample_io_at_def sample_io_def sample_fresh)
  have a: "id_reply sample_libs (is_signer_key sample_id_ready) book_id_request 7 = Inr answer"
    "connected pollbook_ip 2 UntrustedClient 2 sample_ready" "voter_status_table sample_ready 7 = Some ELIGIBLE"
    using built(2) by simp_all
  have reply: "approval_response sample_libs (signer_key sample_ready) \<lparr>pb_approved = True, pb_requesting_client_id = 2,
      pb_timestamp = now_ms (sample_io 0), pb_last_name = ''doe'', pb_first_name = ''jane'', pb_middle_name = ''q'',
      pb_voter_unique_id = 7, pb_ticket = ''01ab''\<rparr> = Inr reply" using built(4) by simp
  from book_program_checks_in [where argv = "[]" and peer = book_peer and f = book_ini, OF sample_codec_laws sample_pem_law
      book_world_config book_ini_fields(1) cfg peer con sample_key_pair k typed i n built(1,5) decoded(1) f(1)
      sample_io_simps(1) a(1) decoded(2) a(2,3) built(3,6) in_pieces in_pieces f(2) sample_io_simps(1) sample_secrets reply built(7)
      append_take_drop_id [of 5], of "sample_io_at 191" "sample_io_at 192" "sample_io_at 193" "sample_io_at 194"]
  obtain s' c' written where "perform_all sample_libs sample_cfg (Running sample_ready)
      (arrivals (sample_io 0) pollbook_ip (in_pieces (bytes_sent_to Checkin_server written)) @
      [(sample_io 0, Read_line pollbook_ip), (sample_io 0, Read_line pollbook_ip)]) = Some (Running s')"
    "voter_status_table s' = (voter_status_table sample_ready)(7 \<mapsto> PENDING)"
    "client_main sample_libs ?E book_world None (sample_io_at 190) book_peer
      [(sample_io_at 191, Write_id_request, Written False),
       (sample_io_at 190, Read_id_response, Got (Inr (answer @ [newline]))),
       (sample_io_at 192, Write_checkin_request, Written False),
       (sample_io_at 193, Read_response_size, Got (Inr (to_string (length reply) @ newline # take 5 (reply @ [newline])))),
       (sample_io_at 194, Read_checkin_response (take 5 (reply @ [newline])), Got (Inr (drop 5 (reply @ [newline]))))] [] book_typed =
      (c', written, Shown \<lparr>success = True, failure_reason = []\<rparr>)"
    by blast
  then show ?thesis by (metis fun_upd_same)
qed

end
