(* ===== verification/Spec2Isabelle.thy ===== *)
theory Spec2Isabelle
  imports Checkin_Properties Service_Properties Config_Properties Program_Properties
begin

text \<open>
  \<^bold>\<open>A verification of the electronic pollbook server\<close>

  \<^bold>\<open>The program.\<close> An electronic pollbook checks voters in at a polling place in two phases. A poll
  book (an untrusted client) reads a voter's ID, has it confirmed by the \<^emph>\<open>voter ID service\<close>, and
  sends a check-in request with that confirmation to the \<^emph>\<open>check-in service\<close>, which marks the
  voter pending, starts a timer and issues a ticket. A \<^emph>\<open>trusted device\<close> then submits the ticket
  with the voter's PIN inside the timer's window, which marks the voter checked in; when the timer
  fires first, the voter is eligible again. All messages are JSON texts behind a decimal size line
  on TLS connections, signed with keys handled by a wrapper around OpenSSL. The programs are
  configured by an INI file, count the faults of their clients, and keep a cache of warnings that
  can be queried over a local port.

  \<^bold>\<open>Theories, in the order they build on each other\<close>, with the sources under \<^verbatim>\<open>src/\<close> they model.
  \<^item> \<open>Prelude\<close>, \<open>Cpp_Std\<close>: machine integers, exceptions, undefined behaviour and failed assertions
    as values of a sum type, and the parts of the C++ standard library in use (streams, searching,
    number parsing and printing).
  \<^item> \<open>External_Libs\<close>: nlohmann::json and libcrypto as the fields of a record that every definition
    using them takes as an argument, with what the program relies on as named predicates;
    \<open>Sample_Libs\<close> is an executable instance that satisfies all of them.
  \<^item> \<open>Openssl_Wrapper\<close>, \<open>Envelope_Encryption\<close>: \<^verbatim>\<open>src/openssl\<close> and \<^verbatim>\<open>include/epollbook/openssl\<close>,
    that is \<^verbatim>\<open>Base64\<close>, \<^verbatim>\<open>EnvelopeKey\<close>, \<^verbatim>\<open>Hasher\<close>, \<^verbatim>\<open>Signer\<close>, \<^verbatim>\<open>Verifier\<close>, and envelope
    encryption with its output buffer. An object is a record holding its context; the interface
    of the three digest classes is a locale. \<open>Key_Ownership\<close>: the special member functions of
    \<^verbatim>\<open>EnvelopeKey\<close> over a store of live objects and a heap of reference-counted keys.
  \<^item> \<open>Messages\<close>: the six message types (\<^verbatim>\<open>voter_id_request.hpp\<close>, \<^verbatim>\<open>checkin_request.hpp\<close>,
    \<^verbatim>\<open>trusted_client_request.hpp\<close>), each a record with its \<^verbatim>\<open>ToJson\<close> and \<^verbatim>\<open>FromJson\<close>, and a locale
    for their common contract.
  \<^item> \<open>Fault_Tracker\<close>: \<^verbatim>\<open>faulty_clients.hpp\<close>; \<open>Voter_Files\<close>: the text files of
    \<^verbatim>\<open>checkin_service.cpp\<close> (voter roll, trusted clients, tickets).
  \<^item> \<open>Checkin_Service\<close>: \<^verbatim>\<open>checkin_service.hpp\<close> and \<^verbatim>\<open>checkin_service.cpp\<close>. The members are one record,
    a handler is a function from the state, the inputs of the event (\<open>io_input\<close>: clock readings,
    random bytes, results of I/O) and the message to the new state and the exception that left it,
    if any. \<open>Checkin_Behaviour\<close> has a case rule for each handler, \<open>Checkin_Protocol\<close> the event loop
    as a step relation, its invariant and its refinement, \<open>Checkin_Registry\<close> further invariants
    and \<open>Checkin_Delivery\<close> the success paths. \<open>Transition_System\<close> holds the locales for
    invariants, executable steps, and simulations in which every step of the abstract machine carries
    the reason it has in the concrete step, so that the abstract run follows the states the events
    visited; \<open>Framing\<close> the locale of a service
    that reads framed messages from a connection, which both services interpret.
  \<^item> \<open>Voter_ID_Service\<close>: \<^verbatim>\<open>voter_id_service.hpp\<close> and \<^verbatim>\<open>voter_id_service.cpp\<close>, \<open>Voter_ID_Protocol\<close>
    its event loop as a step relation, what every run keeps and adds, and the delivery of requests;
    \<open>Pollbook_Client\<close>:
    \<^verbatim>\<open>pollbook_client.hpp\<close> and \<^verbatim>\<open>pollbook_client.cpp\<close>, with the chain of asynchronous completions
    that fulfils a caller's promise; \<open>Pollbook_System\<close>: how the three parts accept each other's
    messages.
  \<^item> \<open>Ini_File\<close>, \<open>Ini_Round_Trip\<close>: \<^verbatim>\<open>config/inifile-cpp/inicpp.h\<close>, the parser, the writer and the
    conversions of field values, a locale for the contract of a field type; \<open>Configuration\<close>:
    \<^verbatim>\<open>config/config.cpp\<close> and \<^verbatim>\<open>config.hpp\<close>, with the singleton's creation by concurrent threads as a
    transition system; \<open>Ini_Variants\<close>: the other constructors, saving, and the remaining
    conversions; \<open>Fault_Settings\<close>: the configured age limit of fault records and the clean-up thread.
  \<^item> \<open>Warning_Log\<close>: \<^verbatim>\<open>warning_sink.hpp\<close>, \<^verbatim>\<open>log_utils.cpp\<close> and \<^verbatim>\<open>warning_query_server.cpp\<close>, with the
    level and the queue of the asynchronous logger, a locale for the contract of the cache, and the
    sessions as state machines; \<open>Warning_Client\<close>:
    \<^verbatim>\<open>apps/warning_cache_client.cpp\<close> over a locale for a socket whose peer answers lines, interpreted
    on a session of the query server.
  \<^item> \<open>Service_Settings\<close>: the constructors of the services and of the client with every setting they
    read from the configuration object, and the TLS contexts; \<open>Service_Threads\<close>: the listener of the
    fault tracker, the threads of the check-in service and its destructor; \<open>Console\<close>,
    \<open>Applications\<close>: the \<^verbatim>\<open>main\<close> functions of \<^verbatim>\<open>apps/server.cpp\<close>, \<^verbatim>\<open>id_server.cpp\<close>, \<^verbatim>\<open>client.cpp\<close> and
    \<^verbatim>\<open>secure_client.cpp\<close>, from the arguments to what the console shows and what the program
    sends. What they find outside (files,
    ports, TLS files, the peer's certificate, the completions of the network) is an argument.
  \<^item> \<open>Sample_Run\<close>, \<open>Sample_Clients\<close>: a small deployment over the sample libraries on which the
    theorems are instantiated; \<open>Checkin_Properties\<close>, \<open>Service_Properties\<close>, \<open>Config_Properties\<close>,
    \<open>Support_Properties\<close>, \<open>Application_Properties\<close>, \<open>Voter_ID_Properties\<close>, \<open>Program_Properties\<close> and
    this theory hold the numbered properties. \<open>Program_Runs\<close> has the pieces of a run of a client
    program with the services: what is typed, what the program waits for, and what each service makes
    of its message.

  \<^bold>\<open>What is shown.\<close>
  \<^item> End to end: a voter is checked in by the whole system, whatever chunks the messages arrive in.
  \<^item> The check-in service: every run is followed, state by state, by an abstract machine in which
    a voter is eligible, pending or checked in and is confirmed at most once; a checked-in voter stays
    so; what the service does with a ticket after its use; that the reply to a ticket tells what
    happened to the voter the ticket was issued for; a voter is
    pending exactly when it has its own timer; who can make a voter pending, confirm it or free it;
    that timeouts free a pending voter; what is answered in each case; that tickets are kept and
    that a client's type is fixed by the list of trusted clients.
  \<^item> The ID service: which requests it answers and with what; that in every run each answer is
    authentic and a connection gets at most one. The client library: every call is answered after a bounded
    number of completions unless a malformed answer ends the program.
  \<^item> The programs: when the check-in server reaches its event loop and with which settings and
    which service; that a success shown by a client program was approved and signed under the
    key of the server its configuration names; that the bytes the poll book's program writes to
    both services make the voter pending, that the bytes the trusted device's program writes to the
    check-in service check the voter in, and that the answers make the programs print the success; that the warning client shows the answers of the
    server it is connected to, in terms of the list of cached warnings; that the server does not
    survive its own destructor.
  \<^item> The parts below: all message formats, the ticket file, key files and INI files are read back
    as they were written; the reference count of a key is the number of its owners; digests do not depend on the chunks; freshness and configured numbers are
    exact within stated bounds; the configuration object is unique and its values are stable; the
    warning cache is the list that level, queue and operations describe; a sealed message has the computed size and
    opens.
  \<^item> Where the code misbehaves the property says so: malformed input and unknown clients that end a
    process, undefined behaviour for a distant timestamp or short ID data, PINs with a leading zero
    that never match, a failed configuration that blocks every later caller, ciphers for which
    sealing aborts, an ID service that reads one request per connection, an age limit of fault records
    too long for the clock, cached warnings that cannot be written as JSON.

  \<^bold>\<open>Conventions and bounds.\<close> Integers have the width of their C++ type where they wrap or are
  truncated (client numbers, timestamps, sizes); counters that only count (lines of a file, bytes
  of a buffer in memory) are natural numbers; clocks are nanoseconds as integers. The age limit of fault records is
  converted to 64-bit nanoseconds, which is undefined beyond 2562047 hours, and the model says so; the
  time-out of a check-in is not checked for this, that is, the model covers time-outs of at most
  153722867 minutes (292 years). There is no fuel:
  recursion over streams and buffers terminates by a measure, the one loop that can run forever (the
  writer of INI files with an empty comment prefix) is a partial function whose result is shown to
  exist for the syntax in use, and the event loops are step relations. A service runs its handlers
  one at a time on one thread, and an operation under a mutex is one step; the lock-free code of
  the configuration object is modelled at the granularity of its atomic operations, with the
  sequentially consistent order of steps. The bytes
  given to an asynchronous write are those at the time of the call.

  \<^bold>\<open>Not modelled.\<close> The TLS handshake and what OpenSSL makes of the files of a TLS context, spdlog,
  asio and the operating system (their results are inputs); log output apart from the warning
  cache; floating-point configuration values and INI files under the case-insensitive order of
  keys, which nothing uses (the order itself is modelled); \<^verbatim>\<open>src/openssl/base64.cpp\<close>, which is not built and
  does not fit the class of \<^verbatim>\<open>base64.hpp\<close> it includes. A numeric setting that a handler reads and that
  does not decode raises in that handler: the handlers take the settings as numbers, that is, the
  model covers configurations in which they decode.
\<close>

section \<open>The two-phase check-in, end to end\<close>

text \<open>
  C1: a voter is checked in by the whole system. A pollbook that receives the ID service's answer
  for a voter sends a check-in request; whatever the chunks in which it reaches the check-in
  service, the voter becomes pending; a trusted device that submits the issued ticket with the
  voter's PIN inside the window has the voter checked in, accepts the service's reply and fulfils
  its caller's promise with the secret issued for that ticket. No other voter changes.
\<close>

theorem two_phase_checkin:
  fixes L :: "('j, 'k, 'c) libs" and s :: "'k checkin_service" and book device :: "'k pollbook_client"
  assumes laws: "codec_laws L"
    and keys: "key_pair L (pc_signer_key book) book_pub" "key_pair L (pc_signer_key device) device_pub"
      "key_pair L id_key id_pub" "key_pair L (signer_key s) service_pub"
    and verifiers: "pc_id_verifier book = Some id_pub" "id_service_verifier s = id_pub"
      "pc_checkin_verifier device = Some service_pub" "pc_checkin_connected device"
    and conn: "connected ip1 (cc_client_id book_cfg) UntrustedClient book_pub s"
      "connected ip2 (cc_client_id device_cfg) TrustedClient device_pub s"
    and voter: "voter_status_table s v = Some ELIGIBLE"
    and id_answer: "valid_voter_id_request presented" "id_reply L id_key presented v = Inr answer"
    and book_sends: "on_id_response L book_cfg io0 (Inr (answer @ [newline])) book = (book', None)"
    and delivery1: "\<And>m. pc_sent book' = pc_sent book @ [(Checkin_server, frame_message m)] \<Longrightarrow>
        length m < 2 ^ 64 \<and> concat (chunks1 m) = frame_message m"
    and fresh1: "is_stale (request_freshness_interval cfg) (now_ms io1) (now_ms io0) = Inr False"
    and random: "generate_secret (rand_ticket io1) = Inr ticket" "rand_secret io1 = Some bytes" "bytes \<noteq> []"
      "generate_secret (rand_secret io1) = Inr secret"
    and service1: "\<And>r. cb_voter_unique_id (cr_body r) = v \<Longrightarrow>
        \<exists>reply. approval_response L (signer_key s) (response_for io1 True r ticket) = Inr reply"
      "\<not> write_fails io1" "csv_opens io1" "ticket_file_ok (ticket_file s)"
    and device_sends: "verify_ticket L device_cfg io2 ticket pin device = (device', None)"
    and delivery2: "\<And>m. pc_sent device' = pc_sent device @ [(Checkin_server, frame_message m)] \<Longrightarrow>
        length m < 2 ^ 64 \<and> concat (chunks2 m) = frame_message m"
    and fresh2: "is_stale (request_freshness_interval cfg) (now_ms io3) (now_ms io2) = Inr False"
    and pin: "to_string (unat pin) = info (find_voter (voter_list_file cfg) v) ''pin''"
    and window: "steady_now io1 \<le> steady_now io3"
      "steady_now io3 \<le> steady_now io1 + minutes (sint (timeout_interval cfg))"
    and service2: "\<And>q. tb_pin (tr_body q) = pin \<Longrightarrow>
        \<exists>reply. ticket_response_text L (signer_key s) (approval cfg q v secret) = Inr reply"
      "\<not> write_fails io3"
  shows "\<exists>m1 s1 m2 s2 reply.
    pc_sent book' = pc_sent book @ [(Checkin_server, frame_message m1)] \<and>
    perform_all L cfg (Running s) (arrivals io1 ip1 (chunks1 m1) @ [(io1, Read_line ip1), (io1, Read_line ip1)]) =
      Some (Running s1) \<and>
    voter_status_table s1 = (voter_status_table s)(v \<mapsto> PENDING) \<and>
    pc_sent device' = pc_sent device @ [(Checkin_server, frame_message m2)] \<and>
    perform_all L cfg (Running s1) (arrivals io3 ip2 (chunks2 m2) @ [(io3, Read_line ip2), (io3, Read_line ip2)]) =
      Some (Running s2) \<and>
    voter_status_table s2 = (voter_status_table s)(v \<mapsto> CHECKED_IN) \<and>
    last (sent s2) = (ip2, reply @ [newline]) \<and>
    on_ticket_response L (Inr (reply @ [newline])) (device'\<lparr>pc_ops := []\<rparr>) =
      (device'\<lparr>pc_ops := [], pc_promise := Some \<lparr>success = True, failure_reason = secret\<rparr>\<rparr>, None)"
proof -
  obtain m1 r reply1 where m1: "pc_sent book' = pc_sent book @ [(Checkin_server, frame_message m1)]"
    "cb_voter_unique_id (cr_body r) = v"
    "perform_all L cfg (Running s) (arrivals io1 ip1 (chunks1 m1) @ [(io1, Read_line ip1), (io1, Read_line ip1)]) =
       Some (Running (accepted_state cfg io1 ip1 r ticket secret reply1 (current (cc_client_id book_cfg) ip1 s)))"
    by (rule book_phase [OF laws keys(1,3) verifiers(1,2) conn(1) voter id_answer book_sends delivery1 fresh1
          random(1,4) service1(1,2)])
  let ?s0 = "current (cc_client_id book_cfg) ip1 s" and ?s1 = "accepted_state cfg io1 ip1 r ticket secret reply1
      (current (cc_client_id book_cfg) ip1 s)"
  have s0: "voter_status_table ?s0 = voter_status_table s" "signer_key ?s0 = signer_key s" "ticket_file ?s0 = ticket_file s"
    by (simp_all add: current_def after_payload_def)
  have el: "voter_status_table ?s0 (cb_voter_unique_id (cr_body r)) = Some ELIGIBLE" using voter m1(2) s0 by simp
  note f1 = accepted_state_fields [OF el, where cfg = cfg and io = io1 and ip = ip1 and ticket = ticket and
      secret = secret and reply = reply1]
  have conn1: "connected ip2 (cc_client_id device_cfg) TrustedClient device_pub ?s1"
    using conn voter m1(2) by (intro connected_after_checkin) (auto simp: connected_def)
  have tickets: "client_tickets_map (with_tickets ?s1) ticket = Some (v, secret)"
    using ticket_loaded_after_checkin [OF el _ generate_secret_entry_ok [OF random(1) random(4) [unfolded random(2)] random(3)]
        service1(3), of cfg ip1 reply1] service1(4) m1(2) s0 by simp
  have timer: "request_timers ?s1 v = Some (issued_timer cfg io1 v)" using m1(2) by (simp add: f1)
  have win: "in_window cfg io3 (issued_timer cfg io1 v)" using window by (simp add: in_window_issued)
  have t1: "voter_status_table ?s1 = (voter_status_table s)(v \<mapsto> PENDING)" "signer_key ?s1 = signer_key s"
    using m1(2) s0 by (simp_all add: f1)
  have pend: "voter_status_table ?s1 v = Some PENDING" by (simp add: t1)
  obtain m2 s2 reply where "pc_sent device' = pc_sent device @ [(Checkin_server, frame_message m2)]"
    "perform_all L cfg (Running ?s1) (arrivals io3 ip2 (chunks2 m2) @ [(io3, Read_line ip2), (io3, Read_line ip2)]) =
       Some (Running s2)"
    "voter_status_table s2 = (voter_status_table ?s1)(v \<mapsto> CHECKED_IN)" "sent s2 = sent ?s1 @ [(ip2, reply @ [newline])]"
    "on_ticket_response L (Inr (reply @ [newline])) (device'\<lparr>pc_ops := []\<rparr>) =
       (device'\<lparr>pc_ops := [], pc_promise := Some \<lparr>success = True, failure_reason = secret\<rparr>\<rparr>, None)"
    by (rule device_phase [OF laws keys(2) keys(4) [folded t1(2)] verifiers(3,4) conn1 tickets timer win pend device_sends
          delivery2 fresh2 pin service2(1) [folded t1(2)] service2(2)])
  with m1 t1 show ?thesis
    by (intro exI [of _ m1] exI [of _ ?s1] exI [of _ m2] exI [of _ s2] exI [of _ reply]) simp
qed

theorem two_phase_checkin_witness:
  "\<exists>m1 s1 m2 s2.
    perform_all sample_libs sample_cfg (Running sample_ready)
      (arrivals (sample_io 0) pollbook_ip (halves m1) @ [(sample_io 0, Read_line pollbook_ip), (sample_io 0, Read_line pollbook_ip)])
      = Some (Running s1) \<and> voter_status_table s1 7 = Some PENDING \<and>
    perform_all sample_libs sample_cfg (Running s1)
      (arrivals (sample_io 1000) device_ip (halves m2) @ [(sample_io 1000, Read_line device_ip), (sample_io 1000, Read_line device_ip)])
      = Some (Running s2) \<and> voter_status_table s2 7 = Some CHECKED_IN"
proof -
  have d1: "length m < 2 ^ 64 \<and> concat (halves m) = frame_message m"
    if "pc_sent sample_book_after = pc_sent sample_book @ [(Checkin_server, frame_message m)]" for m
    using that frame_message_inj [of sample_text m] sample_text_short
    by (simp add: sample_book_after_def sample_book_def PollbookClient_def concat_halves)
  have d2: "length m < 2 ^ 64 \<and> concat (halves m) = frame_message m"
    if "pc_sent sample_device_after = pc_sent sample_device @ [(Checkin_server, frame_message m)]" for m
    using that frame_message_inj [of sample_ticket_text m] sample_ticket_text_short
    by (simp add: sample_device_after_def sample_device_def PollbookClient_def concat_halves)
  have k: "key_pair sample_libs (pc_signer_key sample_book) 2" "key_pair sample_libs (pc_signer_key sample_device) 3"
    "key_pair sample_libs (signer_key sample_ready) 8"
    using sample_key_pair by (simp_all add: sample_book_def sample_device_def PollbookClient_def)
  have v: "pc_id_verifier sample_book = Some 9" "id_service_verifier sample_ready = 9"
    "pc_checkin_verifier sample_device = Some 8" "pc_checkin_connected sample_device"
    by (simp_all add: sample_book_def sample_device_def PollbookClient_def)
  have c: "connected pollbook_ip (cc_client_id \<lparr>cc_client_id = 2\<rparr>) UntrustedClient 2 sample_ready"
    "connected device_ip (cc_client_id \<lparr>cc_client_id = 3\<rparr>) TrustedClient 3 sample_ready"
    "voter_status_table sample_ready 7 = Some ELIGIBLE" by simp_all
  have f: "is_stale (request_freshness_interval sample_cfg) (now_ms (sample_io 0)) (now_ms (sample_io_at 190)) = Inr False"
    "is_stale (request_freshness_interval sample_cfg) (now_ms (sample_io 1000)) (now_ms (sample_io_at 195)) = Inr False"
    by (simp_all add: sample_cfg_def now_ms_def sample_io_at_def sample_io_def sample_fresh)
  have r: "rand_secret (sample_io 0) = Some [2, 3]" "[2, 3] \<noteq> ([] :: byte list)" by (simp_all add: sample_io_def)
  have a: "\<exists>reply. approval_response sample_libs (signer_key sample_ready) (response_for (sample_io 0) True q ''01ab'') = Inr reply"
    "\<exists>reply. ticket_response_text sample_libs (signer_key sample_ready) (approval sample_cfg q' 7 ''0203'') = Inr reply" for q q'
    by (simp_all add: approval_response_def ticket_response_text_def sample_dump sample_sign)
  have w: "ticket_file_ok (ticket_file sample_ready)" "steady_now (sample_io 0) \<le> steady_now (sample_io 1000)"
    "steady_now (sample_io 1000) \<le> steady_now (sample_io 0) + minutes (sint (timeout_interval sample_cfg))"
    by (simp_all add: ticket_file_ok_def file_text_def line_terminated_def sample_cfg_def minutes_def ns_per_s_def)
  have p: "to_string (unat (42 :: u32)) = info (find_voter (voter_list_file sample_cfg) 7) ''pin''"
    using sample_pin by (simp add: pin_matches_def sample_message_defs)
  note run = two_phase_checkin [OF sample_codec_laws k(1,2) sample_key_pair [of 9] k(3) v c sample_presented sample_id_reply
      sample_book_sends d1 f(1) sample_secrets(1) r sample_secrets(2) a(1) sample_io_simps(1,2) w(1) sample_device_sends d2 f(2)
      p w(2,3) a(2) sample_io_simps(1)]
  then show ?thesis by force
qed

end
